theory Spec2Isabelle
  imports Main "HOL-Library.Word"
begin

unbundle bit_operations_syntax

section \<open>Machine types, memory and faults\<close>

text \<open>
  The library works on \<^verbatim>\<open>__u8\<close>, \<^verbatim>\<open>__u16\<close>, \<^verbatim>\<open>__u32\<close> and \<^verbatim>\<open>__u64\<close> values and on
  bit-fields of 1, 4, 8 and 21 bits. Each is a word of its width. An expression of
  the C sources is computed in \<^verbatim>\<open>int\<close> after the integer promotions (a 32-bit word
  here, \<open>i32\<close> being the promotion), or in 64 bits where the source casts to \<^verbatim>\<open>__u64\<close>;
  a store into a narrower field truncates (\<open>ucast\<close>).
\<close>

type_synonym u8 = "8 word"
type_synonym u16 = "16 word"
type_synonym u32 = "32 word"
type_synonym u64 = "64 word"

definition i32 :: "'a::len word \<Rightarrow> 32 word" where
  "i32 x = ucast x"

definition i64 :: "'a::len word \<Rightarrow> 64 word" where
  "i64 x = ucast x"

text \<open>
  A byte buffer is a pointer into memory. Memory is a map from addresses to bytes, a
  pointer is an address or null (\<open>None\<close>); \<^verbatim>\<open>p[i]\<close> is the byte at address \<open>p + i\<close>
  and \<^verbatim>\<open>&p[i]\<close> is the address \<open>p + i\<close>. The sources never compare a buffer index
  with a buffer length, so memory has no bounds here either.
\<close>

type_synonym mem = "nat \<Rightarrow> u8"

definition peek :: "mem \<Rightarrow> nat \<Rightarrow> nat \<Rightarrow> u8" where
  "peek h p i = h (p + i)"

definition poke :: "mem \<Rightarrow> nat \<Rightarrow> nat \<Rightarrow> u8 \<Rightarrow> mem" where
  "poke h p i v = h(p + i := v)"

text \<open>
  What C leaves undefined is a fault of the model: the dereference of a null
  pointer, an array access beyond the declared array, and the use of an object
  through a pointer of another struct type.
\<close>

datatype fault = NullDeref | OutOfBounds | BadCast

section \<open>Constants of main.h\<close>

definition FM_MAX_PORTS :: nat where "FM_MAX_PORTS = 256"
definition FM_MAX_VCS :: nat where "FM_MAX_VCS = 256"
definition FM_MAX_VPPBS :: nat where "FM_MAX_VPPBS = FM_MAX_PORTS"
definition FM_MAX_VCS_PER_RSP :: nat where "FM_MAX_VCS_PER_RSP = 7"
definition FM_LD_MEM_REQ_LEN :: nat where "FM_LD_MEM_REQ_LEN = 4096"
definition FM_MAX_NUM_LD :: nat where "FM_MAX_NUM_LD = 16"
definition FM_TLP_HEADER :: nat where "FM_TLP_HEADER = 32"

definition FMLN_HDR :: nat where "FMLN_HDR = 12"
definition FMLN_MSG :: nat where "FMLN_MSG = 8192"
definition FMLN_PAYLOAD :: nat where "FMLN_PAYLOAD = FMLN_MSG - FMLN_HDR"
definition FMLN_PSC_IDENTIFY_SWITCH :: nat where "FMLN_PSC_IDENTIFY_SWITCH = 93"
definition FMLN_PSC_GET_PHY_PORT_REQ :: nat where "FMLN_PSC_GET_PHY_PORT_REQ = 1"
definition FMLN_PSC_GET_PHY_PORT_INFO :: nat where "FMLN_PSC_GET_PHY_PORT_INFO = 16"
definition FMLN_PSC_GET_PHY_PORT_RESP :: nat where "FMLN_PSC_GET_PHY_PORT_RESP = 4"
definition FMLN_PSC_PHY_PORT_CTRL :: nat where "FMLN_PSC_PHY_PORT_CTRL = 2"
definition FMLN_PSC_PPB_IO_CFG_REQ :: nat where "FMLN_PSC_PPB_IO_CFG_REQ = 8"
definition FMLN_PSC_PPB_IO_CFG_RESP :: nat where "FMLN_PSC_PPB_IO_CFG_RESP = 4"
definition FMLN_VSC_GET_INFO_REQ :: nat where "FMLN_VSC_GET_INFO_REQ = 3"
definition FMLN_VSC_PPB_STATUS :: nat where "FMLN_VSC_PPB_STATUS = 4"
definition FMLN_VSC_INFO :: nat where "FMLN_VSC_INFO = 4"
definition FMLN_VSC_GET_INFO_RESP :: nat where "FMLN_VSC_GET_INFO_RESP = 4"
definition FMLN_VSC_BIND :: nat where "FMLN_VSC_BIND = 6"
definition FMLN_VSC_UNBIND :: nat where "FMLN_VSC_UNBIND = 3"
definition FMLN_VSC_GEN_AER :: nat where "FMLN_VSC_GEN_AER = 40"
definition FMLN_MPC_TUNNEL_CMD_REQ :: nat where "FMLN_MPC_TUNNEL_CMD_REQ = 5"
definition FMLN_MPC_TUNNEL_CMD_RESP :: nat where "FMLN_MPC_TUNNEL_CMD_RESP = 5"
definition FMLN_MPC_TUNNEL_PAYLOAD :: nat where
  "FMLN_MPC_TUNNEL_PAYLOAD = FMLN_PAYLOAD - FMLN_MPC_TUNNEL_CMD_REQ"
definition FMLN_MPC_LD_IO_CFG_REQ :: nat where "FMLN_MPC_LD_IO_CFG_REQ = 12"
definition FMLN_MPC_LD_IO_CFG_RESP :: nat where "FMLN_MPC_LD_IO_CFG_RESP = 4"
definition FMLN_MPC_LD_MEM_REQ :: nat where "FMLN_MPC_LD_MEM_REQ = 16"
definition FMLN_MPC_LD_MEM_RESP :: nat where "FMLN_MPC_LD_MEM_RESP = 4"
definition FMLN_MCC_GET_LD_INFO :: nat where "FMLN_MCC_GET_LD_INFO = 11"
definition FMLN_MCC_LD_ALLOC_ENTRY :: nat where "FMLN_MCC_LD_ALLOC_ENTRY = 16"
definition FMLN_MCC_GET_LD_ALLOC_REQ :: nat where "FMLN_MCC_GET_LD_ALLOC_REQ = 2"
definition FMLN_MCC_GET_LD_ALLOC_RSP :: nat where "FMLN_MCC_GET_LD_ALLOC_RSP = 4"
definition FMLN_MCC_SET_LD_ALLOC_REQ :: nat where "FMLN_MCC_SET_LD_ALLOC_REQ = 4"
definition FMLN_MCC_SET_LD_ALLOC_RSP :: nat where "FMLN_MCC_SET_LD_ALLOC_RSP = 4"
definition FMLN_MCC_QOS_CTRL :: nat where "FMLN_MCC_QOS_CTRL = 7"
definition FMLN_MCC_QOS_STATUS :: nat where "FMLN_MCC_QOS_STATUS = 1"
definition FMLN_MCC_GET_QOS_BW_REQ :: nat where "FMLN_MCC_GET_QOS_BW_REQ = 2"
definition FMLN_MCC_QOS_BW_ALLOC :: nat where "FMLN_MCC_QOS_BW_ALLOC = 2"
definition FMLN_MCC_GET_QOS_BW_LIMIT_REQ :: nat where "FMLN_MCC_GET_QOS_BW_LIMIT_REQ = 2"
definition FMLN_MCC_QOS_BW_LIMIT :: nat where "FMLN_MCC_QOS_BW_LIMIT = 2"
definition FMLN_ISC_ID_RSP :: nat where "FMLN_ISC_ID_RSP = 17"
definition FMLN_ISC_MSG_LIMIT :: nat where "FMLN_ISC_MSG_LIMIT = 1"
definition FMLN_ISC_BOS :: nat where "FMLN_ISC_BOS = 8"



subsection \<open>Object kinds (enum \_FMOB)\<close>

definition FMOB_NULL :: nat where "FMOB_NULL = 0"
definition FMOB_HDR :: nat where "FMOB_HDR = 1"
definition FMOB_PSC_ID_RSP :: nat where "FMOB_PSC_ID_RSP = 2"
definition FMOB_PSC_PORT_REQ :: nat where "FMOB_PSC_PORT_REQ = 3"
definition FMOB_PSC_PORT_INFO :: nat where "FMOB_PSC_PORT_INFO = 4"
definition FMOB_PSC_PORT_RSP :: nat where "FMOB_PSC_PORT_RSP = 5"
definition FMOB_PSC_PORT_CTRL_REQ :: nat where "FMOB_PSC_PORT_CTRL_REQ = 6"
definition FMOB_PSC_CFG_REQ :: nat where "FMOB_PSC_CFG_REQ = 7"
definition FMOB_PSC_CFG_RSP :: nat where "FMOB_PSC_CFG_RSP = 8"
definition FMOB_VSC_INFO_REQ :: nat where "FMOB_VSC_INFO_REQ = 9"
definition FMOB_VSC_PPB_STAT_BLK :: nat where "FMOB_VSC_PPB_STAT_BLK = 10"
definition FMOB_VSC_INFO_BLK :: nat where "FMOB_VSC_INFO_BLK = 11"
definition FMOB_VSC_INFO_RSP :: nat where "FMOB_VSC_INFO_RSP = 12"
definition FMOB_VSC_BIND_REQ :: nat where "FMOB_VSC_BIND_REQ = 13"
definition FMOB_VSC_UNBIND_REQ :: nat where "FMOB_VSC_UNBIND_REQ = 14"
definition FMOB_VSC_AER_REQ :: nat where "FMOB_VSC_AER_REQ = 15"
definition FMOB_MPC_TMC_REQ :: nat where "FMOB_MPC_TMC_REQ = 16"
definition FMOB_MPC_TMC_RSP :: nat where "FMOB_MPC_TMC_RSP = 17"
definition FMOB_MPC_CFG_REQ :: nat where "FMOB_MPC_CFG_REQ = 18"
definition FMOB_MPC_CFG_RSP :: nat where "FMOB_MPC_CFG_RSP = 19"
definition FMOB_MPC_MEM_REQ :: nat where "FMOB_MPC_MEM_REQ = 20"
definition FMOB_MPC_MEM_RSP :: nat where "FMOB_MPC_MEM_RSP = 21"
definition FMOB_MCC_INFO_RSP :: nat where "FMOB_MCC_INFO_RSP = 22"
definition FMOB_MCC_ALLOC_BLK :: nat where "FMOB_MCC_ALLOC_BLK = 23"
definition FMOB_MCC_ALLOC_GET_REQ :: nat where "FMOB_MCC_ALLOC_GET_REQ = 24"
definition FMOB_MCC_ALLOC_GET_RSP :: nat where "FMOB_MCC_ALLOC_GET_RSP = 25"
definition FMOB_MCC_ALLOC_SET_REQ :: nat where "FMOB_MCC_ALLOC_SET_REQ = 26"
definition FMOB_MCC_ALLOC_SET_RSP :: nat where "FMOB_MCC_ALLOC_SET_RSP = 27"
definition FMOB_MCC_QOS_CTRL :: nat where "FMOB_MCC_QOS_CTRL = 28"
definition FMOB_MCC_QOS_STAT_RSP :: nat where "FMOB_MCC_QOS_STAT_RSP = 29"
definition FMOB_MCC_QOS_BW_GET_REQ :: nat where "FMOB_MCC_QOS_BW_GET_REQ = 30"
definition FMOB_MCC_QOS_BW_ALLOC :: nat where "FMOB_MCC_QOS_BW_ALLOC = 31"
definition FMOB_MCC_QOS_BW_LIMIT_GET_REQ :: nat where "FMOB_MCC_QOS_BW_LIMIT_GET_REQ = 32"
definition FMOB_MCC_QOS_BW_LIMIT :: nat where "FMOB_MCC_QOS_BW_LIMIT = 33"
definition FMOB_ISC_ID_RSP :: nat where "FMOB_ISC_ID_RSP = 34"
definition FMOB_ISC_MSG_LIMIT :: nat where "FMOB_ISC_MSG_LIMIT = 35"
definition FMOB_ISC_BOS :: nat where "FMOB_ISC_BOS = 36"
definition FMOB_MAX :: nat where "FMOB_MAX = 37"


subsection \<open>Opcodes (enum \_FMOP), message categories and flag bits\<close>

definition FMOP_PSC_ID :: nat where "FMOP_PSC_ID = 0x5100"
definition FMOP_PSC_PORT :: nat where "FMOP_PSC_PORT = 0x5101"
definition FMOP_PSC_PORT_CTRL :: nat where "FMOP_PSC_PORT_CTRL = 0x5102"
definition FMOP_PSC_CFG :: nat where "FMOP_PSC_CFG = 0x5103"
definition FMOP_VSC_INFO :: nat where "FMOP_VSC_INFO = 0x5200"
definition FMOP_VSC_BIND :: nat where "FMOP_VSC_BIND = 0x5201"
definition FMOP_VSC_UNBIND :: nat where "FMOP_VSC_UNBIND = 0x5202"
definition FMOP_VSC_AER :: nat where "FMOP_VSC_AER = 0x5203"
definition FMOP_MPC_TMC :: nat where "FMOP_MPC_TMC = 0x5300"
definition FMOP_MPC_CFG :: nat where "FMOP_MPC_CFG = 0x5301"
definition FMOP_MPC_MEM :: nat where "FMOP_MPC_MEM = 0x5302"
definition FMOP_MCC_INFO :: nat where "FMOP_MCC_INFO = 0x5400"
definition FMOP_MCC_ALLOC_GET :: nat where "FMOP_MCC_ALLOC_GET = 0x5401"
definition FMOP_MCC_ALLOC_SET :: nat where "FMOP_MCC_ALLOC_SET = 0x5402"
definition FMOP_MCC_QOS_CTRL_GET :: nat where "FMOP_MCC_QOS_CTRL_GET = 0x5403"
definition FMOP_MCC_QOS_CTRL_SET :: nat where "FMOP_MCC_QOS_CTRL_SET = 0x5404"
definition FMOP_MCC_QOS_STAT :: nat where "FMOP_MCC_QOS_STAT = 0x5405"
definition FMOP_MCC_QOS_BW_ALLOC_GET :: nat where "FMOP_MCC_QOS_BW_ALLOC_GET = 0x5406"
definition FMOP_MCC_QOS_BW_ALLOC_SET :: nat where "FMOP_MCC_QOS_BW_ALLOC_SET = 0x5407"
definition FMOP_MCC_QOS_BW_LIMIT_GET :: nat where "FMOP_MCC_QOS_BW_LIMIT_GET = 0x5408"
definition FMOP_MCC_QOS_BW_LIMIT_SET :: nat where "FMOP_MCC_QOS_BW_LIMIT_SET = 0x5409"
definition FMOP_ISC_ID :: nat where "FMOP_ISC_ID = 0x0001"
definition FMOP_ISC_BOS :: nat where "FMOP_ISC_BOS = 0x0002"
definition FMOP_ISC_MSG_LIMIT_GET :: nat where "FMOP_ISC_MSG_LIMIT_GET = 0x0003"
definition FMOP_ISC_MSG_LIMIT_SET :: nat where "FMOP_ISC_MSG_LIMIT_SET = 0x0004"


definition FMMT_REQ :: nat where "FMMT_REQ = 0"
definition FMMT_RESP :: nat where "FMMT_RESP = 1"

definition FMLF_LANE_REVERSAL_BIT :: nat where "FMLF_LANE_REVERSAL_BIT = 0"
definition FMLF_PERST_STATE_BIT :: nat where "FMLF_PERST_STATE_BIT = 1"
definition FMLF_PRSNT_STATE_BIT :: nat where "FMLF_PRSNT_STATE_BIT = 2"
definition FMLF_PWRCTL_STATE_BIT :: nat where "FMLF_PWRCTL_STATE_BIT = 3"

definition FMQT_EGRESS_PORT_CONGESTION_BIT :: nat where "FMQT_EGRESS_PORT_CONGESTION_BIT = 0"
definition FMQT_TEMP_THROUGHPUT_REDUCTION_BIT :: nat where
  "FMQT_TEMP_THROUGHPUT_REDUCTION_BIT = 1"


section \<open>The kind registry: fmapi\_fmob\_req and fmapi\_fmob\_rsp\<close>

text \<open>The two switch statements, case by case in the order of the source.\<close>

definition fmapi_fmob_req :: "nat \<Rightarrow> nat" where
  "fmapi_fmob_req opcode =
    (if opcode = FMOP_PSC_ID then FMOB_NULL
     else if opcode = FMOP_PSC_PORT then FMOB_PSC_PORT_REQ
     else if opcode = FMOP_PSC_PORT_CTRL then FMOB_PSC_PORT_CTRL_REQ
     else if opcode = FMOP_PSC_CFG then FMOB_PSC_CFG_REQ
     else if opcode = FMOP_VSC_INFO then FMOB_VSC_INFO_REQ
     else if opcode = FMOP_VSC_BIND then FMOB_VSC_BIND_REQ
     else if opcode = FMOP_VSC_UNBIND then FMOB_VSC_UNBIND_REQ
     else if opcode = FMOP_VSC_AER then FMOB_VSC_AER_REQ
     else if opcode = FMOP_MPC_TMC then FMOB_MPC_TMC_REQ
     else if opcode = FMOP_MPC_CFG then FMOB_MPC_CFG_REQ
     else if opcode = FMOP_MPC_MEM then FMOB_MPC_MEM_REQ
     else if opcode = FMOP_MCC_INFO then FMOB_NULL
     else if opcode = FMOP_MCC_ALLOC_GET then FMOB_MCC_ALLOC_GET_REQ
     else if opcode = FMOP_MCC_ALLOC_SET then FMOB_MCC_ALLOC_SET_REQ
     else if opcode = FMOP_MCC_QOS_CTRL_GET then FMOB_NULL
     else if opcode = FMOP_MCC_QOS_CTRL_SET then FMOB_MCC_QOS_CTRL
     else if opcode = FMOP_MCC_QOS_STAT then FMOB_NULL
     else if opcode = FMOP_MCC_QOS_BW_ALLOC_GET then FMOB_MCC_QOS_BW_GET_REQ
     else if opcode = FMOP_MCC_QOS_BW_ALLOC_SET then FMOB_MCC_QOS_BW_ALLOC
     else if opcode = FMOP_MCC_QOS_BW_LIMIT_GET then FMOB_MCC_QOS_BW_LIMIT_GET_REQ
     else if opcode = FMOP_MCC_QOS_BW_LIMIT_SET then FMOB_MCC_QOS_BW_LIMIT
     else if opcode = FMOP_ISC_ID then FMOB_NULL
     else if opcode = FMOP_ISC_BOS then FMOB_NULL
     else if opcode = FMOP_ISC_MSG_LIMIT_GET then FMOB_NULL
     else if opcode = FMOP_ISC_MSG_LIMIT_SET then FMOB_ISC_MSG_LIMIT
     else FMOB_NULL)"

definition fmapi_fmob_rsp :: "nat \<Rightarrow> nat" where
  "fmapi_fmob_rsp opcode =
    (if opcode = FMOP_PSC_ID then FMOB_PSC_ID_RSP
     else if opcode = FMOP_PSC_PORT then FMOB_PSC_PORT_RSP
     else if opcode = FMOP_PSC_PORT_CTRL then FMOB_NULL
     else if opcode = FMOP_PSC_CFG then FMOB_PSC_CFG_RSP
     else if opcode = FMOP_VSC_INFO then FMOB_VSC_INFO_RSP
     else if opcode = FMOP_VSC_BIND then FMOB_NULL
     else if opcode = FMOP_VSC_UNBIND then FMOB_NULL
     else if opcode = FMOP_VSC_AER then FMOB_NULL
     else if opcode = FMOP_MPC_TMC then FMOB_MPC_TMC_RSP
     else if opcode = FMOP_MPC_CFG then FMOB_MPC_CFG_RSP
     else if opcode = FMOP_MPC_MEM then FMOB_MPC_MEM_RSP
     else if opcode = FMOP_MCC_INFO then FMOB_MCC_INFO_RSP
     else if opcode = FMOP_MCC_ALLOC_GET then FMOB_MCC_ALLOC_GET_RSP
     else if opcode = FMOP_MCC_ALLOC_SET then FMOB_MCC_ALLOC_SET_RSP
     else if opcode = FMOP_MCC_QOS_CTRL_GET then FMOB_MCC_QOS_CTRL
     else if opcode = FMOP_MCC_QOS_CTRL_SET then FMOB_MCC_QOS_CTRL
     else if opcode = FMOP_MCC_QOS_STAT then FMOB_MCC_QOS_STAT_RSP
     else if opcode = FMOP_MCC_QOS_BW_ALLOC_GET then FMOB_MCC_QOS_BW_ALLOC
     else if opcode = FMOP_MCC_QOS_BW_ALLOC_SET then FMOB_MCC_QOS_BW_ALLOC
     else if opcode = FMOP_MCC_QOS_BW_LIMIT_GET then FMOB_MCC_QOS_BW_LIMIT
     else if opcode = FMOP_MCC_QOS_BW_LIMIT_SET then FMOB_MCC_QOS_BW_LIMIT
     else if opcode = FMOP_ISC_ID then FMOB_ISC_ID_RSP
     else if opcode = FMOP_ISC_BOS then FMOB_ISC_BOS
     else if opcode = FMOP_ISC_MSG_LIMIT_GET then FMOB_ISC_MSG_LIMIT
     else if opcode = FMOP_ISC_MSG_LIMIT_SET then FMOB_ISC_MSG_LIMIT
     else FMOB_NULL)"

text \<open>
  The command set: every opcode of enum \_FMOP. \<open>fmop_req_empty\<close> lists the commands
  whose request has no payload: main.h declares no request struct for them and
  their builders \<^verbatim>\<open>fmapi_fill_*\<close> set the opcode only. \<open>fmop_rsp_empty\<close> lists the
  commands for whose response main.h declares no struct.
\<close>

definition fmop_known :: "nat list" where
  "fmop_known =
    [FMOP_PSC_ID, FMOP_PSC_PORT, FMOP_PSC_PORT_CTRL, FMOP_PSC_CFG,
     FMOP_VSC_INFO, FMOP_VSC_BIND, FMOP_VSC_UNBIND, FMOP_VSC_AER,
     FMOP_MPC_TMC, FMOP_MPC_CFG, FMOP_MPC_MEM,
     FMOP_MCC_INFO, FMOP_MCC_ALLOC_GET, FMOP_MCC_ALLOC_SET, FMOP_MCC_QOS_CTRL_GET,
     FMOP_MCC_QOS_CTRL_SET, FMOP_MCC_QOS_STAT, FMOP_MCC_QOS_BW_ALLOC_GET,
     FMOP_MCC_QOS_BW_ALLOC_SET, FMOP_MCC_QOS_BW_LIMIT_GET, FMOP_MCC_QOS_BW_LIMIT_SET,
     FMOP_ISC_ID, FMOP_ISC_BOS, FMOP_ISC_MSG_LIMIT_GET, FMOP_ISC_MSG_LIMIT_SET]"

definition fmop_req_empty :: "nat list" where
  "fmop_req_empty =
    [FMOP_PSC_ID, FMOP_MCC_INFO, FMOP_MCC_QOS_CTRL_GET, FMOP_MCC_QOS_STAT,
     FMOP_ISC_ID, FMOP_ISC_BOS, FMOP_ISC_MSG_LIMIT_GET]"

definition fmop_rsp_empty :: "nat list" where
  "fmop_rsp_empty = [FMOP_PSC_PORT_CTRL, FMOP_VSC_BIND, FMOP_VSC_UNBIND, FMOP_VSC_AER]"

section \<open>The objects of main.h\<close>

text \<open>
  One record per struct, the fields in the order of the declaration. A bit-field is a
  word of its width. An array is the list of its elements; its declared length is
  part of \<open>wf_obj\<close> below, and an access beyond the list is the fault \<open>OutOfBounds\<close>.
\<close>

record fmapi_hdr =
  hdr_category :: "4 word"
  hdr_tag :: u8
  hdr_opcode :: u16
  hdr_background :: "1 word"
  hdr_len :: "21 word"
  hdr_return_code :: u16
  hdr_ext_status :: u16

record fmapi_isc_id_rsp =
  iid_vid :: u16
  iid_did :: u16
  iid_svid :: u16
  iid_ssid :: u16
  iid_sn :: u64
  iid_size :: u8

record fmapi_isc_msg_limit =
  iml_limit :: u8

record fmapi_isc_bos =
  bos_running :: u8
  bos_pcnt :: u8
  bos_opcode :: u16
  bos_rc :: u16
  bos_ext :: u16

record fmapi_psc_id_rsp =
  pid_ingress_port :: u8
  pid_num_ports :: u8
  pid_num_vcss :: u8
  pid_active_ports :: "u8 list"
  pid_active_vcss :: "u8 list"
  pid_num_vppbs :: u16
  pid_active_vppbs :: u16
  pid_num_decoders :: u8

record fmapi_psc_port_req =
  ppr_num :: u8
  ppr_ports :: "u8 list"

record fmapi_psc_port_info =
  pi_ppid :: u8
  pi_state :: u8
  pi_dv :: u8
  pi_dt :: u8
  pi_cv :: u8
  pi_mlw :: u8
  pi_nlw :: u8
  pi_speeds :: u8
  pi_mls :: u8
  pi_cls :: u8
  pi_ltssm :: u8
  pi_lane :: u8
  pi_lane_rev :: u8
  pi_perst :: u8
  pi_prsnt :: u8
  pi_pwrctrl :: u8
  pi_num_ld :: u8

record fmapi_psc_port_rsp =
  prs_num :: u8
  prs_list :: "fmapi_psc_port_info list"

record fmapi_psc_port_ctrl_req =
  pcr_ppid :: u8
  pcr_opcode :: u8

record fmapi_psc_cfg_req =
  pcf_ppid :: u8
  pcf_reg :: "8 word"
  pcf_ext :: "4 word"
  pcf_fdbe :: "4 word"
  pcf_type :: "1 word"
  pcf_data :: "u8 list"

record fmapi_psc_cfg_rsp =
  pcs_data :: "u8 list"

record fmapi_vsc_info_req =
  vir_vppbid_start :: u8
  vir_vppbid_limit :: u8
  vir_num :: u8
  vir_vcss :: "u8 list"

record fmapi_vsc_ppb_stat_blk =
  psb_status :: u8
  psb_ppid :: u8
  psb_ldid :: u8

record fmapi_vsc_info_blk =
  vib_vcsid :: u8
  vib_state :: u8
  vib_uspid :: u8
  vib_total :: u8
  vib_num :: u8
  vib_list :: "fmapi_vsc_ppb_stat_blk list"

record fmapi_vsc_info_rsp =
  vis_num :: u8
  vis_list :: "fmapi_vsc_info_blk list"

record fmapi_vsc_bind_req =
  vbr_vcsid :: u8
  vbr_vppbid :: u8
  vbr_ppid :: u8
  vbr_ldid :: u16

record fmapi_vsc_unbind_req =
  vur_vcsid :: u8
  vur_vppbid :: u8
  vur_option :: "4 word"

record fmapi_vsc_aer_req =
  var_vcsid :: u8
  var_vppbid :: u8
  var_error_type :: u32
  var_header :: "u8 list"

record fmapi_mpc_tmc_req =
  tmq_ppid :: u8
  tmq_len :: u16
  tmq_type :: u8
  tmq_msg :: "u8 list"

record fmapi_mpc_tmc_rsp =
  tms_type :: u8
  tms_len :: u16
  tms_msg :: "u8 list"

record fmapi_mpc_cfg_req =
  mcq_ppid :: u8
  mcq_reg :: u8
  mcq_ext :: "4 word"
  mcq_fdbe :: "4 word"
  mcq_type :: "1 word"
  mcq_ldid :: u16
  mcq_data :: "u8 list"

record fmapi_mpc_cfg_rsp =
  mcs_data :: "u8 list"

record fmapi_mpc_mem_req =
  mmq_ppid :: u8
  mmq_fdbe :: "4 word"
  mmq_ldbe :: "4 word"
  mmq_type :: "1 word"
  mmq_ldid :: u16
  mmq_len :: u16
  mmq_offset :: u64
  mmq_data :: "u8 list"

record fmapi_mpc_mem_rsp =
  mms_len :: u16
  mms_data :: "u8 list"

record fmapi_mcc_info_rsp =
  mir_size :: u64
  mir_num :: u16
  mir_epc :: u8
  mir_ttr :: u8

record fmapi_mcc_alloc_blk =
  mab_rng1 :: u64
  mab_rng2 :: u64

record fmapi_mcc_alloc_get_req =
  agq_start :: u8
  agq_limit :: u8

record fmapi_mcc_alloc_get_rsp =
  ags_total :: u8
  ags_granularity :: u8
  ags_start :: u8
  ags_num :: u8
  ags_list :: "fmapi_mcc_alloc_blk list"

record fmapi_mcc_alloc_set_req =
  asq_num :: u8
  asq_start :: u8
  asq_list :: "fmapi_mcc_alloc_blk list"

record fmapi_mcc_alloc_set_rsp =
  ass_num :: u8
  ass_start :: u8
  ass_list :: "fmapi_mcc_alloc_blk list"

record fmapi_mcc_qos_ctrl =
  qc_epc_en :: u8
  qc_ttr_en :: u8
  qc_egress_mod_pcnt :: u8
  qc_egress_sev_pcnt :: u8
  qc_sample_interval :: u8
  qc_rcb :: u16
  qc_comp_interval :: u8

record fmapi_mcc_qos_stat_rsp =
  qs_bp_avg_pcnt :: u8

record fmapi_mcc_qos_bw_alloc_get_req =
  qag_num :: u8
  qag_start :: u8

record fmapi_mcc_qos_bw_alloc =
  qba_num :: u8
  qba_start :: u8
  qba_list :: "u8 list"

record fmapi_mcc_qos_bw_limit_get_req =
  qlg_num :: u8
  qlg_start :: u8

record fmapi_mcc_qos_bw_limit =
  qbl_num :: u8
  qbl_start :: u8
  qbl_list :: "u8 list"

text \<open>
  The sources pass every object as \<^verbatim>\<open>void *\<close> together with its kind. The pointer
  is a tagged object here, and the cast to the struct of a kind is the selector of
  that kind: it is defined on an object of that struct only.
\<close>

datatype fmapi_obj =
    OB_HDR (the_hdr: fmapi_hdr)
  | OB_PSC_ID_RSP (the_psc_id_rsp: fmapi_psc_id_rsp)
  | OB_PSC_PORT_REQ (the_psc_port_req: fmapi_psc_port_req)
  | OB_PSC_PORT_INFO (the_psc_port_info: fmapi_psc_port_info)
  | OB_PSC_PORT_RSP (the_psc_port_rsp: fmapi_psc_port_rsp)
  | OB_PSC_PORT_CTRL_REQ (the_psc_port_ctrl_req: fmapi_psc_port_ctrl_req)
  | OB_PSC_CFG_REQ (the_psc_cfg_req: fmapi_psc_cfg_req)
  | OB_PSC_CFG_RSP (the_psc_cfg_rsp: fmapi_psc_cfg_rsp)
  | OB_VSC_INFO_REQ (the_vsc_info_req: fmapi_vsc_info_req)
  | OB_VSC_PPB_STAT_BLK (the_vsc_ppb_stat_blk: fmapi_vsc_ppb_stat_blk)
  | OB_VSC_INFO_BLK (the_vsc_info_blk: fmapi_vsc_info_blk)
  | OB_VSC_INFO_RSP (the_vsc_info_rsp: fmapi_vsc_info_rsp)
  | OB_VSC_BIND_REQ (the_vsc_bind_req: fmapi_vsc_bind_req)
  | OB_VSC_UNBIND_REQ (the_vsc_unbind_req: fmapi_vsc_unbind_req)
  | OB_VSC_AER_REQ (the_vsc_aer_req: fmapi_vsc_aer_req)
  | OB_MPC_TMC_REQ (the_mpc_tmc_req: fmapi_mpc_tmc_req)
  | OB_MPC_TMC_RSP (the_mpc_tmc_rsp: fmapi_mpc_tmc_rsp)
  | OB_MPC_CFG_REQ (the_mpc_cfg_req: fmapi_mpc_cfg_req)
  | OB_MPC_CFG_RSP (the_mpc_cfg_rsp: fmapi_mpc_cfg_rsp)
  | OB_MPC_MEM_REQ (the_mpc_mem_req: fmapi_mpc_mem_req)
  | OB_MPC_MEM_RSP (the_mpc_mem_rsp: fmapi_mpc_mem_rsp)
  | OB_MCC_INFO_RSP (the_mcc_info_rsp: fmapi_mcc_info_rsp)
  | OB_MCC_ALLOC_BLK (the_mcc_alloc_blk: fmapi_mcc_alloc_blk)
  | OB_MCC_ALLOC_GET_REQ (the_mcc_alloc_get_req: fmapi_mcc_alloc_get_req)
  | OB_MCC_ALLOC_GET_RSP (the_mcc_alloc_get_rsp: fmapi_mcc_alloc_get_rsp)
  | OB_MCC_ALLOC_SET_REQ (the_mcc_alloc_set_req: fmapi_mcc_alloc_set_req)
  | OB_MCC_ALLOC_SET_RSP (the_mcc_alloc_set_rsp: fmapi_mcc_alloc_set_rsp)
  | OB_MCC_QOS_CTRL (the_mcc_qos_ctrl: fmapi_mcc_qos_ctrl)
  | OB_MCC_QOS_STAT_RSP (the_mcc_qos_stat_rsp: fmapi_mcc_qos_stat_rsp)
  | OB_MCC_QOS_BW_GET_REQ (the_mcc_qos_bw_get_req: fmapi_mcc_qos_bw_alloc_get_req)
  | OB_MCC_QOS_BW_ALLOC (the_mcc_qos_bw_alloc: fmapi_mcc_qos_bw_alloc)
  | OB_MCC_QOS_BW_LIMIT_GET_REQ (the_mcc_qos_bw_limit_get_req: fmapi_mcc_qos_bw_limit_get_req)
  | OB_MCC_QOS_BW_LIMIT (the_mcc_qos_bw_limit: fmapi_mcc_qos_bw_limit)
  | OB_ISC_ID_RSP (the_isc_id_rsp: fmapi_isc_id_rsp)
  | OB_ISC_MSG_LIMIT (the_isc_msg_limit: fmapi_isc_msg_limit)
  | OB_ISC_BOS (the_isc_bos: fmapi_isc_bos)

section \<open>Copying bytes and iterating over lists\<close>

text \<open>
  \<^verbatim>\<open>memcpy(&dst[k], arr, n)\<close> and the byte loops \<^verbatim>\<open>dst[rv + i] = o->list[i]\<close> write the
  first \<open>n\<close> elements of an array to consecutive addresses; \<^verbatim>\<open>memcpy(arr, &src[k], n)\<close>
  and \<^verbatim>\<open>o->list[i] = src[rv + i]\<close> overwrite the first \<open>n\<close> elements of an array and
  leave the others as they were. Both fault when \<open>n\<close> exceeds the array.
\<close>

fun mem_put :: "mem \<Rightarrow> nat \<Rightarrow> u8 list \<Rightarrow> mem" where
  "mem_put h p [] = h"
| "mem_put h p (x # xs) = mem_put (h(p := x)) (Suc p) xs"

definition mem_get :: "mem \<Rightarrow> nat \<Rightarrow> nat \<Rightarrow> u8 list" where
  "mem_get h p n = map (\<lambda>i. h (p + i)) [0..<n]"

definition memcpy_out :: "mem \<Rightarrow> nat \<Rightarrow> u8 list \<Rightarrow> nat \<Rightarrow> mem" where
  "memcpy_out h p arr n = mem_put h p (take n arr)"

definition memcpy_in :: "u8 list \<Rightarrow> mem \<Rightarrow> nat \<Rightarrow> nat \<Rightarrow> u8 list" where
  "memcpy_in arr h p n = mem_get h p n @ drop n arr"

text \<open>
  The loops \<^verbatim>\<open>for (i = 0; i < o->num; i++) rv += fmapi_serialize(&dst[rv], &o->list[i], K)\<close>
  and their decoding counterparts. They run over the first \<open>num\<close> elements of the
  list in order; \<open>rv\<close> is the running byte count, and a fault of an element ends the
  loop. The recursive call is for a constant kind \<open>K\<close> and non-null pointers, so
  it is the function of that kind (see \<open>fmapi_serialize\<close> and \<open>fmapi_deserialize\<close>
  below, which map \<open>K\<close> to the same function).
\<close>

fun ser_loop :: "(mem \<Rightarrow> nat \<Rightarrow> 'a \<Rightarrow> fault + (mem \<times> nat)) \<Rightarrow> mem \<Rightarrow> nat \<Rightarrow> nat \<Rightarrow> 'a list
    \<Rightarrow> fault + (mem \<times> nat)" where
  "ser_loop f h d rv [] = Inr (h, rv)"
| "ser_loop f h d rv (x # xs) =
     (case f h (d + rv) x of
        Inl e \<Rightarrow> Inl e
      | Inr (h', n) \<Rightarrow> ser_loop f h' d (rv + n) xs)"

fun deser_loop :: "('a \<Rightarrow> mem \<Rightarrow> nat \<Rightarrow> fault + ('a \<times> nat)) \<Rightarrow> mem \<Rightarrow> nat \<Rightarrow> nat \<Rightarrow> 'a list
    \<Rightarrow> fault + ('a list \<times> nat)" where
  "deser_loop f h s rv [] = Inr ([], rv)"
| "deser_loop f h s rv (x # xs) =
     (case f x h (s + rv) of
        Inl e \<Rightarrow> Inl e
      | Inr (x', n) \<Rightarrow>
          (case deser_loop f h s (rv + n) xs of
             Inl e \<Rightarrow> Inl e
           | Inr (xs', rv') \<Rightarrow> Inr (x' # xs', rv')))"

section \<open>fmapi\_serialize, kind by kind\<close>

text \<open>
  Each function is one case of the switch of \<^verbatim>\<open>fmapi_serialize\<close>: \<open>h\<close> is the memory,
  \<open>d\<close> the address \<^verbatim>\<open>dst\<close>, \<open>ob\<close> the object \<^verbatim>\<open>*o\<close>; the result is the memory after the
  assignments, in the order of the source, and the value of \<^verbatim>\<open>rv\<close>. An offset that
  the source does not assign is not written.
\<close>

definition ser_hdr :: "mem \<Rightarrow> nat \<Rightarrow> fmapi_hdr \<Rightarrow> mem \<times> nat" where
  "ser_hdr h d ob =
    (let h = poke h d 0 (ucast (push_bit 4 (i32 (hdr_category ob)) AND 0xF0));
         h = poke h d 1 (hdr_tag ob);
         h = poke h d 3 (ucast (i32 (hdr_opcode ob) AND 0x00FF));
         h = poke h d 4 (ucast (drop_bit 8 (i32 (hdr_opcode ob)) AND 0x00FF));
         h = poke h d 5 (ucast (i32 (hdr_len ob) AND 0x00FF));
         h = poke h d 6 (ucast (drop_bit 8 (i32 (hdr_len ob)) AND 0x00FF));
         h = poke h d 7 (ucast ((drop_bit 13 (i32 (hdr_len ob)) AND 0x00F8)
                                 OR (i32 (hdr_background ob) AND 0x01)));
         h = poke h d 8 (ucast (i32 (hdr_return_code ob) AND 0x00FF));
         h = poke h d 9 (ucast (drop_bit 8 (i32 (hdr_return_code ob)) AND 0x00FF));
         h = poke h d 10 (ucast (i32 (hdr_ext_status ob) AND 0x00FF));
         h = poke h d 11 (ucast (drop_bit 8 (i32 (hdr_ext_status ob)) AND 0x00FF))
     in (h, FMLN_HDR))"

definition ser_isc_bos :: "mem \<Rightarrow> nat \<Rightarrow> fmapi_isc_bos \<Rightarrow> mem \<times> nat" where
  "ser_isc_bos h d ob =
    (let h = poke h d 0 (ucast (push_bit 1 (i32 (bos_pcnt ob)) OR (i32 (bos_running ob) AND 0x01)));
         h = poke h d 1 0;
         h = poke h d 2 (ucast (i32 (bos_opcode ob) AND 0x00FF));
         h = poke h d 3 (ucast (drop_bit 8 (i32 (bos_opcode ob)) AND 0x00FF));
         h = poke h d 4 (ucast (i32 (bos_rc ob) AND 0x00FF));
         h = poke h d 5 (ucast (drop_bit 8 (i32 (bos_rc ob)) AND 0x00FF));
         h = poke h d 6 (ucast (i32 (bos_ext ob) AND 0x00FF));
         h = poke h d 7 (ucast (drop_bit 8 (i32 (bos_ext ob)) AND 0x00FF))
     in (h, FMLN_ISC_BOS))"

definition ser_isc_id_rsp :: "mem \<Rightarrow> nat \<Rightarrow> fmapi_isc_id_rsp \<Rightarrow> mem \<times> nat" where
  "ser_isc_id_rsp h d ob =
    (let h = poke h d 0 (ucast (i32 (iid_vid ob) AND 0x00FF));
         h = poke h d 1 (ucast (drop_bit 8 (i32 (iid_vid ob)) AND 0x00FF));
         h = poke h d 2 (ucast (i32 (iid_did ob) AND 0x00FF));
         h = poke h d 3 (ucast (drop_bit 8 (i32 (iid_did ob)) AND 0x00FF));
         h = poke h d 4 (ucast (i32 (iid_svid ob) AND 0x00FF));
         h = poke h d 5 (ucast (drop_bit 8 (i32 (iid_svid ob)) AND 0x00FF));
         h = poke h d 6 (ucast (i32 (iid_ssid ob) AND 0x00FF));
         h = poke h d 7 (ucast (drop_bit 8 (i32 (iid_ssid ob)) AND 0x00FF));
         h = poke h d 8 (ucast (iid_sn ob AND 0x00FF));
         h = poke h d 9 (ucast (drop_bit 8 (iid_sn ob) AND 0x00FF));
         h = poke h d 10 (ucast (drop_bit 16 (iid_sn ob) AND 0x00FF));
         h = poke h d 11 (ucast (drop_bit 24 (iid_sn ob) AND 0x00FF));
         h = poke h d 12 (ucast (drop_bit 32 (iid_sn ob) AND 0x00FF));
         h = poke h d 13 (ucast (drop_bit 40 (iid_sn ob) AND 0x00FF));
         h = poke h d 14 (ucast (drop_bit 48 (iid_sn ob) AND 0x00FF));
         h = poke h d 15 (ucast (drop_bit 56 (iid_sn ob) AND 0x00FF));
         h = poke h d 16 (iid_size ob)
     in (h, FMLN_ISC_ID_RSP))"

definition ser_isc_msg_limit :: "mem \<Rightarrow> nat \<Rightarrow> fmapi_isc_msg_limit \<Rightarrow> mem \<times> nat" where
  "ser_isc_msg_limit h d ob =
    (let h = poke h d 0 (iml_limit ob)
     in (h, FMLN_ISC_MSG_LIMIT))"

definition ser_psc_id_rsp :: "mem \<Rightarrow> nat \<Rightarrow> fmapi_psc_id_rsp \<Rightarrow> fault + (mem \<times> nat)" where
  "ser_psc_id_rsp h d ob =
    (if length (pid_active_ports ob) < 32 \<or> length (pid_active_vcss ob) < 32 then Inl OutOfBounds
     else
       let h = poke h d 0 (pid_ingress_port ob);
           h = poke h d 1 0;
           h = poke h d 2 (pid_num_ports ob);
           h = poke h d 3 (pid_num_vcss ob);
           h = memcpy_out h (d + 4) (pid_active_ports ob) 32;
           h = memcpy_out h (d + 36) (pid_active_vcss ob) 32;
           h = poke h d 68 (ucast (i32 (pid_num_vppbs ob) AND 0x00FF));
           h = poke h d 69 (ucast (drop_bit 8 (i32 (pid_num_vppbs ob)) AND 0x00FF));
           h = poke h d 70 (ucast (i32 (pid_active_vppbs ob) AND 0x00FF));
           h = poke h d 71 (ucast (drop_bit 8 (i32 (pid_active_vppbs ob)) AND 0x00FF));
           h = poke h d 72 (pid_num_decoders ob)
       in Inr (h, FMLN_PSC_IDENTIFY_SWITCH))"

definition ser_psc_port_req :: "mem \<Rightarrow> nat \<Rightarrow> fmapi_psc_port_req \<Rightarrow> fault + (mem \<times> nat)" where
  "ser_psc_port_req h d ob =
    (if length (ppr_ports ob) < unat (ppr_num ob) then Inl OutOfBounds
     else
       let h = poke h d 0 (ppr_num ob);
           h = memcpy_out h (d + 1) (ppr_ports ob) (unat (ppr_num ob))
       in Inr (h, FMLN_PSC_GET_PHY_PORT_REQ + unat (ppr_num ob)))"

definition ser_psc_port_info :: "mem \<Rightarrow> nat \<Rightarrow> fmapi_psc_port_info \<Rightarrow> mem \<times> nat" where
  "ser_psc_port_info h d ob =
    (let h = poke h d 0 (pi_ppid ob);
         h = poke h d 1 (pi_state ob);
         h = poke h d 2 (pi_dv ob);
         h = poke h d 4 (pi_dt ob);
         h = poke h d 5 (pi_cv ob);
         h = poke h d 6 (pi_mlw ob);
         h = poke h d 7 (pi_nlw ob);
         h = poke h d 8 (pi_speeds ob);
         h = poke h d 9 (pi_mls ob);
         h = poke h d 10 (pi_cls ob);
         h = poke h d 11 (pi_ltssm ob);
         h = poke h d 12 (pi_lane ob);
         h = poke h d 13 0;
         h = poke h d 13 (ucast (i32 (peek h d 13)
               OR push_bit FMLF_LANE_REVERSAL_BIT (i32 (pi_lane_rev ob) AND 0x01)));
         h = poke h d 13 (ucast (i32 (peek h d 13)
               OR push_bit FMLF_PERST_STATE_BIT (i32 (pi_perst ob) AND 0x01)));
         h = poke h d 13 (ucast (i32 (peek h d 13)
               OR push_bit FMLF_PRSNT_STATE_BIT (i32 (pi_prsnt ob) AND 0x01)));
         h = poke h d 13 (ucast (i32 (peek h d 13)
               OR push_bit FMLF_PWRCTL_STATE_BIT (i32 (pi_pwrctrl ob) AND 0x01)));
         h = poke h d 14 0;
         h = poke h d 15 (pi_num_ld ob)
     in (h, FMLN_PSC_GET_PHY_PORT_INFO))"

definition ser_psc_port_rsp :: "mem \<Rightarrow> nat \<Rightarrow> fmapi_psc_port_rsp \<Rightarrow> fault + (mem \<times> nat)" where
  "ser_psc_port_rsp h d ob =
    (if length (prs_list ob) < unat (prs_num ob) then Inl OutOfBounds
     else
       let h = poke h d 0 (prs_num ob)
       in ser_loop (\<lambda>h p x. Inr (ser_psc_port_info h p x)) h d FMLN_PSC_GET_PHY_PORT_RESP
            (take (unat (prs_num ob)) (prs_list ob)))"

definition ser_psc_port_ctrl_req :: "mem \<Rightarrow> nat \<Rightarrow> fmapi_psc_port_ctrl_req \<Rightarrow> mem \<times> nat" where
  "ser_psc_port_ctrl_req h d ob =
    (let h = poke h d 0 (pcr_ppid ob);
         h = poke h d 1 (pcr_opcode ob)
     in (h, FMLN_PSC_PHY_PORT_CTRL))"

definition ser_psc_cfg_req :: "mem \<Rightarrow> nat \<Rightarrow> fmapi_psc_cfg_req \<Rightarrow> fault + (mem \<times> nat)" where
  "ser_psc_cfg_req h d ob =
    (if length (pcf_data ob) < 4 then Inl OutOfBounds
     else
       let h = poke h d 0 (pcf_ppid ob);
           h = poke h d 1 (ucast (i32 (pcf_reg ob)));
           h = poke h d 2 (ucast ((push_bit 4 (i32 (pcf_fdbe ob)) AND 0xF0)
                                   OR (i32 (pcf_ext ob) AND 0x0F)));
           h = poke h d 3 (ucast (push_bit 7 (i32 (pcf_type ob)) AND 0x80));
           h = poke h d 4 (pcf_data ob ! 0);
           h = poke h d 5 (pcf_data ob ! 1);
           h = poke h d 6 (pcf_data ob ! 2);
           h = poke h d 7 (pcf_data ob ! 3)
       in Inr (h, FMLN_PSC_PPB_IO_CFG_REQ))"

definition ser_psc_cfg_rsp :: "mem \<Rightarrow> nat \<Rightarrow> fmapi_psc_cfg_rsp \<Rightarrow> fault + (mem \<times> nat)" where
  "ser_psc_cfg_rsp h d ob =
    (if length (pcs_data ob) < 4 then Inl OutOfBounds
     else
       let h = poke h d 0 (pcs_data ob ! 0);
           h = poke h d 1 (pcs_data ob ! 1);
           h = poke h d 2 (pcs_data ob ! 2);
           h = poke h d 3 (pcs_data ob ! 3)
       in Inr (h, FMLN_PSC_PPB_IO_CFG_RESP))"

definition ser_vsc_info_req :: "mem \<Rightarrow> nat \<Rightarrow> fmapi_vsc_info_req \<Rightarrow> fault + (mem \<times> nat)" where
  "ser_vsc_info_req h d ob =
    (if length (vir_vcss ob) < unat (vir_num ob) then Inl OutOfBounds
     else
       let h = poke h d 0 (vir_vppbid_start ob);
           h = poke h d 1 (vir_vppbid_limit ob);
           h = poke h d 2 (vir_num ob);
           h = memcpy_out h (d + 3) (vir_vcss ob) (unat (vir_num ob))
       in Inr (h, FMLN_VSC_GET_INFO_REQ + unat (vir_num ob)))"

definition ser_vsc_ppb_stat_blk :: "mem \<Rightarrow> nat \<Rightarrow> fmapi_vsc_ppb_stat_blk \<Rightarrow> mem \<times> nat" where
  "ser_vsc_ppb_stat_blk h d ob =
    (let h = poke h d 0 (psb_status ob);
         h = poke h d 1 (psb_ppid ob);
         h = poke h d 2 (psb_ldid ob)
     in (h, FMLN_VSC_PPB_STATUS))"

definition ser_vsc_info_blk :: "mem \<Rightarrow> nat \<Rightarrow> fmapi_vsc_info_blk \<Rightarrow> fault + (mem \<times> nat)" where
  "ser_vsc_info_blk h d ob =
    (if length (vib_list ob) < unat (vib_num ob) then Inl OutOfBounds
     else
       let h = poke h d 0 (vib_vcsid ob);
           h = poke h d 1 (vib_state ob);
           h = poke h d 2 (vib_uspid ob);
           h = poke h d 3 (vib_total ob)
       in ser_loop (\<lambda>h p x. Inr (ser_vsc_ppb_stat_blk h p x)) h d FMLN_VSC_INFO
            (take (unat (vib_num ob)) (vib_list ob)))"

definition ser_vsc_info_rsp :: "mem \<Rightarrow> nat \<Rightarrow> fmapi_vsc_info_rsp \<Rightarrow> fault + (mem \<times> nat)" where
  "ser_vsc_info_rsp h d ob =
    (if length (vis_list ob) < unat (vis_num ob) then Inl OutOfBounds
     else
       let h = poke h d 0 (vis_num ob)
       in ser_loop ser_vsc_info_blk h d FMLN_VSC_GET_INFO_RESP
            (take (unat (vis_num ob)) (vis_list ob)))"

definition ser_vsc_bind_req :: "mem \<Rightarrow> nat \<Rightarrow> fmapi_vsc_bind_req \<Rightarrow> mem \<times> nat" where
  "ser_vsc_bind_req h d ob =
    (let h = poke h d 0 (vbr_vcsid ob);
         h = poke h d 1 (vbr_vppbid ob);
         h = poke h d 2 (vbr_ppid ob);
         h = poke h d 4 (ucast (i32 (vbr_ldid ob) AND 0x00FF));
         h = poke h d 5 (ucast (drop_bit 8 (i32 (vbr_ldid ob)) AND 0x00FF))
     in (h, FMLN_VSC_BIND))"

definition ser_vsc_unbind_req :: "mem \<Rightarrow> nat \<Rightarrow> fmapi_vsc_unbind_req \<Rightarrow> mem \<times> nat" where
  "ser_vsc_unbind_req h d ob =
    (let h = poke h d 0 (vur_vcsid ob);
         h = poke h d 1 (vur_vppbid ob);
         h = poke h d 2 (ucast (i32 (vur_option ob)))
     in (h, FMLN_VSC_UNBIND))"

definition ser_vsc_aer_req :: "mem \<Rightarrow> nat \<Rightarrow> fmapi_vsc_aer_req \<Rightarrow> fault + (mem \<times> nat)" where
  "ser_vsc_aer_req h d ob =
    (if length (var_header ob) < 32 then Inl OutOfBounds
     else
       let h = poke h d 0 (var_vcsid ob);
           h = poke h d 1 (var_vppbid ob);
           h = poke h d 4 (ucast (var_error_type ob AND 0x00FF));
           h = poke h d 5 (ucast (drop_bit 8 (var_error_type ob) AND 0x00FF));
           h = poke h d 6 (ucast (drop_bit 16 (var_error_type ob) AND 0x00FF));
           h = poke h d 7 (ucast (drop_bit 24 (var_error_type ob) AND 0x00FF));
           h = memcpy_out h (d + 8) (var_header ob) 32
       in Inr (h, FMLN_VSC_GEN_AER))"

definition ser_mpc_tmc_req :: "mem \<Rightarrow> nat \<Rightarrow> fmapi_mpc_tmc_req \<Rightarrow> fault + (mem \<times> nat)" where
  "ser_mpc_tmc_req h d ob =
    (if length (tmq_msg ob) < unat (tmq_len ob) then Inl OutOfBounds
     else
       let h = poke h d 0 (tmq_ppid ob);
           h = poke h d 2 (ucast ((i32 (tmq_len ob) + 1) AND 0x00FF));
           h = poke h d 3 (ucast (drop_bit 8 (i32 (tmq_len ob) + 1) AND 0x00FF));
           h = poke h d 4 (tmq_type ob);
           h = memcpy_out h (d + FMLN_MPC_TUNNEL_CMD_REQ) (tmq_msg ob) (unat (tmq_len ob))
       in Inr (h, FMLN_MPC_TUNNEL_CMD_REQ + unat (tmq_len ob)))"

definition ser_mpc_tmc_rsp :: "mem \<Rightarrow> nat \<Rightarrow> fmapi_mpc_tmc_rsp \<Rightarrow> fault + (mem \<times> nat)" where
  "ser_mpc_tmc_rsp h d ob =
    (if length (tms_msg ob) < unat (tms_len ob) then Inl OutOfBounds
     else
       let h = poke h d 0 (ucast ((i32 (tms_len ob) + 1) AND 0x00FF));
           h = poke h d 1 (ucast (drop_bit 8 (i32 (tms_len ob) + 1) AND 0x00FF));
           h = poke h d 4 (tms_type ob);
           h = memcpy_out h (d + FMLN_MPC_TUNNEL_CMD_REQ) (tms_msg ob) (unat (tms_len ob))
       in Inr (h, FMLN_MPC_TUNNEL_CMD_RESP + unat (tms_len ob)))"

definition ser_mpc_cfg_req :: "mem \<Rightarrow> nat \<Rightarrow> fmapi_mpc_cfg_req \<Rightarrow> fault + (mem \<times> nat)" where
  "ser_mpc_cfg_req h d ob =
    (if length (mcq_data ob) < 4 then Inl OutOfBounds
     else
       let h = poke h d 0 (mcq_ppid ob);
           h = poke h d 1 (mcq_reg ob);
           h = poke h d 2 (ucast ((push_bit 4 (i32 (mcq_fdbe ob)) AND 0xF0)
                                   OR (i32 (mcq_ext ob) AND 0x0F)));
           h = poke h d 3 (ucast (push_bit 7 (i32 (mcq_type ob)) AND 0x80));
           h = poke h d 4 (ucast (i32 (mcq_ldid ob) AND 0x00FF));
           h = poke h d 5 (ucast (drop_bit 8 (i32 (mcq_ldid ob)) AND 0x00FF));
           h = poke h d 8 (mcq_data ob ! 0);
           h = poke h d 9 (mcq_data ob ! 1);
           h = poke h d 10 (mcq_data ob ! 2);
           h = poke h d 11 (mcq_data ob ! 3)
       in Inr (h, FMLN_MPC_LD_IO_CFG_REQ))"

definition ser_mpc_cfg_rsp :: "mem \<Rightarrow> nat \<Rightarrow> fmapi_mpc_cfg_rsp \<Rightarrow> fault + (mem \<times> nat)" where
  "ser_mpc_cfg_rsp h d ob =
    (if length (mcs_data ob) < 4 then Inl OutOfBounds
     else
       let h = poke h d 0 (mcs_data ob ! 0);
           h = poke h d 1 (mcs_data ob ! 1);
           h = poke h d 2 (mcs_data ob ! 2);
           h = poke h d 3 (mcs_data ob ! 3)
       in Inr (h, FMLN_MPC_LD_IO_CFG_RESP))"

definition ser_mpc_mem_req :: "mem \<Rightarrow> nat \<Rightarrow> fmapi_mpc_mem_req \<Rightarrow> fault + (mem \<times> nat)" where
  "ser_mpc_mem_req h d ob =
    (if length (mmq_data ob) < unat (mmq_len ob) then Inl OutOfBounds
     else
       let h = poke h d 0 (mmq_ppid ob);
           h = poke h d 2 (ucast (push_bit 4 (i32 (mmq_fdbe ob)) AND 0x00F0));
           h = poke h d 3 (ucast ((push_bit 7 (i32 (mmq_type ob)) AND 0x0080)
                                   OR (i32 (mmq_ldbe ob) AND 0x000F)));
           h = poke h d 4 (ucast (i32 (mmq_ldid ob) AND 0x00FF));
           h = poke h d 5 (ucast (drop_bit 8 (i32 (mmq_ldid ob)) AND 0x00FF));
           h = poke h d 6 (ucast (i32 (mmq_len ob) AND 0x00FF));
           h = poke h d 7 (ucast (drop_bit 8 (i32 (mmq_len ob)) AND 0x00FF));
           h = poke h d 8 (ucast (mmq_offset ob AND 0x00FF));
           h = poke h d 9 (ucast (drop_bit 8 (mmq_offset ob) AND 0x00FF));
           h = poke h d 10 (ucast (drop_bit 16 (mmq_offset ob) AND 0x00FF));
           h = poke h d 11 (ucast (drop_bit 24 (mmq_offset ob) AND 0x00FF));
           h = poke h d 12 (ucast (drop_bit 32 (mmq_offset ob) AND 0x00FF));
           h = poke h d 13 (ucast (drop_bit 40 (mmq_offset ob) AND 0x00FF));
           h = poke h d 14 (ucast (drop_bit 48 (mmq_offset ob) AND 0x00FF));
           h = poke h d 15 (ucast (drop_bit 56 (mmq_offset ob) AND 0x00FF));
           h = memcpy_out h (d + FMLN_MPC_LD_MEM_REQ) (mmq_data ob) (unat (mmq_len ob))
       in Inr (h, FMLN_MPC_LD_MEM_REQ + unat (mmq_len ob)))"

definition ser_mpc_mem_rsp :: "mem \<Rightarrow> nat \<Rightarrow> fmapi_mpc_mem_rsp \<Rightarrow> fault + (mem \<times> nat)" where
  "ser_mpc_mem_rsp h d ob =
    (if length (mms_data ob) < unat (mms_len ob) then Inl OutOfBounds
     else
       let h = poke h d 0 (ucast (i32 (mms_len ob) AND 0x00FF));
           h = poke h d 1 (ucast (drop_bit 8 (i32 (mms_len ob)) AND 0x00FF));
           h = memcpy_out h (d + FMLN_MPC_LD_MEM_RESP) (mms_data ob) (unat (mms_len ob))
       in Inr (h, FMLN_MPC_LD_MEM_RESP + unat (mms_len ob)))"

definition ser_mcc_info_rsp :: "mem \<Rightarrow> nat \<Rightarrow> fmapi_mcc_info_rsp \<Rightarrow> mem \<times> nat" where
  "ser_mcc_info_rsp h d ob =
    (let h = poke h d 0 (ucast (mir_size ob AND 0x00FF));
         h = poke h d 1 (ucast (drop_bit 8 (mir_size ob) AND 0x00FF));
         h = poke h d 2 (ucast (drop_bit 16 (mir_size ob) AND 0x00FF));
         h = poke h d 3 (ucast (drop_bit 24 (mir_size ob) AND 0x00FF));
         h = poke h d 4 (ucast (drop_bit 32 (mir_size ob) AND 0x00FF));
         h = poke h d 5 (ucast (drop_bit 40 (mir_size ob) AND 0x00FF));
         h = poke h d 6 (ucast (drop_bit 48 (mir_size ob) AND 0x00FF));
         h = poke h d 7 (ucast (drop_bit 56 (mir_size ob) AND 0x00FF));
         h = poke h d 8 (ucast (i32 (mir_num ob) AND 0x00FF));
         h = poke h d 9 (ucast (drop_bit 8 (i32 (mir_num ob)) AND 0x00FF));
         h = poke h d 10 (ucast (push_bit FMQT_EGRESS_PORT_CONGESTION_BIT
               (i32 (mir_epc ob) AND 0x01)));
         h = poke h d 10 (ucast (i32 (peek h d 10)
               OR push_bit FMQT_TEMP_THROUGHPUT_REDUCTION_BIT (i32 (mir_ttr ob) AND 0x01)))
     in (h, FMLN_MCC_GET_LD_INFO))"

definition ser_mcc_alloc_blk :: "mem \<Rightarrow> nat \<Rightarrow> fmapi_mcc_alloc_blk \<Rightarrow> mem \<times> nat" where
  "ser_mcc_alloc_blk h d ob =
    (let h = poke h d 0 (ucast (mab_rng1 ob AND 0x00FF));
         h = poke h d 1 (ucast (drop_bit 8 (mab_rng1 ob) AND 0x00FF));
         h = poke h d 2 (ucast (drop_bit 16 (mab_rng1 ob) AND 0x00FF));
         h = poke h d 3 (ucast (drop_bit 24 (mab_rng1 ob) AND 0x00FF));
         h = poke h d 4 (ucast (drop_bit 32 (mab_rng1 ob) AND 0x00FF));
         h = poke h d 5 (ucast (drop_bit 40 (mab_rng1 ob) AND 0x00FF));
         h = poke h d 6 (ucast (drop_bit 48 (mab_rng1 ob) AND 0x00FF));
         h = poke h d 7 (ucast (drop_bit 56 (mab_rng1 ob) AND 0x00FF));
         h = poke h d 8 (ucast (mab_rng2 ob AND 0x00FF));
         h = poke h d 9 (ucast (drop_bit 8 (mab_rng2 ob) AND 0x00FF));
         h = poke h d 10 (ucast (drop_bit 16 (mab_rng2 ob) AND 0x00FF));
         h = poke h d 11 (ucast (drop_bit 24 (mab_rng2 ob) AND 0x00FF));
         h = poke h d 12 (ucast (drop_bit 32 (mab_rng2 ob) AND 0x00FF));
         h = poke h d 13 (ucast (drop_bit 40 (mab_rng2 ob) AND 0x00FF));
         h = poke h d 14 (ucast (drop_bit 48 (mab_rng2 ob) AND 0x00FF));
         h = poke h d 15 (ucast (drop_bit 56 (mab_rng2 ob) AND 0x00FF))
     in (h, FMLN_MCC_LD_ALLOC_ENTRY))"

definition ser_mcc_alloc_get_req :: "mem \<Rightarrow> nat \<Rightarrow> fmapi_mcc_alloc_get_req \<Rightarrow> mem \<times> nat" where
  "ser_mcc_alloc_get_req h d ob =
    (let h = poke h d 0 (agq_start ob);
         h = poke h d 1 (agq_limit ob)
     in (h, FMLN_MCC_GET_LD_ALLOC_REQ))"

definition ser_mcc_alloc_get_rsp :: "mem \<Rightarrow> nat \<Rightarrow> fmapi_mcc_alloc_get_rsp \<Rightarrow> fault + (mem \<times> nat)" where
  "ser_mcc_alloc_get_rsp h d ob =
    (if length (ags_list ob) < unat (ags_num ob) then Inl OutOfBounds
     else
       let h = poke h d 0 (ags_total ob);
           h = poke h d 1 (ags_granularity ob);
           h = poke h d 2 (ags_start ob);
           h = poke h d 3 (ags_num ob)
       in ser_loop (\<lambda>h p x. Inr (ser_mcc_alloc_blk h p x)) h d FMLN_MCC_GET_LD_ALLOC_RSP
            (take (unat (ags_num ob)) (ags_list ob)))"

definition ser_mcc_alloc_set_req :: "mem \<Rightarrow> nat \<Rightarrow> fmapi_mcc_alloc_set_req \<Rightarrow> fault + (mem \<times> nat)" where
  "ser_mcc_alloc_set_req h d ob =
    (if length (asq_list ob) < unat (asq_num ob) then Inl OutOfBounds
     else
       let h = poke h d 0 (asq_num ob);
           h = poke h d 1 (asq_start ob)
       in ser_loop (\<lambda>h p x. Inr (ser_mcc_alloc_blk h p x)) h d FMLN_MCC_SET_LD_ALLOC_REQ
            (take (unat (asq_num ob)) (asq_list ob)))"

definition ser_mcc_alloc_set_rsp :: "mem \<Rightarrow> nat \<Rightarrow> fmapi_mcc_alloc_set_rsp \<Rightarrow> fault + (mem \<times> nat)" where
  "ser_mcc_alloc_set_rsp h d ob =
    (if length (ass_list ob) < unat (ass_num ob) then Inl OutOfBounds
     else
       let h = poke h d 0 (ass_num ob);
           h = poke h d 1 (ass_start ob)
       in ser_loop (\<lambda>h p x. Inr (ser_mcc_alloc_blk h p x)) h d FMLN_MCC_SET_LD_ALLOC_RSP
            (take (unat (ass_num ob)) (ass_list ob)))"

definition ser_mcc_qos_ctrl :: "mem \<Rightarrow> nat \<Rightarrow> fmapi_mcc_qos_ctrl \<Rightarrow> mem \<times> nat" where
  "ser_mcc_qos_ctrl h d ob =
    (let h = poke h d 0 0;
         h = poke h d 0 (ucast (i32 (peek h d 0)
               OR push_bit FMQT_EGRESS_PORT_CONGESTION_BIT (i32 (qc_epc_en ob))));
         h = poke h d 0 (ucast (i32 (peek h d 0)
               OR push_bit FMQT_TEMP_THROUGHPUT_REDUCTION_BIT (i32 (qc_ttr_en ob))));
         h = poke h d 1 (qc_egress_mod_pcnt ob);
         h = poke h d 2 (qc_egress_sev_pcnt ob);
         h = poke h d 3 (qc_sample_interval ob);
         h = poke h d 4 (ucast (i32 (qc_rcb ob) AND 0x00FF));
         h = poke h d 5 (ucast (drop_bit 8 (i32 (qc_rcb ob)) AND 0x00FF));
         h = poke h d 6 (qc_comp_interval ob)
     in (h, FMLN_MCC_QOS_CTRL))"

definition ser_mcc_qos_stat_rsp :: "mem \<Rightarrow> nat \<Rightarrow> fmapi_mcc_qos_stat_rsp \<Rightarrow> mem \<times> nat" where
  "ser_mcc_qos_stat_rsp h d ob =
    (let h = poke h d 0 (qs_bp_avg_pcnt ob)
     in (h, FMLN_MCC_QOS_STATUS))"

definition ser_mcc_qos_bw_get_req :: "mem \<Rightarrow> nat \<Rightarrow> fmapi_mcc_qos_bw_alloc_get_req \<Rightarrow> mem \<times> nat" where
  "ser_mcc_qos_bw_get_req h d ob =
    (let h = poke h d 0 (qag_num ob);
         h = poke h d 1 (qag_start ob)
     in (h, FMLN_MCC_GET_QOS_BW_REQ))"

definition ser_mcc_qos_bw_alloc :: "mem \<Rightarrow> nat \<Rightarrow> fmapi_mcc_qos_bw_alloc \<Rightarrow> fault + (mem \<times> nat)" where
  "ser_mcc_qos_bw_alloc h d ob =
    (if length (qba_list ob) < unat (qba_num ob) then Inl OutOfBounds
     else
       let h = poke h d 0 (qba_num ob);
           h = poke h d 1 (qba_start ob);
           h = memcpy_out h (d + FMLN_MCC_QOS_BW_ALLOC) (qba_list ob) (unat (qba_num ob))
       in Inr (h, FMLN_MCC_QOS_BW_ALLOC + unat (qba_num ob)))"

definition ser_mcc_qos_bw_limit_get_req ::
    "mem \<Rightarrow> nat \<Rightarrow> fmapi_mcc_qos_bw_limit_get_req \<Rightarrow> mem \<times> nat" where
  "ser_mcc_qos_bw_limit_get_req h d ob =
    (let h = poke h d 0 (qlg_num ob);
         h = poke h d 1 (qlg_start ob)
     in (h, FMLN_MCC_GET_QOS_BW_LIMIT_REQ))"

definition ser_mcc_qos_bw_limit :: "mem \<Rightarrow> nat \<Rightarrow> fmapi_mcc_qos_bw_limit \<Rightarrow> fault + (mem \<times> nat)" where
  "ser_mcc_qos_bw_limit h d ob =
    (if length (qbl_list ob) < unat (qbl_num ob) then Inl OutOfBounds
     else
       let h = poke h d 0 (qbl_num ob);
           h = poke h d 1 (qbl_start ob);
           h = memcpy_out h (d + FMLN_MCC_QOS_BW_LIMIT) (qbl_list ob) (unat (qbl_num ob))
       in Inr (h, FMLN_MCC_QOS_BW_LIMIT + unat (qbl_num ob)))"

section \<open>fmapi\_deserialize, kind by kind\<close>

text \<open>
  Each function is one case of the switch of \<^verbatim>\<open>fmapi_deserialize\<close>: \<open>ob\<close> is the object
  \<^verbatim>\<open>*o\<close> before the call, \<open>h\<close> the memory and \<open>s\<close> the address \<^verbatim>\<open>src\<close>; the result is the
  object after the assignments and the value of \<^verbatim>\<open>rv\<close>. A field or an array element
  that the source does not assign keeps its value. A shift of a byte by 24 bits is
  computed in 32 bits, as the compilers of the supported systems do.
\<close>

definition deser_hdr :: "fmapi_hdr \<Rightarrow> mem \<Rightarrow> nat \<Rightarrow> fmapi_hdr \<times> nat" where
  "deser_hdr ob h s =
    (ob\<lparr> hdr_category := ucast (drop_bit 4 (i32 (peek h s 0)) AND 0x0F),
         hdr_tag := peek h s 1,
         hdr_opcode := ucast (push_bit 8 (i32 (peek h s 4)) OR i32 (peek h s 3)),
         hdr_len := ucast (push_bit 13 (i32 (peek h s 7) AND 0x00F8)
                           OR push_bit 8 (i32 (peek h s 6)) OR i32 (peek h s 5)),
         hdr_background := ucast (i32 (peek h s 7) AND 0x01),
         hdr_return_code := ucast (push_bit 8 (i32 (peek h s 9)) OR i32 (peek h s 8)),
         hdr_ext_status := ucast (push_bit 8 (i32 (peek h s 11)) OR i32 (peek h s 10)) \<rparr>,
     FMLN_HDR)"

definition deser_isc_bos :: "fmapi_isc_bos \<Rightarrow> mem \<Rightarrow> nat \<Rightarrow> fmapi_isc_bos \<times> nat" where
  "deser_isc_bos ob h s =
    (ob\<lparr> bos_running := ucast (i32 (peek h s 0) AND 0x01),
         bos_pcnt := ucast (drop_bit 1 (i32 (peek h s 0)) AND 0x7F),
         bos_opcode := ucast (push_bit 8 (i32 (peek h s 3)) OR (i32 (peek h s 2) AND 0x00FF)),
         bos_rc := ucast (push_bit 8 (i32 (peek h s 5)) OR (i32 (peek h s 4) AND 0x00FF)),
         bos_ext := ucast (push_bit 8 (i32 (peek h s 7)) OR (i32 (peek h s 6) AND 0x00FF)) \<rparr>,
     FMLN_ISC_BOS)"

definition deser_isc_id_rsp :: "fmapi_isc_id_rsp \<Rightarrow> mem \<Rightarrow> nat \<Rightarrow> fmapi_isc_id_rsp \<times> nat" where
  "deser_isc_id_rsp ob h s =
    (ob\<lparr> iid_vid := ucast (push_bit 8 (i32 (peek h s 1)) OR i32 (peek h s 0)),
         iid_did := ucast (push_bit 8 (i32 (peek h s 3)) OR i32 (peek h s 2)),
         iid_svid := ucast (push_bit 8 (i32 (peek h s 5)) OR i32 (peek h s 4)),
         iid_ssid := ucast (push_bit 8 (i32 (peek h s 7)) OR i32 (peek h s 6)),
         iid_sn := push_bit 56 (i64 (peek h s 15))
                   OR push_bit 48 (i64 (peek h s 14))
                   OR push_bit 40 (i64 (peek h s 13))
                   OR push_bit 32 (i64 (peek h s 12))
                   OR push_bit 24 (i64 (peek h s 11))
                   OR push_bit 16 (i64 (peek h s 10))
                   OR push_bit 8 (i64 (peek h s 9))
                   OR i64 (peek h s 8),
         iid_size := peek h s 16 \<rparr>,
     FMLN_ISC_ID_RSP)"

definition deser_isc_msg_limit ::
    "fmapi_isc_msg_limit \<Rightarrow> mem \<Rightarrow> nat \<Rightarrow> fmapi_isc_msg_limit \<times> nat" where
  "deser_isc_msg_limit ob h s = (ob\<lparr> iml_limit := peek h s 0 \<rparr>, FMLN_ISC_MSG_LIMIT)"

definition deser_psc_id_rsp ::
    "fmapi_psc_id_rsp \<Rightarrow> mem \<Rightarrow> nat \<Rightarrow> fault + (fmapi_psc_id_rsp \<times> nat)" where
  "deser_psc_id_rsp ob h s =
    (if length (pid_active_ports ob) < 32 \<or> length (pid_active_vcss ob) < 32 then Inl OutOfBounds
     else Inr
       (ob\<lparr> pid_ingress_port := peek h s 0,
            pid_num_ports := peek h s 2,
            pid_num_vcss := peek h s 3,
            pid_active_ports := memcpy_in (pid_active_ports ob) h (s + 4) 32,
            pid_active_vcss := memcpy_in (pid_active_vcss ob) h (s + 36) 32,
            pid_num_vppbs := ucast (push_bit 8 (i32 (peek h s 69)) OR i32 (peek h s 68)),
            pid_active_vppbs := ucast (push_bit 8 (i32 (peek h s 71)) OR i32 (peek h s 70)),
            pid_num_decoders := peek h s 72 \<rparr>,
        FMLN_PSC_IDENTIFY_SWITCH))"

definition deser_psc_port_req ::
    "fmapi_psc_port_req \<Rightarrow> mem \<Rightarrow> nat \<Rightarrow> fault + (fmapi_psc_port_req \<times> nat)" where
  "deser_psc_port_req ob h s =
    (let num = peek h s 0
     in if length (ppr_ports ob) < unat num then Inl OutOfBounds
        else Inr
          (ob\<lparr> ppr_num := num,
               ppr_ports := memcpy_in (ppr_ports ob) h (s + 1) (unat num) \<rparr>,
           FMLN_PSC_GET_PHY_PORT_REQ + unat num))"

definition deser_psc_port_info ::
    "fmapi_psc_port_info \<Rightarrow> mem \<Rightarrow> nat \<Rightarrow> fmapi_psc_port_info \<times> nat" where
  "deser_psc_port_info ob h s =
    (ob\<lparr> pi_ppid := peek h s 0,
         pi_state := peek h s 1,
         pi_dv := peek h s 2,
         pi_dt := peek h s 4,
         pi_cv := peek h s 5,
         pi_mlw := peek h s 6,
         pi_nlw := peek h s 7,
         pi_speeds := peek h s 8,
         pi_mls := peek h s 9,
         pi_cls := peek h s 10,
         pi_ltssm := peek h s 11,
         pi_lane := peek h s 12,
         pi_lane_rev := ucast (drop_bit FMLF_LANE_REVERSAL_BIT (i32 (peek h s 13)) AND 0x01),
         pi_perst := ucast (drop_bit FMLF_PERST_STATE_BIT (i32 (peek h s 13)) AND 0x01),
         pi_prsnt := ucast (drop_bit FMLF_PRSNT_STATE_BIT (i32 (peek h s 13)) AND 0x01),
         pi_pwrctrl := ucast (drop_bit FMLF_PWRCTL_STATE_BIT (i32 (peek h s 13)) AND 0x01),
         pi_num_ld := peek h s 15 \<rparr>,
     FMLN_PSC_GET_PHY_PORT_INFO)"

definition deser_psc_port_rsp ::
    "fmapi_psc_port_rsp \<Rightarrow> mem \<Rightarrow> nat \<Rightarrow> fault + (fmapi_psc_port_rsp \<times> nat)" where
  "deser_psc_port_rsp ob h s =
    (let num = peek h s 0
     in if length (prs_list ob) < unat num then Inl OutOfBounds
        else
          (case deser_loop (\<lambda>x h p. Inr (deser_psc_port_info x h p)) h s
                  FMLN_PSC_GET_PHY_PORT_RESP (take (unat num) (prs_list ob)) of
             Inl e \<Rightarrow> Inl e
           | Inr (xs, rv) \<Rightarrow>
               Inr (ob\<lparr> prs_num := num, prs_list := xs @ drop (unat num) (prs_list ob) \<rparr>, rv)))"

definition deser_psc_port_ctrl_req ::
    "fmapi_psc_port_ctrl_req \<Rightarrow> mem \<Rightarrow> nat \<Rightarrow> fmapi_psc_port_ctrl_req \<times> nat" where
  "deser_psc_port_ctrl_req ob h s =
    (ob\<lparr> pcr_ppid := peek h s 0, pcr_opcode := peek h s 1 \<rparr>, FMLN_PSC_PHY_PORT_CTRL)"

definition deser_psc_cfg_req ::
    "fmapi_psc_cfg_req \<Rightarrow> mem \<Rightarrow> nat \<Rightarrow> fault + (fmapi_psc_cfg_req \<times> nat)" where
  "deser_psc_cfg_req ob h s =
    (if length (pcf_data ob) < 4 then Inl OutOfBounds
     else Inr
       (ob\<lparr> pcf_ppid := peek h s 0,
            pcf_reg := ucast (i32 (peek h s 1)),
            pcf_ext := ucast (i32 (peek h s 2) AND 0x0F),
            pcf_fdbe := ucast (drop_bit 4 (i32 (peek h s 2)) AND 0x0F),
            pcf_type := ucast (drop_bit 7 (i32 (peek h s 3)) AND 0x01),
            pcf_data := (pcf_data ob)[0 := peek h s 4, 1 := peek h s 5,
                                      2 := peek h s 6, 3 := peek h s 7] \<rparr>,
        FMLN_PSC_PPB_IO_CFG_REQ))"

definition deser_psc_cfg_rsp ::
    "fmapi_psc_cfg_rsp \<Rightarrow> mem \<Rightarrow> nat \<Rightarrow> fault + (fmapi_psc_cfg_rsp \<times> nat)" where
  "deser_psc_cfg_rsp ob h s =
    (if length (pcs_data ob) < 4 then Inl OutOfBounds
     else Inr
       (ob\<lparr> pcs_data := (pcs_data ob)[0 := peek h s 0, 1 := peek h s 1,
                                      2 := peek h s 2, 3 := peek h s 3] \<rparr>,
        FMLN_PSC_PPB_IO_CFG_RESP))"

definition deser_vsc_info_req ::
    "fmapi_vsc_info_req \<Rightarrow> mem \<Rightarrow> nat \<Rightarrow> fault + (fmapi_vsc_info_req \<times> nat)" where
  "deser_vsc_info_req ob h s =
    (let num = peek h s 2
     in if length (vir_vcss ob) < unat num then Inl OutOfBounds
        else Inr
          (ob\<lparr> vir_vppbid_start := peek h s 0,
               vir_vppbid_limit := peek h s 1,
               vir_num := num,
               vir_vcss := memcpy_in (vir_vcss ob) h (s + 3) (unat num) \<rparr>,
           FMLN_VSC_GET_INFO_REQ + unat num))"

definition deser_vsc_ppb_stat_blk ::
    "fmapi_vsc_ppb_stat_blk \<Rightarrow> mem \<Rightarrow> nat \<Rightarrow> fmapi_vsc_ppb_stat_blk \<times> nat" where
  "deser_vsc_ppb_stat_blk ob h s =
    (ob\<lparr> psb_status := peek h s 0, psb_ppid := peek h s 1, psb_ldid := peek h s 2 \<rparr>,
     FMLN_VSC_PPB_STATUS)"

text \<open>
  The block of a virtual switch takes its number of entries from the request \<open>r\<close>
  (the parameter \<^verbatim>\<open>param\<close>): \<^verbatim>\<open>o->num = o->total - r->vppbid_start\<close>, stored in 8 bits,
  then replaced by \<^verbatim>\<open>r->vppbid_limit\<close> when that is smaller. Without a request the
  case leaves with \<^verbatim>\<open>rv = 0\<close> before it reads or writes anything.
\<close>

definition deser_vsc_info_blk ::
    "fmapi_vsc_info_blk \<Rightarrow> mem \<Rightarrow> nat \<Rightarrow> fmapi_vsc_info_req option
      \<Rightarrow> fault + (fmapi_vsc_info_blk \<times> nat)" where
  "deser_vsc_info_blk ob h s param =
    (case param of
       None \<Rightarrow> Inr (ob, 0)
     | Some r \<Rightarrow>
        (let total = peek h s 3;
             num = (ucast (i32 total - i32 (vir_vppbid_start r)) :: u8);
             num = (if vir_vppbid_limit r < num then vir_vppbid_limit r else num)
         in if length (vib_list ob) < unat num then Inl OutOfBounds
            else
              (case deser_loop (\<lambda>x h p. Inr (deser_vsc_ppb_stat_blk x h p)) h s
                      FMLN_VSC_INFO (take (unat num) (vib_list ob)) of
                 Inl e \<Rightarrow> Inl e
               | Inr (xs, rv) \<Rightarrow>
                   Inr (ob\<lparr> vib_vcsid := peek h s 0,
                            vib_state := peek h s 1,
                            vib_uspid := peek h s 2,
                            vib_total := total,
                            vib_num := num,
                            vib_list := xs @ drop (unat num) (vib_list ob) \<rparr>, rv))))"

text \<open>
  The response hands \<^verbatim>\<open>&o->list[i]\<close> and the request to the case of the block for every
  \<open>i\<close> below the count byte. Without a request that case returns 0 before it uses
  its destination, so no entry is read or written however large the count is: the loop
  only adds zeros to \<^verbatim>\<open>rv\<close>. With a request every entry below the count is written, and
  a count beyond the \<^verbatim>\<open>FM_MAX_VCS_PER_RSP\<close> entries of the array is the fault.
\<close>

definition deser_vsc_info_rsp ::
    "fmapi_vsc_info_rsp \<Rightarrow> mem \<Rightarrow> nat \<Rightarrow> fmapi_vsc_info_req option
      \<Rightarrow> fault + (fmapi_vsc_info_rsp \<times> nat)" where
  "deser_vsc_info_rsp ob h s param =
    (let num = peek h s 0
     in if param \<noteq> None \<and> length (vis_list ob) < unat num then Inl OutOfBounds
        else
          (case deser_loop (\<lambda>x h p. deser_vsc_info_blk x h p param) h s
                  FMLN_VSC_GET_INFO_RESP (take (unat num) (vis_list ob)) of
             Inl e \<Rightarrow> Inl e
           | Inr (xs, rv) \<Rightarrow>
               Inr (ob\<lparr> vis_num := num, vis_list := xs @ drop (unat num) (vis_list ob) \<rparr>, rv)))"

definition deser_vsc_bind_req ::
    "fmapi_vsc_bind_req \<Rightarrow> mem \<Rightarrow> nat \<Rightarrow> fmapi_vsc_bind_req \<times> nat" where
  "deser_vsc_bind_req ob h s =
    (ob\<lparr> vbr_vcsid := peek h s 0,
         vbr_vppbid := peek h s 1,
         vbr_ppid := peek h s 2,
         vbr_ldid := ucast (push_bit 8 (i32 (peek h s 5)) OR i32 (peek h s 4)) \<rparr>,
     FMLN_VSC_BIND)"

definition deser_vsc_unbind_req ::
    "fmapi_vsc_unbind_req \<Rightarrow> mem \<Rightarrow> nat \<Rightarrow> fmapi_vsc_unbind_req \<times> nat" where
  "deser_vsc_unbind_req ob h s =
    (ob\<lparr> vur_vcsid := peek h s 0,
         vur_vppbid := peek h s 1,
         vur_option := ucast (i32 (peek h s 2)) \<rparr>,
     FMLN_VSC_UNBIND)"

definition deser_vsc_aer_req ::
    "fmapi_vsc_aer_req \<Rightarrow> mem \<Rightarrow> nat \<Rightarrow> fault + (fmapi_vsc_aer_req \<times> nat)" where
  "deser_vsc_aer_req ob h s =
    (if length (var_header ob) < 32 then Inl OutOfBounds
     else Inr
       (ob\<lparr> var_vcsid := peek h s 0,
            var_vppbid := peek h s 1,
            var_error_type := push_bit 24 (i32 (peek h s 7)) OR push_bit 16 (i32 (peek h s 6))
                              OR push_bit 8 (i32 (peek h s 5)) OR i32 (peek h s 4),
            var_header := memcpy_in (var_header ob) h (s + 8) 32 \<rparr>,
        FMLN_VSC_GEN_AER))"

definition deser_mpc_tmc_req ::
    "fmapi_mpc_tmc_req \<Rightarrow> mem \<Rightarrow> nat \<Rightarrow> fault + (fmapi_mpc_tmc_req \<times> nat)" where
  "deser_mpc_tmc_req ob h s =
    (let len = (ucast ((push_bit 8 (i32 (peek h s 3)) OR i32 (peek h s 2)) - 1) :: u16)
     in if length (tmq_msg ob) < unat len then Inl OutOfBounds
        else Inr
          (ob\<lparr> tmq_ppid := peek h s 0,
               tmq_len := len,
               tmq_type := peek h s 4,
               tmq_msg := memcpy_in (tmq_msg ob) h (s + FMLN_MPC_TUNNEL_CMD_REQ) (unat len) \<rparr>,
           FMLN_MPC_TUNNEL_CMD_REQ + unat len))"

definition deser_mpc_tmc_rsp ::
    "fmapi_mpc_tmc_rsp \<Rightarrow> mem \<Rightarrow> nat \<Rightarrow> fault + (fmapi_mpc_tmc_rsp \<times> nat)" where
  "deser_mpc_tmc_rsp ob h s =
    (let len = (ucast ((push_bit 8 (i32 (peek h s 1)) OR i32 (peek h s 0)) - 1) :: u16)
     in if length (tms_msg ob) < unat len then Inl OutOfBounds
        else Inr
          (ob\<lparr> tms_len := len,
               tms_type := peek h s 4,
               tms_msg := memcpy_in (tms_msg ob) h (s + FMLN_MPC_TUNNEL_CMD_REQ) (unat len) \<rparr>,
           FMLN_MPC_TUNNEL_CMD_RESP + unat len))"

definition deser_mpc_cfg_req ::
    "fmapi_mpc_cfg_req \<Rightarrow> mem \<Rightarrow> nat \<Rightarrow> fault + (fmapi_mpc_cfg_req \<times> nat)" where
  "deser_mpc_cfg_req ob h s =
    (if length (mcq_data ob) < 4 then Inl OutOfBounds
     else Inr
       (ob\<lparr> mcq_ppid := peek h s 0,
            mcq_reg := peek h s 1,
            mcq_ext := ucast (i32 (peek h s 2) AND 0x0F),
            mcq_fdbe := ucast (drop_bit 4 (i32 (peek h s 2)) AND 0x0F),
            mcq_type := ucast (drop_bit 7 (i32 (peek h s 3)) AND 0x01),
            mcq_ldid := ucast (push_bit 8 (i32 (peek h s 5)) OR i32 (peek h s 4)),
            mcq_data := (mcq_data ob)[0 := peek h s 8, 1 := peek h s 9,
                                      2 := peek h s 10, 3 := peek h s 11] \<rparr>,
        FMLN_MPC_LD_IO_CFG_REQ))"

definition deser_mpc_cfg_rsp ::
    "fmapi_mpc_cfg_rsp \<Rightarrow> mem \<Rightarrow> nat \<Rightarrow> fault + (fmapi_mpc_cfg_rsp \<times> nat)" where
  "deser_mpc_cfg_rsp ob h s =
    (if length (mcs_data ob) < 4 then Inl OutOfBounds
     else Inr
       (ob\<lparr> mcs_data := (mcs_data ob)[0 := peek h s 0, 1 := peek h s 1,
                                      2 := peek h s 2, 3 := peek h s 3] \<rparr>,
        FMLN_MPC_LD_IO_CFG_RESP))"

definition deser_mpc_mem_req ::
    "fmapi_mpc_mem_req \<Rightarrow> mem \<Rightarrow> nat \<Rightarrow> fault + (fmapi_mpc_mem_req \<times> nat)" where
  "deser_mpc_mem_req ob h s =
    (let len = (ucast (push_bit 8 (i32 (peek h s 7)) OR i32 (peek h s 6)) :: u16)
     in if length (mmq_data ob) < unat len then Inl OutOfBounds
        else Inr
          (ob\<lparr> mmq_ppid := peek h s 0,
               mmq_fdbe := ucast (drop_bit 4 (i32 (peek h s 2)) AND 0x000F),
               mmq_ldbe := ucast (i32 (peek h s 3) AND 0x000F),
               mmq_type := ucast (drop_bit 7 (i32 (peek h s 3)) AND 0x0001),
               mmq_ldid := ucast (push_bit 8 (i32 (peek h s 5)) OR i32 (peek h s 4)),
               mmq_len := len,
               mmq_offset := push_bit 56 (i64 (peek h s 15))
                             OR push_bit 48 (i64 (peek h s 14))
                             OR push_bit 40 (i64 (peek h s 13))
                             OR push_bit 32 (i64 (peek h s 12))
                             OR push_bit 24 (i64 (peek h s 11))
                             OR push_bit 16 (i64 (peek h s 10))
                             OR push_bit 8 (i64 (peek h s 9))
                             OR i64 (peek h s 8),
               mmq_data := memcpy_in (mmq_data ob) h (s + FMLN_MPC_LD_MEM_REQ) (unat len) \<rparr>,
           FMLN_MPC_LD_MEM_REQ + unat len))"

definition deser_mpc_mem_rsp ::
    "fmapi_mpc_mem_rsp \<Rightarrow> mem \<Rightarrow> nat \<Rightarrow> fault + (fmapi_mpc_mem_rsp \<times> nat)" where
  "deser_mpc_mem_rsp ob h s =
    (let len = (ucast (push_bit 8 (i32 (peek h s 1)) OR i32 (peek h s 0)) :: u16)
     in if length (mms_data ob) < unat len then Inl OutOfBounds
        else Inr
          (ob\<lparr> mms_len := len,
               mms_data := memcpy_in (mms_data ob) h (s + FMLN_MPC_LD_MEM_RESP) (unat len) \<rparr>,
           FMLN_MPC_LD_MEM_RESP + unat len))"

definition deser_mcc_info_rsp ::
    "fmapi_mcc_info_rsp \<Rightarrow> mem \<Rightarrow> nat \<Rightarrow> fmapi_mcc_info_rsp \<times> nat" where
  "deser_mcc_info_rsp ob h s =
    (ob\<lparr> mir_size := push_bit 56 (i64 (peek h s 7))
                     OR push_bit 48 (i64 (peek h s 6))
                     OR push_bit 40 (i64 (peek h s 5))
                     OR push_bit 32 (i64 (peek h s 4))
                     OR push_bit 24 (i64 (peek h s 3))
                     OR push_bit 16 (i64 (peek h s 2))
                     OR push_bit 8 (i64 (peek h s 1))
                     OR i64 (peek h s 0),
         mir_num := ucast (push_bit 8 (i32 (peek h s 9)) OR i32 (peek h s 8)),
         mir_epc := ucast (drop_bit FMQT_EGRESS_PORT_CONGESTION_BIT (i32 (peek h s 10)) AND 0x01),
         mir_ttr := ucast (drop_bit FMQT_TEMP_THROUGHPUT_REDUCTION_BIT (i32 (peek h s 10))
                           AND 0x01) \<rparr>,
     FMLN_MCC_GET_LD_INFO)"

definition deser_mcc_alloc_blk ::
    "fmapi_mcc_alloc_blk \<Rightarrow> mem \<Rightarrow> nat \<Rightarrow> fmapi_mcc_alloc_blk \<times> nat" where
  "deser_mcc_alloc_blk ob h s =
    (ob\<lparr> mab_rng1 := push_bit 56 (i64 (peek h s 7))
                     OR push_bit 48 (i64 (peek h s 6))
                     OR push_bit 40 (i64 (peek h s 5))
                     OR push_bit 32 (i64 (peek h s 4))
                     OR push_bit 24 (i64 (peek h s 3))
                     OR push_bit 16 (i64 (peek h s 2))
                     OR push_bit 8 (i64 (peek h s 1))
                     OR i64 (peek h s 0),
         mab_rng2 := push_bit 56 (i64 (peek h s 15))
                     OR push_bit 48 (i64 (peek h s 14))
                     OR push_bit 40 (i64 (peek h s 13))
                     OR push_bit 32 (i64 (peek h s 12))
                     OR push_bit 24 (i64 (peek h s 11))
                     OR push_bit 16 (i64 (peek h s 10))
                     OR push_bit 8 (i64 (peek h s 9))
                     OR i64 (peek h s 8) \<rparr>,
     FMLN_MCC_LD_ALLOC_ENTRY)"

definition deser_mcc_alloc_get_req ::
    "fmapi_mcc_alloc_get_req \<Rightarrow> mem \<Rightarrow> nat \<Rightarrow> fmapi_mcc_alloc_get_req \<times> nat" where
  "deser_mcc_alloc_get_req ob h s =
    (ob\<lparr> agq_start := peek h s 0, agq_limit := peek h s 1 \<rparr>, FMLN_MCC_GET_LD_ALLOC_REQ)"

definition deser_mcc_alloc_get_rsp ::
    "fmapi_mcc_alloc_get_rsp \<Rightarrow> mem \<Rightarrow> nat \<Rightarrow> fault + (fmapi_mcc_alloc_get_rsp \<times> nat)" where
  "deser_mcc_alloc_get_rsp ob h s =
    (let num = peek h s 3
     in if length (ags_list ob) < unat num then Inl OutOfBounds
        else
          (case deser_loop (\<lambda>x h p. Inr (deser_mcc_alloc_blk x h p)) h s
                  FMLN_MCC_GET_LD_ALLOC_RSP (take (unat num) (ags_list ob)) of
             Inl e \<Rightarrow> Inl e
           | Inr (xs, rv) \<Rightarrow>
               Inr (ob\<lparr> ags_total := peek h s 0,
                        ags_granularity := peek h s 1,
                        ags_start := peek h s 2,
                        ags_num := num,
                        ags_list := xs @ drop (unat num) (ags_list ob) \<rparr>, rv)))"

definition deser_mcc_alloc_set_req ::
    "fmapi_mcc_alloc_set_req \<Rightarrow> mem \<Rightarrow> nat \<Rightarrow> fault + (fmapi_mcc_alloc_set_req \<times> nat)" where
  "deser_mcc_alloc_set_req ob h s =
    (let num = peek h s 0
     in if length (asq_list ob) < unat num then Inl OutOfBounds
        else
          (case deser_loop (\<lambda>x h p. Inr (deser_mcc_alloc_blk x h p)) h s
                  FMLN_MCC_SET_LD_ALLOC_REQ (take (unat num) (asq_list ob)) of
             Inl e \<Rightarrow> Inl e
           | Inr (xs, rv) \<Rightarrow>
               Inr (ob\<lparr> asq_num := num,
                        asq_start := peek h s 1,
                        asq_list := xs @ drop (unat num) (asq_list ob) \<rparr>, rv)))"

definition deser_mcc_alloc_set_rsp ::
    "fmapi_mcc_alloc_set_rsp \<Rightarrow> mem \<Rightarrow> nat \<Rightarrow> fault + (fmapi_mcc_alloc_set_rsp \<times> nat)" where
  "deser_mcc_alloc_set_rsp ob h s =
    (let num = peek h s 0
     in if length (ass_list ob) < unat num then Inl OutOfBounds
        else
          (case deser_loop (\<lambda>x h p. Inr (deser_mcc_alloc_blk x h p)) h s
                  FMLN_MCC_SET_LD_ALLOC_RSP (take (unat num) (ass_list ob)) of
             Inl e \<Rightarrow> Inl e
           | Inr (xs, rv) \<Rightarrow>
               Inr (ob\<lparr> ass_num := num,
                        ass_start := peek h s 1,
                        ass_list := xs @ drop (unat num) (ass_list ob) \<rparr>, rv)))"

definition deser_mcc_qos_ctrl ::
    "fmapi_mcc_qos_ctrl \<Rightarrow> mem \<Rightarrow> nat \<Rightarrow> fmapi_mcc_qos_ctrl \<times> nat" where
  "deser_mcc_qos_ctrl ob h s =
    (ob\<lparr> qc_epc_en := ucast (drop_bit FMQT_EGRESS_PORT_CONGESTION_BIT (i32 (peek h s 0))
                            AND 0x01),
         qc_ttr_en := ucast (drop_bit FMQT_TEMP_THROUGHPUT_REDUCTION_BIT (i32 (peek h s 0))
                            AND 0x01),
         qc_egress_mod_pcnt := peek h s 1,
         qc_egress_sev_pcnt := peek h s 2,
         qc_sample_interval := peek h s 3,
         qc_rcb := ucast (push_bit 8 (i32 (peek h s 5)) OR i32 (peek h s 4)),
         qc_comp_interval := peek h s 6 \<rparr>,
     FMLN_MCC_QOS_CTRL)"

definition deser_mcc_qos_stat_rsp ::
    "fmapi_mcc_qos_stat_rsp \<Rightarrow> mem \<Rightarrow> nat \<Rightarrow> fmapi_mcc_qos_stat_rsp \<times> nat" where
  "deser_mcc_qos_stat_rsp ob h s = (ob\<lparr> qs_bp_avg_pcnt := peek h s 0 \<rparr>, FMLN_MCC_QOS_STATUS)"

definition deser_mcc_qos_bw_get_req ::
    "fmapi_mcc_qos_bw_alloc_get_req \<Rightarrow> mem \<Rightarrow> nat \<Rightarrow> fmapi_mcc_qos_bw_alloc_get_req \<times> nat" where
  "deser_mcc_qos_bw_get_req ob h s =
    (ob\<lparr> qag_num := peek h s 0, qag_start := peek h s 1 \<rparr>, FMLN_MCC_GET_QOS_BW_REQ)"

definition deser_mcc_qos_bw_alloc ::
    "fmapi_mcc_qos_bw_alloc \<Rightarrow> mem \<Rightarrow> nat \<Rightarrow> fault + (fmapi_mcc_qos_bw_alloc \<times> nat)" where
  "deser_mcc_qos_bw_alloc ob h s =
    (let num = peek h s 0
     in if length (qba_list ob) < unat num then Inl OutOfBounds
        else Inr
          (ob\<lparr> qba_num := num,
               qba_start := peek h s 1,
               qba_list := memcpy_in (qba_list ob) h (s + FMLN_MCC_QOS_BW_ALLOC) (unat num) \<rparr>,
           FMLN_MCC_QOS_BW_ALLOC + unat num))"

definition deser_mcc_qos_bw_limit_get_req ::
    "fmapi_mcc_qos_bw_limit_get_req \<Rightarrow> mem \<Rightarrow> nat \<Rightarrow> fmapi_mcc_qos_bw_limit_get_req \<times> nat" where
  "deser_mcc_qos_bw_limit_get_req ob h s =
    (ob\<lparr> qlg_num := peek h s 0, qlg_start := peek h s 1 \<rparr>, FMLN_MCC_GET_QOS_BW_LIMIT_REQ)"

definition deser_mcc_qos_bw_limit ::
    "fmapi_mcc_qos_bw_limit \<Rightarrow> mem \<Rightarrow> nat \<Rightarrow> fault + (fmapi_mcc_qos_bw_limit \<times> nat)" where
  "deser_mcc_qos_bw_limit ob h s =
    (let num = peek h s 0
     in if length (qbl_list ob) < unat num then Inl OutOfBounds
        else Inr
          (ob\<lparr> qbl_num := num,
               qbl_start := peek h s 1,
               qbl_list := memcpy_in (qbl_list ob) h (s + FMLN_MCC_QOS_BW_LIMIT) (unat num) \<rparr>,
           FMLN_MCC_QOS_BW_LIMIT + unat num))"

section \<open>fmapi\_serialize and fmapi\_deserialize\<close>

text \<open>
  \<^verbatim>\<open>int fmapi_serialize(__u8 *dst, void *src, unsigned type)\<close>. The kinds
  \<^verbatim>\<open>FMOB_NULL\<close> and \<^verbatim>\<open>type >= FMOB_MAX\<close> return 0 at once. No pointer is compared with
  null; every case of the switch reads a field of \<^verbatim>\<open>*src\<close> and writes \<^verbatim>\<open>dst[0]\<close>, so a
  null \<^verbatim>\<open>src\<close> or \<^verbatim>\<open>dst\<close> is dereferenced there. \<open>ser_switch\<close> is the switch, the
  cases in the order of the source.
\<close>

definition ser_switch :: "mem \<Rightarrow> nat \<Rightarrow> fmapi_obj \<Rightarrow> nat \<Rightarrow> fault + (mem \<times> nat)" where
  "ser_switch h d ob type =
    (if type = FMOB_HDR then
       (if is_OB_HDR ob then Inr (ser_hdr h d (the_hdr ob)) else Inl BadCast)
     else if type = FMOB_ISC_BOS then
       (if is_OB_ISC_BOS ob then Inr (ser_isc_bos h d (the_isc_bos ob)) else Inl BadCast)
     else if type = FMOB_ISC_ID_RSP then
       (if is_OB_ISC_ID_RSP ob then Inr (ser_isc_id_rsp h d (the_isc_id_rsp ob)) else Inl BadCast)
     else if type = FMOB_ISC_MSG_LIMIT then
       (if is_OB_ISC_MSG_LIMIT ob then Inr (ser_isc_msg_limit h d (the_isc_msg_limit ob)) else Inl BadCast)
     else if type = FMOB_PSC_ID_RSP then
       (if is_OB_PSC_ID_RSP ob then ser_psc_id_rsp h d (the_psc_id_rsp ob) else Inl BadCast)
     else if type = FMOB_PSC_PORT_REQ then
       (if is_OB_PSC_PORT_REQ ob then ser_psc_port_req h d (the_psc_port_req ob) else Inl BadCast)
     else if type = FMOB_PSC_PORT_INFO then
       (if is_OB_PSC_PORT_INFO ob then Inr (ser_psc_port_info h d (the_psc_port_info ob)) else Inl BadCast)
     else if type = FMOB_PSC_PORT_RSP then
       (if is_OB_PSC_PORT_RSP ob then ser_psc_port_rsp h d (the_psc_port_rsp ob) else Inl BadCast)
     else if type = FMOB_PSC_PORT_CTRL_REQ then
       (if is_OB_PSC_PORT_CTRL_REQ ob then Inr (ser_psc_port_ctrl_req h d (the_psc_port_ctrl_req ob)) else Inl BadCast)
     else if type = FMOB_PSC_CFG_REQ then
       (if is_OB_PSC_CFG_REQ ob then ser_psc_cfg_req h d (the_psc_cfg_req ob) else Inl BadCast)
     else if type = FMOB_PSC_CFG_RSP then
       (if is_OB_PSC_CFG_RSP ob then ser_psc_cfg_rsp h d (the_psc_cfg_rsp ob) else Inl BadCast)
     else if type = FMOB_VSC_INFO_REQ then
       (if is_OB_VSC_INFO_REQ ob then ser_vsc_info_req h d (the_vsc_info_req ob) else Inl BadCast)
     else if type = FMOB_VSC_PPB_STAT_BLK then
       (if is_OB_VSC_PPB_STAT_BLK ob then Inr (ser_vsc_ppb_stat_blk h d (the_vsc_ppb_stat_blk ob)) else Inl BadCast)
     else if type = FMOB_VSC_INFO_BLK then
       (if is_OB_VSC_INFO_BLK ob then ser_vsc_info_blk h d (the_vsc_info_blk ob) else Inl BadCast)
     else if type = FMOB_VSC_INFO_RSP then
       (if is_OB_VSC_INFO_RSP ob then ser_vsc_info_rsp h d (the_vsc_info_rsp ob) else Inl BadCast)
     else if type = FMOB_VSC_BIND_REQ then
       (if is_OB_VSC_BIND_REQ ob then Inr (ser_vsc_bind_req h d (the_vsc_bind_req ob)) else Inl BadCast)
     else if type = FMOB_VSC_UNBIND_REQ then
       (if is_OB_VSC_UNBIND_REQ ob then Inr (ser_vsc_unbind_req h d (the_vsc_unbind_req ob)) else Inl BadCast)
     else if type = FMOB_VSC_AER_REQ then
       (if is_OB_VSC_AER_REQ ob then ser_vsc_aer_req h d (the_vsc_aer_req ob) else Inl BadCast)
     else if type = FMOB_MPC_TMC_REQ then
       (if is_OB_MPC_TMC_REQ ob then ser_mpc_tmc_req h d (the_mpc_tmc_req ob) else Inl BadCast)
     else if type = FMOB_MPC_TMC_RSP then
       (if is_OB_MPC_TMC_RSP ob then ser_mpc_tmc_rsp h d (the_mpc_tmc_rsp ob) else Inl BadCast)
     else if type = FMOB_MPC_CFG_REQ then
       (if is_OB_MPC_CFG_REQ ob then ser_mpc_cfg_req h d (the_mpc_cfg_req ob) else Inl BadCast)
     else if type = FMOB_MPC_CFG_RSP then
       (if is_OB_MPC_CFG_RSP ob then ser_mpc_cfg_rsp h d (the_mpc_cfg_rsp ob) else Inl BadCast)
     else if type = FMOB_MPC_MEM_REQ then
       (if is_OB_MPC_MEM_REQ ob then ser_mpc_mem_req h d (the_mpc_mem_req ob) else Inl BadCast)
     else if type = FMOB_MPC_MEM_RSP then
       (if is_OB_MPC_MEM_RSP ob then ser_mpc_mem_rsp h d (the_mpc_mem_rsp ob) else Inl BadCast)
     else if type = FMOB_MCC_INFO_RSP then
       (if is_OB_MCC_INFO_RSP ob then Inr (ser_mcc_info_rsp h d (the_mcc_info_rsp ob)) else Inl BadCast)
     else if type = FMOB_MCC_ALLOC_BLK then
       (if is_OB_MCC_ALLOC_BLK ob then Inr (ser_mcc_alloc_blk h d (the_mcc_alloc_blk ob)) else Inl BadCast)
     else if type = FMOB_MCC_ALLOC_GET_REQ then
       (if is_OB_MCC_ALLOC_GET_REQ ob then Inr (ser_mcc_alloc_get_req h d (the_mcc_alloc_get_req ob)) else Inl BadCast)
     else if type = FMOB_MCC_ALLOC_GET_RSP then
       (if is_OB_MCC_ALLOC_GET_RSP ob then ser_mcc_alloc_get_rsp h d (the_mcc_alloc_get_rsp ob) else Inl BadCast)
     else if type = FMOB_MCC_ALLOC_SET_REQ then
       (if is_OB_MCC_ALLOC_SET_REQ ob then ser_mcc_alloc_set_req h d (the_mcc_alloc_set_req ob) else Inl BadCast)
     else if type = FMOB_MCC_ALLOC_SET_RSP then
       (if is_OB_MCC_ALLOC_SET_RSP ob then ser_mcc_alloc_set_rsp h d (the_mcc_alloc_set_rsp ob) else Inl BadCast)
     else if type = FMOB_MCC_QOS_CTRL then
       (if is_OB_MCC_QOS_CTRL ob then Inr (ser_mcc_qos_ctrl h d (the_mcc_qos_ctrl ob)) else Inl BadCast)
     else if type = FMOB_MCC_QOS_STAT_RSP then
       (if is_OB_MCC_QOS_STAT_RSP ob then Inr (ser_mcc_qos_stat_rsp h d (the_mcc_qos_stat_rsp ob)) else Inl BadCast)
     else if type = FMOB_MCC_QOS_BW_GET_REQ then
       (if is_OB_MCC_QOS_BW_GET_REQ ob then Inr (ser_mcc_qos_bw_get_req h d (the_mcc_qos_bw_get_req ob)) else Inl BadCast)
     else if type = FMOB_MCC_QOS_BW_ALLOC then
       (if is_OB_MCC_QOS_BW_ALLOC ob then ser_mcc_qos_bw_alloc h d (the_mcc_qos_bw_alloc ob) else Inl BadCast)
     else if type = FMOB_MCC_QOS_BW_LIMIT_GET_REQ then
       (if is_OB_MCC_QOS_BW_LIMIT_GET_REQ ob then Inr (ser_mcc_qos_bw_limit_get_req h d (the_mcc_qos_bw_limit_get_req ob)) else Inl BadCast)
     else if type = FMOB_MCC_QOS_BW_LIMIT then
       (if is_OB_MCC_QOS_BW_LIMIT ob then ser_mcc_qos_bw_limit h d (the_mcc_qos_bw_limit ob) else Inl BadCast)
     else Inr (h, 0))"

definition fmapi_serialize ::
    "mem \<Rightarrow> nat option \<Rightarrow> fmapi_obj option \<Rightarrow> nat \<Rightarrow> fault + (mem \<times> int)" where
  "fmapi_serialize h dst src type =
    (if type = FMOB_NULL \<or> type \<ge> FMOB_MAX then Inr (h, 0)
     else
       (case dst of
          None \<Rightarrow> Inl NullDeref
        | Some d \<Rightarrow>
           (case src of
              None \<Rightarrow> Inl NullDeref
            | Some ob \<Rightarrow>
               (case ser_switch h d ob type of
                  Inl e \<Rightarrow> Inl e
                | Inr (h', rv) \<Rightarrow> Inr (h', int rv)))))"

text \<open>
  \<^verbatim>\<open>int fmapi_deserialize(void *dst, __u8 *src, unsigned type, void *param)\<close>. A null
  \<^verbatim>\<open>dst\<close> and \<^verbatim>\<open>type >= FMOB_MAX\<close> return -1; \<^verbatim>\<open>src\<close> is not compared with null. The
  case \<^verbatim>\<open>FMOB_NULL\<close> and the case \<^verbatim>\<open>FMOB_VSC_INFO_BLK\<close> with a null \<^verbatim>\<open>param\<close> return 0
  and touch neither \<^verbatim>\<open>*dst\<close> nor \<^verbatim>\<open>src\<close>; every other case reads \<^verbatim>\<open>src[0]\<close> or a later
  byte. The result is the object behind \<^verbatim>\<open>dst\<close> after the call and the returned
  \<^verbatim>\<open>int\<close>. \<open>deser_switch\<close> is the switch, the cases in the order of the source.
\<close>

definition deser_ret :: "('a \<Rightarrow> fmapi_obj) \<Rightarrow> fault + ('a \<times> nat) \<Rightarrow> fault + (fmapi_obj \<times> nat)" where
  "deser_ret c r = (case r of Inl e \<Rightarrow> Inl e | Inr (x, rv) \<Rightarrow> Inr (c x, rv))"

definition deser_switch ::
    "fmapi_obj \<Rightarrow> mem \<Rightarrow> nat \<Rightarrow> nat \<Rightarrow> fmapi_vsc_info_req option \<Rightarrow> fault + (fmapi_obj \<times> nat)" where
  "deser_switch ob h s type param =
    (if type = FMOB_HDR then
       (if is_OB_HDR ob then deser_ret OB_HDR (Inr (deser_hdr (the_hdr ob) h s)) else Inl BadCast)
     else if type = FMOB_ISC_BOS then
       (if is_OB_ISC_BOS ob then deser_ret OB_ISC_BOS (Inr (deser_isc_bos (the_isc_bos ob) h s)) else Inl BadCast)
     else if type = FMOB_ISC_ID_RSP then
       (if is_OB_ISC_ID_RSP ob then deser_ret OB_ISC_ID_RSP (Inr (deser_isc_id_rsp (the_isc_id_rsp ob) h s)) else Inl BadCast)
     else if type = FMOB_ISC_MSG_LIMIT then
       (if is_OB_ISC_MSG_LIMIT ob then deser_ret OB_ISC_MSG_LIMIT (Inr (deser_isc_msg_limit (the_isc_msg_limit ob) h s)) else Inl BadCast)
     else if type = FMOB_PSC_ID_RSP then
       (if is_OB_PSC_ID_RSP ob then deser_ret OB_PSC_ID_RSP (deser_psc_id_rsp (the_psc_id_rsp ob) h s) else Inl BadCast)
     else if type = FMOB_PSC_PORT_REQ then
       (if is_OB_PSC_PORT_REQ ob then deser_ret OB_PSC_PORT_REQ (deser_psc_port_req (the_psc_port_req ob) h s) else Inl BadCast)
     else if type = FMOB_PSC_PORT_INFO then
       (if is_OB_PSC_PORT_INFO ob then deser_ret OB_PSC_PORT_INFO (Inr (deser_psc_port_info (the_psc_port_info ob) h s)) else Inl BadCast)
     else if type = FMOB_PSC_PORT_RSP then
       (if is_OB_PSC_PORT_RSP ob then deser_ret OB_PSC_PORT_RSP (deser_psc_port_rsp (the_psc_port_rsp ob) h s) else Inl BadCast)
     else if type = FMOB_PSC_PORT_CTRL_REQ then
       (if is_OB_PSC_PORT_CTRL_REQ ob then deser_ret OB_PSC_PORT_CTRL_REQ (Inr (deser_psc_port_ctrl_req (the_psc_port_ctrl_req ob) h s)) else Inl BadCast)
     else if type = FMOB_PSC_CFG_REQ then
       (if is_OB_PSC_CFG_REQ ob then deser_ret OB_PSC_CFG_REQ (deser_psc_cfg_req (the_psc_cfg_req ob) h s) else Inl BadCast)
     else if type = FMOB_PSC_CFG_RSP then
       (if is_OB_PSC_CFG_RSP ob then deser_ret OB_PSC_CFG_RSP (deser_psc_cfg_rsp (the_psc_cfg_rsp ob) h s) else Inl BadCast)
     else if type = FMOB_VSC_INFO_REQ then
       (if is_OB_VSC_INFO_REQ ob then deser_ret OB_VSC_INFO_REQ (deser_vsc_info_req (the_vsc_info_req ob) h s) else Inl BadCast)
     else if type = FMOB_VSC_PPB_STAT_BLK then
       (if is_OB_VSC_PPB_STAT_BLK ob then deser_ret OB_VSC_PPB_STAT_BLK (Inr (deser_vsc_ppb_stat_blk (the_vsc_ppb_stat_blk ob) h s)) else Inl BadCast)
     else if type = FMOB_VSC_INFO_BLK then
       (if is_OB_VSC_INFO_BLK ob then deser_ret OB_VSC_INFO_BLK (deser_vsc_info_blk (the_vsc_info_blk ob) h s param) else Inl BadCast)
     else if type = FMOB_VSC_INFO_RSP then
       (if is_OB_VSC_INFO_RSP ob then deser_ret OB_VSC_INFO_RSP (deser_vsc_info_rsp (the_vsc_info_rsp ob) h s param) else Inl BadCast)
     else if type = FMOB_VSC_BIND_REQ then
       (if is_OB_VSC_BIND_REQ ob then deser_ret OB_VSC_BIND_REQ (Inr (deser_vsc_bind_req (the_vsc_bind_req ob) h s)) else Inl BadCast)
     else if type = FMOB_VSC_UNBIND_REQ then
       (if is_OB_VSC_UNBIND_REQ ob then deser_ret OB_VSC_UNBIND_REQ (Inr (deser_vsc_unbind_req (the_vsc_unbind_req ob) h s)) else Inl BadCast)
     else if type = FMOB_VSC_AER_REQ then
       (if is_OB_VSC_AER_REQ ob then deser_ret OB_VSC_AER_REQ (deser_vsc_aer_req (the_vsc_aer_req ob) h s) else Inl BadCast)
     else if type = FMOB_MPC_TMC_REQ then
       (if is_OB_MPC_TMC_REQ ob then deser_ret OB_MPC_TMC_REQ (deser_mpc_tmc_req (the_mpc_tmc_req ob) h s) else Inl BadCast)
     else if type = FMOB_MPC_TMC_RSP then
       (if is_OB_MPC_TMC_RSP ob then deser_ret OB_MPC_TMC_RSP (deser_mpc_tmc_rsp (the_mpc_tmc_rsp ob) h s) else Inl BadCast)
     else if type = FMOB_MPC_CFG_REQ then
       (if is_OB_MPC_CFG_REQ ob then deser_ret OB_MPC_CFG_REQ (deser_mpc_cfg_req (the_mpc_cfg_req ob) h s) else Inl BadCast)
     else if type = FMOB_MPC_CFG_RSP then
       (if is_OB_MPC_CFG_RSP ob then deser_ret OB_MPC_CFG_RSP (deser_mpc_cfg_rsp (the_mpc_cfg_rsp ob) h s) else Inl BadCast)
     else if type = FMOB_MPC_MEM_REQ then
       (if is_OB_MPC_MEM_REQ ob then deser_ret OB_MPC_MEM_REQ (deser_mpc_mem_req (the_mpc_mem_req ob) h s) else Inl BadCast)
     else if type = FMOB_MPC_MEM_RSP then
       (if is_OB_MPC_MEM_RSP ob then deser_ret OB_MPC_MEM_RSP (deser_mpc_mem_rsp (the_mpc_mem_rsp ob) h s) else Inl BadCast)
     else if type = FMOB_MCC_INFO_RSP then
       (if is_OB_MCC_INFO_RSP ob then deser_ret OB_MCC_INFO_RSP (Inr (deser_mcc_info_rsp (the_mcc_info_rsp ob) h s)) else Inl BadCast)
     else if type = FMOB_MCC_ALLOC_BLK then
       (if is_OB_MCC_ALLOC_BLK ob then deser_ret OB_MCC_ALLOC_BLK (Inr (deser_mcc_alloc_blk (the_mcc_alloc_blk ob) h s)) else Inl BadCast)
     else if type = FMOB_MCC_ALLOC_GET_REQ then
       (if is_OB_MCC_ALLOC_GET_REQ ob then deser_ret OB_MCC_ALLOC_GET_REQ (Inr (deser_mcc_alloc_get_req (the_mcc_alloc_get_req ob) h s)) else Inl BadCast)
     else if type = FMOB_MCC_ALLOC_GET_RSP then
       (if is_OB_MCC_ALLOC_GET_RSP ob then deser_ret OB_MCC_ALLOC_GET_RSP (deser_mcc_alloc_get_rsp (the_mcc_alloc_get_rsp ob) h s) else Inl BadCast)
     else if type = FMOB_MCC_ALLOC_SET_REQ then
       (if is_OB_MCC_ALLOC_SET_REQ ob then deser_ret OB_MCC_ALLOC_SET_REQ (deser_mcc_alloc_set_req (the_mcc_alloc_set_req ob) h s) else Inl BadCast)
     else if type = FMOB_MCC_ALLOC_SET_RSP then
       (if is_OB_MCC_ALLOC_SET_RSP ob then deser_ret OB_MCC_ALLOC_SET_RSP (deser_mcc_alloc_set_rsp (the_mcc_alloc_set_rsp ob) h s) else Inl BadCast)
     else if type = FMOB_MCC_QOS_CTRL then
       (if is_OB_MCC_QOS_CTRL ob then deser_ret OB_MCC_QOS_CTRL (Inr (deser_mcc_qos_ctrl (the_mcc_qos_ctrl ob) h s)) else Inl BadCast)
     else if type = FMOB_MCC_QOS_STAT_RSP then
       (if is_OB_MCC_QOS_STAT_RSP ob then deser_ret OB_MCC_QOS_STAT_RSP (Inr (deser_mcc_qos_stat_rsp (the_mcc_qos_stat_rsp ob) h s)) else Inl BadCast)
     else if type = FMOB_MCC_QOS_BW_GET_REQ then
       (if is_OB_MCC_QOS_BW_GET_REQ ob then deser_ret OB_MCC_QOS_BW_GET_REQ (Inr (deser_mcc_qos_bw_get_req (the_mcc_qos_bw_get_req ob) h s)) else Inl BadCast)
     else if type = FMOB_MCC_QOS_BW_ALLOC then
       (if is_OB_MCC_QOS_BW_ALLOC ob then deser_ret OB_MCC_QOS_BW_ALLOC (deser_mcc_qos_bw_alloc (the_mcc_qos_bw_alloc ob) h s) else Inl BadCast)
     else if type = FMOB_MCC_QOS_BW_LIMIT_GET_REQ then
       (if is_OB_MCC_QOS_BW_LIMIT_GET_REQ ob then deser_ret OB_MCC_QOS_BW_LIMIT_GET_REQ (Inr (deser_mcc_qos_bw_limit_get_req (the_mcc_qos_bw_limit_get_req ob) h s)) else Inl BadCast)
     else if type = FMOB_MCC_QOS_BW_LIMIT then
       (if is_OB_MCC_QOS_BW_LIMIT ob then deser_ret OB_MCC_QOS_BW_LIMIT (deser_mcc_qos_bw_limit (the_mcc_qos_bw_limit ob) h s) else Inl BadCast)
     else Inr (ob, 0))"

definition fmapi_deserialize ::
    "fmapi_obj option \<Rightarrow> mem \<Rightarrow> nat option \<Rightarrow> nat \<Rightarrow> fmapi_vsc_info_req option
      \<Rightarrow> fault + (fmapi_obj option \<times> int)" where
  "fmapi_deserialize dst h src type param =
    (case dst of
       None \<Rightarrow> Inr (None, - 1)
     | Some ob \<Rightarrow>
        if type \<ge> FMOB_MAX then Inr (Some ob, - 1)
        else if type = FMOB_NULL then Inr (Some ob, 0)
        else if type = FMOB_VSC_INFO_BLK \<and> param = None then Inr (Some ob, 0)
        else
          (case src of
             None \<Rightarrow> Inl NullDeref
           | Some s \<Rightarrow>
              (case deser_switch ob h s type param of
                 Inl e \<Rightarrow> Inl e
               | Inr (ob', rv) \<Rightarrow> Inr (Some ob', int rv))))"

section \<open>Kinds, declared shapes and logical content of objects\<close>

text \<open>The kind that the callers pass with an object of each struct.\<close>

fun kind_of :: "fmapi_obj \<Rightarrow> nat" where
  "kind_of (OB_HDR x) = FMOB_HDR"
| "kind_of (OB_PSC_ID_RSP x) = FMOB_PSC_ID_RSP"
| "kind_of (OB_PSC_PORT_REQ x) = FMOB_PSC_PORT_REQ"
| "kind_of (OB_PSC_PORT_INFO x) = FMOB_PSC_PORT_INFO"
| "kind_of (OB_PSC_PORT_RSP x) = FMOB_PSC_PORT_RSP"
| "kind_of (OB_PSC_PORT_CTRL_REQ x) = FMOB_PSC_PORT_CTRL_REQ"
| "kind_of (OB_PSC_CFG_REQ x) = FMOB_PSC_CFG_REQ"
| "kind_of (OB_PSC_CFG_RSP x) = FMOB_PSC_CFG_RSP"
| "kind_of (OB_VSC_INFO_REQ x) = FMOB_VSC_INFO_REQ"
| "kind_of (OB_VSC_PPB_STAT_BLK x) = FMOB_VSC_PPB_STAT_BLK"
| "kind_of (OB_VSC_INFO_BLK x) = FMOB_VSC_INFO_BLK"
| "kind_of (OB_VSC_INFO_RSP x) = FMOB_VSC_INFO_RSP"
| "kind_of (OB_VSC_BIND_REQ x) = FMOB_VSC_BIND_REQ"
| "kind_of (OB_VSC_UNBIND_REQ x) = FMOB_VSC_UNBIND_REQ"
| "kind_of (OB_VSC_AER_REQ x) = FMOB_VSC_AER_REQ"
| "kind_of (OB_MPC_TMC_REQ x) = FMOB_MPC_TMC_REQ"
| "kind_of (OB_MPC_TMC_RSP x) = FMOB_MPC_TMC_RSP"
| "kind_of (OB_MPC_CFG_REQ x) = FMOB_MPC_CFG_REQ"
| "kind_of (OB_MPC_CFG_RSP x) = FMOB_MPC_CFG_RSP"
| "kind_of (OB_MPC_MEM_REQ x) = FMOB_MPC_MEM_REQ"
| "kind_of (OB_MPC_MEM_RSP x) = FMOB_MPC_MEM_RSP"
| "kind_of (OB_MCC_INFO_RSP x) = FMOB_MCC_INFO_RSP"
| "kind_of (OB_MCC_ALLOC_BLK x) = FMOB_MCC_ALLOC_BLK"
| "kind_of (OB_MCC_ALLOC_GET_REQ x) = FMOB_MCC_ALLOC_GET_REQ"
| "kind_of (OB_MCC_ALLOC_GET_RSP x) = FMOB_MCC_ALLOC_GET_RSP"
| "kind_of (OB_MCC_ALLOC_SET_REQ x) = FMOB_MCC_ALLOC_SET_REQ"
| "kind_of (OB_MCC_ALLOC_SET_RSP x) = FMOB_MCC_ALLOC_SET_RSP"
| "kind_of (OB_MCC_QOS_CTRL x) = FMOB_MCC_QOS_CTRL"
| "kind_of (OB_MCC_QOS_STAT_RSP x) = FMOB_MCC_QOS_STAT_RSP"
| "kind_of (OB_MCC_QOS_BW_GET_REQ x) = FMOB_MCC_QOS_BW_GET_REQ"
| "kind_of (OB_MCC_QOS_BW_ALLOC x) = FMOB_MCC_QOS_BW_ALLOC"
| "kind_of (OB_MCC_QOS_BW_LIMIT_GET_REQ x) = FMOB_MCC_QOS_BW_LIMIT_GET_REQ"
| "kind_of (OB_MCC_QOS_BW_LIMIT x) = FMOB_MCC_QOS_BW_LIMIT"
| "kind_of (OB_ISC_ID_RSP x) = FMOB_ISC_ID_RSP"
| "kind_of (OB_ISC_MSG_LIMIT x) = FMOB_ISC_MSG_LIMIT"
| "kind_of (OB_ISC_BOS x) = FMOB_ISC_BOS"

text \<open>
  \<open>shaped\<close>: every array of the object has its declared length (the object is a
  value of its struct type). It is what a destination of \<^verbatim>\<open>fmapi_deserialize\<close> has to be.
\<close>

definition shaped_vsc_info_blk :: "fmapi_vsc_info_blk \<Rightarrow> bool" where
  "shaped_vsc_info_blk b = (length (vib_list b) = FM_MAX_VPPBS)"

fun shaped :: "fmapi_obj \<Rightarrow> bool" where
  "shaped (OB_PSC_ID_RSP x) =
     (length (pid_active_ports x) = FM_MAX_PORTS div 8 \<and> length (pid_active_vcss x) = FM_MAX_VCS div 8)"
| "shaped (OB_PSC_PORT_REQ x) = (length (ppr_ports x) = FM_MAX_PORTS)"
| "shaped (OB_PSC_PORT_RSP x) = (length (prs_list x) = FM_MAX_PORTS)"
| "shaped (OB_PSC_CFG_REQ x) = (length (pcf_data x) = 4)"
| "shaped (OB_PSC_CFG_RSP x) = (length (pcs_data x) = 4)"
| "shaped (OB_VSC_INFO_REQ x) = (length (vir_vcss x) = FM_MAX_VCS)"
| "shaped (OB_VSC_INFO_BLK x) = shaped_vsc_info_blk x"
| "shaped (OB_VSC_INFO_RSP x) =
     (length (vis_list x) = FM_MAX_VCS_PER_RSP \<and> list_all shaped_vsc_info_blk (vis_list x))"
| "shaped (OB_VSC_AER_REQ x) = (length (var_header x) = FM_TLP_HEADER)"
| "shaped (OB_MPC_TMC_REQ x) = (length (tmq_msg x) = FMLN_MPC_TUNNEL_PAYLOAD)"
| "shaped (OB_MPC_TMC_RSP x) = (length (tms_msg x) = FMLN_MPC_TUNNEL_PAYLOAD)"
| "shaped (OB_MPC_CFG_REQ x) = (length (mcq_data x) = 4)"
| "shaped (OB_MPC_CFG_RSP x) = (length (mcs_data x) = 4)"
| "shaped (OB_MPC_MEM_REQ x) = (length (mmq_data x) = FM_LD_MEM_REQ_LEN)"
| "shaped (OB_MPC_MEM_RSP x) = (length (mms_data x) = FM_LD_MEM_REQ_LEN)"
| "shaped (OB_MCC_ALLOC_GET_RSP x) = (length (ags_list x) = FM_MAX_NUM_LD)"
| "shaped (OB_MCC_ALLOC_SET_REQ x) = (length (asq_list x) = FM_MAX_NUM_LD)"
| "shaped (OB_MCC_ALLOC_SET_RSP x) = (length (ass_list x) = FM_MAX_NUM_LD)"
| "shaped (OB_MCC_QOS_BW_ALLOC x) = (length (qba_list x) = FM_MAX_NUM_LD)"
| "shaped (OB_MCC_QOS_BW_LIMIT x) = (length (qbl_list x) = FM_MAX_NUM_LD)"
| "shaped _ = True"

text \<open>
  \<open>in_widths\<close>: every field fits the bits that the wire layout gives it, and every
  count is within the capacity of its array. The bit-fields fit by their type; the
  conditions are on the \<^verbatim>\<open>__u8\<close> fields that the wire packs into one or seven bits
  and on the counts of the arrays shorter than the range of their count.
\<close>

definition in_widths_psc_port_info :: "fmapi_psc_port_info \<Rightarrow> bool" where
  "in_widths_psc_port_info x =
     (pi_lane_rev x \<le> 1 \<and> pi_perst x \<le> 1 \<and> pi_prsnt x \<le> 1 \<and> pi_pwrctrl x \<le> 1)"

fun in_widths :: "fmapi_obj \<Rightarrow> bool" where
  "in_widths (OB_ISC_BOS x) = (bos_running x \<le> 1 \<and> bos_pcnt x \<le> 0x7F)"
| "in_widths (OB_PSC_PORT_INFO x) = in_widths_psc_port_info x"
| "in_widths (OB_PSC_PORT_RSP x) =
     list_all in_widths_psc_port_info (take (unat (prs_num x)) (prs_list x))"
| "in_widths (OB_VSC_INFO_RSP x) = (unat (vis_num x) \<le> FM_MAX_VCS_PER_RSP)"
| "in_widths (OB_MPC_TMC_REQ x) = (unat (tmq_len x) \<le> FMLN_MPC_TUNNEL_PAYLOAD)"
| "in_widths (OB_MPC_TMC_RSP x) = (unat (tms_len x) \<le> FMLN_MPC_TUNNEL_PAYLOAD)"
| "in_widths (OB_MPC_MEM_REQ x) = (unat (mmq_len x) \<le> FM_LD_MEM_REQ_LEN)"
| "in_widths (OB_MPC_MEM_RSP x) = (unat (mms_len x) \<le> FM_LD_MEM_REQ_LEN)"
| "in_widths (OB_MCC_INFO_RSP x) = (mir_epc x \<le> 1 \<and> mir_ttr x \<le> 1)"
| "in_widths (OB_MCC_ALLOC_GET_RSP x) = (unat (ags_num x) \<le> FM_MAX_NUM_LD)"
| "in_widths (OB_MCC_ALLOC_SET_REQ x) = (unat (asq_num x) \<le> FM_MAX_NUM_LD)"
| "in_widths (OB_MCC_ALLOC_SET_RSP x) = (unat (ass_num x) \<le> FM_MAX_NUM_LD)"
| "in_widths (OB_MCC_QOS_CTRL x) = (qc_epc_en x \<le> 1 \<and> qc_ttr_en x \<le> 1)"
| "in_widths (OB_MCC_QOS_BW_ALLOC x) = (unat (qba_num x) \<le> FM_MAX_NUM_LD)"
| "in_widths (OB_MCC_QOS_BW_LIMIT x) = (unat (qbl_num x) \<le> FM_MAX_NUM_LD)"
| "in_widths _ = True"

definition wf_obj :: "fmapi_obj \<Rightarrow> bool" where
  "wf_obj x = (shaped x \<and> in_widths x)"

text \<open>
  \<open>ctx_ok param x\<close>: \<open>param\<close> is a request whose clamp
  \<open>min (limit, total - start)\<close> is the stored number of entries of \<open>x\<close>, for a block of
  a virtual switch and for each block of a response; it holds of every other object.
\<close>

definition ctx_ok_blk :: "fmapi_vsc_info_req option \<Rightarrow> fmapi_vsc_info_blk \<Rightarrow> bool" where
  "ctx_ok_blk param b =
     (case param of
        None \<Rightarrow> False
      | Some r \<Rightarrow>
          int (unat (vib_num b)) =
            min (int (unat (vir_vppbid_limit r)))
                (int (unat (vib_total b)) - int (unat (vir_vppbid_start r))))"

fun ctx_ok :: "fmapi_vsc_info_req option \<Rightarrow> fmapi_obj \<Rightarrow> bool" where
  "ctx_ok param (OB_VSC_INFO_BLK b) = ctx_ok_blk param b"
| "ctx_ok param (OB_VSC_INFO_RSP x) =
     list_all (ctx_ok_blk param) (take (unat (vis_num x)) (vis_list x))"
| "ctx_ok param _ = True"

text \<open>
  \<open>logical\<close>: the content of an object, that is the object with each counted array
  cut to the entries that its count covers. Two objects with the same logical content
  differ in unused array entries only.
\<close>

definition logical_vsc_info_blk :: "fmapi_vsc_info_blk \<Rightarrow> fmapi_vsc_info_blk" where
  "logical_vsc_info_blk b = b\<lparr> vib_list := take (unat (vib_num b)) (vib_list b) \<rparr>"

fun logical :: "fmapi_obj \<Rightarrow> fmapi_obj" where
  "logical (OB_PSC_PORT_REQ x) =
     OB_PSC_PORT_REQ (x\<lparr> ppr_ports := take (unat (ppr_num x)) (ppr_ports x) \<rparr>)"
| "logical (OB_PSC_PORT_RSP x) =
     OB_PSC_PORT_RSP (x\<lparr> prs_list := take (unat (prs_num x)) (prs_list x) \<rparr>)"
| "logical (OB_VSC_INFO_REQ x) =
     OB_VSC_INFO_REQ (x\<lparr> vir_vcss := take (unat (vir_num x)) (vir_vcss x) \<rparr>)"
| "logical (OB_VSC_INFO_BLK x) = OB_VSC_INFO_BLK (logical_vsc_info_blk x)"
| "logical (OB_VSC_INFO_RSP x) =
     OB_VSC_INFO_RSP
       (x\<lparr> vis_list := map logical_vsc_info_blk (take (unat (vis_num x)) (vis_list x)) \<rparr>)"
| "logical (OB_MPC_TMC_REQ x) =
     OB_MPC_TMC_REQ (x\<lparr> tmq_msg := take (unat (tmq_len x)) (tmq_msg x) \<rparr>)"
| "logical (OB_MPC_TMC_RSP x) =
     OB_MPC_TMC_RSP (x\<lparr> tms_msg := take (unat (tms_len x)) (tms_msg x) \<rparr>)"
| "logical (OB_MPC_MEM_REQ x) =
     OB_MPC_MEM_REQ (x\<lparr> mmq_data := take (unat (mmq_len x)) (mmq_data x) \<rparr>)"
| "logical (OB_MPC_MEM_RSP x) =
     OB_MPC_MEM_RSP (x\<lparr> mms_data := take (unat (mms_len x)) (mms_data x) \<rparr>)"
| "logical (OB_MCC_ALLOC_GET_RSP x) =
     OB_MCC_ALLOC_GET_RSP (x\<lparr> ags_list := take (unat (ags_num x)) (ags_list x) \<rparr>)"
| "logical (OB_MCC_ALLOC_SET_REQ x) =
     OB_MCC_ALLOC_SET_REQ (x\<lparr> asq_list := take (unat (asq_num x)) (asq_list x) \<rparr>)"
| "logical (OB_MCC_ALLOC_SET_RSP x) =
     OB_MCC_ALLOC_SET_RSP (x\<lparr> ass_list := take (unat (ass_num x)) (ass_list x) \<rparr>)"
| "logical (OB_MCC_QOS_BW_ALLOC x) =
     OB_MCC_QOS_BW_ALLOC (x\<lparr> qba_list := take (unat (qba_num x)) (qba_list x) \<rparr>)"
| "logical (OB_MCC_QOS_BW_LIMIT x) =
     OB_MCC_QOS_BW_LIMIT (x\<lparr> qbl_list := take (unat (qbl_num x)) (qbl_list x) \<rparr>)"
| "logical x = x"

text \<open>
  \<open>written_over x y\<close>: the object \<open>x\<close> decoded into the destination \<open>y\<close>, as the wire
  carries it: every field of \<open>x\<close> and, in each counted array, the entries of \<open>x\<close> that
  its count covers followed by the entries of \<open>y\<close> beyond that count. The destination is
  read as the struct of \<open>x\<close>, which is the cast of the source. A block inside the count
  of a response is written over the block of the destination at the same index.
  \<open>agree_beyond x y\<close>: the destination \<open>y\<close> holds the entries of \<open>x\<close> beyond the counts
  of \<open>x\<close>, as two objects do that were both cleared before \<open>x\<close> was filled.
\<close>

definition written_over_vsc_info_blk ::
    "fmapi_vsc_info_blk \<Rightarrow> fmapi_vsc_info_blk \<Rightarrow> fmapi_vsc_info_blk" where
  "written_over_vsc_info_blk x y =
     x\<lparr> vib_list := take (unat (vib_num x)) (vib_list x) @ drop (unat (vib_num x)) (vib_list y) \<rparr>"

fun written_over :: "fmapi_obj \<Rightarrow> fmapi_obj \<Rightarrow> fmapi_obj" where
  "written_over (OB_PSC_PORT_REQ x) y =
     OB_PSC_PORT_REQ (x\<lparr> ppr_ports := take (unat (ppr_num x)) (ppr_ports x)
                          @ drop (unat (ppr_num x)) (ppr_ports (the_psc_port_req y)) \<rparr>)"
| "written_over (OB_PSC_PORT_RSP x) y =
     OB_PSC_PORT_RSP (x\<lparr> prs_list := take (unat (prs_num x)) (prs_list x)
                          @ drop (unat (prs_num x)) (prs_list (the_psc_port_rsp y)) \<rparr>)"
| "written_over (OB_VSC_INFO_REQ x) y =
     OB_VSC_INFO_REQ (x\<lparr> vir_vcss := take (unat (vir_num x)) (vir_vcss x)
                          @ drop (unat (vir_num x)) (vir_vcss (the_vsc_info_req y)) \<rparr>)"
| "written_over (OB_VSC_INFO_BLK x) y =
     OB_VSC_INFO_BLK (written_over_vsc_info_blk x (the_vsc_info_blk y))"
| "written_over (OB_VSC_INFO_RSP x) y =
     OB_VSC_INFO_RSP
       (x\<lparr> vis_list := map2 written_over_vsc_info_blk (take (unat (vis_num x)) (vis_list x))
                                (take (unat (vis_num x)) (vis_list (the_vsc_info_rsp y)))
                        @ drop (unat (vis_num x)) (vis_list (the_vsc_info_rsp y)) \<rparr>)"
| "written_over (OB_MPC_TMC_REQ x) y =
     OB_MPC_TMC_REQ (x\<lparr> tmq_msg := take (unat (tmq_len x)) (tmq_msg x)
                          @ drop (unat (tmq_len x)) (tmq_msg (the_mpc_tmc_req y)) \<rparr>)"
| "written_over (OB_MPC_TMC_RSP x) y =
     OB_MPC_TMC_RSP (x\<lparr> tms_msg := take (unat (tms_len x)) (tms_msg x)
                          @ drop (unat (tms_len x)) (tms_msg (the_mpc_tmc_rsp y)) \<rparr>)"
| "written_over (OB_MPC_MEM_REQ x) y =
     OB_MPC_MEM_REQ (x\<lparr> mmq_data := take (unat (mmq_len x)) (mmq_data x)
                          @ drop (unat (mmq_len x)) (mmq_data (the_mpc_mem_req y)) \<rparr>)"
| "written_over (OB_MPC_MEM_RSP x) y =
     OB_MPC_MEM_RSP (x\<lparr> mms_data := take (unat (mms_len x)) (mms_data x)
                          @ drop (unat (mms_len x)) (mms_data (the_mpc_mem_rsp y)) \<rparr>)"
| "written_over (OB_MCC_ALLOC_GET_RSP x) y =
     OB_MCC_ALLOC_GET_RSP (x\<lparr> ags_list := take (unat (ags_num x)) (ags_list x)
                          @ drop (unat (ags_num x)) (ags_list (the_mcc_alloc_get_rsp y)) \<rparr>)"
| "written_over (OB_MCC_ALLOC_SET_REQ x) y =
     OB_MCC_ALLOC_SET_REQ (x\<lparr> asq_list := take (unat (asq_num x)) (asq_list x)
                          @ drop (unat (asq_num x)) (asq_list (the_mcc_alloc_set_req y)) \<rparr>)"
| "written_over (OB_MCC_ALLOC_SET_RSP x) y =
     OB_MCC_ALLOC_SET_RSP (x\<lparr> ass_list := take (unat (ass_num x)) (ass_list x)
                          @ drop (unat (ass_num x)) (ass_list (the_mcc_alloc_set_rsp y)) \<rparr>)"
| "written_over (OB_MCC_QOS_BW_ALLOC x) y =
     OB_MCC_QOS_BW_ALLOC (x\<lparr> qba_list := take (unat (qba_num x)) (qba_list x)
                          @ drop (unat (qba_num x)) (qba_list (the_mcc_qos_bw_alloc y)) \<rparr>)"
| "written_over (OB_MCC_QOS_BW_LIMIT x) y =
     OB_MCC_QOS_BW_LIMIT (x\<lparr> qbl_list := take (unat (qbl_num x)) (qbl_list x)
                          @ drop (unat (qbl_num x)) (qbl_list (the_mcc_qos_bw_limit y)) \<rparr>)"
| "written_over x y = x"

definition agree_beyond_vsc_info_blk :: "fmapi_vsc_info_blk \<Rightarrow> fmapi_vsc_info_blk \<Rightarrow> bool" where
  "agree_beyond_vsc_info_blk x y =
     (drop (unat (vib_num x)) (vib_list y) = drop (unat (vib_num x)) (vib_list x))"

fun agree_beyond :: "fmapi_obj \<Rightarrow> fmapi_obj \<Rightarrow> bool" where
  "agree_beyond (OB_PSC_PORT_REQ x) y =
     (drop (unat (ppr_num x)) (ppr_ports (the_psc_port_req y)) = drop (unat (ppr_num x)) (ppr_ports x))"
| "agree_beyond (OB_PSC_PORT_RSP x) y =
     (drop (unat (prs_num x)) (prs_list (the_psc_port_rsp y)) = drop (unat (prs_num x)) (prs_list x))"
| "agree_beyond (OB_VSC_INFO_REQ x) y =
     (drop (unat (vir_num x)) (vir_vcss (the_vsc_info_req y)) = drop (unat (vir_num x)) (vir_vcss x))"
| "agree_beyond (OB_VSC_INFO_BLK x) y = agree_beyond_vsc_info_blk x (the_vsc_info_blk y)"
| "agree_beyond (OB_VSC_INFO_RSP x) y =
     (drop (unat (vis_num x)) (vis_list (the_vsc_info_rsp y)) = drop (unat (vis_num x)) (vis_list x)
      \<and> list_all2 agree_beyond_vsc_info_blk (take (unat (vis_num x)) (vis_list x))
            (take (unat (vis_num x)) (vis_list (the_vsc_info_rsp y))))"
| "agree_beyond (OB_MPC_TMC_REQ x) y =
     (drop (unat (tmq_len x)) (tmq_msg (the_mpc_tmc_req y)) = drop (unat (tmq_len x)) (tmq_msg x))"
| "agree_beyond (OB_MPC_TMC_RSP x) y =
     (drop (unat (tms_len x)) (tms_msg (the_mpc_tmc_rsp y)) = drop (unat (tms_len x)) (tms_msg x))"
| "agree_beyond (OB_MPC_MEM_REQ x) y =
     (drop (unat (mmq_len x)) (mmq_data (the_mpc_mem_req y)) = drop (unat (mmq_len x)) (mmq_data x))"
| "agree_beyond (OB_MPC_MEM_RSP x) y =
     (drop (unat (mms_len x)) (mms_data (the_mpc_mem_rsp y)) = drop (unat (mms_len x)) (mms_data x))"
| "agree_beyond (OB_MCC_ALLOC_GET_RSP x) y =
     (drop (unat (ags_num x)) (ags_list (the_mcc_alloc_get_rsp y)) = drop (unat (ags_num x)) (ags_list x))"
| "agree_beyond (OB_MCC_ALLOC_SET_REQ x) y =
     (drop (unat (asq_num x)) (asq_list (the_mcc_alloc_set_req y)) = drop (unat (asq_num x)) (asq_list x))"
| "agree_beyond (OB_MCC_ALLOC_SET_RSP x) y =
     (drop (unat (ass_num x)) (ass_list (the_mcc_alloc_set_rsp y)) = drop (unat (ass_num x)) (ass_list x))"
| "agree_beyond (OB_MCC_QOS_BW_ALLOC x) y =
     (drop (unat (qba_num x)) (qba_list (the_mcc_qos_bw_alloc y)) = drop (unat (qba_num x)) (qba_list x))"
| "agree_beyond (OB_MCC_QOS_BW_LIMIT x) y =
     (drop (unat (qbl_num x)) (qbl_list (the_mcc_qos_bw_limit y)) = drop (unat (qbl_num x)) (qbl_list x))"
| "agree_beyond x y = True"

section \<open>The message builders\<close>

text \<open>
  \<^verbatim>\<open>struct fmapi_msg\<close>: the header, the pointer \<^verbatim>\<open>buf\<close> and the union \<^verbatim>\<open>obj\<close> of the
  payload structs. The union is the tagged object. A builder assigns fields of one
  member; the fields that it does not assign keep their value when the union already
  held that member. When it held another member they keep the bytes of that member,
  read as the fields of this one. What those bytes are depends on the layout of the
  structs in memory, so they are the argument \<open>raw\<close> of \<open>union_*\<close> and of the builders
  that leave fields unassigned: any value of the struct of this member.

  \<^verbatim>\<open>buf\<close> points to a \<^verbatim>\<open>struct fmapi_buf\<close>: nowhere (\<open>Buf_null\<close>), to a buffer at an
  address of the memory (\<open>Buf_at\<close>), or, after \<^verbatim>\<open>fmapi_fill_mpc_tmc\<close>, to the array
  \<^verbatim>\<open>obj.mpc_tmc_req.msg\<close> of the outer message given to that call (\<open>Buf_tunnel_msg\<close>);
  computed from a null outer message it points to no object (\<open>Buf_wild\<close>).
\<close>

datatype buf_ptr = Buf_null | Buf_at nat | Buf_tunnel_msg | Buf_wild

record fmapi_msg =
  msg_hdr :: fmapi_hdr
  msg_buf :: buf_ptr
  msg_obj :: fmapi_obj

definition hdr_zero :: fmapi_hdr where
  "hdr_zero = \<lparr> hdr_category = 0, hdr_tag = 0, hdr_opcode = 0, hdr_background = 0,
                hdr_len = 0, hdr_return_code = 0, hdr_ext_status = 0 \<rparr>"

definition union_psc_port_req :: "fmapi_psc_port_req \<Rightarrow> fmapi_obj \<Rightarrow> fmapi_psc_port_req" where
  "union_psc_port_req raw ob = (if is_OB_PSC_PORT_REQ ob then the_psc_port_req ob else raw)"

definition union_mpc_tmc_req :: "fmapi_mpc_tmc_req \<Rightarrow> fmapi_obj \<Rightarrow> fmapi_mpc_tmc_req" where
  "union_mpc_tmc_req raw ob = (if is_OB_MPC_TMC_REQ ob then the_mpc_tmc_req ob else raw)"

text \<open>\<^verbatim>\<open>fmapi_fill_hdr\<close>: returns 0 for a null header, \<^verbatim>\<open>FMLN_HDR + len\<close> otherwise.\<close>

definition fmapi_fill_hdr ::
    "fmapi_hdr option \<Rightarrow> u8 \<Rightarrow> u8 \<Rightarrow> u16 \<Rightarrow> u8 \<Rightarrow> u32 \<Rightarrow> u16 \<Rightarrow> u16 \<Rightarrow> u32 \<times> fmapi_hdr option" where
  "fmapi_fill_hdr fh category tag opcode background len return_code ext_status =
    (case fh of
       None \<Rightarrow> (0, None)
     | Some fhd \<Rightarrow>
         (of_nat FMLN_HDR + len,
          Some (fhd\<lparr> hdr_category := ucast category,
                    hdr_tag := tag,
                    hdr_opcode := opcode,
                    hdr_len := ucast len,
                    hdr_background := ucast background,
                    hdr_return_code := return_code,
                    hdr_ext_status := ext_status \<rparr>)))"

text \<open>
  \<^verbatim>\<open>fmapi_fill_vsc_bind(m, vcsid, vppbid, ppid, ldid)\<close>: the null check comes first, then
  the header is cleared, the opcode set and the four \<^verbatim>\<open>int\<close> arguments stored into the
  fields, which truncates them.
\<close>

definition fmapi_fill_vsc_bind ::
    "fmapi_msg option \<Rightarrow> u32 \<Rightarrow> u32 \<Rightarrow> u32 \<Rightarrow> u32 \<Rightarrow> int \<times> fmapi_msg option" where
  "fmapi_fill_vsc_bind m vcsid vppbid ppid ldid =
    (case m of
       None \<Rightarrow> (1, None)
     | Some mm \<Rightarrow>
         (0, Some (mm\<lparr> msg_hdr := hdr_zero\<lparr> hdr_opcode := of_nat FMOP_VSC_BIND \<rparr>,
                       msg_obj := OB_VSC_BIND_REQ
                         \<lparr> vbr_vcsid = ucast vcsid, vbr_vppbid = ucast vppbid,
                           vbr_ppid = ucast ppid, vbr_ldid = ucast ldid \<rparr> \<rparr>)))"

text \<open>
  \<^verbatim>\<open>fmapi_fill_psc_get_all_ports(m)\<close>. \<open>fill_ports ps i k\<close> is the loop
  \<^verbatim>\<open>for (i = 0; i < 255; i++) ports[i] = i\<close> with \<open>k\<close> iterations left.
\<close>

fun fill_ports :: "u8 list \<Rightarrow> nat \<Rightarrow> nat \<Rightarrow> u8 list" where
  "fill_ports ps i 0 = ps"
| "fill_ports ps i (Suc k) = fill_ports (ps[i := of_nat i]) (Suc i) k"

definition fmapi_fill_psc_get_all_ports ::
    "fmapi_psc_port_req \<Rightarrow> fmapi_msg option \<Rightarrow> fault + (int \<times> fmapi_msg option)" where
  "fmapi_fill_psc_get_all_ports raw m =
    (case m of
       None \<Rightarrow> Inr (1, None)
     | Some mm \<Rightarrow>
         (let req = union_psc_port_req raw (msg_obj mm)
          in if length (ppr_ports req) < 255 then Inl OutOfBounds
             else Inr (0, Some (mm\<lparr> msg_hdr := hdr_zero\<lparr> hdr_opcode := of_nat FMOP_PSC_PORT \<rparr>,
                                     msg_obj := OB_PSC_PORT_REQ
                                       (req\<lparr> ppr_num := 255,
                                              ppr_ports := fill_ports (ppr_ports req) 0 255 \<rparr>) \<rparr>))))"

text \<open>
  \<^verbatim>\<open>fmapi_fill_mpc_tmc(m, ppid, type, sub)\<close>. The first statement stores into
  \<^verbatim>\<open>sub->buf\<close> the address of \<^verbatim>\<open>m->obj.mpc_tmc_req.msg\<close>; the null check of \<^verbatim>\<open>m\<close> follows
  it, and \<^verbatim>\<open>sub\<close> is never compared with null. Then the payload of \<^verbatim>\<open>sub\<close> is encoded
  at offset 12 of that array (\<^verbatim>\<open>sub->buf->payload\<close>), the header of \<^verbatim>\<open>sub\<close> is filled
  with the length of the payload and encoded at offset 0 (\<^verbatim>\<open>sub->buf->hdr\<close>), and the
  fields of the tunnel request and the opcode of \<^verbatim>\<open>m\<close> are set. \<open>tmc_encode_sub\<close> is
  the encoding into the array: it reads and writes the array through the memory that
  holds its bytes from address 0 on, and a payload that passes the end of the array
  is the fault \<open>OutOfBounds\<close> (the header takes the first 12 bytes).
\<close>

definition mem_of_list :: "u8 list \<Rightarrow> mem" where
  "mem_of_list xs = (\<lambda>a. if a < length xs then xs ! a else 0)"

definition tmc_encode_sub :: "u8 list \<Rightarrow> fmapi_msg \<Rightarrow> fault + (u8 list \<times> fmapi_hdr \<times> u32)" where
  "tmc_encode_sub msg sb =
    (case fmapi_serialize (mem_of_list msg) (Some FMLN_HDR) (Some (msg_obj sb))
            (fmapi_fmob_req (unat (hdr_opcode (msg_hdr sb)))) of
       Inl e \<Rightarrow> Inl e
     | Inr (h1, len) \<Rightarrow>
         if length msg < FMLN_HDR + nat len then Inl OutOfBounds
         else
           (case fmapi_fill_hdr (Some (msg_hdr sb)) (of_nat FMMT_REQ) 0
                   (hdr_opcode (msg_hdr sb)) 0 (of_int len) 0 0 of
              (ret, None) \<Rightarrow> Inl NullDeref
            | (ret, Some fhd) \<Rightarrow>
                (case fmapi_serialize h1 (Some 0) (Some (OB_HDR fhd)) FMOB_HDR of
                   Inl e \<Rightarrow> Inl e
                 | Inr (h2, n) \<Rightarrow> Inr (mem_get h2 0 (length msg), fhd, ret))))"

definition fmapi_fill_mpc_tmc ::
    "fmapi_mpc_tmc_req \<Rightarrow> fmapi_msg option \<Rightarrow> u32 \<Rightarrow> u32 \<Rightarrow> fmapi_msg option
      \<Rightarrow> fault + (int \<times> fmapi_msg option \<times> fmapi_msg option)" where
  "fmapi_fill_mpc_tmc raw m ppid type sub =
    (case sub of
       None \<Rightarrow> Inl NullDeref
     | Some sb \<Rightarrow>
        (case m of
           None \<Rightarrow> Inr (1, None, Some (sb\<lparr> msg_buf := Buf_wild \<rparr>))
         | Some mm \<Rightarrow>
            (let sb = sb\<lparr> msg_buf := Buf_tunnel_msg \<rparr>;
                 mm = mm\<lparr> msg_hdr := hdr_zero\<lparr> hdr_opcode := of_nat FMOB_MPC_TMC_REQ \<rparr> \<rparr>;
                 req = union_mpc_tmc_req raw (msg_obj mm)
             in case tmc_encode_sub (tmq_msg req) sb of
                  Inl e \<Rightarrow> Inl e
                | Inr (msg, fhd, ret) \<Rightarrow>
                    Inr (0,
                         Some (mm\<lparr> msg_hdr := (msg_hdr mm)\<lparr> hdr_opcode := of_nat FMOP_MPC_TMC \<rparr>,
                                   msg_obj := OB_MPC_TMC_REQ
                                     (req\<lparr> tmq_msg := msg,
                                            tmq_len := ucast ret,
                                            tmq_type := ucast type,
                                            tmq_ppid := ucast ppid \<rparr>) \<rparr>),
                         Some (sb\<lparr> msg_hdr := fhd \<rparr>)))))"

section \<open>Concrete objects and buffers\<close>

text \<open>
  The inputs at which the theorems below are evaluated: a memory of zero bytes and
  one of \<open>0xFF\<close> bytes, a header at the ends of its ranges, the request of the
  virtual-switch example (start 2, limit 6), cleared objects as the test bench
  passes them to \<^verbatim>\<open>fmapi_deserialize\<close>, a tunnel request and a tunnel response with
  the 68 payload bytes 1 to 68, a bandwidth allocation with three entries, once over a
  cleared array and once with a 9 left behind the third entry, and a port request
  whose bytes are all \<open>0xEE\<close>.
\<close>

definition ex_mem :: mem where
  "ex_mem = (\<lambda>a. 0)"

definition ex_mem_ff :: mem where
  "ex_mem_ff = (\<lambda>a. 0xFF)"

definition ex_hdr :: fmapi_hdr where
  "ex_hdr = \<lparr> hdr_category = 0xF, hdr_tag = 0xAB, hdr_opcode = 0x5201, hdr_background = 1,
              hdr_len = 0x1FFFFF, hdr_return_code = 0xFFFF, hdr_ext_status = 0x1234 \<rparr>"

definition ex_req :: fmapi_vsc_info_req where
  "ex_req = \<lparr> vir_vppbid_start = 2, vir_vppbid_limit = 6, vir_num = 1,
              vir_vcss = replicate FM_MAX_VCS 0 \<rparr>"

definition ex_psb :: fmapi_vsc_ppb_stat_blk where
  "ex_psb = \<lparr> psb_status = 0, psb_ppid = 0, psb_ldid = 0 \<rparr>"

definition ex_blk :: fmapi_vsc_info_blk where
  "ex_blk = \<lparr> vib_vcsid = 0, vib_state = 0, vib_uspid = 0, vib_total = 0, vib_num = 0,
              vib_list = replicate FM_MAX_VPPBS ex_psb \<rparr>"

definition ex_rsp :: fmapi_vsc_info_rsp where
  "ex_rsp = \<lparr> vis_num = 0, vis_list = replicate FM_MAX_VCS_PER_RSP ex_blk \<rparr>"

definition ex_bind :: fmapi_vsc_bind_req where
  "ex_bind = \<lparr> vbr_vcsid = 0x42, vbr_vppbid = 0x0A, vbr_ppid = 0x0B, vbr_ldid = 0x0C0D \<rparr>"

definition ex_port_info :: fmapi_psc_port_info where
  "ex_port_info = \<lparr> pi_ppid = 1, pi_state = 3, pi_dv = 2, pi_dt = 4, pi_cv = 2, pi_mlw = 16,
     pi_nlw = 16, pi_speeds = 0x1F, pi_mls = 5, pi_cls = 5, pi_ltssm = 0x11, pi_lane = 0,
     pi_lane_rev = 0, pi_perst = 1, pi_prsnt = 1, pi_pwrctrl = 0, pi_num_ld = 16 \<rparr>"

definition ex_tmc_payload :: "u8 list" where
  "ex_tmc_payload = map of_nat [1..<69] @ replicate (FMLN_MPC_TUNNEL_PAYLOAD - 68) 0"

definition ex_tmc_req :: fmapi_mpc_tmc_req where
  "ex_tmc_req = \<lparr> tmq_ppid = 0x42, tmq_len = 68, tmq_type = 1, tmq_msg = ex_tmc_payload \<rparr>"

definition ex_tmc_rsp :: fmapi_mpc_tmc_rsp where
  "ex_tmc_rsp = \<lparr> tms_type = 1, tms_len = 68, tms_msg = ex_tmc_payload \<rparr>"

definition ex_tmc_req_dst :: fmapi_mpc_tmc_req where
  "ex_tmc_req_dst = \<lparr> tmq_ppid = 0, tmq_len = 0, tmq_type = 0,
                      tmq_msg = replicate FMLN_MPC_TUNNEL_PAYLOAD 0 \<rparr>"

definition ex_tmc_rsp_dst :: fmapi_mpc_tmc_rsp where
  "ex_tmc_rsp_dst = \<lparr> tms_type = 0, tms_len = 0, tms_msg = replicate FMLN_MPC_TUNNEL_PAYLOAD 0 \<rparr>"

definition ex_qos_bw_alloc :: fmapi_mcc_qos_bw_alloc where
  "ex_qos_bw_alloc = \<lparr> qba_num = 3, qba_start = 1,
     qba_list = [10, 20, 30, 0, 0, 0, 0, 0, 0, 0, 0, 0, 0, 0, 0, 0] \<rparr>"

definition ex_qos_bw_alloc_dst :: fmapi_mcc_qos_bw_alloc where
  "ex_qos_bw_alloc_dst = \<lparr> qba_num = 0, qba_start = 0, qba_list = replicate FM_MAX_NUM_LD 0 \<rparr>"

definition ex_msg :: fmapi_msg where
  "ex_msg = \<lparr> msg_hdr = ex_hdr, msg_buf = Buf_null, msg_obj = OB_VSC_BIND_REQ ex_bind \<rparr>"

definition ex_qos_bw_alloc_junk :: fmapi_mcc_qos_bw_alloc where
  "ex_qos_bw_alloc_junk = \<lparr> qba_num = 3, qba_start = 1,
     qba_list = [10, 20, 30, 9, 0, 0, 0, 0, 0, 0, 0, 0, 0, 0, 0, 0] \<rparr>"

definition ex_port_req_raw :: fmapi_psc_port_req where
  "ex_port_req_raw = \<lparr> ppr_num = 0x42, ppr_ports = replicate FM_MAX_PORTS 0xEE \<rparr>"

section \<open>Constants unfolded\<close>

lemmas fm_max_defs = FM_MAX_PORTS_def FM_MAX_VCS_def FM_MAX_VPPBS_def FM_MAX_VCS_PER_RSP_def
  FM_LD_MEM_REQ_LEN_def FM_MAX_NUM_LD_def FM_TLP_HEADER_def

lemmas fmln_defs = FMLN_HDR_def FMLN_MSG_def FMLN_PAYLOAD_def FMLN_PSC_IDENTIFY_SWITCH_def
  FMLN_PSC_GET_PHY_PORT_REQ_def FMLN_PSC_GET_PHY_PORT_INFO_def FMLN_PSC_GET_PHY_PORT_RESP_def
  FMLN_PSC_PHY_PORT_CTRL_def FMLN_PSC_PPB_IO_CFG_REQ_def FMLN_PSC_PPB_IO_CFG_RESP_def
  FMLN_VSC_GET_INFO_REQ_def FMLN_VSC_PPB_STATUS_def FMLN_VSC_INFO_def FMLN_VSC_GET_INFO_RESP_def
  FMLN_VSC_BIND_def FMLN_VSC_UNBIND_def FMLN_VSC_GEN_AER_def FMLN_MPC_TUNNEL_CMD_REQ_def
  FMLN_MPC_TUNNEL_CMD_RESP_def FMLN_MPC_TUNNEL_PAYLOAD_def FMLN_MPC_LD_IO_CFG_REQ_def
  FMLN_MPC_LD_IO_CFG_RESP_def FMLN_MPC_LD_MEM_REQ_def FMLN_MPC_LD_MEM_RESP_def
  FMLN_MCC_GET_LD_INFO_def FMLN_MCC_LD_ALLOC_ENTRY_def FMLN_MCC_GET_LD_ALLOC_REQ_def
  FMLN_MCC_GET_LD_ALLOC_RSP_def FMLN_MCC_SET_LD_ALLOC_REQ_def FMLN_MCC_SET_LD_ALLOC_RSP_def
  FMLN_MCC_QOS_CTRL_def FMLN_MCC_QOS_STATUS_def FMLN_MCC_GET_QOS_BW_REQ_def
  FMLN_MCC_QOS_BW_ALLOC_def FMLN_MCC_GET_QOS_BW_LIMIT_REQ_def FMLN_MCC_QOS_BW_LIMIT_def
  FMLN_ISC_ID_RSP_def FMLN_ISC_MSG_LIMIT_def FMLN_ISC_BOS_def

lemmas fmob_defs = FMOB_NULL_def FMOB_HDR_def FMOB_PSC_ID_RSP_def FMOB_PSC_PORT_REQ_def
  FMOB_PSC_PORT_INFO_def FMOB_PSC_PORT_RSP_def FMOB_PSC_PORT_CTRL_REQ_def FMOB_PSC_CFG_REQ_def
  FMOB_PSC_CFG_RSP_def FMOB_VSC_INFO_REQ_def FMOB_VSC_PPB_STAT_BLK_def FMOB_VSC_INFO_BLK_def
  FMOB_VSC_INFO_RSP_def FMOB_VSC_BIND_REQ_def FMOB_VSC_UNBIND_REQ_def FMOB_VSC_AER_REQ_def
  FMOB_MPC_TMC_REQ_def FMOB_MPC_TMC_RSP_def FMOB_MPC_CFG_REQ_def FMOB_MPC_CFG_RSP_def
  FMOB_MPC_MEM_REQ_def FMOB_MPC_MEM_RSP_def FMOB_MCC_INFO_RSP_def FMOB_MCC_ALLOC_BLK_def
  FMOB_MCC_ALLOC_GET_REQ_def FMOB_MCC_ALLOC_GET_RSP_def FMOB_MCC_ALLOC_SET_REQ_def
  FMOB_MCC_ALLOC_SET_RSP_def FMOB_MCC_QOS_CTRL_def FMOB_MCC_QOS_STAT_RSP_def
  FMOB_MCC_QOS_BW_GET_REQ_def FMOB_MCC_QOS_BW_ALLOC_def FMOB_MCC_QOS_BW_LIMIT_GET_REQ_def
  FMOB_MCC_QOS_BW_LIMIT_def FMOB_ISC_ID_RSP_def FMOB_ISC_MSG_LIMIT_def FMOB_ISC_BOS_def
  FMOB_MAX_def

lemmas fmop_defs = FMOP_PSC_ID_def FMOP_PSC_PORT_def FMOP_PSC_PORT_CTRL_def FMOP_PSC_CFG_def
  FMOP_VSC_INFO_def FMOP_VSC_BIND_def FMOP_VSC_UNBIND_def FMOP_VSC_AER_def FMOP_MPC_TMC_def
  FMOP_MPC_CFG_def FMOP_MPC_MEM_def FMOP_MCC_INFO_def FMOP_MCC_ALLOC_GET_def
  FMOP_MCC_ALLOC_SET_def FMOP_MCC_QOS_CTRL_GET_def FMOP_MCC_QOS_CTRL_SET_def
  FMOP_MCC_QOS_STAT_def FMOP_MCC_QOS_BW_ALLOC_GET_def FMOP_MCC_QOS_BW_ALLOC_SET_def
  FMOP_MCC_QOS_BW_LIMIT_GET_def FMOP_MCC_QOS_BW_LIMIT_SET_def FMOP_ISC_ID_def FMOP_ISC_BOS_def
  FMOP_ISC_MSG_LIMIT_GET_def FMOP_ISC_MSG_LIMIT_SET_def

lemmas fmbit_defs = FMLF_LANE_REVERSAL_BIT_def FMLF_PERST_STATE_BIT_def
  FMLF_PRSNT_STATE_BIT_def FMLF_PWRCTL_STATE_BIT_def FMQT_EGRESS_PORT_CONGESTION_BIT_def
  FMQT_TEMP_THROUGHPUT_REDUCTION_BIT_def

section \<open>The switches at a given kind\<close>

lemma kinds_below_max:
  "[0..<37] = [0, 1, 2, 3, 4, 5, 6, 7, 8, 9, 10, 11, 12, 13, 14, 15, 16, 17, 18, 19, 20, 21, 22,
     23, 24, 25, 26, 27, 28, 29, 30, 31, 32, 33, 34, 35, 36 :: nat]"
  by (simp add: upt_rec)

lemma kind_cases:
  assumes "type \<noteq> FMOB_NULL" and "type < FMOB_MAX"
  shows "type = FMOB_HDR
    \<or> type = FMOB_PSC_ID_RSP
    \<or> type = FMOB_PSC_PORT_REQ
    \<or> type = FMOB_PSC_PORT_INFO
    \<or> type = FMOB_PSC_PORT_RSP
    \<or> type = FMOB_PSC_PORT_CTRL_REQ
    \<or> type = FMOB_PSC_CFG_REQ
    \<or> type = FMOB_PSC_CFG_RSP
    \<or> type = FMOB_VSC_INFO_REQ
    \<or> type = FMOB_VSC_PPB_STAT_BLK
    \<or> type = FMOB_VSC_INFO_BLK
    \<or> type = FMOB_VSC_INFO_RSP
    \<or> type = FMOB_VSC_BIND_REQ
    \<or> type = FMOB_VSC_UNBIND_REQ
    \<or> type = FMOB_VSC_AER_REQ
    \<or> type = FMOB_MPC_TMC_REQ
    \<or> type = FMOB_MPC_TMC_RSP
    \<or> type = FMOB_MPC_CFG_REQ
    \<or> type = FMOB_MPC_CFG_RSP
    \<or> type = FMOB_MPC_MEM_REQ
    \<or> type = FMOB_MPC_MEM_RSP
    \<or> type = FMOB_MCC_INFO_RSP
    \<or> type = FMOB_MCC_ALLOC_BLK
    \<or> type = FMOB_MCC_ALLOC_GET_REQ
    \<or> type = FMOB_MCC_ALLOC_GET_RSP
    \<or> type = FMOB_MCC_ALLOC_SET_REQ
    \<or> type = FMOB_MCC_ALLOC_SET_RSP
    \<or> type = FMOB_MCC_QOS_CTRL
    \<or> type = FMOB_MCC_QOS_STAT_RSP
    \<or> type = FMOB_MCC_QOS_BW_GET_REQ
    \<or> type = FMOB_MCC_QOS_BW_ALLOC
    \<or> type = FMOB_MCC_QOS_BW_LIMIT_GET_REQ
    \<or> type = FMOB_MCC_QOS_BW_LIMIT
    \<or> type = FMOB_ISC_ID_RSP
    \<or> type = FMOB_ISC_MSG_LIMIT
    \<or> type = FMOB_ISC_BOS"
proof -
  have "type \<in> set [0..<37]"
    using assms(2) by (simp add: FMOB_MAX_def)
  then show ?thesis
    using assms(1) unfolding kinds_below_max fmob_defs by auto
qed

lemma ser_switch_HDR:
  "ser_switch h d ob FMOB_HDR = (if is_OB_HDR ob then Inr (ser_hdr h d (the_hdr ob)) else Inl BadCast)"
  by (simp add: ser_switch_def fmob_defs)

lemma ser_switch_ISC_BOS:
  "ser_switch h d ob FMOB_ISC_BOS = (if is_OB_ISC_BOS ob then Inr (ser_isc_bos h d (the_isc_bos ob)) else Inl BadCast)"
  by (simp add: ser_switch_def fmob_defs)

lemma ser_switch_ISC_ID_RSP:
  "ser_switch h d ob FMOB_ISC_ID_RSP = (if is_OB_ISC_ID_RSP ob then Inr (ser_isc_id_rsp h d (the_isc_id_rsp ob)) else Inl BadCast)"
  by (simp add: ser_switch_def fmob_defs)

lemma ser_switch_ISC_MSG_LIMIT:
  "ser_switch h d ob FMOB_ISC_MSG_LIMIT = (if is_OB_ISC_MSG_LIMIT ob then Inr (ser_isc_msg_limit h d (the_isc_msg_limit ob)) else Inl BadCast)"
  by (simp add: ser_switch_def fmob_defs)

lemma ser_switch_PSC_ID_RSP:
  "ser_switch h d ob FMOB_PSC_ID_RSP = (if is_OB_PSC_ID_RSP ob then ser_psc_id_rsp h d (the_psc_id_rsp ob) else Inl BadCast)"
  by (simp add: ser_switch_def fmob_defs)

lemma ser_switch_PSC_PORT_REQ:
  "ser_switch h d ob FMOB_PSC_PORT_REQ = (if is_OB_PSC_PORT_REQ ob then ser_psc_port_req h d (the_psc_port_req ob) else Inl BadCast)"
  by (simp add: ser_switch_def fmob_defs)

lemma ser_switch_PSC_PORT_INFO:
  "ser_switch h d ob FMOB_PSC_PORT_INFO = (if is_OB_PSC_PORT_INFO ob then Inr (ser_psc_port_info h d (the_psc_port_info ob)) else Inl BadCast)"
  by (simp add: ser_switch_def fmob_defs)

lemma ser_switch_PSC_PORT_RSP:
  "ser_switch h d ob FMOB_PSC_PORT_RSP = (if is_OB_PSC_PORT_RSP ob then ser_psc_port_rsp h d (the_psc_port_rsp ob) else Inl BadCast)"
  by (simp add: ser_switch_def fmob_defs)

lemma ser_switch_PSC_PORT_CTRL_REQ:
  "ser_switch h d ob FMOB_PSC_PORT_CTRL_REQ = (if is_OB_PSC_PORT_CTRL_REQ ob then Inr (ser_psc_port_ctrl_req h d (the_psc_port_ctrl_req ob)) else Inl BadCast)"
  by (simp add: ser_switch_def fmob_defs)

lemma ser_switch_PSC_CFG_REQ:
  "ser_switch h d ob FMOB_PSC_CFG_REQ = (if is_OB_PSC_CFG_REQ ob then ser_psc_cfg_req h d (the_psc_cfg_req ob) else Inl BadCast)"
  by (simp add: ser_switch_def fmob_defs)

lemma ser_switch_PSC_CFG_RSP:
  "ser_switch h d ob FMOB_PSC_CFG_RSP = (if is_OB_PSC_CFG_RSP ob then ser_psc_cfg_rsp h d (the_psc_cfg_rsp ob) else Inl BadCast)"
  by (simp add: ser_switch_def fmob_defs)

lemma ser_switch_VSC_INFO_REQ:
  "ser_switch h d ob FMOB_VSC_INFO_REQ = (if is_OB_VSC_INFO_REQ ob then ser_vsc_info_req h d (the_vsc_info_req ob) else Inl BadCast)"
  by (simp add: ser_switch_def fmob_defs)

lemma ser_switch_VSC_PPB_STAT_BLK:
  "ser_switch h d ob FMOB_VSC_PPB_STAT_BLK = (if is_OB_VSC_PPB_STAT_BLK ob then Inr (ser_vsc_ppb_stat_blk h d (the_vsc_ppb_stat_blk ob)) else Inl BadCast)"
  by (simp add: ser_switch_def fmob_defs)

lemma ser_switch_VSC_INFO_BLK:
  "ser_switch h d ob FMOB_VSC_INFO_BLK = (if is_OB_VSC_INFO_BLK ob then ser_vsc_info_blk h d (the_vsc_info_blk ob) else Inl BadCast)"
  by (simp add: ser_switch_def fmob_defs)

lemma ser_switch_VSC_INFO_RSP:
  "ser_switch h d ob FMOB_VSC_INFO_RSP = (if is_OB_VSC_INFO_RSP ob then ser_vsc_info_rsp h d (the_vsc_info_rsp ob) else Inl BadCast)"
  by (simp add: ser_switch_def fmob_defs)

lemma ser_switch_VSC_BIND_REQ:
  "ser_switch h d ob FMOB_VSC_BIND_REQ = (if is_OB_VSC_BIND_REQ ob then Inr (ser_vsc_bind_req h d (the_vsc_bind_req ob)) else Inl BadCast)"
  by (simp add: ser_switch_def fmob_defs)

lemma ser_switch_VSC_UNBIND_REQ:
  "ser_switch h d ob FMOB_VSC_UNBIND_REQ = (if is_OB_VSC_UNBIND_REQ ob then Inr (ser_vsc_unbind_req h d (the_vsc_unbind_req ob)) else Inl BadCast)"
  by (simp add: ser_switch_def fmob_defs)

lemma ser_switch_VSC_AER_REQ:
  "ser_switch h d ob FMOB_VSC_AER_REQ = (if is_OB_VSC_AER_REQ ob then ser_vsc_aer_req h d (the_vsc_aer_req ob) else Inl BadCast)"
  by (simp add: ser_switch_def fmob_defs)

lemma ser_switch_MPC_TMC_REQ:
  "ser_switch h d ob FMOB_MPC_TMC_REQ = (if is_OB_MPC_TMC_REQ ob then ser_mpc_tmc_req h d (the_mpc_tmc_req ob) else Inl BadCast)"
  by (simp add: ser_switch_def fmob_defs)

lemma ser_switch_MPC_TMC_RSP:
  "ser_switch h d ob FMOB_MPC_TMC_RSP = (if is_OB_MPC_TMC_RSP ob then ser_mpc_tmc_rsp h d (the_mpc_tmc_rsp ob) else Inl BadCast)"
  by (simp add: ser_switch_def fmob_defs)

lemma ser_switch_MPC_CFG_REQ:
  "ser_switch h d ob FMOB_MPC_CFG_REQ = (if is_OB_MPC_CFG_REQ ob then ser_mpc_cfg_req h d (the_mpc_cfg_req ob) else Inl BadCast)"
  by (simp add: ser_switch_def fmob_defs)

lemma ser_switch_MPC_CFG_RSP:
  "ser_switch h d ob FMOB_MPC_CFG_RSP = (if is_OB_MPC_CFG_RSP ob then ser_mpc_cfg_rsp h d (the_mpc_cfg_rsp ob) else Inl BadCast)"
  by (simp add: ser_switch_def fmob_defs)

lemma ser_switch_MPC_MEM_REQ:
  "ser_switch h d ob FMOB_MPC_MEM_REQ = (if is_OB_MPC_MEM_REQ ob then ser_mpc_mem_req h d (the_mpc_mem_req ob) else Inl BadCast)"
  by (simp add: ser_switch_def fmob_defs)

lemma ser_switch_MPC_MEM_RSP:
  "ser_switch h d ob FMOB_MPC_MEM_RSP = (if is_OB_MPC_MEM_RSP ob then ser_mpc_mem_rsp h d (the_mpc_mem_rsp ob) else Inl BadCast)"
  by (simp add: ser_switch_def fmob_defs)

lemma ser_switch_MCC_INFO_RSP:
  "ser_switch h d ob FMOB_MCC_INFO_RSP = (if is_OB_MCC_INFO_RSP ob then Inr (ser_mcc_info_rsp h d (the_mcc_info_rsp ob)) else Inl BadCast)"
  by (simp add: ser_switch_def fmob_defs)

lemma ser_switch_MCC_ALLOC_BLK:
  "ser_switch h d ob FMOB_MCC_ALLOC_BLK = (if is_OB_MCC_ALLOC_BLK ob then Inr (ser_mcc_alloc_blk h d (the_mcc_alloc_blk ob)) else Inl BadCast)"
  by (simp add: ser_switch_def fmob_defs)

lemma ser_switch_MCC_ALLOC_GET_REQ:
  "ser_switch h d ob FMOB_MCC_ALLOC_GET_REQ = (if is_OB_MCC_ALLOC_GET_REQ ob then Inr (ser_mcc_alloc_get_req h d (the_mcc_alloc_get_req ob)) else Inl BadCast)"
  by (simp add: ser_switch_def fmob_defs)

lemma ser_switch_MCC_ALLOC_GET_RSP:
  "ser_switch h d ob FMOB_MCC_ALLOC_GET_RSP = (if is_OB_MCC_ALLOC_GET_RSP ob then ser_mcc_alloc_get_rsp h d (the_mcc_alloc_get_rsp ob) else Inl BadCast)"
  by (simp add: ser_switch_def fmob_defs)

lemma ser_switch_MCC_ALLOC_SET_REQ:
  "ser_switch h d ob FMOB_MCC_ALLOC_SET_REQ = (if is_OB_MCC_ALLOC_SET_REQ ob then ser_mcc_alloc_set_req h d (the_mcc_alloc_set_req ob) else Inl BadCast)"
  by (simp add: ser_switch_def fmob_defs)

lemma ser_switch_MCC_ALLOC_SET_RSP:
  "ser_switch h d ob FMOB_MCC_ALLOC_SET_RSP = (if is_OB_MCC_ALLOC_SET_RSP ob then ser_mcc_alloc_set_rsp h d (the_mcc_alloc_set_rsp ob) else Inl BadCast)"
  by (simp add: ser_switch_def fmob_defs)

lemma ser_switch_MCC_QOS_CTRL:
  "ser_switch h d ob FMOB_MCC_QOS_CTRL = (if is_OB_MCC_QOS_CTRL ob then Inr (ser_mcc_qos_ctrl h d (the_mcc_qos_ctrl ob)) else Inl BadCast)"
  by (simp add: ser_switch_def fmob_defs)

lemma ser_switch_MCC_QOS_STAT_RSP:
  "ser_switch h d ob FMOB_MCC_QOS_STAT_RSP = (if is_OB_MCC_QOS_STAT_RSP ob then Inr (ser_mcc_qos_stat_rsp h d (the_mcc_qos_stat_rsp ob)) else Inl BadCast)"
  by (simp add: ser_switch_def fmob_defs)

lemma ser_switch_MCC_QOS_BW_GET_REQ:
  "ser_switch h d ob FMOB_MCC_QOS_BW_GET_REQ = (if is_OB_MCC_QOS_BW_GET_REQ ob then Inr (ser_mcc_qos_bw_get_req h d (the_mcc_qos_bw_get_req ob)) else Inl BadCast)"
  by (simp add: ser_switch_def fmob_defs)

lemma ser_switch_MCC_QOS_BW_ALLOC:
  "ser_switch h d ob FMOB_MCC_QOS_BW_ALLOC = (if is_OB_MCC_QOS_BW_ALLOC ob then ser_mcc_qos_bw_alloc h d (the_mcc_qos_bw_alloc ob) else Inl BadCast)"
  by (simp add: ser_switch_def fmob_defs)

lemma ser_switch_MCC_QOS_BW_LIMIT_GET_REQ:
  "ser_switch h d ob FMOB_MCC_QOS_BW_LIMIT_GET_REQ = (if is_OB_MCC_QOS_BW_LIMIT_GET_REQ ob then Inr (ser_mcc_qos_bw_limit_get_req h d (the_mcc_qos_bw_limit_get_req ob)) else Inl BadCast)"
  by (simp add: ser_switch_def fmob_defs)

lemma ser_switch_MCC_QOS_BW_LIMIT:
  "ser_switch h d ob FMOB_MCC_QOS_BW_LIMIT = (if is_OB_MCC_QOS_BW_LIMIT ob then ser_mcc_qos_bw_limit h d (the_mcc_qos_bw_limit ob) else Inl BadCast)"
  by (simp add: ser_switch_def fmob_defs)

lemma deser_switch_HDR:
  "deser_switch ob h s FMOB_HDR param = (if is_OB_HDR ob then deser_ret OB_HDR (Inr (deser_hdr (the_hdr ob) h s)) else Inl BadCast)"
  by (simp add: deser_switch_def fmob_defs)

lemma deser_switch_ISC_BOS:
  "deser_switch ob h s FMOB_ISC_BOS param = (if is_OB_ISC_BOS ob then deser_ret OB_ISC_BOS (Inr (deser_isc_bos (the_isc_bos ob) h s)) else Inl BadCast)"
  by (simp add: deser_switch_def fmob_defs)

lemma deser_switch_ISC_ID_RSP:
  "deser_switch ob h s FMOB_ISC_ID_RSP param = (if is_OB_ISC_ID_RSP ob then deser_ret OB_ISC_ID_RSP (Inr (deser_isc_id_rsp (the_isc_id_rsp ob) h s)) else Inl BadCast)"
  by (simp add: deser_switch_def fmob_defs)

lemma deser_switch_ISC_MSG_LIMIT:
  "deser_switch ob h s FMOB_ISC_MSG_LIMIT param = (if is_OB_ISC_MSG_LIMIT ob then deser_ret OB_ISC_MSG_LIMIT (Inr (deser_isc_msg_limit (the_isc_msg_limit ob) h s)) else Inl BadCast)"
  by (simp add: deser_switch_def fmob_defs)

lemma deser_switch_PSC_ID_RSP:
  "deser_switch ob h s FMOB_PSC_ID_RSP param = (if is_OB_PSC_ID_RSP ob then deser_ret OB_PSC_ID_RSP (deser_psc_id_rsp (the_psc_id_rsp ob) h s) else Inl BadCast)"
  by (simp add: deser_switch_def fmob_defs)

lemma deser_switch_PSC_PORT_REQ:
  "deser_switch ob h s FMOB_PSC_PORT_REQ param = (if is_OB_PSC_PORT_REQ ob then deser_ret OB_PSC_PORT_REQ (deser_psc_port_req (the_psc_port_req ob) h s) else Inl BadCast)"
  by (simp add: deser_switch_def fmob_defs)

lemma deser_switch_PSC_PORT_INFO:
  "deser_switch ob h s FMOB_PSC_PORT_INFO param = (if is_OB_PSC_PORT_INFO ob then deser_ret OB_PSC_PORT_INFO (Inr (deser_psc_port_info (the_psc_port_info ob) h s)) else Inl BadCast)"
  by (simp add: deser_switch_def fmob_defs)

lemma deser_switch_PSC_PORT_RSP:
  "deser_switch ob h s FMOB_PSC_PORT_RSP param = (if is_OB_PSC_PORT_RSP ob then deser_ret OB_PSC_PORT_RSP (deser_psc_port_rsp (the_psc_port_rsp ob) h s) else Inl BadCast)"
  by (simp add: deser_switch_def fmob_defs)

lemma deser_switch_PSC_PORT_CTRL_REQ:
  "deser_switch ob h s FMOB_PSC_PORT_CTRL_REQ param = (if is_OB_PSC_PORT_CTRL_REQ ob then deser_ret OB_PSC_PORT_CTRL_REQ (Inr (deser_psc_port_ctrl_req (the_psc_port_ctrl_req ob) h s)) else Inl BadCast)"
  by (simp add: deser_switch_def fmob_defs)

lemma deser_switch_PSC_CFG_REQ:
  "deser_switch ob h s FMOB_PSC_CFG_REQ param = (if is_OB_PSC_CFG_REQ ob then deser_ret OB_PSC_CFG_REQ (deser_psc_cfg_req (the_psc_cfg_req ob) h s) else Inl BadCast)"
  by (simp add: deser_switch_def fmob_defs)

lemma deser_switch_PSC_CFG_RSP:
  "deser_switch ob h s FMOB_PSC_CFG_RSP param = (if is_OB_PSC_CFG_RSP ob then deser_ret OB_PSC_CFG_RSP (deser_psc_cfg_rsp (the_psc_cfg_rsp ob) h s) else Inl BadCast)"
  by (simp add: deser_switch_def fmob_defs)

lemma deser_switch_VSC_INFO_REQ:
  "deser_switch ob h s FMOB_VSC_INFO_REQ param = (if is_OB_VSC_INFO_REQ ob then deser_ret OB_VSC_INFO_REQ (deser_vsc_info_req (the_vsc_info_req ob) h s) else Inl BadCast)"
  by (simp add: deser_switch_def fmob_defs)

lemma deser_switch_VSC_PPB_STAT_BLK:
  "deser_switch ob h s FMOB_VSC_PPB_STAT_BLK param = (if is_OB_VSC_PPB_STAT_BLK ob then deser_ret OB_VSC_PPB_STAT_BLK (Inr (deser_vsc_ppb_stat_blk (the_vsc_ppb_stat_blk ob) h s)) else Inl BadCast)"
  by (simp add: deser_switch_def fmob_defs)

lemma deser_switch_VSC_INFO_BLK:
  "deser_switch ob h s FMOB_VSC_INFO_BLK param = (if is_OB_VSC_INFO_BLK ob then deser_ret OB_VSC_INFO_BLK (deser_vsc_info_blk (the_vsc_info_blk ob) h s param) else Inl BadCast)"
  by (simp add: deser_switch_def fmob_defs)

lemma deser_switch_VSC_INFO_RSP:
  "deser_switch ob h s FMOB_VSC_INFO_RSP param = (if is_OB_VSC_INFO_RSP ob then deser_ret OB_VSC_INFO_RSP (deser_vsc_info_rsp (the_vsc_info_rsp ob) h s param) else Inl BadCast)"
  by (simp add: deser_switch_def fmob_defs)

lemma deser_switch_VSC_BIND_REQ:
  "deser_switch ob h s FMOB_VSC_BIND_REQ param = (if is_OB_VSC_BIND_REQ ob then deser_ret OB_VSC_BIND_REQ (Inr (deser_vsc_bind_req (the_vsc_bind_req ob) h s)) else Inl BadCast)"
  by (simp add: deser_switch_def fmob_defs)

lemma deser_switch_VSC_UNBIND_REQ:
  "deser_switch ob h s FMOB_VSC_UNBIND_REQ param = (if is_OB_VSC_UNBIND_REQ ob then deser_ret OB_VSC_UNBIND_REQ (Inr (deser_vsc_unbind_req (the_vsc_unbind_req ob) h s)) else Inl BadCast)"
  by (simp add: deser_switch_def fmob_defs)

lemma deser_switch_VSC_AER_REQ:
  "deser_switch ob h s FMOB_VSC_AER_REQ param = (if is_OB_VSC_AER_REQ ob then deser_ret OB_VSC_AER_REQ (deser_vsc_aer_req (the_vsc_aer_req ob) h s) else Inl BadCast)"
  by (simp add: deser_switch_def fmob_defs)

lemma deser_switch_MPC_TMC_REQ:
  "deser_switch ob h s FMOB_MPC_TMC_REQ param = (if is_OB_MPC_TMC_REQ ob then deser_ret OB_MPC_TMC_REQ (deser_mpc_tmc_req (the_mpc_tmc_req ob) h s) else Inl BadCast)"
  by (simp add: deser_switch_def fmob_defs)

lemma deser_switch_MPC_TMC_RSP:
  "deser_switch ob h s FMOB_MPC_TMC_RSP param = (if is_OB_MPC_TMC_RSP ob then deser_ret OB_MPC_TMC_RSP (deser_mpc_tmc_rsp (the_mpc_tmc_rsp ob) h s) else Inl BadCast)"
  by (simp add: deser_switch_def fmob_defs)

lemma deser_switch_MPC_CFG_REQ:
  "deser_switch ob h s FMOB_MPC_CFG_REQ param = (if is_OB_MPC_CFG_REQ ob then deser_ret OB_MPC_CFG_REQ (deser_mpc_cfg_req (the_mpc_cfg_req ob) h s) else Inl BadCast)"
  by (simp add: deser_switch_def fmob_defs)

lemma deser_switch_MPC_CFG_RSP:
  "deser_switch ob h s FMOB_MPC_CFG_RSP param = (if is_OB_MPC_CFG_RSP ob then deser_ret OB_MPC_CFG_RSP (deser_mpc_cfg_rsp (the_mpc_cfg_rsp ob) h s) else Inl BadCast)"
  by (simp add: deser_switch_def fmob_defs)

lemma deser_switch_MPC_MEM_REQ:
  "deser_switch ob h s FMOB_MPC_MEM_REQ param = (if is_OB_MPC_MEM_REQ ob then deser_ret OB_MPC_MEM_REQ (deser_mpc_mem_req (the_mpc_mem_req ob) h s) else Inl BadCast)"
  by (simp add: deser_switch_def fmob_defs)

lemma deser_switch_MPC_MEM_RSP:
  "deser_switch ob h s FMOB_MPC_MEM_RSP param = (if is_OB_MPC_MEM_RSP ob then deser_ret OB_MPC_MEM_RSP (deser_mpc_mem_rsp (the_mpc_mem_rsp ob) h s) else Inl BadCast)"
  by (simp add: deser_switch_def fmob_defs)

lemma deser_switch_MCC_INFO_RSP:
  "deser_switch ob h s FMOB_MCC_INFO_RSP param = (if is_OB_MCC_INFO_RSP ob then deser_ret OB_MCC_INFO_RSP (Inr (deser_mcc_info_rsp (the_mcc_info_rsp ob) h s)) else Inl BadCast)"
  by (simp add: deser_switch_def fmob_defs)

lemma deser_switch_MCC_ALLOC_BLK:
  "deser_switch ob h s FMOB_MCC_ALLOC_BLK param = (if is_OB_MCC_ALLOC_BLK ob then deser_ret OB_MCC_ALLOC_BLK (Inr (deser_mcc_alloc_blk (the_mcc_alloc_blk ob) h s)) else Inl BadCast)"
  by (simp add: deser_switch_def fmob_defs)

lemma deser_switch_MCC_ALLOC_GET_REQ:
  "deser_switch ob h s FMOB_MCC_ALLOC_GET_REQ param = (if is_OB_MCC_ALLOC_GET_REQ ob then deser_ret OB_MCC_ALLOC_GET_REQ (Inr (deser_mcc_alloc_get_req (the_mcc_alloc_get_req ob) h s)) else Inl BadCast)"
  by (simp add: deser_switch_def fmob_defs)

lemma deser_switch_MCC_ALLOC_GET_RSP:
  "deser_switch ob h s FMOB_MCC_ALLOC_GET_RSP param = (if is_OB_MCC_ALLOC_GET_RSP ob then deser_ret OB_MCC_ALLOC_GET_RSP (deser_mcc_alloc_get_rsp (the_mcc_alloc_get_rsp ob) h s) else Inl BadCast)"
  by (simp add: deser_switch_def fmob_defs)

lemma deser_switch_MCC_ALLOC_SET_REQ:
  "deser_switch ob h s FMOB_MCC_ALLOC_SET_REQ param = (if is_OB_MCC_ALLOC_SET_REQ ob then deser_ret OB_MCC_ALLOC_SET_REQ (deser_mcc_alloc_set_req (the_mcc_alloc_set_req ob) h s) else Inl BadCast)"
  by (simp add: deser_switch_def fmob_defs)

lemma deser_switch_MCC_ALLOC_SET_RSP:
  "deser_switch ob h s FMOB_MCC_ALLOC_SET_RSP param = (if is_OB_MCC_ALLOC_SET_RSP ob then deser_ret OB_MCC_ALLOC_SET_RSP (deser_mcc_alloc_set_rsp (the_mcc_alloc_set_rsp ob) h s) else Inl BadCast)"
  by (simp add: deser_switch_def fmob_defs)

lemma deser_switch_MCC_QOS_CTRL:
  "deser_switch ob h s FMOB_MCC_QOS_CTRL param = (if is_OB_MCC_QOS_CTRL ob then deser_ret OB_MCC_QOS_CTRL (Inr (deser_mcc_qos_ctrl (the_mcc_qos_ctrl ob) h s)) else Inl BadCast)"
  by (simp add: deser_switch_def fmob_defs)

lemma deser_switch_MCC_QOS_STAT_RSP:
  "deser_switch ob h s FMOB_MCC_QOS_STAT_RSP param = (if is_OB_MCC_QOS_STAT_RSP ob then deser_ret OB_MCC_QOS_STAT_RSP (Inr (deser_mcc_qos_stat_rsp (the_mcc_qos_stat_rsp ob) h s)) else Inl BadCast)"
  by (simp add: deser_switch_def fmob_defs)

lemma deser_switch_MCC_QOS_BW_GET_REQ:
  "deser_switch ob h s FMOB_MCC_QOS_BW_GET_REQ param = (if is_OB_MCC_QOS_BW_GET_REQ ob then deser_ret OB_MCC_QOS_BW_GET_REQ (Inr (deser_mcc_qos_bw_get_req (the_mcc_qos_bw_get_req ob) h s)) else Inl BadCast)"
  by (simp add: deser_switch_def fmob_defs)

lemma deser_switch_MCC_QOS_BW_ALLOC:
  "deser_switch ob h s FMOB_MCC_QOS_BW_ALLOC param = (if is_OB_MCC_QOS_BW_ALLOC ob then deser_ret OB_MCC_QOS_BW_ALLOC (deser_mcc_qos_bw_alloc (the_mcc_qos_bw_alloc ob) h s) else Inl BadCast)"
  by (simp add: deser_switch_def fmob_defs)

lemma deser_switch_MCC_QOS_BW_LIMIT_GET_REQ:
  "deser_switch ob h s FMOB_MCC_QOS_BW_LIMIT_GET_REQ param = (if is_OB_MCC_QOS_BW_LIMIT_GET_REQ ob then deser_ret OB_MCC_QOS_BW_LIMIT_GET_REQ (Inr (deser_mcc_qos_bw_limit_get_req (the_mcc_qos_bw_limit_get_req ob) h s)) else Inl BadCast)"
  by (simp add: deser_switch_def fmob_defs)

lemma deser_switch_MCC_QOS_BW_LIMIT:
  "deser_switch ob h s FMOB_MCC_QOS_BW_LIMIT param = (if is_OB_MCC_QOS_BW_LIMIT ob then deser_ret OB_MCC_QOS_BW_LIMIT (deser_mcc_qos_bw_limit (the_mcc_qos_bw_limit ob) h s) else Inl BadCast)"
  by (simp add: deser_switch_def fmob_defs)

lemma kind_valid:
  "FMOB_HDR \<noteq> FMOB_NULL" "FMOB_HDR < FMOB_MAX"
  "FMOB_PSC_ID_RSP \<noteq> FMOB_NULL" "FMOB_PSC_ID_RSP < FMOB_MAX"
  "FMOB_PSC_PORT_REQ \<noteq> FMOB_NULL" "FMOB_PSC_PORT_REQ < FMOB_MAX"
  "FMOB_PSC_PORT_INFO \<noteq> FMOB_NULL" "FMOB_PSC_PORT_INFO < FMOB_MAX"
  "FMOB_PSC_PORT_RSP \<noteq> FMOB_NULL" "FMOB_PSC_PORT_RSP < FMOB_MAX"
  "FMOB_PSC_PORT_CTRL_REQ \<noteq> FMOB_NULL" "FMOB_PSC_PORT_CTRL_REQ < FMOB_MAX"
  "FMOB_PSC_CFG_REQ \<noteq> FMOB_NULL" "FMOB_PSC_CFG_REQ < FMOB_MAX"
  "FMOB_PSC_CFG_RSP \<noteq> FMOB_NULL" "FMOB_PSC_CFG_RSP < FMOB_MAX"
  "FMOB_VSC_INFO_REQ \<noteq> FMOB_NULL" "FMOB_VSC_INFO_REQ < FMOB_MAX"
  "FMOB_VSC_PPB_STAT_BLK \<noteq> FMOB_NULL" "FMOB_VSC_PPB_STAT_BLK < FMOB_MAX"
  "FMOB_VSC_INFO_BLK \<noteq> FMOB_NULL" "FMOB_VSC_INFO_BLK < FMOB_MAX"
  "FMOB_VSC_INFO_RSP \<noteq> FMOB_NULL" "FMOB_VSC_INFO_RSP < FMOB_MAX"
  "FMOB_VSC_BIND_REQ \<noteq> FMOB_NULL" "FMOB_VSC_BIND_REQ < FMOB_MAX"
  "FMOB_VSC_UNBIND_REQ \<noteq> FMOB_NULL" "FMOB_VSC_UNBIND_REQ < FMOB_MAX"
  "FMOB_VSC_AER_REQ \<noteq> FMOB_NULL" "FMOB_VSC_AER_REQ < FMOB_MAX"
  "FMOB_MPC_TMC_REQ \<noteq> FMOB_NULL" "FMOB_MPC_TMC_REQ < FMOB_MAX"
  "FMOB_MPC_TMC_RSP \<noteq> FMOB_NULL" "FMOB_MPC_TMC_RSP < FMOB_MAX"
  "FMOB_MPC_CFG_REQ \<noteq> FMOB_NULL" "FMOB_MPC_CFG_REQ < FMOB_MAX"
  "FMOB_MPC_CFG_RSP \<noteq> FMOB_NULL" "FMOB_MPC_CFG_RSP < FMOB_MAX"
  "FMOB_MPC_MEM_REQ \<noteq> FMOB_NULL" "FMOB_MPC_MEM_REQ < FMOB_MAX"
  "FMOB_MPC_MEM_RSP \<noteq> FMOB_NULL" "FMOB_MPC_MEM_RSP < FMOB_MAX"
  "FMOB_MCC_INFO_RSP \<noteq> FMOB_NULL" "FMOB_MCC_INFO_RSP < FMOB_MAX"
  "FMOB_MCC_ALLOC_BLK \<noteq> FMOB_NULL" "FMOB_MCC_ALLOC_BLK < FMOB_MAX"
  "FMOB_MCC_ALLOC_GET_REQ \<noteq> FMOB_NULL" "FMOB_MCC_ALLOC_GET_REQ < FMOB_MAX"
  "FMOB_MCC_ALLOC_GET_RSP \<noteq> FMOB_NULL" "FMOB_MCC_ALLOC_GET_RSP < FMOB_MAX"
  "FMOB_MCC_ALLOC_SET_REQ \<noteq> FMOB_NULL" "FMOB_MCC_ALLOC_SET_REQ < FMOB_MAX"
  "FMOB_MCC_ALLOC_SET_RSP \<noteq> FMOB_NULL" "FMOB_MCC_ALLOC_SET_RSP < FMOB_MAX"
  "FMOB_MCC_QOS_CTRL \<noteq> FMOB_NULL" "FMOB_MCC_QOS_CTRL < FMOB_MAX"
  "FMOB_MCC_QOS_STAT_RSP \<noteq> FMOB_NULL" "FMOB_MCC_QOS_STAT_RSP < FMOB_MAX"
  "FMOB_MCC_QOS_BW_GET_REQ \<noteq> FMOB_NULL" "FMOB_MCC_QOS_BW_GET_REQ < FMOB_MAX"
  "FMOB_MCC_QOS_BW_ALLOC \<noteq> FMOB_NULL" "FMOB_MCC_QOS_BW_ALLOC < FMOB_MAX"
  "FMOB_MCC_QOS_BW_LIMIT_GET_REQ \<noteq> FMOB_NULL" "FMOB_MCC_QOS_BW_LIMIT_GET_REQ < FMOB_MAX"
  "FMOB_MCC_QOS_BW_LIMIT \<noteq> FMOB_NULL" "FMOB_MCC_QOS_BW_LIMIT < FMOB_MAX"
  "FMOB_ISC_ID_RSP \<noteq> FMOB_NULL" "FMOB_ISC_ID_RSP < FMOB_MAX"
  "FMOB_ISC_MSG_LIMIT \<noteq> FMOB_NULL" "FMOB_ISC_MSG_LIMIT < FMOB_MAX"
  "FMOB_ISC_BOS \<noteq> FMOB_NULL" "FMOB_ISC_BOS < FMOB_MAX"
  by (simp_all add: fmob_defs)

text \<open>The two entry points on an object of the kind that is passed with it.\<close>

lemma fmapi_serialize_HDR:
  "fmapi_serialize h (Some d) (Some (OB_HDR x)) FMOB_HDR
     = Inr (fst (ser_hdr h d x), int (snd (ser_hdr h d x)))"
  by (simp add: fmapi_serialize_def ser_switch_def fmob_defs split: prod.split)

lemma fmapi_deserialize_HDR:
  "fmapi_deserialize (Some (OB_HDR d0)) h (Some s) FMOB_HDR param
     = Inr (Some (OB_HDR (fst (deser_hdr d0 h s))), int (snd (deser_hdr d0 h s)))"
  by (simp add: fmapi_deserialize_def deser_switch_def deser_ret_def fmob_defs split: prod.split)

lemma fmapi_serialize_ISC_BOS:
  "fmapi_serialize h (Some d) (Some (OB_ISC_BOS x)) FMOB_ISC_BOS
     = Inr (fst (ser_isc_bos h d x), int (snd (ser_isc_bos h d x)))"
  by (simp add: fmapi_serialize_def ser_switch_def fmob_defs split: prod.split)

lemma fmapi_deserialize_ISC_BOS:
  "fmapi_deserialize (Some (OB_ISC_BOS d0)) h (Some s) FMOB_ISC_BOS param
     = Inr (Some (OB_ISC_BOS (fst (deser_isc_bos d0 h s))), int (snd (deser_isc_bos d0 h s)))"
  by (simp add: fmapi_deserialize_def deser_switch_def deser_ret_def fmob_defs split: prod.split)

lemma fmapi_serialize_ISC_ID_RSP:
  "fmapi_serialize h (Some d) (Some (OB_ISC_ID_RSP x)) FMOB_ISC_ID_RSP
     = Inr (fst (ser_isc_id_rsp h d x), int (snd (ser_isc_id_rsp h d x)))"
  by (simp add: fmapi_serialize_def ser_switch_def fmob_defs split: prod.split)

lemma fmapi_deserialize_ISC_ID_RSP:
  "fmapi_deserialize (Some (OB_ISC_ID_RSP d0)) h (Some s) FMOB_ISC_ID_RSP param
     = Inr (Some (OB_ISC_ID_RSP (fst (deser_isc_id_rsp d0 h s))), int (snd (deser_isc_id_rsp d0 h s)))"
  by (simp add: fmapi_deserialize_def deser_switch_def deser_ret_def fmob_defs split: prod.split)

lemma fmapi_serialize_ISC_MSG_LIMIT:
  "fmapi_serialize h (Some d) (Some (OB_ISC_MSG_LIMIT x)) FMOB_ISC_MSG_LIMIT
     = Inr (fst (ser_isc_msg_limit h d x), int (snd (ser_isc_msg_limit h d x)))"
  by (simp add: fmapi_serialize_def ser_switch_def fmob_defs split: prod.split)

lemma fmapi_deserialize_ISC_MSG_LIMIT:
  "fmapi_deserialize (Some (OB_ISC_MSG_LIMIT d0)) h (Some s) FMOB_ISC_MSG_LIMIT param
     = Inr (Some (OB_ISC_MSG_LIMIT (fst (deser_isc_msg_limit d0 h s))), int (snd (deser_isc_msg_limit d0 h s)))"
  by (simp add: fmapi_deserialize_def deser_switch_def deser_ret_def fmob_defs split: prod.split)

lemma fmapi_serialize_PSC_ID_RSP:
  "fmapi_serialize h (Some d) (Some (OB_PSC_ID_RSP x)) FMOB_PSC_ID_RSP
     = (case ser_psc_id_rsp h d x of Inl e \<Rightarrow> Inl e | Inr (h', rv) \<Rightarrow> Inr (h', int rv))"
  by (simp add: fmapi_serialize_def ser_switch_def fmob_defs)

lemma fmapi_deserialize_PSC_ID_RSP:
  "fmapi_deserialize (Some (OB_PSC_ID_RSP d0)) h (Some s) FMOB_PSC_ID_RSP param
     = (case deser_psc_id_rsp d0 h s of
          Inl e \<Rightarrow> Inl e | Inr (x', rv) \<Rightarrow> Inr (Some (OB_PSC_ID_RSP x'), int rv))"
  by (simp add: fmapi_deserialize_def deser_switch_def deser_ret_def fmob_defs
      split: sum.split prod.split)

lemma fmapi_serialize_PSC_PORT_REQ:
  "fmapi_serialize h (Some d) (Some (OB_PSC_PORT_REQ x)) FMOB_PSC_PORT_REQ
     = (case ser_psc_port_req h d x of Inl e \<Rightarrow> Inl e | Inr (h', rv) \<Rightarrow> Inr (h', int rv))"
  by (simp add: fmapi_serialize_def ser_switch_def fmob_defs)

lemma fmapi_deserialize_PSC_PORT_REQ:
  "fmapi_deserialize (Some (OB_PSC_PORT_REQ d0)) h (Some s) FMOB_PSC_PORT_REQ param
     = (case deser_psc_port_req d0 h s of
          Inl e \<Rightarrow> Inl e | Inr (x', rv) \<Rightarrow> Inr (Some (OB_PSC_PORT_REQ x'), int rv))"
  by (simp add: fmapi_deserialize_def deser_switch_def deser_ret_def fmob_defs
      split: sum.split prod.split)

lemma fmapi_serialize_PSC_PORT_INFO:
  "fmapi_serialize h (Some d) (Some (OB_PSC_PORT_INFO x)) FMOB_PSC_PORT_INFO
     = Inr (fst (ser_psc_port_info h d x), int (snd (ser_psc_port_info h d x)))"
  by (simp add: fmapi_serialize_def ser_switch_def fmob_defs split: prod.split)

lemma fmapi_deserialize_PSC_PORT_INFO:
  "fmapi_deserialize (Some (OB_PSC_PORT_INFO d0)) h (Some s) FMOB_PSC_PORT_INFO param
     = Inr (Some (OB_PSC_PORT_INFO (fst (deser_psc_port_info d0 h s))), int (snd (deser_psc_port_info d0 h s)))"
  by (simp add: fmapi_deserialize_def deser_switch_def deser_ret_def fmob_defs split: prod.split)

lemma fmapi_serialize_PSC_PORT_RSP:
  "fmapi_serialize h (Some d) (Some (OB_PSC_PORT_RSP x)) FMOB_PSC_PORT_RSP
     = (case ser_psc_port_rsp h d x of Inl e \<Rightarrow> Inl e | Inr (h', rv) \<Rightarrow> Inr (h', int rv))"
  by (simp add: fmapi_serialize_def ser_switch_def fmob_defs)

lemma fmapi_deserialize_PSC_PORT_RSP:
  "fmapi_deserialize (Some (OB_PSC_PORT_RSP d0)) h (Some s) FMOB_PSC_PORT_RSP param
     = (case deser_psc_port_rsp d0 h s of
          Inl e \<Rightarrow> Inl e | Inr (x', rv) \<Rightarrow> Inr (Some (OB_PSC_PORT_RSP x'), int rv))"
  by (simp add: fmapi_deserialize_def deser_switch_def deser_ret_def fmob_defs
      split: sum.split prod.split)

lemma fmapi_serialize_PSC_PORT_CTRL_REQ:
  "fmapi_serialize h (Some d) (Some (OB_PSC_PORT_CTRL_REQ x)) FMOB_PSC_PORT_CTRL_REQ
     = Inr (fst (ser_psc_port_ctrl_req h d x), int (snd (ser_psc_port_ctrl_req h d x)))"
  by (simp add: fmapi_serialize_def ser_switch_def fmob_defs split: prod.split)

lemma fmapi_deserialize_PSC_PORT_CTRL_REQ:
  "fmapi_deserialize (Some (OB_PSC_PORT_CTRL_REQ d0)) h (Some s) FMOB_PSC_PORT_CTRL_REQ param
     = Inr (Some (OB_PSC_PORT_CTRL_REQ (fst (deser_psc_port_ctrl_req d0 h s))), int (snd (deser_psc_port_ctrl_req d0 h s)))"
  by (simp add: fmapi_deserialize_def deser_switch_def deser_ret_def fmob_defs split: prod.split)

lemma fmapi_serialize_PSC_CFG_REQ:
  "fmapi_serialize h (Some d) (Some (OB_PSC_CFG_REQ x)) FMOB_PSC_CFG_REQ
     = (case ser_psc_cfg_req h d x of Inl e \<Rightarrow> Inl e | Inr (h', rv) \<Rightarrow> Inr (h', int rv))"
  by (simp add: fmapi_serialize_def ser_switch_def fmob_defs)

lemma fmapi_deserialize_PSC_CFG_REQ:
  "fmapi_deserialize (Some (OB_PSC_CFG_REQ d0)) h (Some s) FMOB_PSC_CFG_REQ param
     = (case deser_psc_cfg_req d0 h s of
          Inl e \<Rightarrow> Inl e | Inr (x', rv) \<Rightarrow> Inr (Some (OB_PSC_CFG_REQ x'), int rv))"
  by (simp add: fmapi_deserialize_def deser_switch_def deser_ret_def fmob_defs
      split: sum.split prod.split)

lemma fmapi_serialize_PSC_CFG_RSP:
  "fmapi_serialize h (Some d) (Some (OB_PSC_CFG_RSP x)) FMOB_PSC_CFG_RSP
     = (case ser_psc_cfg_rsp h d x of Inl e \<Rightarrow> Inl e | Inr (h', rv) \<Rightarrow> Inr (h', int rv))"
  by (simp add: fmapi_serialize_def ser_switch_def fmob_defs)

lemma fmapi_deserialize_PSC_CFG_RSP:
  "fmapi_deserialize (Some (OB_PSC_CFG_RSP d0)) h (Some s) FMOB_PSC_CFG_RSP param
     = (case deser_psc_cfg_rsp d0 h s of
          Inl e \<Rightarrow> Inl e | Inr (x', rv) \<Rightarrow> Inr (Some (OB_PSC_CFG_RSP x'), int rv))"
  by (simp add: fmapi_deserialize_def deser_switch_def deser_ret_def fmob_defs
      split: sum.split prod.split)

lemma fmapi_serialize_VSC_INFO_REQ:
  "fmapi_serialize h (Some d) (Some (OB_VSC_INFO_REQ x)) FMOB_VSC_INFO_REQ
     = (case ser_vsc_info_req h d x of Inl e \<Rightarrow> Inl e | Inr (h', rv) \<Rightarrow> Inr (h', int rv))"
  by (simp add: fmapi_serialize_def ser_switch_def fmob_defs)

lemma fmapi_deserialize_VSC_INFO_REQ:
  "fmapi_deserialize (Some (OB_VSC_INFO_REQ d0)) h (Some s) FMOB_VSC_INFO_REQ param
     = (case deser_vsc_info_req d0 h s of
          Inl e \<Rightarrow> Inl e | Inr (x', rv) \<Rightarrow> Inr (Some (OB_VSC_INFO_REQ x'), int rv))"
  by (simp add: fmapi_deserialize_def deser_switch_def deser_ret_def fmob_defs
      split: sum.split prod.split)

lemma fmapi_serialize_VSC_PPB_STAT_BLK:
  "fmapi_serialize h (Some d) (Some (OB_VSC_PPB_STAT_BLK x)) FMOB_VSC_PPB_STAT_BLK
     = Inr (fst (ser_vsc_ppb_stat_blk h d x), int (snd (ser_vsc_ppb_stat_blk h d x)))"
  by (simp add: fmapi_serialize_def ser_switch_def fmob_defs split: prod.split)

lemma fmapi_deserialize_VSC_PPB_STAT_BLK:
  "fmapi_deserialize (Some (OB_VSC_PPB_STAT_BLK d0)) h (Some s) FMOB_VSC_PPB_STAT_BLK param
     = Inr (Some (OB_VSC_PPB_STAT_BLK (fst (deser_vsc_ppb_stat_blk d0 h s))), int (snd (deser_vsc_ppb_stat_blk d0 h s)))"
  by (simp add: fmapi_deserialize_def deser_switch_def deser_ret_def fmob_defs split: prod.split)

lemma fmapi_serialize_VSC_INFO_BLK:
  "fmapi_serialize h (Some d) (Some (OB_VSC_INFO_BLK x)) FMOB_VSC_INFO_BLK
     = (case ser_vsc_info_blk h d x of Inl e \<Rightarrow> Inl e | Inr (h', rv) \<Rightarrow> Inr (h', int rv))"
  by (simp add: fmapi_serialize_def ser_switch_def fmob_defs)

lemma fmapi_deserialize_VSC_INFO_BLK:
  "fmapi_deserialize (Some (OB_VSC_INFO_BLK d0)) h (Some s) FMOB_VSC_INFO_BLK (Some r)
     = (case deser_vsc_info_blk d0 h s (Some r) of
          Inl e \<Rightarrow> Inl e | Inr (x', rv) \<Rightarrow> Inr (Some (OB_VSC_INFO_BLK x'), int rv))"
  by (simp add: fmapi_deserialize_def deser_switch_def deser_ret_def fmob_defs
      split: sum.split prod.split)

lemma fmapi_serialize_VSC_INFO_RSP:
  "fmapi_serialize h (Some d) (Some (OB_VSC_INFO_RSP x)) FMOB_VSC_INFO_RSP
     = (case ser_vsc_info_rsp h d x of Inl e \<Rightarrow> Inl e | Inr (h', rv) \<Rightarrow> Inr (h', int rv))"
  by (simp add: fmapi_serialize_def ser_switch_def fmob_defs)

lemma fmapi_deserialize_VSC_INFO_RSP:
  "fmapi_deserialize (Some (OB_VSC_INFO_RSP d0)) h (Some s) FMOB_VSC_INFO_RSP param
     = (case deser_vsc_info_rsp d0 h s param of
          Inl e \<Rightarrow> Inl e | Inr (x', rv) \<Rightarrow> Inr (Some (OB_VSC_INFO_RSP x'), int rv))"
  by (simp add: fmapi_deserialize_def deser_switch_def deser_ret_def fmob_defs
      split: sum.split prod.split)

lemma fmapi_serialize_VSC_BIND_REQ:
  "fmapi_serialize h (Some d) (Some (OB_VSC_BIND_REQ x)) FMOB_VSC_BIND_REQ
     = Inr (fst (ser_vsc_bind_req h d x), int (snd (ser_vsc_bind_req h d x)))"
  by (simp add: fmapi_serialize_def ser_switch_def fmob_defs split: prod.split)

lemma fmapi_deserialize_VSC_BIND_REQ:
  "fmapi_deserialize (Some (OB_VSC_BIND_REQ d0)) h (Some s) FMOB_VSC_BIND_REQ param
     = Inr (Some (OB_VSC_BIND_REQ (fst (deser_vsc_bind_req d0 h s))), int (snd (deser_vsc_bind_req d0 h s)))"
  by (simp add: fmapi_deserialize_def deser_switch_def deser_ret_def fmob_defs split: prod.split)

lemma fmapi_serialize_VSC_UNBIND_REQ:
  "fmapi_serialize h (Some d) (Some (OB_VSC_UNBIND_REQ x)) FMOB_VSC_UNBIND_REQ
     = Inr (fst (ser_vsc_unbind_req h d x), int (snd (ser_vsc_unbind_req h d x)))"
  by (simp add: fmapi_serialize_def ser_switch_def fmob_defs split: prod.split)

lemma fmapi_deserialize_VSC_UNBIND_REQ:
  "fmapi_deserialize (Some (OB_VSC_UNBIND_REQ d0)) h (Some s) FMOB_VSC_UNBIND_REQ param
     = Inr (Some (OB_VSC_UNBIND_REQ (fst (deser_vsc_unbind_req d0 h s))), int (snd (deser_vsc_unbind_req d0 h s)))"
  by (simp add: fmapi_deserialize_def deser_switch_def deser_ret_def fmob_defs split: prod.split)

lemma fmapi_serialize_VSC_AER_REQ:
  "fmapi_serialize h (Some d) (Some (OB_VSC_AER_REQ x)) FMOB_VSC_AER_REQ
     = (case ser_vsc_aer_req h d x of Inl e \<Rightarrow> Inl e | Inr (h', rv) \<Rightarrow> Inr (h', int rv))"
  by (simp add: fmapi_serialize_def ser_switch_def fmob_defs)

lemma fmapi_deserialize_VSC_AER_REQ:
  "fmapi_deserialize (Some (OB_VSC_AER_REQ d0)) h (Some s) FMOB_VSC_AER_REQ param
     = (case deser_vsc_aer_req d0 h s of
          Inl e \<Rightarrow> Inl e | Inr (x', rv) \<Rightarrow> Inr (Some (OB_VSC_AER_REQ x'), int rv))"
  by (simp add: fmapi_deserialize_def deser_switch_def deser_ret_def fmob_defs
      split: sum.split prod.split)

lemma fmapi_serialize_MPC_TMC_REQ:
  "fmapi_serialize h (Some d) (Some (OB_MPC_TMC_REQ x)) FMOB_MPC_TMC_REQ
     = (case ser_mpc_tmc_req h d x of Inl e \<Rightarrow> Inl e | Inr (h', rv) \<Rightarrow> Inr (h', int rv))"
  by (simp add: fmapi_serialize_def ser_switch_def fmob_defs)

lemma fmapi_deserialize_MPC_TMC_REQ:
  "fmapi_deserialize (Some (OB_MPC_TMC_REQ d0)) h (Some s) FMOB_MPC_TMC_REQ param
     = (case deser_mpc_tmc_req d0 h s of
          Inl e \<Rightarrow> Inl e | Inr (x', rv) \<Rightarrow> Inr (Some (OB_MPC_TMC_REQ x'), int rv))"
  by (simp add: fmapi_deserialize_def deser_switch_def deser_ret_def fmob_defs
      split: sum.split prod.split)

lemma fmapi_serialize_MPC_TMC_RSP:
  "fmapi_serialize h (Some d) (Some (OB_MPC_TMC_RSP x)) FMOB_MPC_TMC_RSP
     = (case ser_mpc_tmc_rsp h d x of Inl e \<Rightarrow> Inl e | Inr (h', rv) \<Rightarrow> Inr (h', int rv))"
  by (simp add: fmapi_serialize_def ser_switch_def fmob_defs)

lemma fmapi_deserialize_MPC_TMC_RSP:
  "fmapi_deserialize (Some (OB_MPC_TMC_RSP d0)) h (Some s) FMOB_MPC_TMC_RSP param
     = (case deser_mpc_tmc_rsp d0 h s of
          Inl e \<Rightarrow> Inl e | Inr (x', rv) \<Rightarrow> Inr (Some (OB_MPC_TMC_RSP x'), int rv))"
  by (simp add: fmapi_deserialize_def deser_switch_def deser_ret_def fmob_defs
      split: sum.split prod.split)

lemma fmapi_serialize_MPC_CFG_REQ:
  "fmapi_serialize h (Some d) (Some (OB_MPC_CFG_REQ x)) FMOB_MPC_CFG_REQ
     = (case ser_mpc_cfg_req h d x of Inl e \<Rightarrow> Inl e | Inr (h', rv) \<Rightarrow> Inr (h', int rv))"
  by (simp add: fmapi_serialize_def ser_switch_def fmob_defs)

lemma fmapi_deserialize_MPC_CFG_REQ:
  "fmapi_deserialize (Some (OB_MPC_CFG_REQ d0)) h (Some s) FMOB_MPC_CFG_REQ param
     = (case deser_mpc_cfg_req d0 h s of
          Inl e \<Rightarrow> Inl e | Inr (x', rv) \<Rightarrow> Inr (Some (OB_MPC_CFG_REQ x'), int rv))"
  by (simp add: fmapi_deserialize_def deser_switch_def deser_ret_def fmob_defs
      split: sum.split prod.split)

lemma fmapi_serialize_MPC_CFG_RSP:
  "fmapi_serialize h (Some d) (Some (OB_MPC_CFG_RSP x)) FMOB_MPC_CFG_RSP
     = (case ser_mpc_cfg_rsp h d x of Inl e \<Rightarrow> Inl e | Inr (h', rv) \<Rightarrow> Inr (h', int rv))"
  by (simp add: fmapi_serialize_def ser_switch_def fmob_defs)

lemma fmapi_deserialize_MPC_CFG_RSP:
  "fmapi_deserialize (Some (OB_MPC_CFG_RSP d0)) h (Some s) FMOB_MPC_CFG_RSP param
     = (case deser_mpc_cfg_rsp d0 h s of
          Inl e \<Rightarrow> Inl e | Inr (x', rv) \<Rightarrow> Inr (Some (OB_MPC_CFG_RSP x'), int rv))"
  by (simp add: fmapi_deserialize_def deser_switch_def deser_ret_def fmob_defs
      split: sum.split prod.split)

lemma fmapi_serialize_MPC_MEM_REQ:
  "fmapi_serialize h (Some d) (Some (OB_MPC_MEM_REQ x)) FMOB_MPC_MEM_REQ
     = (case ser_mpc_mem_req h d x of Inl e \<Rightarrow> Inl e | Inr (h', rv) \<Rightarrow> Inr (h', int rv))"
  by (simp add: fmapi_serialize_def ser_switch_def fmob_defs)

lemma fmapi_deserialize_MPC_MEM_REQ:
  "fmapi_deserialize (Some (OB_MPC_MEM_REQ d0)) h (Some s) FMOB_MPC_MEM_REQ param
     = (case deser_mpc_mem_req d0 h s of
          Inl e \<Rightarrow> Inl e | Inr (x', rv) \<Rightarrow> Inr (Some (OB_MPC_MEM_REQ x'), int rv))"
  by (simp add: fmapi_deserialize_def deser_switch_def deser_ret_def fmob_defs
      split: sum.split prod.split)

lemma fmapi_serialize_MPC_MEM_RSP:
  "fmapi_serialize h (Some d) (Some (OB_MPC_MEM_RSP x)) FMOB_MPC_MEM_RSP
     = (case ser_mpc_mem_rsp h d x of Inl e \<Rightarrow> Inl e | Inr (h', rv) \<Rightarrow> Inr (h', int rv))"
  by (simp add: fmapi_serialize_def ser_switch_def fmob_defs)

lemma fmapi_deserialize_MPC_MEM_RSP:
  "fmapi_deserialize (Some (OB_MPC_MEM_RSP d0)) h (Some s) FMOB_MPC_MEM_RSP param
     = (case deser_mpc_mem_rsp d0 h s of
          Inl e \<Rightarrow> Inl e | Inr (x', rv) \<Rightarrow> Inr (Some (OB_MPC_MEM_RSP x'), int rv))"
  by (simp add: fmapi_deserialize_def deser_switch_def deser_ret_def fmob_defs
      split: sum.split prod.split)

lemma fmapi_serialize_MCC_INFO_RSP:
  "fmapi_serialize h (Some d) (Some (OB_MCC_INFO_RSP x)) FMOB_MCC_INFO_RSP
     = Inr (fst (ser_mcc_info_rsp h d x), int (snd (ser_mcc_info_rsp h d x)))"
  by (simp add: fmapi_serialize_def ser_switch_def fmob_defs split: prod.split)

lemma fmapi_deserialize_MCC_INFO_RSP:
  "fmapi_deserialize (Some (OB_MCC_INFO_RSP d0)) h (Some s) FMOB_MCC_INFO_RSP param
     = Inr (Some (OB_MCC_INFO_RSP (fst (deser_mcc_info_rsp d0 h s))), int (snd (deser_mcc_info_rsp d0 h s)))"
  by (simp add: fmapi_deserialize_def deser_switch_def deser_ret_def fmob_defs split: prod.split)

lemma fmapi_serialize_MCC_ALLOC_BLK:
  "fmapi_serialize h (Some d) (Some (OB_MCC_ALLOC_BLK x)) FMOB_MCC_ALLOC_BLK
     = Inr (fst (ser_mcc_alloc_blk h d x), int (snd (ser_mcc_alloc_blk h d x)))"
  by (simp add: fmapi_serialize_def ser_switch_def fmob_defs split: prod.split)

lemma fmapi_deserialize_MCC_ALLOC_BLK:
  "fmapi_deserialize (Some (OB_MCC_ALLOC_BLK d0)) h (Some s) FMOB_MCC_ALLOC_BLK param
     = Inr (Some (OB_MCC_ALLOC_BLK (fst (deser_mcc_alloc_blk d0 h s))), int (snd (deser_mcc_alloc_blk d0 h s)))"
  by (simp add: fmapi_deserialize_def deser_switch_def deser_ret_def fmob_defs split: prod.split)

lemma fmapi_serialize_MCC_ALLOC_GET_REQ:
  "fmapi_serialize h (Some d) (Some (OB_MCC_ALLOC_GET_REQ x)) FMOB_MCC_ALLOC_GET_REQ
     = Inr (fst (ser_mcc_alloc_get_req h d x), int (snd (ser_mcc_alloc_get_req h d x)))"
  by (simp add: fmapi_serialize_def ser_switch_def fmob_defs split: prod.split)

lemma fmapi_deserialize_MCC_ALLOC_GET_REQ:
  "fmapi_deserialize (Some (OB_MCC_ALLOC_GET_REQ d0)) h (Some s) FMOB_MCC_ALLOC_GET_REQ param
     = Inr (Some (OB_MCC_ALLOC_GET_REQ (fst (deser_mcc_alloc_get_req d0 h s))), int (snd (deser_mcc_alloc_get_req d0 h s)))"
  by (simp add: fmapi_deserialize_def deser_switch_def deser_ret_def fmob_defs split: prod.split)

lemma fmapi_serialize_MCC_ALLOC_GET_RSP:
  "fmapi_serialize h (Some d) (Some (OB_MCC_ALLOC_GET_RSP x)) FMOB_MCC_ALLOC_GET_RSP
     = (case ser_mcc_alloc_get_rsp h d x of Inl e \<Rightarrow> Inl e | Inr (h', rv) \<Rightarrow> Inr (h', int rv))"
  by (simp add: fmapi_serialize_def ser_switch_def fmob_defs)

lemma fmapi_deserialize_MCC_ALLOC_GET_RSP:
  "fmapi_deserialize (Some (OB_MCC_ALLOC_GET_RSP d0)) h (Some s) FMOB_MCC_ALLOC_GET_RSP param
     = (case deser_mcc_alloc_get_rsp d0 h s of
          Inl e \<Rightarrow> Inl e | Inr (x', rv) \<Rightarrow> Inr (Some (OB_MCC_ALLOC_GET_RSP x'), int rv))"
  by (simp add: fmapi_deserialize_def deser_switch_def deser_ret_def fmob_defs
      split: sum.split prod.split)

lemma fmapi_serialize_MCC_ALLOC_SET_REQ:
  "fmapi_serialize h (Some d) (Some (OB_MCC_ALLOC_SET_REQ x)) FMOB_MCC_ALLOC_SET_REQ
     = (case ser_mcc_alloc_set_req h d x of Inl e \<Rightarrow> Inl e | Inr (h', rv) \<Rightarrow> Inr (h', int rv))"
  by (simp add: fmapi_serialize_def ser_switch_def fmob_defs)

lemma fmapi_deserialize_MCC_ALLOC_SET_REQ:
  "fmapi_deserialize (Some (OB_MCC_ALLOC_SET_REQ d0)) h (Some s) FMOB_MCC_ALLOC_SET_REQ param
     = (case deser_mcc_alloc_set_req d0 h s of
          Inl e \<Rightarrow> Inl e | Inr (x', rv) \<Rightarrow> Inr (Some (OB_MCC_ALLOC_SET_REQ x'), int rv))"
  by (simp add: fmapi_deserialize_def deser_switch_def deser_ret_def fmob_defs
      split: sum.split prod.split)

lemma fmapi_serialize_MCC_ALLOC_SET_RSP:
  "fmapi_serialize h (Some d) (Some (OB_MCC_ALLOC_SET_RSP x)) FMOB_MCC_ALLOC_SET_RSP
     = (case ser_mcc_alloc_set_rsp h d x of Inl e \<Rightarrow> Inl e | Inr (h', rv) \<Rightarrow> Inr (h', int rv))"
  by (simp add: fmapi_serialize_def ser_switch_def fmob_defs)

lemma fmapi_deserialize_MCC_ALLOC_SET_RSP:
  "fmapi_deserialize (Some (OB_MCC_ALLOC_SET_RSP d0)) h (Some s) FMOB_MCC_ALLOC_SET_RSP param
     = (case deser_mcc_alloc_set_rsp d0 h s of
          Inl e \<Rightarrow> Inl e | Inr (x', rv) \<Rightarrow> Inr (Some (OB_MCC_ALLOC_SET_RSP x'), int rv))"
  by (simp add: fmapi_deserialize_def deser_switch_def deser_ret_def fmob_defs
      split: sum.split prod.split)

lemma fmapi_serialize_MCC_QOS_CTRL:
  "fmapi_serialize h (Some d) (Some (OB_MCC_QOS_CTRL x)) FMOB_MCC_QOS_CTRL
     = Inr (fst (ser_mcc_qos_ctrl h d x), int (snd (ser_mcc_qos_ctrl h d x)))"
  by (simp add: fmapi_serialize_def ser_switch_def fmob_defs split: prod.split)

lemma fmapi_deserialize_MCC_QOS_CTRL:
  "fmapi_deserialize (Some (OB_MCC_QOS_CTRL d0)) h (Some s) FMOB_MCC_QOS_CTRL param
     = Inr (Some (OB_MCC_QOS_CTRL (fst (deser_mcc_qos_ctrl d0 h s))), int (snd (deser_mcc_qos_ctrl d0 h s)))"
  by (simp add: fmapi_deserialize_def deser_switch_def deser_ret_def fmob_defs split: prod.split)

lemma fmapi_serialize_MCC_QOS_STAT_RSP:
  "fmapi_serialize h (Some d) (Some (OB_MCC_QOS_STAT_RSP x)) FMOB_MCC_QOS_STAT_RSP
     = Inr (fst (ser_mcc_qos_stat_rsp h d x), int (snd (ser_mcc_qos_stat_rsp h d x)))"
  by (simp add: fmapi_serialize_def ser_switch_def fmob_defs split: prod.split)

lemma fmapi_deserialize_MCC_QOS_STAT_RSP:
  "fmapi_deserialize (Some (OB_MCC_QOS_STAT_RSP d0)) h (Some s) FMOB_MCC_QOS_STAT_RSP param
     = Inr (Some (OB_MCC_QOS_STAT_RSP (fst (deser_mcc_qos_stat_rsp d0 h s))), int (snd (deser_mcc_qos_stat_rsp d0 h s)))"
  by (simp add: fmapi_deserialize_def deser_switch_def deser_ret_def fmob_defs split: prod.split)

lemma fmapi_serialize_MCC_QOS_BW_GET_REQ:
  "fmapi_serialize h (Some d) (Some (OB_MCC_QOS_BW_GET_REQ x)) FMOB_MCC_QOS_BW_GET_REQ
     = Inr (fst (ser_mcc_qos_bw_get_req h d x), int (snd (ser_mcc_qos_bw_get_req h d x)))"
  by (simp add: fmapi_serialize_def ser_switch_def fmob_defs split: prod.split)

lemma fmapi_deserialize_MCC_QOS_BW_GET_REQ:
  "fmapi_deserialize (Some (OB_MCC_QOS_BW_GET_REQ d0)) h (Some s) FMOB_MCC_QOS_BW_GET_REQ param
     = Inr (Some (OB_MCC_QOS_BW_GET_REQ (fst (deser_mcc_qos_bw_get_req d0 h s))), int (snd (deser_mcc_qos_bw_get_req d0 h s)))"
  by (simp add: fmapi_deserialize_def deser_switch_def deser_ret_def fmob_defs split: prod.split)

lemma fmapi_serialize_MCC_QOS_BW_ALLOC:
  "fmapi_serialize h (Some d) (Some (OB_MCC_QOS_BW_ALLOC x)) FMOB_MCC_QOS_BW_ALLOC
     = (case ser_mcc_qos_bw_alloc h d x of Inl e \<Rightarrow> Inl e | Inr (h', rv) \<Rightarrow> Inr (h', int rv))"
  by (simp add: fmapi_serialize_def ser_switch_def fmob_defs)

lemma fmapi_deserialize_MCC_QOS_BW_ALLOC:
  "fmapi_deserialize (Some (OB_MCC_QOS_BW_ALLOC d0)) h (Some s) FMOB_MCC_QOS_BW_ALLOC param
     = (case deser_mcc_qos_bw_alloc d0 h s of
          Inl e \<Rightarrow> Inl e | Inr (x', rv) \<Rightarrow> Inr (Some (OB_MCC_QOS_BW_ALLOC x'), int rv))"
  by (simp add: fmapi_deserialize_def deser_switch_def deser_ret_def fmob_defs
      split: sum.split prod.split)

lemma fmapi_serialize_MCC_QOS_BW_LIMIT_GET_REQ:
  "fmapi_serialize h (Some d) (Some (OB_MCC_QOS_BW_LIMIT_GET_REQ x)) FMOB_MCC_QOS_BW_LIMIT_GET_REQ
     = Inr (fst (ser_mcc_qos_bw_limit_get_req h d x), int (snd (ser_mcc_qos_bw_limit_get_req h d x)))"
  by (simp add: fmapi_serialize_def ser_switch_def fmob_defs split: prod.split)

lemma fmapi_deserialize_MCC_QOS_BW_LIMIT_GET_REQ:
  "fmapi_deserialize (Some (OB_MCC_QOS_BW_LIMIT_GET_REQ d0)) h (Some s) FMOB_MCC_QOS_BW_LIMIT_GET_REQ param
     = Inr (Some (OB_MCC_QOS_BW_LIMIT_GET_REQ (fst (deser_mcc_qos_bw_limit_get_req d0 h s))), int (snd (deser_mcc_qos_bw_limit_get_req d0 h s)))"
  by (simp add: fmapi_deserialize_def deser_switch_def deser_ret_def fmob_defs split: prod.split)

lemma fmapi_serialize_MCC_QOS_BW_LIMIT:
  "fmapi_serialize h (Some d) (Some (OB_MCC_QOS_BW_LIMIT x)) FMOB_MCC_QOS_BW_LIMIT
     = (case ser_mcc_qos_bw_limit h d x of Inl e \<Rightarrow> Inl e | Inr (h', rv) \<Rightarrow> Inr (h', int rv))"
  by (simp add: fmapi_serialize_def ser_switch_def fmob_defs)

lemma fmapi_deserialize_MCC_QOS_BW_LIMIT:
  "fmapi_deserialize (Some (OB_MCC_QOS_BW_LIMIT d0)) h (Some s) FMOB_MCC_QOS_BW_LIMIT param
     = (case deser_mcc_qos_bw_limit d0 h s of
          Inl e \<Rightarrow> Inl e | Inr (x', rv) \<Rightarrow> Inr (Some (OB_MCC_QOS_BW_LIMIT x'), int rv))"
  by (simp add: fmapi_deserialize_def deser_switch_def deser_ret_def fmob_defs
      split: sum.split prod.split)

section \<open>The kind registry is total, with the empty kind for no payload\<close>

lemma fmob_req_range: "fmapi_fmob_req opc < FMOB_MAX"
  by (simp add: fmapi_fmob_req_def fmob_defs)

lemma fmob_rsp_range: "fmapi_fmob_rsp opc < FMOB_MAX"
  by (simp add: fmapi_fmob_rsp_def fmob_defs)

lemma fmob_req_null_iff:
  "fmapi_fmob_req opc = FMOB_NULL \<longleftrightarrow> opc \<notin> set fmop_known \<or> opc \<in> set fmop_req_empty"
  by (simp add: fmapi_fmob_req_def fmop_known_def fmop_req_empty_def fmob_defs fmop_defs)

lemma fmob_rsp_null_iff:
  "fmapi_fmob_rsp opc = FMOB_NULL \<longleftrightarrow> opc \<notin> set fmop_known \<or> opc \<in> set fmop_rsp_empty"
  by (simp add: fmapi_fmob_rsp_def fmop_known_def fmop_rsp_empty_def fmob_defs fmop_defs)

text \<open>
  C8. \<^verbatim>\<open>fmapi_fmob_req\<close> and \<^verbatim>\<open>fmapi_fmob_rsp\<close> are total over the opcodes: for every
  opcode each returns a kind of the enumeration. A command whose request (response)
  has no payload maps to \<^verbatim>\<open>FMOB_NULL\<close> in that direction, an opcode outside the command
  set maps to \<^verbatim>\<open>FMOB_NULL\<close> in both, and every other command maps to a kind with a
  payload; so \<^verbatim>\<open>FMOP_PSC_ID\<close> has the empty request and the response
  \<^verbatim>\<open>FMOB_PSC_ID_RSP\<close>.
\<close>

theorem fmapi_fmob_total:
  "fmapi_fmob_req opc < FMOB_MAX \<and> fmapi_fmob_rsp opc < FMOB_MAX
   \<and> (opc \<in> set fmop_req_empty \<longrightarrow> fmapi_fmob_req opc = FMOB_NULL)
   \<and> (opc \<in> set fmop_rsp_empty \<longrightarrow> fmapi_fmob_rsp opc = FMOB_NULL)
   \<and> (opc \<notin> set fmop_known \<longrightarrow> fmapi_fmob_req opc = FMOB_NULL \<and> fmapi_fmob_rsp opc = FMOB_NULL)
   \<and> (opc \<in> set fmop_known \<longrightarrow> opc \<notin> set fmop_req_empty \<longrightarrow> fmapi_fmob_req opc \<noteq> FMOB_NULL)
   \<and> (opc \<in> set fmop_known \<longrightarrow> opc \<notin> set fmop_rsp_empty \<longrightarrow> fmapi_fmob_rsp opc \<noteq> FMOB_NULL)
   \<and> fmapi_fmob_req FMOP_PSC_ID = FMOB_NULL \<and> fmapi_fmob_rsp FMOP_PSC_ID = FMOB_PSC_ID_RSP"
proof -
  have ex: "fmapi_fmob_req FMOP_PSC_ID = FMOB_NULL \<and> fmapi_fmob_rsp FMOP_PSC_ID = FMOB_PSC_ID_RSP"
    by (simp add: fmapi_fmob_req_def fmapi_fmob_rsp_def)
  show ?thesis
    using fmob_req_range [of opc] fmob_rsp_range [of opc] fmob_req_null_iff [of opc]
      fmob_rsp_null_iff [of opc] ex
    by blast
qed

theorem fmapi_fmob_total_witness:
  "FMOP_MCC_INFO \<in> set fmop_known \<and> FMOP_MCC_INFO \<in> set fmop_req_empty
   \<and> FMOP_MCC_INFO \<notin> set fmop_rsp_empty
   \<and> fmapi_fmob_req FMOP_MCC_INFO = FMOB_NULL \<and> fmapi_fmob_rsp FMOP_MCC_INFO \<noteq> FMOB_NULL
   \<and> FMOP_VSC_BIND \<in> set fmop_known \<and> FMOP_VSC_BIND \<in> set fmop_rsp_empty
   \<and> FMOP_VSC_BIND \<notin> set fmop_req_empty
   \<and> fmapi_fmob_rsp FMOP_VSC_BIND = FMOB_NULL \<and> fmapi_fmob_req FMOP_VSC_BIND \<noteq> FMOB_NULL
   \<and> (0x5500 :: nat) \<notin> set fmop_known
   \<and> fmapi_fmob_req 0x5500 = FMOB_NULL \<and> fmapi_fmob_rsp 0x5500 = FMOB_NULL"
proof -
  have a: "FMOP_MCC_INFO \<in> set fmop_known \<and> FMOP_MCC_INFO \<in> set fmop_req_empty
      \<and> FMOP_MCC_INFO \<notin> set fmop_rsp_empty"
    by (simp add: fmop_known_def fmop_req_empty_def fmop_rsp_empty_def fmop_defs)
  have b: "FMOP_VSC_BIND \<in> set fmop_known \<and> FMOP_VSC_BIND \<in> set fmop_rsp_empty
      \<and> FMOP_VSC_BIND \<notin> set fmop_req_empty"
    by (simp add: fmop_known_def fmop_req_empty_def fmop_rsp_empty_def fmop_defs)
  have c: "(0x5500 :: nat) \<notin> set fmop_known"
    by (simp add: fmop_known_def fmop_defs)
  show ?thesis
    using a b c fmapi_fmob_total [of FMOP_MCC_INFO] fmapi_fmob_total [of FMOP_VSC_BIND]
      fmapi_fmob_total [of "0x5500"]
    by blast
qed

section \<open>The builder of the request for all ports\<close>

lemma fill_ports_eq:
  "i + k \<le> length ps \<Longrightarrow>
   fill_ports ps i k = take i ps @ map of_nat [i..<i + k] @ drop (i + k) ps"
proof (induction k arbitrary: i ps)
  case 0
  then show ?case by simp
next
  case (Suc k)
  have "fill_ports ps i (Suc k) = fill_ports (ps[i := of_nat i]) (Suc i) k" by simp
  also have "\<dots> = take (Suc i) (ps[i := of_nat i]) @ map of_nat [Suc i..<Suc i + k]
      @ drop (Suc i + k) (ps[i := of_nat i])"
    using Suc.prems by (intro Suc.IH) simp
  also have "take (Suc i) (ps[i := of_nat i]) = take i ps @ [of_nat i]"
    using Suc.prems by (simp add: take_Suc_conv_app_nth)
  also have "drop (Suc i + k) (ps[i := of_nat i]) = drop (i + Suc k) ps"
    by simp
  finally have step: "fill_ports ps i (Suc k)
      = (take i ps @ [of_nat i]) @ map of_nat [Suc i..<Suc i + k] @ drop (i + Suc k) ps" .
  have "[i..<i + Suc k] = i # [Suc i..<Suc i + k]"
    by (simp add: upt_conv_Cons)
  then show ?case
    unfolding step by simp
qed

lemma of_nat_255_u8: "n < 255 \<Longrightarrow> (of_nat n :: u8) \<noteq> 255"
proof
  assume n: "n < 255" and e: "(of_nat n :: u8) = 255"
  have "unat (of_nat n :: u8) = n" using n by (simp add: unat_of_nat)
  moreover have "unat (255 :: u8) = 255" by simp
  ultimately show False using e n by simp
qed

text \<open>
  C10. \<^verbatim>\<open>fmapi_fill_psc_get_all_ports\<close> on a message returns 0, sets the opcode
  \<^verbatim>\<open>FMOP_PSC_PORT\<close> and fills the request with \<open>num = 255\<close> and the port ids 0 to 254
  in this order. The id 255 is not among the 255 listed ports, although the array
  has \<^verbatim>\<open>FM_MAX_PORTS\<close> = 256 entries: its last entry is not written, it keeps what
  the union held there (\<open>raw\<close> when the union held another member).
\<close>

theorem fill_psc_get_all_ports_255:
  assumes "length (ppr_ports (union_psc_port_req raw (msg_obj mm))) = FM_MAX_PORTS"
  shows "\<exists>m' req.
     fmapi_fill_psc_get_all_ports raw (Some mm) = Inr (0, Some m')
     \<and> hdr_opcode (msg_hdr m') = of_nat FMOP_PSC_PORT
     \<and> msg_obj m' = OB_PSC_PORT_REQ req
     \<and> ppr_num req = 255
     \<and> take (unat (ppr_num req)) (ppr_ports req) = map of_nat [0..<255]
     \<and> 255 \<notin> set (take (unat (ppr_num req)) (ppr_ports req))
     \<and> length (ppr_ports req) = FM_MAX_PORTS
     \<and> ppr_ports req ! 255 = ppr_ports (union_psc_port_req raw (msg_obj mm)) ! 255"
proof -
  let ?ps = "ppr_ports (union_psc_port_req raw (msg_obj mm))"
  have len: "length ?ps = 256" using assms by (simp add: FM_MAX_PORTS_def)
  have fp: "fill_ports ?ps 0 255 = map of_nat [0..<255] @ drop 255 ?ps"
    using fill_ports_eq [of 0 255 ?ps] len by simp
  have tk: "take 255 (fill_ports ?ps 0 255) = map of_nat [0..<255]"
    unfolding fp by simp
  have notin: "(255 :: u8) \<notin> set (map of_nat [0..<255])"
    using of_nat_255_u8 by auto
  have last: "fill_ports ?ps 0 255 ! 255 = ?ps ! 255"
    unfolding fp using len by (simp add: nth_append)
  have l2: "length (fill_ports ?ps 0 255) = 256"
    unfolding fp using len by simp
  show ?thesis
    using len tk notin last l2
    by (simp add: fmapi_fill_psc_get_all_ports_def Let_def FM_MAX_PORTS_def)
qed

theorem fill_psc_get_all_ports_255_witness:
  "length (ppr_ports (union_psc_port_req ex_port_req_raw (msg_obj ex_msg))) = FM_MAX_PORTS
   \<and> (\<exists>m' req.
     fmapi_fill_psc_get_all_ports ex_port_req_raw (Some ex_msg) = Inr (0, Some m')
     \<and> msg_obj m' = OB_PSC_PORT_REQ req
     \<and> ppr_num req = 255
     \<and> take (unat (ppr_num req)) (ppr_ports req) = map of_nat [0..<255]
     \<and> 255 \<notin> set (take (unat (ppr_num req)) (ppr_ports req))
     \<and> ppr_ports req ! 255 = 0xEE)"
proof -
  have l: "length (ppr_ports (union_psc_port_req ex_port_req_raw (msg_obj ex_msg))) = FM_MAX_PORTS"
    by (simp add: union_psc_port_req_def ex_msg_def ex_port_req_raw_def)
  have u: "ppr_ports (union_psc_port_req ex_port_req_raw (msg_obj ex_msg)) ! 255 = 0xEE"
    by (simp add: union_psc_port_req_def ex_msg_def ex_port_req_raw_def FM_MAX_PORTS_def)
  show ?thesis
    using fill_psc_get_all_ports_255 [OF l, unfolded u] l by blast
qed

section \<open>Bytes of a word and back\<close>

lemma m32: "(255 :: 32 word) = mask 8" "(240 :: 32 word) = push_bit 4 (mask 4)"
  "(15 :: 32 word) = mask 4" "(248 :: 32 word) = push_bit 3 (mask 5)" "(1 :: 32 word) = mask 1"
  "(128 :: 32 word) = push_bit 7 (mask 1)" "(127 :: 32 word) = mask 7"
  "(2031616 :: 32 word) = push_bit 16 (mask 5)"
  by (simp_all add: mask_eq_exp_minus_1 push_bit_eq_mult)

lemma le16_rt:
  "ucast (push_bit 8 (i32 (ucast (drop_bit 8 (i32 x) AND 255) :: u8))
          OR i32 (ucast (i32 x AND 255) :: u8)) = (x :: u16)"
  unfolding m32 i32_def
  by (rule bit_word_eqI) (auto simp: bit_simps)

lemma cat_rt:
  "ucast (drop_bit 4 (i32 (ucast (push_bit 4 (i32 c) AND 240) :: u8)) AND 15) = (c :: 4 word)"
  unfolding m32 i32_def
  by (rule bit_word_eqI) (auto simp: bit_simps)

lemma bg_rt:
  "ucast (i32 (ucast ((drop_bit 13 (i32 (l::21 word)) AND 248) OR (i32 (b :: 1 word) AND 1)) :: u8)
          AND 1) = b"
  unfolding m32 i32_def
  by (rule bit_word_eqI) (auto simp: bit_simps)

lemma len_rt:
  "ucast (push_bit 13 (i32 (ucast ((drop_bit 13 (i32 l) AND 248) OR (i32 (b :: 1 word) AND 1)) :: u8))
            AND 2031616
          OR push_bit 8 (i32 (ucast (drop_bit 8 (i32 l) AND 255) :: u8))
          OR i32 (ucast (i32 l AND 255) :: u8)) = (l::21 word)"
  unfolding m32 i32_def
  apply (rule bit_word_eqI)
  subgoal for n
    apply (cases "n < 8"; cases "n < 13"; cases "n < 16")
           apply (auto simp: bit_simps)
    done
  done

text \<open>Values of the bytes: the 16-bit length fields and the subtraction in 8 bits.\<close>

lemma unat_i32_16: "unat (i32 (x :: u16)) = unat x"
proof -
  have "unat x < 2 ^ 16" using unsigned_less [of x, where ?'a = nat] by simp
  then have "unat x < 2 ^ 32" by simp
  then show ?thesis
    by (simp add: i32_def unsigned_ucast_eq take_bit_nat_eq_self)
qed

lemma unat_i32_8: "unat (i32 (x :: u8)) = unat x"
proof -
  have "unat x < 2 ^ 8" using unsigned_less [of x, where ?'a = nat] by simp
  then have "unat x < 2 ^ 32" by simp
  then show ?thesis
    by (simp add: i32_def unsigned_ucast_eq take_bit_nat_eq_self)
qed

lemma sub8: "(ucast (i32 (a::u8) - i32 (b::u8)) :: u8) = a - b"
proof -
  have ua: "uint a mod 4294967296 = uint a"
    using uint_bounded [of a] by simp
  have ub: "uint b mod 4294967296 = uint b"
    using uint_bounded [of b] by simp
  have "(256::int) dvd 4294967296" by simp
  then have "(uint a - uint b) mod 4294967296 mod 256 = (uint a - uint b) mod 256"
    by (rule mod_mod_cancel)
  then show ?thesis
    unfolding i32_def
    by (simp add: unsigned_ucast_eq word_eq_iff_unsigned [where ?'a = int] uint_word_ariths
        take_bit_eq_mod ua ub)
qed

lemma unat_low_byte: "unat (ucast ((w :: u32) AND 255) :: u8) = unat w mod 256"
proof -
  have m: "(255 :: u32) = mask 8" by (simp add: mask_eq_exp_minus_1)
  have "unat (ucast (w AND mask 8) :: u8) = take_bit 8 (take_bit 8 (unat w))"
    by (simp only: unsigned_ucast_eq unsigned_take_bit_eq flip: take_bit_eq_mask) simp
  then show ?thesis
    unfolding m by (simp add: take_bit_eq_mod)
qed

lemma unat_high_byte: "unat (ucast (drop_bit 8 (w :: u32) AND 255) :: u8) = unat w div 256 mod 256"
  unfolding unat_low_byte by (simp add: unat_drop_bit_eq drop_bit_eq_div unat_div_distrib)

lemma tmc_len_wire:
  fixes L :: u16
  assumes "unat L + 1 < 65536"
  shows "unat (ucast ((i32 L + 1) AND 255) :: u8) + 256 * unat (ucast (drop_bit 8 (i32 L + 1) AND 255) :: u8) = unat L + 1"
proof -
  have "unat (i32 L) + unat (1 :: u32) < 2 ^ 32"
    using assms by (simp add: unat_i32_16)
  then have w: "unat (i32 L + 1) = unat L + 1"
    by (simp add: unat_add_lem [THEN iffD1] unat_i32_16)
  have "(unat L + 1) div 256 < 256" using assms by simp
  then show ?thesis
    unfolding unat_low_byte unat_drop_bit_eq w by (simp add: drop_bit_eq_div)
qed

lemma unat_le16: "unat (push_bit 8 (i32 (b1 :: u8)) OR i32 (b0 :: u8)) = unat b0 + 256 * unat b1"
proof -
  have b0: "unat b0 < 256" using unsigned_less [of b0, where ?'a = nat] by simp
  have b1: "unat b1 < 256" using unsigned_less [of b1, where ?'a = nat] by simp
  have "push_bit 8 (i32 b1) OR i32 b0 = push_bit 8 (i32 b1) + i32 b0"
    unfolding i32_def
    by (rule disjunctive_add [symmetric]) (auto simp: bit_simps dest: bit_imp_le_length)
  moreover have "unat (push_bit 8 (i32 b1)) = 256 * unat b1"
    using b1 by (simp add: push_bit_eq_mult unat_word_ariths unat_i32_8)
  moreover have "unat (push_bit 8 (i32 b1) + i32 b0) = unat (push_bit 8 (i32 b1)) + unat (i32 b0)"
    using b0 b1 calculation(2) by (simp add: unat_add_lem [THEN iffD1] unat_i32_8)
  ultimately show ?thesis by (simp add: unat_i32_8)
qed

lemma tmc_len_decode:
  assumes "1 \<le> unat b0 + 256 * unat (b1 :: u8)"
  shows "unat (ucast ((push_bit 8 (i32 b1) OR i32 (b0 :: u8)) - 1) :: u16) = unat b0 + 256 * unat b1 - 1"
proof -
  let ?w = "push_bit 8 (i32 b1) OR i32 b0"
  have b0: "unat b0 < 256" using unsigned_less [of b0, where ?'a = nat] by simp
  have b1: "unat b1 < 256" using unsigned_less [of b1, where ?'a = nat] by simp
  have v: "unat ?w = unat b0 + 256 * unat b1" by (rule unat_le16)
  have "1 \<le> ?w" using assms v by (simp add: word_le_nat_alt)
  then have "unat (?w - 1) = unat ?w - 1"
    by (simp add: unat_sub)
  then have e: "unat (?w - 1) = unat b0 + 256 * unat b1 - 1" using v by simp
  have "unat (ucast (?w - 1) :: u16) = unat (?w - 1) mod 65536"
    by (simp add: unsigned_ucast_eq take_bit_eq_mod)
  then show ?thesis unfolding e using b0 b1 by simp
qed

text \<open>Words of 32 and 64 bits, bytes shared by two fields, and flags.\<close>

lemma m64: "(255 :: 64 word) = mask 8"
  by (simp add: mask_eq_exp_minus_1)

lemma byte_at64: "push_bit k (drop_bit k x AND mask 8) = (x :: u64) AND push_bit k (mask 8)"
  by (rule bit_word_eqI) (auto simp: bit_simps)

lemma byte0_64: "i64 (ucast (x AND 255) :: u8) = (x :: u64) AND mask 8"
  unfolding i64_def m64 by (rule bit_word_eqI) (auto simp: bit_simps)

lemma full64:
  "push_bit 56 (mask 8) OR push_bit 48 (mask 8) OR push_bit 40 (mask 8) OR push_bit 32 (mask 8)
   OR push_bit 24 (mask 8) OR push_bit 16 (mask 8) OR push_bit 8 (mask 8) OR mask 8 = (- 1 :: u64)"
  by (simp add: mask_eq_exp_minus_1 push_bit_eq_mult)

lemma le64_rt:
  "push_bit 56 (i64 (ucast (drop_bit 56 x AND 255) :: u8))
   OR push_bit 48 (i64 (ucast (drop_bit 48 x AND 255) :: u8))
   OR push_bit 40 (i64 (ucast (drop_bit 40 x AND 255) :: u8))
   OR push_bit 32 (i64 (ucast (drop_bit 32 x AND 255) :: u8))
   OR push_bit 24 (i64 (ucast (drop_bit 24 x AND 255) :: u8))
   OR push_bit 16 (i64 (ucast (drop_bit 16 x AND 255) :: u8))
   OR push_bit 8 (i64 (ucast (drop_bit 8 x AND 255) :: u8))
   OR i64 (ucast (x AND 255) :: u8) = (x :: u64)"
  apply (simp only: byte0_64)
  apply (simp only: byte_at64 flip: bit.conj_disj_distrib)
  apply (simp only: full64)
  apply simp
  done

lemma byte_at32: "push_bit k (drop_bit k x AND mask 8) = (x :: u32) AND push_bit k (mask 8)"
  by (rule bit_word_eqI) (auto simp: bit_simps)

lemma byte0_32: "i32 (ucast (x AND 255) :: u8) = (x :: u32) AND mask 8"
  unfolding i32_def m32 by (rule bit_word_eqI) (auto simp: bit_simps)

lemma full32:
  "push_bit 24 (mask 8) OR push_bit 16 (mask 8) OR push_bit 8 (mask 8) OR mask 8 = (- 1 :: u32)"
  by (simp add: mask_eq_exp_minus_1 push_bit_eq_mult)

lemma le32_rt:
  "push_bit 24 (i32 (ucast (drop_bit 24 x AND 255) :: u8))
   OR push_bit 16 (i32 (ucast (drop_bit 16 x AND 255) :: u8))
   OR push_bit 8 (i32 (ucast (drop_bit 8 x AND 255) :: u8))
   OR i32 (ucast (x AND 255) :: u8) = (x :: u32)"
  apply (simp only: byte0_32)
  apply (simp only: byte_at32 flip: bit.conj_disj_distrib)
  apply (simp only: full32)
  apply simp
  done

lemma le16_rt_masked:
  "ucast (push_bit 8 (i32 (ucast (drop_bit 8 (i32 x) AND 255) :: u8))
          OR i32 (ucast (i32 x AND 255) :: u8) AND 255) = (x :: u16)"
  unfolding m32 i32_def
  by (rule bit_word_eqI) (auto simp: bit_simps)

lemma u8_pass: "LENGTH('a::len) \<le> 8 \<Longrightarrow> ucast (i32 (ucast (i32 (x :: 'a word)) :: u8)) = x"
  unfolding i32_def
  by (rule bit_word_eqI) (auto simp: bit_simps dest: bit_imp_le_length)

lemma le1: "(x :: u8) \<le> 1 \<Longrightarrow> x = 0 \<or> x = 1"
  by (metis word_le_sub1 diff_self word_less_1 order_le_less)

lemma bos_byte0_running:
  assumes "(r :: u8) \<le> 1"
  shows "ucast (i32 (ucast (i32 (p :: u8) * 2 OR i32 r AND 1) :: u8) AND 1) = r"
proof -
  have r: "r AND mask 1 = r" using le1 [OF assms] by auto
  have "ucast (i32 (ucast (push_bit 1 (i32 p) OR i32 (r AND mask 1) AND 1) :: u8) AND 1)
      = r AND mask 1"
    unfolding m32 i32_def
    by (rule bit_word_eqI) (auto simp: bit_simps simp del: push_bit_Suc drop_bit_Suc One_nat_def)
  then show ?thesis unfolding r by (simp add: push_bit_eq_mult)
qed

lemma bos_byte0_pcnt:
  assumes "(p :: u8) \<le> 127"
  shows "ucast (drop_bit (Suc 0) (i32 (ucast (i32 p * 2 OR i32 (r :: u8) AND 1) :: u8)) AND 127) = p"
proof -
  have p: "p AND mask 7 = p" using assms by (simp add: mask_eq_iff word_le_def)
  have "ucast (drop_bit 1 (i32 (ucast (push_bit 1 (i32 (p AND mask 7)) OR i32 r AND 1) :: u8)) AND 127)
      = p AND mask 7"
    unfolding m32 i32_def
    by (rule bit_word_eqI) (auto simp: bit_simps simp del: push_bit_Suc drop_bit_Suc One_nat_def)
  then show ?thesis unfolding p by (simp add: push_bit_eq_mult)
qed

lemma nib_lo:
  "ucast (i32 (ucast (push_bit 4 (i32 (f :: 4 word)) AND 240 OR i32 (e :: 4 word) AND 15) :: u8)
          AND 15) = e"
  unfolding m32 i32_def
  by (rule bit_word_eqI) (auto simp: bit_simps dest: bit_imp_le_length)

lemma nib_hi:
  "ucast (drop_bit 4 (i32 (ucast (push_bit 4 (i32 (f :: 4 word)) AND 240
                                   OR i32 (e :: 4 word) AND 15) :: u8)) AND 15) = f"
  unfolding m32 i32_def
  by (rule bit_word_eqI) (auto simp: bit_simps dest: bit_imp_le_length)

lemma bit7_rt:
  "ucast (drop_bit 7 (i32 (ucast (push_bit 7 (i32 (t :: 1 word)) AND 128) :: u8)) AND 1) = t"
  unfolding m32 i32_def
  by (rule bit_word_eqI) (auto simp: bit_simps dest: bit_imp_le_length)

lemma ldbe_rt:
  "ucast (i32 (ucast (push_bit 7 (i32 (t :: 1 word)) AND 128 OR i32 (l :: 4 word) AND 15) :: u8)
          AND 15) = l"
  unfolding m32 i32_def
  by (rule bit_word_eqI) (auto simp: bit_simps dest: bit_imp_le_length)

lemma type_rt:
  "ucast (drop_bit 7 (i32 (ucast (push_bit 7 (i32 (t :: 1 word)) AND 128
                                   OR i32 (l :: 4 word) AND 15) :: u8)) AND 1) = t"
  unfolding m32 i32_def
  by (rule bit_word_eqI) (auto simp: bit_simps dest: bit_imp_le_length)

lemma tmc_len_rt:
  fixes L :: u16
  assumes "unat L + 1 < 65536"
  shows "(ucast ((push_bit 8 (i32 (ucast (drop_bit 8 (i32 L + 1) AND 255) :: u8))
                  OR i32 (ucast ((i32 L + 1) AND 255) :: u8)) - 1) :: u16) = L"
proof -
  let ?b0 = "ucast ((i32 L + 1) AND 255) :: u8"
  let ?b1 = "ucast (drop_bit 8 (i32 L + 1) AND 255) :: u8"
  have w: "unat ?b0 + 256 * unat ?b1 = unat L + 1" by (rule tmc_len_wire [OF assms])
  then have "1 \<le> unat ?b0 + 256 * unat ?b1" by simp
  then have "unat (ucast ((push_bit 8 (i32 ?b1) OR i32 ?b0) - 1) :: u16)
      = unat ?b0 + 256 * unat ?b1 - 1"
    by (rule tmc_len_decode)
  then have "unat (ucast ((push_bit 8 (i32 ?b1) OR i32 ?b0) - 1) :: u16) = unat L"
    unfolding w by simp
  then show ?thesis by (simp only: word_unat_eq_iff)
qed

lemma unat_len_wrap: "unat (ucast (- 1 :: u32) :: u16) = 65535"
proof -
  have "(ucast (- 1 :: u32) :: u16) = - 1"
    by (rule bit_word_eqI) (auto simp: bit_simps)
  then show ?thesis
    by (simp add: unsigned_minus_1_eq_mask mask_eq_exp_minus_1)
qed

section \<open>Copies and loops\<close>

lemma mem_put_nth:
  "mem_put h p xs a = (if p \<le> a \<and> a < p + length xs then xs ! (a - p) else h a)"
proof (induction xs arbitrary: h p)
  case Nil
  then show ?case by auto
next
  case (Cons x xs)
  have "mem_put h p (x # xs) a = mem_put (h(p := x)) (Suc p) xs a"
    by simp
  also have "\<dots> = (if Suc p \<le> a \<and> a < Suc p + length xs then xs ! (a - Suc p)
                     else (h(p := x)) a)"
    by (rule Cons.IH)
  also have "\<dots> = (if p \<le> a \<and> a < p + length (x # xs) then (x # xs) ! (a - p) else h a)"
    by (auto simp: nth_Cons' Suc_diff_Suc)
  finally show ?case .
qed

lemma length_mem_get [simp]: "length (mem_get h p n) = n"
  by (simp add: mem_get_def)

lemma nth_mem_get [simp]: "i < n \<Longrightarrow> mem_get h p n ! i = h (p + i)"
  by (simp add: mem_get_def)

lemma mem_get_cong:
  "(\<And>a. p \<le> a \<Longrightarrow> a < p + n \<Longrightarrow> H a = h a) \<Longrightarrow> mem_get H p n = mem_get h p n"
  by (simp add: mem_get_def)

lemma mem_get_memcpy_out:
  "n \<le> length arr \<Longrightarrow> mem_get (memcpy_out h p arr n) p n = take n arr"
  by (rule nth_equalityI) (simp_all add: memcpy_out_def mem_put_nth)

lemma memcpy_out_other:
  "a < p \<or> p + n \<le> a \<Longrightarrow> memcpy_out h p arr n a = h a"
  by (auto simp: memcpy_out_def mem_put_nth)

lemma take_memcpy_in: "n \<le> length arr \<Longrightarrow> take n (memcpy_in arr h p n) = mem_get h p n"
  by (simp add: memcpy_in_def)

lemma length_memcpy_in: "n \<le> length arr \<Longrightarrow> length (memcpy_in arr h p n) = length arr"
  by (simp add: memcpy_in_def)

lemma deser_loop_const:
  assumes "\<And>x p. snd (f x h p) = c"
  shows "\<exists>ys. deser_loop (\<lambda>x h p. Inr (f x h p)) h s rv xs = Inr (ys, rv + c * length xs)
           \<and> length ys = length xs"
proof (induction xs arbitrary: rv)
  case Nil
  then show ?case by simp
next
  case (Cons x xs)
  obtain x' where fx: "f x h (s + rv) = (x', c)"
    using assms [of x "s + rv"] by (cases "f x h (s + rv)") simp
  obtain ys where ys: "deser_loop (\<lambda>x h p. Inr (f x h p)) h s (rv + c) xs
      = Inr (ys, rv + c + c * length xs)" "length ys = length xs"
    using Cons.IH [of "rv + c"] by blast
  show ?case
    using fx ys by (simp add: algebra_simps)
qed

lemma deser_loop_fixed:
  assumes "\<And>x p. x \<in> set xs \<Longrightarrow> s + rv \<le> p \<Longrightarrow> f x h p = (x, c)"
  shows "deser_loop (\<lambda>x h p. Inr (f x h p)) h s rv xs = Inr (xs, rv + c * length xs)"
  using assms
proof (induction xs arbitrary: rv)
  case Nil
  then show ?case by simp
next
  case (Cons x xs)
  have "f x h (s + rv) = (x, c)" using Cons.prems by simp
  moreover have "deser_loop (\<lambda>x h p. Inr (f x h p)) h s (rv + c) xs
      = Inr (xs, rv + c + c * length xs)"
    using Cons.prems by (intro Cons.IH) simp
  ultimately show ?case by (simp add: algebra_simps)
qed

lemma mem_get_upd_other:
  "a < p \<or> p + n \<le> a \<Longrightarrow> mem_get (h(a := v)) p n = mem_get h p n"
  by (rule mem_get_cong) auto

lemma mem_get_memcpy_out_other:
  "q + m \<le> p \<or> p + n \<le> q \<Longrightarrow> mem_get (memcpy_out h q arr m) p n = mem_get h p n"
  by (rule mem_get_cong) (auto simp: memcpy_out_other)

lemma memcpy_in_full: "length arr = n \<Longrightarrow> memcpy_in arr h p n = mem_get h p n"
  by (simp add: memcpy_in_def)

lemma take_full: "length arr = n \<Longrightarrow> take n arr = arr"
  by simp

lemma list4:
  assumes "length xs = 4" and "length ys = 4"
  shows "ys[0 := xs ! 0, Suc 0 := xs ! Suc 0, 2 := xs ! 2, 3 := xs ! 3] = xs"
proof (rule nth_equalityI)
  show "length (ys[0 := xs ! 0, Suc 0 := xs ! Suc 0, 2 := xs ! 2, 3 := xs ! 3]) = length xs"
    using assms by simp
next
  fix i
  assume "i < length (ys[0 := xs ! 0, Suc 0 := xs ! Suc 0, 2 := xs ! 2, 3 := xs ! 3])"
  then have "i = 0 \<or> i = 1 \<or> i = 2 \<or> i = 3" using assms by auto
  then show "ys[0 := xs ! 0, Suc 0 := xs ! Suc 0, 2 := xs ! 2, 3 := xs ! 3] ! i = xs ! i"
    using assms by (auto simp: nth_list_update)
qed

section \<open>The header\<close>

lemma rt_hdr: "deser_hdr d0 (fst (ser_hdr h d x)) d = (x, 12)"
  apply (simp add: ser_hdr_def deser_hdr_def Let_def peek_def poke_def FMLN_HDR_def)
  apply (simp add: le16_rt cat_rt bg_rt len_rt)
  done

lemma ser_hdr_rv: "snd (ser_hdr h d x) = 12"
  by (simp add: ser_hdr_def Let_def FMLN_HDR_def)

lemma ser_hdr_frame: "a < d \<or> d + 12 \<le> a \<Longrightarrow> fst (ser_hdr h d x) a = h a"
  by (auto simp: ser_hdr_def Let_def poke_def)

text \<open>
  C3. A header survives \<^verbatim>\<open>fmapi_serialize\<close> followed by \<^verbatim>\<open>fmapi_deserialize\<close> for the kind
  \<^verbatim>\<open>FMOB_HDR\<close>: whatever the memory held before, whatever the destination header held
  before and whatever the context parameter is, the decoded header is the encoded one,
  both calls return 12, and the encoder writes nothing outside the 12 bytes of the
  buffer. The category has 4 bits, the background flag 1 bit and the length 21 bits
  by their types, so this covers every value of every field.
\<close>

theorem fmapi_hdr_roundtrip:
  "\<exists>h'. fmapi_serialize h (Some d) (Some (OB_HDR x)) FMOB_HDR = Inr (h', 12)
      \<and> fmapi_deserialize (Some (OB_HDR d0)) h' (Some d) FMOB_HDR param = Inr (Some (OB_HDR x), 12)
      \<and> (\<forall>a. a < d \<or> d + 12 \<le> a \<longrightarrow> h' a = h a)"
  by (simp add: fmapi_serialize_HDR fmapi_deserialize_HDR rt_hdr ser_hdr_rv ser_hdr_frame)

theorem fmapi_hdr_roundtrip_witness:
  "\<exists>h'. fmapi_serialize ex_mem_ff (Some 0) (Some (OB_HDR ex_hdr)) FMOB_HDR = Inr (h', 12)
      \<and> fmapi_deserialize (Some (OB_HDR hdr_zero)) h' (Some 0) FMOB_HDR None
          = Inr (Some (OB_HDR ex_hdr), 12)
      \<and> hdr_len ex_hdr = 0x1FFFFF \<and> hdr_background ex_hdr = 1
      \<and> h' 12 = ex_mem_ff 12"
proof -
  have v: "hdr_len ex_hdr = 0x1FFFFF \<and> hdr_background ex_hdr = 1"
    by (simp add: ex_hdr_def)
  have o: "(12::nat) < 0 \<or> 0 + 12 \<le> (12::nat)" by simp
  show ?thesis
    using fmapi_hdr_roundtrip [of ex_mem_ff 0 ex_hdr hdr_zero None] v o by auto
qed

section \<open>Byte counts of the encoder\<close>

lemma ser_loop_ge: "ser_loop f h d rv xs = Inr (H, n) \<Longrightarrow> rv \<le> n"
proof (induction xs arbitrary: h rv)
  case Nil
  then show ?case by simp
next
  case (Cons x xs)
  then show ?case
    by (fastforce split: sum.splits prod.splits)
qed

lemma ser_hdr_pos: "1 \<le> snd (ser_hdr h d x)"
  by (simp add: ser_hdr_def Let_def fmln_defs)

lemma ser_isc_bos_pos: "1 \<le> snd (ser_isc_bos h d x)"
  by (simp add: ser_isc_bos_def Let_def fmln_defs)

lemma ser_isc_id_rsp_pos: "1 \<le> snd (ser_isc_id_rsp h d x)"
  by (simp add: ser_isc_id_rsp_def Let_def fmln_defs)

lemma ser_isc_msg_limit_pos: "1 \<le> snd (ser_isc_msg_limit h d x)"
  by (simp add: ser_isc_msg_limit_def Let_def fmln_defs)

lemma ser_psc_id_rsp_pos: "ser_psc_id_rsp h d x = Inr (H, n) \<Longrightarrow> 1 \<le> n"
  by (auto simp: ser_psc_id_rsp_def Let_def fmln_defs split: if_splits)

lemma ser_psc_port_req_pos: "ser_psc_port_req h d x = Inr (H, n) \<Longrightarrow> 1 \<le> n"
  by (auto simp: ser_psc_port_req_def Let_def fmln_defs split: if_splits)

lemma ser_psc_port_info_pos: "1 \<le> snd (ser_psc_port_info h d x)"
  by (simp add: ser_psc_port_info_def Let_def fmln_defs)

lemma ser_psc_port_rsp_pos: "ser_psc_port_rsp h d x = Inr (H, n) \<Longrightarrow> 1 \<le> n"
  by (auto simp: ser_psc_port_rsp_def Let_def fmln_defs split: if_splits dest!: ser_loop_ge)

lemma ser_psc_port_ctrl_req_pos: "1 \<le> snd (ser_psc_port_ctrl_req h d x)"
  by (simp add: ser_psc_port_ctrl_req_def Let_def fmln_defs)

lemma ser_psc_cfg_req_pos: "ser_psc_cfg_req h d x = Inr (H, n) \<Longrightarrow> 1 \<le> n"
  by (auto simp: ser_psc_cfg_req_def Let_def fmln_defs split: if_splits)

lemma ser_psc_cfg_rsp_pos: "ser_psc_cfg_rsp h d x = Inr (H, n) \<Longrightarrow> 1 \<le> n"
  by (auto simp: ser_psc_cfg_rsp_def Let_def fmln_defs split: if_splits)

lemma ser_vsc_info_req_pos: "ser_vsc_info_req h d x = Inr (H, n) \<Longrightarrow> 1 \<le> n"
  by (auto simp: ser_vsc_info_req_def Let_def fmln_defs split: if_splits)

lemma ser_vsc_ppb_stat_blk_pos: "1 \<le> snd (ser_vsc_ppb_stat_blk h d x)"
  by (simp add: ser_vsc_ppb_stat_blk_def Let_def fmln_defs)

lemma ser_vsc_info_blk_pos: "ser_vsc_info_blk h d x = Inr (H, n) \<Longrightarrow> 1 \<le> n"
  by (auto simp: ser_vsc_info_blk_def Let_def fmln_defs split: if_splits dest!: ser_loop_ge)

lemma ser_vsc_info_rsp_pos: "ser_vsc_info_rsp h d x = Inr (H, n) \<Longrightarrow> 1 \<le> n"
  by (auto simp: ser_vsc_info_rsp_def Let_def fmln_defs split: if_splits dest!: ser_loop_ge)

lemma ser_vsc_bind_req_pos: "1 \<le> snd (ser_vsc_bind_req h d x)"
  by (simp add: ser_vsc_bind_req_def Let_def fmln_defs)

lemma ser_vsc_unbind_req_pos: "1 \<le> snd (ser_vsc_unbind_req h d x)"
  by (simp add: ser_vsc_unbind_req_def Let_def fmln_defs)

lemma ser_vsc_aer_req_pos: "ser_vsc_aer_req h d x = Inr (H, n) \<Longrightarrow> 1 \<le> n"
  by (auto simp: ser_vsc_aer_req_def Let_def fmln_defs split: if_splits)

lemma ser_mpc_tmc_req_pos: "ser_mpc_tmc_req h d x = Inr (H, n) \<Longrightarrow> 1 \<le> n"
  by (auto simp: ser_mpc_tmc_req_def Let_def fmln_defs split: if_splits)

lemma ser_mpc_tmc_rsp_pos: "ser_mpc_tmc_rsp h d x = Inr (H, n) \<Longrightarrow> 1 \<le> n"
  by (auto simp: ser_mpc_tmc_rsp_def Let_def fmln_defs split: if_splits)

lemma ser_mpc_cfg_req_pos: "ser_mpc_cfg_req h d x = Inr (H, n) \<Longrightarrow> 1 \<le> n"
  by (auto simp: ser_mpc_cfg_req_def Let_def fmln_defs split: if_splits)

lemma ser_mpc_cfg_rsp_pos: "ser_mpc_cfg_rsp h d x = Inr (H, n) \<Longrightarrow> 1 \<le> n"
  by (auto simp: ser_mpc_cfg_rsp_def Let_def fmln_defs split: if_splits)

lemma ser_mpc_mem_req_pos: "ser_mpc_mem_req h d x = Inr (H, n) \<Longrightarrow> 1 \<le> n"
  by (auto simp: ser_mpc_mem_req_def Let_def fmln_defs split: if_splits)

lemma ser_mpc_mem_rsp_pos: "ser_mpc_mem_rsp h d x = Inr (H, n) \<Longrightarrow> 1 \<le> n"
  by (auto simp: ser_mpc_mem_rsp_def Let_def fmln_defs split: if_splits)

lemma ser_mcc_info_rsp_pos: "1 \<le> snd (ser_mcc_info_rsp h d x)"
  by (simp add: ser_mcc_info_rsp_def Let_def fmln_defs)

lemma ser_mcc_alloc_blk_pos: "1 \<le> snd (ser_mcc_alloc_blk h d x)"
  by (simp add: ser_mcc_alloc_blk_def Let_def fmln_defs)

lemma ser_mcc_alloc_get_req_pos: "1 \<le> snd (ser_mcc_alloc_get_req h d x)"
  by (simp add: ser_mcc_alloc_get_req_def Let_def fmln_defs)

lemma ser_mcc_alloc_get_rsp_pos: "ser_mcc_alloc_get_rsp h d x = Inr (H, n) \<Longrightarrow> 1 \<le> n"
  by (auto simp: ser_mcc_alloc_get_rsp_def Let_def fmln_defs split: if_splits dest!: ser_loop_ge)

lemma ser_mcc_alloc_set_req_pos: "ser_mcc_alloc_set_req h d x = Inr (H, n) \<Longrightarrow> 1 \<le> n"
  by (auto simp: ser_mcc_alloc_set_req_def Let_def fmln_defs split: if_splits dest!: ser_loop_ge)

lemma ser_mcc_alloc_set_rsp_pos: "ser_mcc_alloc_set_rsp h d x = Inr (H, n) \<Longrightarrow> 1 \<le> n"
  by (auto simp: ser_mcc_alloc_set_rsp_def Let_def fmln_defs split: if_splits dest!: ser_loop_ge)

lemma ser_mcc_qos_ctrl_pos: "1 \<le> snd (ser_mcc_qos_ctrl h d x)"
  by (simp add: ser_mcc_qos_ctrl_def Let_def fmln_defs)

lemma ser_mcc_qos_stat_rsp_pos: "1 \<le> snd (ser_mcc_qos_stat_rsp h d x)"
  by (simp add: ser_mcc_qos_stat_rsp_def Let_def fmln_defs)

lemma ser_mcc_qos_bw_get_req_pos: "1 \<le> snd (ser_mcc_qos_bw_get_req h d x)"
  by (simp add: ser_mcc_qos_bw_get_req_def Let_def fmln_defs)

lemma ser_mcc_qos_bw_alloc_pos: "ser_mcc_qos_bw_alloc h d x = Inr (H, n) \<Longrightarrow> 1 \<le> n"
  by (auto simp: ser_mcc_qos_bw_alloc_def Let_def fmln_defs split: if_splits)

lemma ser_mcc_qos_bw_limit_get_req_pos: "1 \<le> snd (ser_mcc_qos_bw_limit_get_req h d x)"
  by (simp add: ser_mcc_qos_bw_limit_get_req_def Let_def fmln_defs)

lemma ser_mcc_qos_bw_limit_pos: "ser_mcc_qos_bw_limit h d x = Inr (H, n) \<Longrightarrow> 1 \<le> n"
  by (auto simp: ser_mcc_qos_bw_limit_def Let_def fmln_defs split: if_splits)

lemma ser_switch_pos:
  assumes "ser_switch h d ob type = Inr (H, n)" and "type \<noteq> FMOB_NULL" and "type < FMOB_MAX"
  shows "1 \<le> n"
proof -
  consider (HDR) "type = FMOB_HDR" | (PSC_ID_RSP) "type = FMOB_PSC_ID_RSP" | (PSC_PORT_REQ) "type = FMOB_PSC_PORT_REQ" | (PSC_PORT_INFO) "type = FMOB_PSC_PORT_INFO" | (PSC_PORT_RSP) "type = FMOB_PSC_PORT_RSP" | (PSC_PORT_CTRL_REQ) "type = FMOB_PSC_PORT_CTRL_REQ" | (PSC_CFG_REQ) "type = FMOB_PSC_CFG_REQ" | (PSC_CFG_RSP) "type = FMOB_PSC_CFG_RSP" | (VSC_INFO_REQ) "type = FMOB_VSC_INFO_REQ" | (VSC_PPB_STAT_BLK) "type = FMOB_VSC_PPB_STAT_BLK" | (VSC_INFO_BLK) "type = FMOB_VSC_INFO_BLK" | (VSC_INFO_RSP) "type = FMOB_VSC_INFO_RSP" | (VSC_BIND_REQ) "type = FMOB_VSC_BIND_REQ" | (VSC_UNBIND_REQ) "type = FMOB_VSC_UNBIND_REQ" | (VSC_AER_REQ) "type = FMOB_VSC_AER_REQ" | (MPC_TMC_REQ) "type = FMOB_MPC_TMC_REQ" | (MPC_TMC_RSP) "type = FMOB_MPC_TMC_RSP" | (MPC_CFG_REQ) "type = FMOB_MPC_CFG_REQ" | (MPC_CFG_RSP) "type = FMOB_MPC_CFG_RSP" | (MPC_MEM_REQ) "type = FMOB_MPC_MEM_REQ" | (MPC_MEM_RSP) "type = FMOB_MPC_MEM_RSP" | (MCC_INFO_RSP) "type = FMOB_MCC_INFO_RSP" | (MCC_ALLOC_BLK) "type = FMOB_MCC_ALLOC_BLK" | (MCC_ALLOC_GET_REQ) "type = FMOB_MCC_ALLOC_GET_REQ" | (MCC_ALLOC_GET_RSP) "type = FMOB_MCC_ALLOC_GET_RSP" | (MCC_ALLOC_SET_REQ) "type = FMOB_MCC_ALLOC_SET_REQ" | (MCC_ALLOC_SET_RSP) "type = FMOB_MCC_ALLOC_SET_RSP" | (MCC_QOS_CTRL) "type = FMOB_MCC_QOS_CTRL" | (MCC_QOS_STAT_RSP) "type = FMOB_MCC_QOS_STAT_RSP" | (MCC_QOS_BW_GET_REQ) "type = FMOB_MCC_QOS_BW_GET_REQ" | (MCC_QOS_BW_ALLOC) "type = FMOB_MCC_QOS_BW_ALLOC" | (MCC_QOS_BW_LIMIT_GET_REQ) "type = FMOB_MCC_QOS_BW_LIMIT_GET_REQ" | (MCC_QOS_BW_LIMIT) "type = FMOB_MCC_QOS_BW_LIMIT" | (ISC_ID_RSP) "type = FMOB_ISC_ID_RSP" | (ISC_MSG_LIMIT) "type = FMOB_ISC_MSG_LIMIT" | (ISC_BOS) "type = FMOB_ISC_BOS"
    using kind_cases [OF assms(2,3)] by blast
  then show ?thesis
  proof cases
  case HDR
  then show ?thesis
    using assms(1) ser_hdr_pos [of h d "the_hdr ob"]
    by (cases "ser_hdr h d (the_hdr ob)") (simp add: ser_switch_HDR split: if_splits)
  next
  case PSC_ID_RSP
  then show ?thesis
    using assms(1) ser_psc_id_rsp_pos [of h d "the_psc_id_rsp ob" H n]
    by (simp add: ser_switch_PSC_ID_RSP split: if_splits)
  next
  case PSC_PORT_REQ
  then show ?thesis
    using assms(1) ser_psc_port_req_pos [of h d "the_psc_port_req ob" H n]
    by (simp add: ser_switch_PSC_PORT_REQ split: if_splits)
  next
  case PSC_PORT_INFO
  then show ?thesis
    using assms(1) ser_psc_port_info_pos [of h d "the_psc_port_info ob"]
    by (cases "ser_psc_port_info h d (the_psc_port_info ob)") (simp add: ser_switch_PSC_PORT_INFO split: if_splits)
  next
  case PSC_PORT_RSP
  then show ?thesis
    using assms(1) ser_psc_port_rsp_pos [of h d "the_psc_port_rsp ob" H n]
    by (simp add: ser_switch_PSC_PORT_RSP split: if_splits)
  next
  case PSC_PORT_CTRL_REQ
  then show ?thesis
    using assms(1) ser_psc_port_ctrl_req_pos [of h d "the_psc_port_ctrl_req ob"]
    by (cases "ser_psc_port_ctrl_req h d (the_psc_port_ctrl_req ob)") (simp add: ser_switch_PSC_PORT_CTRL_REQ split: if_splits)
  next
  case PSC_CFG_REQ
  then show ?thesis
    using assms(1) ser_psc_cfg_req_pos [of h d "the_psc_cfg_req ob" H n]
    by (simp add: ser_switch_PSC_CFG_REQ split: if_splits)
  next
  case PSC_CFG_RSP
  then show ?thesis
    using assms(1) ser_psc_cfg_rsp_pos [of h d "the_psc_cfg_rsp ob" H n]
    by (simp add: ser_switch_PSC_CFG_RSP split: if_splits)
  next
  case VSC_INFO_REQ
  then show ?thesis
    using assms(1) ser_vsc_info_req_pos [of h d "the_vsc_info_req ob" H n]
    by (simp add: ser_switch_VSC_INFO_REQ split: if_splits)
  next
  case VSC_PPB_STAT_BLK
  then show ?thesis
    using assms(1) ser_vsc_ppb_stat_blk_pos [of h d "the_vsc_ppb_stat_blk ob"]
    by (cases "ser_vsc_ppb_stat_blk h d (the_vsc_ppb_stat_blk ob)") (simp add: ser_switch_VSC_PPB_STAT_BLK split: if_splits)
  next
  case VSC_INFO_BLK
  then show ?thesis
    using assms(1) ser_vsc_info_blk_pos [of h d "the_vsc_info_blk ob" H n]
    by (simp add: ser_switch_VSC_INFO_BLK split: if_splits)
  next
  case VSC_INFO_RSP
  then show ?thesis
    using assms(1) ser_vsc_info_rsp_pos [of h d "the_vsc_info_rsp ob" H n]
    by (simp add: ser_switch_VSC_INFO_RSP split: if_splits)
  next
  case VSC_BIND_REQ
  then show ?thesis
    using assms(1) ser_vsc_bind_req_pos [of h d "the_vsc_bind_req ob"]
    by (cases "ser_vsc_bind_req h d (the_vsc_bind_req ob)") (simp add: ser_switch_VSC_BIND_REQ split: if_splits)
  next
  case VSC_UNBIND_REQ
  then show ?thesis
    using assms(1) ser_vsc_unbind_req_pos [of h d "the_vsc_unbind_req ob"]
    by (cases "ser_vsc_unbind_req h d (the_vsc_unbind_req ob)") (simp add: ser_switch_VSC_UNBIND_REQ split: if_splits)
  next
  case VSC_AER_REQ
  then show ?thesis
    using assms(1) ser_vsc_aer_req_pos [of h d "the_vsc_aer_req ob" H n]
    by (simp add: ser_switch_VSC_AER_REQ split: if_splits)
  next
  case MPC_TMC_REQ
  then show ?thesis
    using assms(1) ser_mpc_tmc_req_pos [of h d "the_mpc_tmc_req ob" H n]
    by (simp add: ser_switch_MPC_TMC_REQ split: if_splits)
  next
  case MPC_TMC_RSP
  then show ?thesis
    using assms(1) ser_mpc_tmc_rsp_pos [of h d "the_mpc_tmc_rsp ob" H n]
    by (simp add: ser_switch_MPC_TMC_RSP split: if_splits)
  next
  case MPC_CFG_REQ
  then show ?thesis
    using assms(1) ser_mpc_cfg_req_pos [of h d "the_mpc_cfg_req ob" H n]
    by (simp add: ser_switch_MPC_CFG_REQ split: if_splits)
  next
  case MPC_CFG_RSP
  then show ?thesis
    using assms(1) ser_mpc_cfg_rsp_pos [of h d "the_mpc_cfg_rsp ob" H n]
    by (simp add: ser_switch_MPC_CFG_RSP split: if_splits)
  next
  case MPC_MEM_REQ
  then show ?thesis
    using assms(1) ser_mpc_mem_req_pos [of h d "the_mpc_mem_req ob" H n]
    by (simp add: ser_switch_MPC_MEM_REQ split: if_splits)
  next
  case MPC_MEM_RSP
  then show ?thesis
    using assms(1) ser_mpc_mem_rsp_pos [of h d "the_mpc_mem_rsp ob" H n]
    by (simp add: ser_switch_MPC_MEM_RSP split: if_splits)
  next
  case MCC_INFO_RSP
  then show ?thesis
    using assms(1) ser_mcc_info_rsp_pos [of h d "the_mcc_info_rsp ob"]
    by (cases "ser_mcc_info_rsp h d (the_mcc_info_rsp ob)") (simp add: ser_switch_MCC_INFO_RSP split: if_splits)
  next
  case MCC_ALLOC_BLK
  then show ?thesis
    using assms(1) ser_mcc_alloc_blk_pos [of h d "the_mcc_alloc_blk ob"]
    by (cases "ser_mcc_alloc_blk h d (the_mcc_alloc_blk ob)") (simp add: ser_switch_MCC_ALLOC_BLK split: if_splits)
  next
  case MCC_ALLOC_GET_REQ
  then show ?thesis
    using assms(1) ser_mcc_alloc_get_req_pos [of h d "the_mcc_alloc_get_req ob"]
    by (cases "ser_mcc_alloc_get_req h d (the_mcc_alloc_get_req ob)") (simp add: ser_switch_MCC_ALLOC_GET_REQ split: if_splits)
  next
  case MCC_ALLOC_GET_RSP
  then show ?thesis
    using assms(1) ser_mcc_alloc_get_rsp_pos [of h d "the_mcc_alloc_get_rsp ob" H n]
    by (simp add: ser_switch_MCC_ALLOC_GET_RSP split: if_splits)
  next
  case MCC_ALLOC_SET_REQ
  then show ?thesis
    using assms(1) ser_mcc_alloc_set_req_pos [of h d "the_mcc_alloc_set_req ob" H n]
    by (simp add: ser_switch_MCC_ALLOC_SET_REQ split: if_splits)
  next
  case MCC_ALLOC_SET_RSP
  then show ?thesis
    using assms(1) ser_mcc_alloc_set_rsp_pos [of h d "the_mcc_alloc_set_rsp ob" H n]
    by (simp add: ser_switch_MCC_ALLOC_SET_RSP split: if_splits)
  next
  case MCC_QOS_CTRL
  then show ?thesis
    using assms(1) ser_mcc_qos_ctrl_pos [of h d "the_mcc_qos_ctrl ob"]
    by (cases "ser_mcc_qos_ctrl h d (the_mcc_qos_ctrl ob)") (simp add: ser_switch_MCC_QOS_CTRL split: if_splits)
  next
  case MCC_QOS_STAT_RSP
  then show ?thesis
    using assms(1) ser_mcc_qos_stat_rsp_pos [of h d "the_mcc_qos_stat_rsp ob"]
    by (cases "ser_mcc_qos_stat_rsp h d (the_mcc_qos_stat_rsp ob)") (simp add: ser_switch_MCC_QOS_STAT_RSP split: if_splits)
  next
  case MCC_QOS_BW_GET_REQ
  then show ?thesis
    using assms(1) ser_mcc_qos_bw_get_req_pos [of h d "the_mcc_qos_bw_get_req ob"]
    by (cases "ser_mcc_qos_bw_get_req h d (the_mcc_qos_bw_get_req ob)") (simp add: ser_switch_MCC_QOS_BW_GET_REQ split: if_splits)
  next
  case MCC_QOS_BW_ALLOC
  then show ?thesis
    using assms(1) ser_mcc_qos_bw_alloc_pos [of h d "the_mcc_qos_bw_alloc ob" H n]
    by (simp add: ser_switch_MCC_QOS_BW_ALLOC split: if_splits)
  next
  case MCC_QOS_BW_LIMIT_GET_REQ
  then show ?thesis
    using assms(1) ser_mcc_qos_bw_limit_get_req_pos [of h d "the_mcc_qos_bw_limit_get_req ob"]
    by (cases "ser_mcc_qos_bw_limit_get_req h d (the_mcc_qos_bw_limit_get_req ob)") (simp add: ser_switch_MCC_QOS_BW_LIMIT_GET_REQ split: if_splits)
  next
  case MCC_QOS_BW_LIMIT
  then show ?thesis
    using assms(1) ser_mcc_qos_bw_limit_pos [of h d "the_mcc_qos_bw_limit ob" H n]
    by (simp add: ser_switch_MCC_QOS_BW_LIMIT split: if_splits)
  next
  case ISC_ID_RSP
  then show ?thesis
    using assms(1) ser_isc_id_rsp_pos [of h d "the_isc_id_rsp ob"]
    by (cases "ser_isc_id_rsp h d (the_isc_id_rsp ob)") (simp add: ser_switch_ISC_ID_RSP split: if_splits)
  next
  case ISC_MSG_LIMIT
  then show ?thesis
    using assms(1) ser_isc_msg_limit_pos [of h d "the_isc_msg_limit ob"]
    by (cases "ser_isc_msg_limit h d (the_isc_msg_limit ob)") (simp add: ser_switch_ISC_MSG_LIMIT split: if_splits)
  next
  case ISC_BOS
  then show ?thesis
    using assms(1) ser_isc_bos_pos [of h d "the_isc_bos ob"]
    by (cases "ser_isc_bos h d (the_isc_bos ob)") (simp add: ser_switch_ISC_BOS split: if_splits)
  qed
qed

section \<open>Reserved bytes\<close>

lemma ser_hdr_byte2: "fst (ser_hdr h d x) (d + 2) = h (d + 2)"
  by (simp add: ser_hdr_def Let_def poke_def)

lemma ser_vsc_bind_req_byte3: "fst (ser_vsc_bind_req h d x) (d + 3) = h (d + 3)"
  by (simp add: ser_vsc_bind_req_def Let_def poke_def)

lemma ser_vsc_bind_req_rv: "snd (ser_vsc_bind_req h d x) = 6"
  by (simp add: ser_vsc_bind_req_def Let_def fmln_defs)

lemma ser_psc_port_info_byte3: "fst (ser_psc_port_info h d x) (d + 3) = h (d + 3)"
  by (simp add: ser_psc_port_info_def Let_def poke_def)

lemma ser_psc_port_info_byte14: "fst (ser_psc_port_info h d x) (d + 14) = 0"
  by (simp add: ser_psc_port_info_def Let_def poke_def)

lemma ser_psc_port_info_rv: "snd (ser_psc_port_info h d x) = 16"
  by (simp add: ser_psc_port_info_def Let_def fmln_defs)

text \<open>
  C5, as the code behaves. \<^verbatim>\<open>fmapi_serialize\<close> does not write the reserved byte 2 of a
  header, byte 3 of a bind request and byte 3 of a port info block: after the call
  each holds what the buffer held before, so the encoded bytes depend on the buffer
  (a header encoded into \<open>0xFF\<close> bytes has \<open>0xFF\<close> at offset 2, into zero bytes it has
  0 there). The same case of the switch does write 0 to the reserved byte 14 of a
  port info block.
\<close>

theorem serialize_reserved_bytes_not_written:
  "(\<exists>h'. fmapi_serialize h (Some d) (Some (OB_HDR x)) FMOB_HDR = Inr (h', 12)
         \<and> h' (d + 2) = h (d + 2))
   \<and> (\<exists>h'. fmapi_serialize h (Some d) (Some (OB_VSC_BIND_REQ b)) FMOB_VSC_BIND_REQ = Inr (h', 6)
         \<and> h' (d + 3) = h (d + 3))
   \<and> (\<exists>h'. fmapi_serialize h (Some d) (Some (OB_PSC_PORT_INFO p)) FMOB_PSC_PORT_INFO = Inr (h', 16)
         \<and> h' (d + 3) = h (d + 3) \<and> h' (d + 14) = 0)
   \<and> (\<exists>h'. fmapi_serialize ex_mem_ff (Some 0) (Some (OB_HDR ex_hdr)) FMOB_HDR = Inr (h', 12)
         \<and> h' 2 = 0xFF)
   \<and> (\<exists>h'. fmapi_serialize ex_mem (Some 0) (Some (OB_HDR ex_hdr)) FMOB_HDR = Inr (h', 12)
         \<and> h' 2 = 0)"
proof -
  have hdr: "\<exists>h'. fmapi_serialize h (Some d) (Some (OB_HDR x)) FMOB_HDR = Inr (h', 12)
         \<and> h' (d + 2) = h (d + 2)" for h d x
    unfolding fmapi_serialize_HDR ser_hdr_rv using ser_hdr_byte2 [of h d x] by simp
  have bind: "\<exists>h'. fmapi_serialize h (Some d) (Some (OB_VSC_BIND_REQ b)) FMOB_VSC_BIND_REQ
         = Inr (h', 6) \<and> h' (d + 3) = h (d + 3)"
    unfolding fmapi_serialize_VSC_BIND_REQ ser_vsc_bind_req_rv
    using ser_vsc_bind_req_byte3 [of h d b] by simp
  have port: "\<exists>h'. fmapi_serialize h (Some d) (Some (OB_PSC_PORT_INFO p)) FMOB_PSC_PORT_INFO
         = Inr (h', 16) \<and> h' (d + 3) = h (d + 3) \<and> h' (d + 14) = 0"
    unfolding fmapi_serialize_PSC_PORT_INFO ser_psc_port_info_rv
    using ser_psc_port_info_byte3 [of h d p] ser_psc_port_info_byte14 [of h d p] by simp
  have ff: "\<exists>h'. fmapi_serialize ex_mem_ff (Some 0) (Some (OB_HDR ex_hdr)) FMOB_HDR = Inr (h', 12)
         \<and> h' 2 = 0xFF"
    using hdr [of ex_mem_ff 0 ex_hdr] by (simp add: ex_mem_ff_def eval_nat_numeral)
  have zz: "\<exists>h'. fmapi_serialize ex_mem (Some 0) (Some (OB_HDR ex_hdr)) FMOB_HDR = Inr (h', 12)
         \<and> h' 2 = 0"
    using hdr [of ex_mem 0 ex_hdr] by (simp add: ex_mem_def eval_nat_numeral)
  show ?thesis
    using hdr [of h d x] bind port ff zz by blast
qed

section \<open>Decoding without the request\<close>

lemma deser_loop_null_param:
  "deser_loop (\<lambda>x h p. deser_vsc_info_blk x h p None) h s rv xs = Inr (xs, rv)"
  by (induction xs arbitrary: rv) (simp_all add: deser_vsc_info_blk_def)

lemma deser_vsc_info_rsp_null_param:
  "unat (peek h s 0) \<le> length (vis_list x) \<Longrightarrow>
   deser_vsc_info_rsp x h s None = Inr (x\<lparr> vis_num := peek h s 0 \<rparr>, 4)"
  by (simp add: deser_vsc_info_rsp_def Let_def deser_loop_null_param fmln_defs)

lemma deser_vsc_info_rsp_no_request:
  "deser_vsc_info_rsp x h s None = Inr (x\<lparr> vis_num := peek h s 0 \<rparr>, 4)"
  by (simp add: deser_vsc_info_rsp_def Let_def deser_loop_null_param fmln_defs)

lemma fmapi_deserialize_vsc_info_rsp_no_request:
  "fmapi_deserialize (Some (OB_VSC_INFO_RSP x)) h (Some s) FMOB_VSC_INFO_RSP None
    = Inr (Some (OB_VSC_INFO_RSP (x\<lparr> vis_num := peek h s 0 \<rparr>)), 4)"
  unfolding fmapi_deserialize_VSC_INFO_RSP deser_vsc_info_rsp_no_request by simp

lemma fmapi_deserialize_vsc_info_rsp_no_request_200:
  "fmapi_deserialize (Some (OB_VSC_INFO_RSP ex_rsp)) (ex_mem(0 := 200)) (Some 0)
      FMOB_VSC_INFO_RSP None = Inr (Some (OB_VSC_INFO_RSP (ex_rsp\<lparr> vis_num := 200 \<rparr>)), 4)"
  unfolding fmapi_deserialize_vsc_info_rsp_no_request by (simp add: peek_def)

text \<open>
  C6, as the code behaves. Without a request \<^verbatim>\<open>fmapi_deserialize\<close> returns 0 for a block
  of a virtual switch and leaves the block as it was, whatever the source is. For a
  response it does not fail: on a buffer whose count byte is 1 it returns 4, sets
  \<open>num\<close> to 1 and leaves the entry of the list as it was. 4 is also what it returns
  with a request for a response of no blocks.
\<close>

theorem deserialize_without_context:
  "fmapi_deserialize (Some (OB_VSC_INFO_BLK b)) h src FMOB_VSC_INFO_BLK None
      = Inr (Some (OB_VSC_INFO_BLK b), 0)
   \<and> fmapi_deserialize (Some (OB_VSC_INFO_RSP ex_rsp)) (ex_mem(0 := 1)) (Some 0) FMOB_VSC_INFO_RSP None
      = Inr (Some (OB_VSC_INFO_RSP (ex_rsp\<lparr> vis_num := 1 \<rparr>)), 4)
   \<and> fmapi_deserialize (Some (OB_VSC_INFO_RSP ex_rsp)) ex_mem (Some 0) FMOB_VSC_INFO_RSP (Some ex_req)
      = Inr (Some (OB_VSC_INFO_RSP ex_rsp), 4)"
proof -
  have a: "fmapi_deserialize (Some (OB_VSC_INFO_BLK b)) h src FMOB_VSC_INFO_BLK None
      = Inr (Some (OB_VSC_INFO_BLK b), 0)"
    by (simp add: fmapi_deserialize_def fmob_defs)
  have l: "unat (peek (ex_mem(0 := 1)) 0 0) \<le> length (vis_list ex_rsp)"
    by (simp add: ex_rsp_def fm_max_defs peek_def)
  have p: "peek (ex_mem(0 := 1)) 0 0 = 1"
    by (simp add: peek_def)
  have b: "fmapi_deserialize (Some (OB_VSC_INFO_RSP ex_rsp)) (ex_mem(0 := 1)) (Some 0)
      FMOB_VSC_INFO_RSP None = Inr (Some (OB_VSC_INFO_RSP (ex_rsp\<lparr> vis_num := 1 \<rparr>)), 4)"
    unfolding fmapi_deserialize_VSC_INFO_RSP deser_vsc_info_rsp_null_param [OF l] p by simp
  have c: "fmapi_deserialize (Some (OB_VSC_INFO_RSP ex_rsp)) ex_mem (Some 0)
      FMOB_VSC_INFO_RSP (Some ex_req) = Inr (Some (OB_VSC_INFO_RSP ex_rsp), 4)"
    unfolding fmapi_deserialize_VSC_INFO_RSP
    by (simp add: deser_vsc_info_rsp_def Let_def peek_def ex_mem_def ex_rsp_def fmln_defs)
  show ?thesis using a b c by simp
qed

section \<open>Null handles of the builders\<close>

text \<open>
  C9, as the code behaves. \<^verbatim>\<open>fmapi_fill_vsc_bind\<close> returns 1 for a null message and 0
  otherwise. \<^verbatim>\<open>fmapi_fill_mpc_tmc\<close> with a null outer message returns 1 only after it
  has stored a pointer into \<^verbatim>\<open>sub->buf\<close>, and with a null \<^verbatim>\<open>sub\<close> it dereferences the
  null pointer, whether the outer message is null or not.
\<close>

theorem fill_mpc_tmc_null_handles:
  "fmapi_fill_vsc_bind None vcsid vppbid ppid ldid = (1, None)
   \<and> fst (fmapi_fill_vsc_bind (Some m) vcsid vppbid ppid ldid) = 0
   \<and> fmapi_fill_mpc_tmc raw None ppid type (Some sb) = Inr (1, None, Some (sb\<lparr> msg_buf := Buf_wild \<rparr>))
   \<and> fmapi_fill_mpc_tmc raw None ppid type None = Inl NullDeref
   \<and> fmapi_fill_mpc_tmc raw (Some m) ppid type None = Inl NullDeref"
  by (simp add: fmapi_fill_vsc_bind_def fmapi_fill_mpc_tmc_def)

section \<open>Invalid arguments\<close>

lemma fmapi_serialize_pos:
  "type \<noteq> FMOB_NULL \<Longrightarrow> type < FMOB_MAX \<Longrightarrow> fmapi_serialize h sdst ssrc type = Inr (h', k)
    \<Longrightarrow> 1 \<le> k"
  by (auto simp: fmapi_serialize_def split: option.splits sum.splits dest: ser_switch_pos)

text \<open>
  C7, as the code behaves. \<^verbatim>\<open>fmapi_deserialize\<close> compares its destination object with
  null and the kind with \<^verbatim>\<open>FMOB_MAX\<close>: it answers -1 before any access, whatever the
  other arguments are, and 0 for the empty kind \<^verbatim>\<open>FMOB_NULL\<close>. \<^verbatim>\<open>fmapi_serialize\<close>
  compares no pointer with null: with the kind of a header a null byte buffer is
  dereferenced, and so is a null object. To a kind from \<^verbatim>\<open>FMOB_MAX\<close> on it answers 0, the
  value that it also returns for the empty kind. \<^verbatim>\<open>fmapi_deserialize\<close> does not compare
  its byte buffer with null either.
\<close>

theorem invalid_argument_handling:
  "fmapi_deserialize None h src type param = Inr (None, - 1)
   \<and> fmapi_deserialize (Some ob) h src (FMOB_MAX + k) param = Inr (Some ob, - 1)
   \<and> fmapi_deserialize (Some ob) h src FMOB_NULL param = Inr (Some ob, 0)
   \<and> fmapi_serialize ex_mem None (Some (OB_HDR ex_hdr)) FMOB_HDR = Inl NullDeref
   \<and> fmapi_serialize ex_mem (Some 0) None FMOB_HDR = Inl NullDeref
   \<and> fmapi_serialize h sdst ssrc (FMOB_MAX + k) = Inr (h, 0)
   \<and> fmapi_serialize h sdst ssrc FMOB_NULL = Inr (h, 0)
   \<and> fmapi_deserialize (Some (OB_HDR ex_hdr)) ex_mem None FMOB_HDR None = Inl NullDeref"
  by (simp add: fmapi_serialize_def fmapi_deserialize_def fmob_defs)

section \<open>The block of a virtual switch and its request\<close>

lemma deser_vsc_ppb_stat_blk_rv: "snd (deser_vsc_ppb_stat_blk x h p) = 4"
  by (simp add: deser_vsc_ppb_stat_blk_def fmln_defs)

lemma clamp_num:
  fixes total start limit :: u8
  assumes "start \<le> total"
  shows "unat (if limit < (ucast (i32 total - i32 start) :: u8) then limit
               else ucast (i32 total - i32 start))
         = min (unat limit) (unat total - unat start)"
proof -
  have "unat (total - start) = unat total - unat start"
    using assms by (rule unat_sub)
  then show ?thesis
    by (auto simp: sub8 word_less_nat_alt)
qed

text \<open>
  C2, amended. With a request \<open>r\<close> and a total (byte 3 of the source) that is at least
  \<^verbatim>\<open>r.vppbid_start\<close>, \<^verbatim>\<open>fmapi_deserialize\<close> for \<^verbatim>\<open>FMOB_VSC_INFO_BLK\<close> decodes
  \<open>num = min (r.vppbid_limit, total - r.vppbid_start)\<close> entries and returns
  \<open>4 + 4 * num\<close>: an entry takes \<^verbatim>\<open>FMLN_VSC_PPB_STATUS\<close> = 4 bytes on the wire, three
  fields and a reserved byte. Start 2, limit 6 and total 10 give 6 entries and 28
  bytes, total 5 gives 3 entries and 16 bytes.
\<close>

theorem vsc_info_blk_context_size:
  assumes "length (vib_list ob) = FM_MAX_VPPBS" and "vir_vppbid_start r \<le> peek h s 3"
  shows "\<exists>ob'. fmapi_deserialize (Some (OB_VSC_INFO_BLK ob)) h (Some s) FMOB_VSC_INFO_BLK (Some r)
            = Inr (Some (OB_VSC_INFO_BLK ob'), 4 + 4 * int (unat (vib_num ob')))
      \<and> vib_total ob' = peek h s 3
      \<and> unat (vib_num ob')
          = min (unat (vir_vppbid_limit r)) (unat (peek h s 3) - unat (vir_vppbid_start r))"
proof -
  define num :: u8 where "num = (if vir_vppbid_limit r < ucast (i32 (peek h s 3) - i32 (vir_vppbid_start r))
       then vir_vppbid_limit r else ucast (i32 (peek h s 3) - i32 (vir_vppbid_start r)))"
  have n: "unat num = min (unat (vir_vppbid_limit r)) (unat (peek h s 3) - unat (vir_vppbid_start r))"
    unfolding num_def using assms(2) by (rule clamp_num)
  have "unat num < 256" using unsigned_less [of num, where ?'a = nat] by simp
  then have le: "unat num \<le> length (vib_list ob)"
    using assms(1) by (simp add: fm_max_defs)
  obtain ys where ys: "deser_loop (\<lambda>x h p. Inr (deser_vsc_ppb_stat_blk x h p)) h s 4
      (take (unat num) (vib_list ob)) = Inr (ys, 4 + 4 * length (take (unat num) (vib_list ob)))"
    using deser_loop_const [of deser_vsc_ppb_stat_blk h 4 s 4 "take (unat num) (vib_list ob)"]
      deser_vsc_ppb_stat_blk_rv by blast
  have len: "length (take (unat num) (vib_list ob)) = unat num" using le by simp
  have "deser_vsc_info_blk ob h s (Some r)
      = Inr (ob\<lparr> vib_vcsid := peek h s 0, vib_state := peek h s 1, vib_uspid := peek h s 2,
                 vib_total := peek h s 3, vib_num := num,
                 vib_list := ys @ drop (unat num) (vib_list ob) \<rparr>, 4 + 4 * unat num)"
    using le ys len by (simp add: deser_vsc_info_blk_def Let_def num_def [symmetric] fmln_defs)
  then show ?thesis
    unfolding fmapi_deserialize_VSC_INFO_BLK by (simp add: n [symmetric])
qed

lemma ex_blk_len: "length (vib_list ex_blk) = FM_MAX_VPPBS"
  by (simp add: ex_blk_def)

theorem vsc_info_blk_context_size_witness:
  "length (vib_list ex_blk) = FM_MAX_VPPBS
   \<and> vir_vppbid_start ex_req \<le> peek (ex_mem(3 := 10)) 0 3
   \<and> (\<exists>ob'. fmapi_deserialize (Some (OB_VSC_INFO_BLK ex_blk)) (ex_mem(3 := 10)) (Some 0)
              FMOB_VSC_INFO_BLK (Some ex_req) = Inr (Some (OB_VSC_INFO_BLK ob'), 28)
        \<and> unat (vib_num ob') = 6)
   \<and> vir_vppbid_start ex_req \<le> peek (ex_mem(3 := 5)) 0 3
   \<and> (\<exists>ob'. fmapi_deserialize (Some (OB_VSC_INFO_BLK ex_blk)) (ex_mem(3 := 5)) (Some 0)
              FMOB_VSC_INFO_BLK (Some ex_req) = Inr (Some (OB_VSC_INFO_BLK ob'), 16)
        \<and> unat (vib_num ob') = 3)"
proof -
  have a: "vir_vppbid_start ex_req \<le> peek (ex_mem(3 := 10)) 0 3"
    by (simp add: ex_req_def peek_def)
  have b: "vir_vppbid_start ex_req \<le> peek (ex_mem(3 := 5)) 0 3"
    by (simp add: ex_req_def peek_def)
  have va: "min (unat (vir_vppbid_limit ex_req))
      (unat (peek (ex_mem(3 := 10)) 0 3) - unat (vir_vppbid_start ex_req)) = 6"
    by (simp add: ex_req_def peek_def)
  have vb: "min (unat (vir_vppbid_limit ex_req))
      (unat (peek (ex_mem(3 := 5)) 0 3) - unat (vir_vppbid_start ex_req)) = 3"
    by (simp add: ex_req_def peek_def)
  show ?thesis
    using vsc_info_blk_context_size [OF ex_blk_len a] vsc_info_blk_context_size [OF ex_blk_len b]
      ex_blk_len a b
    unfolding va vb by fastforce
qed

text \<open>
  C2 as stated fails on the byte count: with start 2, limit 6 and total 10 the call
  decodes 6 entries and returns 28, not \<open>4 + 3 * 6\<close>.
\<close>

theorem vsc_info_blk_size_counterexample:
  "fmapi_deserialize (Some (OB_VSC_INFO_BLK ex_blk)) (ex_mem(3 := 10)) (Some 0)
      FMOB_VSC_INFO_BLK (Some ex_req)
     = Inr (Some (OB_VSC_INFO_BLK (ex_blk\<lparr> vib_total := 10, vib_num := 6 \<rparr>)), 28)
   \<and> (28 :: int) \<noteq> 4 + 3 * 6"
proof -
  let ?h = "ex_mem(3 := 10)"
  have num: "(if vir_vppbid_limit ex_req < ucast (i32 (peek ?h 0 3) - i32 (vir_vppbid_start ex_req))
       then vir_vppbid_limit ex_req else ucast (i32 (peek ?h 0 3) - i32 (vir_vppbid_start ex_req))) = (6 :: u8)"
    by (simp add: sub8 ex_req_def peek_def)
  have set: "set (take 6 (vib_list ex_blk)) \<subseteq> {ex_psb}"
    by (auto simp: ex_blk_def dest: in_set_takeD)
  have loop: "deser_loop (\<lambda>x h p. Inr (deser_vsc_ppb_stat_blk x h p)) ?h 0 4 (take 6 (vib_list ex_blk))
       = Inr (take 6 (vib_list ex_blk), 4 + 4 * length (take 6 (vib_list ex_blk)))"
  proof (rule deser_loop_fixed)
    fix p :: nat and x :: fmapi_vsc_ppb_stat_blk
    assume "x \<in> set (take 6 (vib_list ex_blk))" and "0 + 4 \<le> p"
    then have "x = ex_psb" "4 \<le> p" using set by auto
    then show "deser_vsc_ppb_stat_blk x ?h p = (x, 4)"
      by (simp add: deser_vsc_ppb_stat_blk_def ex_psb_def ex_mem_def peek_def fmln_defs)
  qed
  have len: "length (vib_list ex_blk) = 256"
    by (simp add: ex_blk_def fm_max_defs)
  have "deser_vsc_info_blk ex_blk ?h 0 (Some ex_req)
      = Inr (ex_blk\<lparr> vib_total := 10, vib_num := 6 \<rparr>, 28)"
    unfolding deser_vsc_info_blk_def Let_def option.case num
    using loop len by (simp add: fmln_defs fm_max_defs peek_def ex_mem_def ex_blk_def flip: replicate_add)
  then show ?thesis
    unfolding fmapi_deserialize_VSC_INFO_BLK by simp
qed

section \<open>Tunnelled management commands\<close>

lemma ser_mpc_tmc_req_ok:
  assumes "unat (tmq_len q) \<le> length (tmq_msg q)" and "unat (tmq_len q) + 1 < 65536"
  shows "\<exists>h'. ser_mpc_tmc_req h d q = Inr (h', 5 + unat (tmq_len q))
      \<and> unat (peek h' d 2) + 256 * unat (peek h' d 3) = unat (tmq_len q) + 1
      \<and> mem_get h' (d + 5) (unat (tmq_len q)) = take (unat (tmq_len q)) (tmq_msg q)"
  using assms tmc_len_wire [of "tmq_len q"]
  by (simp add: ser_mpc_tmc_req_def Let_def fmln_defs peek_def poke_def mem_get_memcpy_out
      memcpy_out_other)

lemma ser_mpc_tmc_rsp_ok:
  assumes "unat (tms_len q) \<le> length (tms_msg q)" and "unat (tms_len q) + 1 < 65536"
  shows "\<exists>h'. ser_mpc_tmc_rsp h d q = Inr (h', 5 + unat (tms_len q))
      \<and> unat (peek h' d 0) + 256 * unat (peek h' d 1) = unat (tms_len q) + 1
      \<and> mem_get h' (d + 5) (unat (tms_len q)) = take (unat (tms_len q)) (tms_msg q)"
  using assms tmc_len_wire [of "tms_len q"]
  by (simp add: ser_mpc_tmc_rsp_def Let_def fmln_defs peek_def poke_def mem_get_memcpy_out
      memcpy_out_other)

lemma deser_mpc_tmc_req_ok:
  assumes "1 \<le> v" and "v - 1 \<le> length (tmq_msg q0)"
    and "unat (peek h s 2) + 256 * unat (peek h s 3) = v"
  shows "\<exists>q'. deser_mpc_tmc_req q0 h s = Inr (q', 5 + (v - 1))
      \<and> unat (tmq_len q') = v - 1 \<and> take (v - 1) (tmq_msg q') = mem_get h (s + 5) (v - 1)"
  using assms tmc_len_decode [of "peek h s 2" "peek h s 3"]
  by (simp add: deser_mpc_tmc_req_def Let_def fmln_defs take_memcpy_in)

lemma deser_mpc_tmc_rsp_ok:
  assumes "1 \<le> v" and "v - 1 \<le> length (tms_msg q0)"
    and "unat (peek h s 0) + 256 * unat (peek h s 1) = v"
  shows "\<exists>q'. deser_mpc_tmc_rsp q0 h s = Inr (q', 5 + (v - 1))
      \<and> unat (tms_len q') = v - 1 \<and> take (v - 1) (tms_msg q') = mem_get h (s + 5) (v - 1)"
  using assms tmc_len_decode [of "peek h s 0" "peek h s 1"]
  by (simp add: deser_mpc_tmc_rsp_def Let_def fmln_defs take_memcpy_in)

lemma ex_tmc_payload_facts:
  "length ex_tmc_payload = FMLN_MPC_TUNNEL_PAYLOAD" "take 68 ex_tmc_payload = map of_nat [1..<69]"
proof -
  have l: "length (map of_nat [1..<69] :: u8 list) = 68"
    by (simp only: length_map length_upt)
  show "length ex_tmc_payload = FMLN_MPC_TUNNEL_PAYLOAD"
    unfolding ex_tmc_payload_def length_append l by (simp add: fmln_defs)
  show "take 68 ex_tmc_payload = map of_nat [1..<69]"
    unfolding ex_tmc_payload_def using l by (simp only: take_append take_all) simp
qed

text \<open>
  C4 as stated fails at the ends of the range of the length. A buffer whose length
  field holds 0 makes \<^verbatim>\<open>fmapi_deserialize\<close> store \<open>0xFFFF\<close> and copy that many bytes into
  the 8175 bytes of \<^verbatim>\<open>msg\<close>, for both kinds; a request whose \<^verbatim>\<open>len\<close> is 8176 makes
  \<^verbatim>\<open>fmapi_serialize\<close> copy one byte more than \<^verbatim>\<open>msg\<close> has. Neither call returns a count.
\<close>

theorem tunnel_length_range_counterexample:
  "unat (peek ex_mem 0 2) + 256 * unat (peek ex_mem 0 3) = 0
   \<and> fmapi_deserialize (Some (OB_MPC_TMC_REQ ex_tmc_req_dst)) ex_mem (Some 0) FMOB_MPC_TMC_REQ None
       = Inl OutOfBounds
   \<and> unat (peek ex_mem 0 0) + 256 * unat (peek ex_mem 0 1) = 0
   \<and> fmapi_deserialize (Some (OB_MPC_TMC_RSP ex_tmc_rsp_dst)) ex_mem (Some 0) FMOB_MPC_TMC_RSP None
       = Inl OutOfBounds
   \<and> length (tmq_msg (ex_tmc_req\<lparr>tmq_len := 8176\<rparr>)) = 8175
   \<and> fmapi_serialize ex_mem (Some 0) (Some (OB_MPC_TMC_REQ (ex_tmc_req\<lparr>tmq_len := 8176\<rparr>)))
         FMOB_MPC_TMC_REQ = Inl OutOfBounds"
proof -
  have w: "unat (ucast (- 1 :: u32) :: u16) = 65535"
    by (rule unat_len_wrap)
  have z: "peek ex_mem 0 0 = 0" "peek ex_mem 0 1 = 0" "peek ex_mem 0 2 = 0" "peek ex_mem 0 3 = 0"
    by (simp_all add: peek_def ex_mem_def)
  have l: "length (tmq_msg ex_tmc_req_dst) = 8175" "length (tms_msg ex_tmc_rsp_dst) = 8175"
      "length (tmq_msg (ex_tmc_req\<lparr>tmq_len := 8176\<rparr>)) = 8175"
    using ex_tmc_payload_facts(1)
    by (simp_all add: ex_tmc_req_dst_def ex_tmc_rsp_dst_def ex_tmc_req_def fmln_defs)
  have a: "deser_mpc_tmc_req ex_tmc_req_dst ex_mem 0 = Inl OutOfBounds"
    unfolding deser_mpc_tmc_req_def Let_def z l by (simp add: i32_def w)
  have b: "deser_mpc_tmc_rsp ex_tmc_rsp_dst ex_mem 0 = Inl OutOfBounds"
    unfolding deser_mpc_tmc_rsp_def Let_def z l by (simp add: i32_def w)
  have c: "ser_mpc_tmc_req ex_mem 0 (ex_tmc_req\<lparr>tmq_len := 8176\<rparr>) = Inl OutOfBounds"
    unfolding ser_mpc_tmc_req_def l by simp
  show ?thesis
    unfolding fmapi_deserialize_MPC_TMC_REQ fmapi_deserialize_MPC_TMC_RSP
      fmapi_serialize_MPC_TMC_REQ a b c z l by simp
qed

text \<open>
  C4, amended. The length field of a tunnelled management command holds the payload
  length plus one, for every payload length that the array \<^verbatim>\<open>msg\<close> can hold. Serialising
  a request or a response whose \<^verbatim>\<open>len\<close> is \<open>L \<le> 8175\<close>, into any memory at any address,
  writes \<open>L + 1\<close> in the little-endian length field (bytes 2 and 3 of a request, bytes 0
  and 1 of a response), copies the first \<open>L\<close> bytes of \<^verbatim>\<open>msg\<close> from offset 5 on and
  returns \<open>5 + L\<close>. Deserialising a buffer whose length field holds \<open>v\<close> with
  \<open>1 \<le> v \<le> 8176\<close>, into any destination, stores \<open>v - 1\<close> in \<^verbatim>\<open>len\<close>, copies \<open>v - 1\<close> bytes
  from offset 5 into \<^verbatim>\<open>msg\<close> and returns \<open>5 + (v - 1)\<close>. The memory of the encoder and
  the memory of the decoder are independent here, so the decoder may read what the
  encoder wrote.
\<close>

theorem tunnel_length_off_by_one:
  "(length (tmq_msg q) = FMLN_MPC_TUNNEL_PAYLOAD \<and> unat (tmq_len q) \<le> FMLN_MPC_TUNNEL_PAYLOAD \<longrightarrow>
      (\<exists>h'. fmapi_serialize h (Some d) (Some (OB_MPC_TMC_REQ q)) FMOB_MPC_TMC_REQ
              = Inr (h', 5 + int (unat (tmq_len q)))
          \<and> unat (peek h' d 2) + 256 * unat (peek h' d 3) = unat (tmq_len q) + 1
          \<and> mem_get h' (d + 5) (unat (tmq_len q)) = take (unat (tmq_len q)) (tmq_msg q)))
   \<and> (length (tms_msg p) = FMLN_MPC_TUNNEL_PAYLOAD \<and> unat (tms_len p) \<le> FMLN_MPC_TUNNEL_PAYLOAD \<longrightarrow>
      (\<exists>h'. fmapi_serialize h (Some d) (Some (OB_MPC_TMC_RSP p)) FMOB_MPC_TMC_RSP
              = Inr (h', 5 + int (unat (tms_len p)))
          \<and> unat (peek h' d 0) + 256 * unat (peek h' d 1) = unat (tms_len p) + 1
          \<and> mem_get h' (d + 5) (unat (tms_len p)) = take (unat (tms_len p)) (tms_msg p)))
   \<and> (length (tmq_msg q0) = FMLN_MPC_TUNNEL_PAYLOAD
      \<and> v = unat (peek H s 2) + 256 * unat (peek H s 3)
      \<and> 1 \<le> v \<and> v \<le> FMLN_MPC_TUNNEL_PAYLOAD + 1 \<longrightarrow>
      (\<exists>q'. fmapi_deserialize (Some (OB_MPC_TMC_REQ q0)) H (Some s) FMOB_MPC_TMC_REQ param
              = Inr (Some (OB_MPC_TMC_REQ q'), 5 + int (v - 1))
          \<and> unat (tmq_len q') = v - 1
          \<and> take (v - 1) (tmq_msg q') = mem_get H (s + 5) (v - 1)))
   \<and> (length (tms_msg p0) = FMLN_MPC_TUNNEL_PAYLOAD
      \<and> w = unat (peek H s 0) + 256 * unat (peek H s 1)
      \<and> 1 \<le> w \<and> w \<le> FMLN_MPC_TUNNEL_PAYLOAD + 1 \<longrightarrow>
      (\<exists>p'. fmapi_deserialize (Some (OB_MPC_TMC_RSP p0)) H (Some s) FMOB_MPC_TMC_RSP param
              = Inr (Some (OB_MPC_TMC_RSP p'), 5 + int (w - 1))
          \<and> unat (tms_len p') = w - 1
          \<and> take (w - 1) (tms_msg p') = mem_get H (s + 5) (w - 1)))"
proof -
  have cap: "FMLN_MPC_TUNNEL_PAYLOAD = 8175" by (simp add: fmln_defs)
  have a: "length (tmq_msg q) = FMLN_MPC_TUNNEL_PAYLOAD \<and> unat (tmq_len q) \<le> FMLN_MPC_TUNNEL_PAYLOAD \<longrightarrow>
      (\<exists>h'. fmapi_serialize h (Some d) (Some (OB_MPC_TMC_REQ q)) FMOB_MPC_TMC_REQ
              = Inr (h', 5 + int (unat (tmq_len q)))
          \<and> unat (peek h' d 2) + 256 * unat (peek h' d 3) = unat (tmq_len q) + 1
          \<and> mem_get h' (d + 5) (unat (tmq_len q)) = take (unat (tmq_len q)) (tmq_msg q))"
  proof (intro impI, elim conjE)
    assume len: "length (tmq_msg q) = FMLN_MPC_TUNNEL_PAYLOAD"
      and le: "unat (tmq_len q) \<le> FMLN_MPC_TUNNEL_PAYLOAD"
    have l1: "unat (tmq_len q) \<le> length (tmq_msg q)" unfolding len by (rule le)
    have l2: "unat (tmq_len q) + 1 < 65536" using le unfolding cap by simp
    obtain h1 where h1: "ser_mpc_tmc_req h d q = Inr (h1, 5 + unat (tmq_len q))"
        and f: "unat (peek h1 d 2) + 256 * unat (peek h1 d 3) = unat (tmq_len q) + 1"
        and m: "mem_get h1 (d + 5) (unat (tmq_len q)) = take (unat (tmq_len q)) (tmq_msg q)"
      using ser_mpc_tmc_req_ok [OF l1 l2, of h d] by blast
    have "fmapi_serialize h (Some d) (Some (OB_MPC_TMC_REQ q)) FMOB_MPC_TMC_REQ
        = Inr (h1, 5 + int (unat (tmq_len q)))"
      unfolding fmapi_serialize_MPC_TMC_REQ h1 by simp
    then show "\<exists>h'. fmapi_serialize h (Some d) (Some (OB_MPC_TMC_REQ q)) FMOB_MPC_TMC_REQ
              = Inr (h', 5 + int (unat (tmq_len q)))
          \<and> unat (peek h' d 2) + 256 * unat (peek h' d 3) = unat (tmq_len q) + 1
          \<and> mem_get h' (d + 5) (unat (tmq_len q)) = take (unat (tmq_len q)) (tmq_msg q)"
      using f m by blast
  qed
  have b: "length (tms_msg p) = FMLN_MPC_TUNNEL_PAYLOAD \<and> unat (tms_len p) \<le> FMLN_MPC_TUNNEL_PAYLOAD \<longrightarrow>
      (\<exists>h'. fmapi_serialize h (Some d) (Some (OB_MPC_TMC_RSP p)) FMOB_MPC_TMC_RSP
              = Inr (h', 5 + int (unat (tms_len p)))
          \<and> unat (peek h' d 0) + 256 * unat (peek h' d 1) = unat (tms_len p) + 1
          \<and> mem_get h' (d + 5) (unat (tms_len p)) = take (unat (tms_len p)) (tms_msg p))"
  proof (intro impI, elim conjE)
    assume len: "length (tms_msg p) = FMLN_MPC_TUNNEL_PAYLOAD"
      and le: "unat (tms_len p) \<le> FMLN_MPC_TUNNEL_PAYLOAD"
    have l1: "unat (tms_len p) \<le> length (tms_msg p)" unfolding len by (rule le)
    have l2: "unat (tms_len p) + 1 < 65536" using le unfolding cap by simp
    obtain h1 where h1: "ser_mpc_tmc_rsp h d p = Inr (h1, 5 + unat (tms_len p))"
        and f: "unat (peek h1 d 0) + 256 * unat (peek h1 d 1) = unat (tms_len p) + 1"
        and m: "mem_get h1 (d + 5) (unat (tms_len p)) = take (unat (tms_len p)) (tms_msg p)"
      using ser_mpc_tmc_rsp_ok [OF l1 l2, of h d] by blast
    have "fmapi_serialize h (Some d) (Some (OB_MPC_TMC_RSP p)) FMOB_MPC_TMC_RSP
        = Inr (h1, 5 + int (unat (tms_len p)))"
      unfolding fmapi_serialize_MPC_TMC_RSP h1 by simp
    then show "\<exists>h'. fmapi_serialize h (Some d) (Some (OB_MPC_TMC_RSP p)) FMOB_MPC_TMC_RSP
              = Inr (h', 5 + int (unat (tms_len p)))
          \<and> unat (peek h' d 0) + 256 * unat (peek h' d 1) = unat (tms_len p) + 1
          \<and> mem_get h' (d + 5) (unat (tms_len p)) = take (unat (tms_len p)) (tms_msg p)"
      using f m by blast
  qed
  have c: "length (tmq_msg q0) = FMLN_MPC_TUNNEL_PAYLOAD
      \<and> v = unat (peek H s 2) + 256 * unat (peek H s 3)
      \<and> 1 \<le> v \<and> v \<le> FMLN_MPC_TUNNEL_PAYLOAD + 1 \<longrightarrow>
      (\<exists>q'. fmapi_deserialize (Some (OB_MPC_TMC_REQ q0)) H (Some s) FMOB_MPC_TMC_REQ param
              = Inr (Some (OB_MPC_TMC_REQ q'), 5 + int (v - 1))
          \<and> unat (tmq_len q') = v - 1
          \<and> take (v - 1) (tmq_msg q') = mem_get H (s + 5) (v - 1))"
  proof (intro impI, elim conjE)
    assume len: "length (tmq_msg q0) = FMLN_MPC_TUNNEL_PAYLOAD"
      and veq: "v = unat (peek H s 2) + 256 * unat (peek H s 3)"
      and v1: "1 \<le> v" and v2: "v \<le> FMLN_MPC_TUNNEL_PAYLOAD + 1"
    have b: "v - 1 \<le> length (tmq_msg q0)" unfolding len using v2 by simp
    obtain r where r: "deser_mpc_tmc_req q0 H s = Inr (r, 5 + (v - 1))"
        and l: "unat (tmq_len r) = v - 1"
        and m: "take (v - 1) (tmq_msg r) = mem_get H (s + 5) (v - 1)"
      using deser_mpc_tmc_req_ok [OF v1 b veq [symmetric]] by blast
    have "fmapi_deserialize (Some (OB_MPC_TMC_REQ q0)) H (Some s) FMOB_MPC_TMC_REQ param
        = Inr (Some (OB_MPC_TMC_REQ r), 5 + int (v - 1))"
      unfolding fmapi_deserialize_MPC_TMC_REQ r by simp
    then show "\<exists>q'. fmapi_deserialize (Some (OB_MPC_TMC_REQ q0)) H (Some s) FMOB_MPC_TMC_REQ param
              = Inr (Some (OB_MPC_TMC_REQ q'), 5 + int (v - 1))
          \<and> unat (tmq_len q') = v - 1
          \<and> take (v - 1) (tmq_msg q') = mem_get H (s + 5) (v - 1)"
      using l m by blast
  qed
  have e: "length (tms_msg p0) = FMLN_MPC_TUNNEL_PAYLOAD
      \<and> w = unat (peek H s 0) + 256 * unat (peek H s 1)
      \<and> 1 \<le> w \<and> w \<le> FMLN_MPC_TUNNEL_PAYLOAD + 1 \<longrightarrow>
      (\<exists>p'. fmapi_deserialize (Some (OB_MPC_TMC_RSP p0)) H (Some s) FMOB_MPC_TMC_RSP param
              = Inr (Some (OB_MPC_TMC_RSP p'), 5 + int (w - 1))
          \<and> unat (tms_len p') = w - 1
          \<and> take (w - 1) (tms_msg p') = mem_get H (s + 5) (w - 1))"
  proof (intro impI, elim conjE)
    assume len: "length (tms_msg p0) = FMLN_MPC_TUNNEL_PAYLOAD"
      and veq: "w = unat (peek H s 0) + 256 * unat (peek H s 1)"
      and v1: "1 \<le> w" and v2: "w \<le> FMLN_MPC_TUNNEL_PAYLOAD + 1"
    have b: "w - 1 \<le> length (tms_msg p0)" unfolding len using v2 by simp
    obtain r where r: "deser_mpc_tmc_rsp p0 H s = Inr (r, 5 + (w - 1))"
        and l: "unat (tms_len r) = w - 1"
        and m: "take (w - 1) (tms_msg r) = mem_get H (s + 5) (w - 1)"
      using deser_mpc_tmc_rsp_ok [OF v1 b veq [symmetric]] by blast
    have "fmapi_deserialize (Some (OB_MPC_TMC_RSP p0)) H (Some s) FMOB_MPC_TMC_RSP param
        = Inr (Some (OB_MPC_TMC_RSP r), 5 + int (w - 1))"
      unfolding fmapi_deserialize_MPC_TMC_RSP r by simp
    then show "\<exists>p'. fmapi_deserialize (Some (OB_MPC_TMC_RSP p0)) H (Some s) FMOB_MPC_TMC_RSP param
              = Inr (Some (OB_MPC_TMC_RSP p'), 5 + int (w - 1))
          \<and> unat (tms_len p') = w - 1
          \<and> take (w - 1) (tms_msg p') = mem_get H (s + 5) (w - 1)"
      using l m by blast
  qed
  show ?thesis
    by (rule conjI [OF a conjI [OF b conjI [OF c e]]])
qed

theorem tunnel_length_off_by_one_witness:
  "length (tmq_msg ex_tmc_req) = FMLN_MPC_TUNNEL_PAYLOAD \<and> unat (tmq_len ex_tmc_req) = 68
   \<and> length (tms_msg ex_tmc_rsp) = FMLN_MPC_TUNNEL_PAYLOAD \<and> unat (tms_len ex_tmc_rsp) = 68
   \<and> (68 :: nat) \<le> FMLN_MPC_TUNNEL_PAYLOAD \<and> (1 :: nat) \<le> 69 \<and> (69 :: nat) \<le> FMLN_MPC_TUNNEL_PAYLOAD + 1
   \<and> take 68 ex_tmc_payload = map of_nat [1..<69]
   \<and> (\<exists>h'. fmapi_serialize ex_mem_ff (Some 3) (Some (OB_MPC_TMC_REQ ex_tmc_req)) FMOB_MPC_TMC_REQ
             = Inr (h', 73)
         \<and> unat (peek h' 3 2) + 256 * unat (peek h' 3 3) = 69
         \<and> mem_get h' 8 68 = take 68 ex_tmc_payload
         \<and> (\<exists>q'. fmapi_deserialize (Some (OB_MPC_TMC_REQ ex_tmc_req_dst)) h' (Some 3)
                     FMOB_MPC_TMC_REQ None = Inr (Some (OB_MPC_TMC_REQ q'), 73)
               \<and> unat (tmq_len q') = 68 \<and> take 68 (tmq_msg q') = take 68 ex_tmc_payload))
   \<and> (\<exists>h'. fmapi_serialize ex_mem_ff (Some 3) (Some (OB_MPC_TMC_RSP ex_tmc_rsp)) FMOB_MPC_TMC_RSP
             = Inr (h', 73)
         \<and> unat (peek h' 3 0) + 256 * unat (peek h' 3 1) = 69
         \<and> mem_get h' 8 68 = take 68 ex_tmc_payload
         \<and> (\<exists>p'. fmapi_deserialize (Some (OB_MPC_TMC_RSP ex_tmc_rsp_dst)) h' (Some 3)
                     FMOB_MPC_TMC_RSP None = Inr (Some (OB_MPC_TMC_RSP p'), 73)
               \<and> unat (tms_len p') = 68 \<and> take 68 (tms_msg p') = take 68 ex_tmc_payload))"
proof -
  have cap: "(68 :: nat) \<le> FMLN_MPC_TUNNEL_PAYLOAD" "(1 :: nat) \<le> 69"
      "(69 :: nat) \<le> FMLN_MPC_TUNNEL_PAYLOAD + 1"
    by (simp_all add: fmln_defs)
  have qm: "tmq_msg ex_tmc_req = ex_tmc_payload" and ql: "unat (tmq_len ex_tmc_req) = 68"
    by (simp_all add: ex_tmc_req_def)
  have pm: "tms_msg ex_tmc_rsp = ex_tmc_payload" and pl: "unat (tms_len ex_tmc_rsp) = 68"
    by (simp_all add: ex_tmc_rsp_def)
  have q: "length (tmq_msg ex_tmc_req) = FMLN_MPC_TUNNEL_PAYLOAD
      \<and> unat (tmq_len ex_tmc_req) \<le> FMLN_MPC_TUNNEL_PAYLOAD"
    unfolding qm ql using ex_tmc_payload_facts(1) cap(1) by simp
  have p: "length (tms_msg ex_tmc_rsp) = FMLN_MPC_TUNNEL_PAYLOAD
      \<and> unat (tms_len ex_tmc_rsp) \<le> FMLN_MPC_TUNNEL_PAYLOAD"
    unfolding pm pl using ex_tmc_payload_facts(1) cap(1) by simp
  have q0: "length (tmq_msg ex_tmc_req_dst) = FMLN_MPC_TUNNEL_PAYLOAD"
    by (simp add: ex_tmc_req_dst_def)
  have p0: "length (tms_msg ex_tmc_rsp_dst) = FMLN_MPC_TUNNEL_PAYLOAD"
    by (simp add: ex_tmc_rsp_dst_def)
  have n: "5 + int 68 = 73" "(3 :: nat) + 5 = 8" "(69 :: nat) - 1 = 68" "(68 :: nat) + 1 = 69"
      "5 + int (69 - 1) = 73"
    by simp_all
  note enc_req = tunnel_length_off_by_one [where q = ex_tmc_req and h = ex_mem_ff and d = 3,
      THEN conjunct1, rule_format, OF q, unfolded ql qm n]
  note enc_rsp = tunnel_length_off_by_one [where p = ex_tmc_rsp and h = ex_mem_ff and d = 3,
      THEN conjunct2, THEN conjunct1, rule_format, OF p, unfolded pl pm n]
  obtain h1 where h1: "fmapi_serialize ex_mem_ff (Some 3) (Some (OB_MPC_TMC_REQ ex_tmc_req))
        FMOB_MPC_TMC_REQ = Inr (h1, 73)"
      and f1: "unat (peek h1 3 2) + 256 * unat (peek h1 3 3) = 69"
      and m1: "mem_get h1 8 68 = take 68 ex_tmc_payload"
    using enc_req by blast
  obtain h2 where h2: "fmapi_serialize ex_mem_ff (Some 3) (Some (OB_MPC_TMC_RSP ex_tmc_rsp))
        FMOB_MPC_TMC_RSP = Inr (h2, 73)"
      and f2: "unat (peek h2 3 0) + 256 * unat (peek h2 3 1) = 69"
      and m2: "mem_get h2 8 68 = take 68 ex_tmc_payload"
    using enc_rsp by blast
  have dq: "length (tmq_msg ex_tmc_req_dst) = FMLN_MPC_TUNNEL_PAYLOAD
      \<and> 69 = unat (peek h1 3 2) + 256 * unat (peek h1 3 3)
      \<and> 1 \<le> (69 :: nat) \<and> (69 :: nat) \<le> FMLN_MPC_TUNNEL_PAYLOAD + 1"
    using q0 f1 cap by simp
  have dp: "length (tms_msg ex_tmc_rsp_dst) = FMLN_MPC_TUNNEL_PAYLOAD
      \<and> 69 = unat (peek h2 3 0) + 256 * unat (peek h2 3 1)
      \<and> 1 \<le> (69 :: nat) \<and> (69 :: nat) \<le> FMLN_MPC_TUNNEL_PAYLOAD + 1"
    using p0 f2 cap by simp
  note dec_req = tunnel_length_off_by_one [where ?q0.0 = ex_tmc_req_dst and H = h1 and s = 3
      and v = 69 and param = None, THEN conjunct2, THEN conjunct2, THEN conjunct1, rule_format,
      OF dq, unfolded n m1]
  note dec_rsp = tunnel_length_off_by_one [where ?p0.0 = ex_tmc_rsp_dst and H = h2 and s = 3
      and w = 69 and param = None, THEN conjunct2, THEN conjunct2, THEN conjunct2, rule_format,
      OF dp, unfolded n m2]
  have A: "\<exists>h'. fmapi_serialize ex_mem_ff (Some 3) (Some (OB_MPC_TMC_REQ ex_tmc_req)) FMOB_MPC_TMC_REQ
             = Inr (h', 73)
         \<and> unat (peek h' 3 2) + 256 * unat (peek h' 3 3) = 69
         \<and> mem_get h' 8 68 = take 68 ex_tmc_payload
         \<and> (\<exists>q'. fmapi_deserialize (Some (OB_MPC_TMC_REQ ex_tmc_req_dst)) h' (Some 3)
                     FMOB_MPC_TMC_REQ None = Inr (Some (OB_MPC_TMC_REQ q'), 73)
               \<and> unat (tmq_len q') = 68 \<and> take 68 (tmq_msg q') = take 68 ex_tmc_payload)"
    using h1 f1 m1 dec_req by blast
  have B: "\<exists>h'. fmapi_serialize ex_mem_ff (Some 3) (Some (OB_MPC_TMC_RSP ex_tmc_rsp)) FMOB_MPC_TMC_RSP
             = Inr (h', 73)
         \<and> unat (peek h' 3 0) + 256 * unat (peek h' 3 1) = 69
         \<and> mem_get h' 8 68 = take 68 ex_tmc_payload
         \<and> (\<exists>p'. fmapi_deserialize (Some (OB_MPC_TMC_RSP ex_tmc_rsp_dst)) h' (Some 3)
                     FMOB_MPC_TMC_RSP None = Inr (Some (OB_MPC_TMC_RSP p'), 73)
               \<and> unat (tms_len p') = 68 \<and> take 68 (tms_msg p') = take 68 ex_tmc_payload)"
    using h2 f2 m2 dec_rsp by blast
  show ?thesis
    using q p ql pl cap ex_tmc_payload_facts(2) A B by blast
qed

section \<open>Round trips of the kinds without arrays\<close>

lemma rt_isc_id_rsp: "deser_isc_id_rsp d0 (fst (ser_isc_id_rsp h d x)) d = (x, 17)"
  apply (simp add: ser_isc_id_rsp_def deser_isc_id_rsp_def Let_def peek_def poke_def fmln_defs)
  apply (simp add: le16_rt le64_rt)
  done

lemma rt_isc_msg_limit: "deser_isc_msg_limit d0 (fst (ser_isc_msg_limit h d x)) d = (x, 1)"
  by (simp add: ser_isc_msg_limit_def deser_isc_msg_limit_def Let_def peek_def poke_def fmln_defs)

lemma rt_psc_port_ctrl_req:
  "deser_psc_port_ctrl_req d0 (fst (ser_psc_port_ctrl_req h d x)) d = (x, 2)"
  by (simp add: ser_psc_port_ctrl_req_def deser_psc_port_ctrl_req_def Let_def peek_def poke_def
      fmln_defs)

lemma rt_vsc_ppb_stat_blk:
  "deser_vsc_ppb_stat_blk d0 (fst (ser_vsc_ppb_stat_blk h d x)) d = (x, 4)"
  by (simp add: ser_vsc_ppb_stat_blk_def deser_vsc_ppb_stat_blk_def Let_def peek_def poke_def
      fmln_defs)

lemma rt_vsc_bind_req: "deser_vsc_bind_req d0 (fst (ser_vsc_bind_req h d x)) d = (x, 6)"
  by (simp add: ser_vsc_bind_req_def deser_vsc_bind_req_def Let_def peek_def poke_def
      fmln_defs le16_rt)

lemma rt_vsc_unbind_req: "deser_vsc_unbind_req d0 (fst (ser_vsc_unbind_req h d x)) d = (x, 3)"
  by (simp add: ser_vsc_unbind_req_def deser_vsc_unbind_req_def Let_def peek_def poke_def
      fmln_defs u8_pass)

lemma rt_mcc_alloc_blk: "deser_mcc_alloc_blk d0 (fst (ser_mcc_alloc_blk h d x)) d = (x, 16)"
  apply (simp add: ser_mcc_alloc_blk_def deser_mcc_alloc_blk_def Let_def peek_def poke_def
      fmln_defs)
  apply (simp add: le64_rt)
  done

lemma rt_mcc_alloc_get_req:
  "deser_mcc_alloc_get_req d0 (fst (ser_mcc_alloc_get_req h d x)) d = (x, 2)"
  by (simp add: ser_mcc_alloc_get_req_def deser_mcc_alloc_get_req_def Let_def peek_def poke_def
      fmln_defs)

lemma rt_mcc_qos_stat_rsp:
  "deser_mcc_qos_stat_rsp d0 (fst (ser_mcc_qos_stat_rsp h d x)) d = (x, 1)"
  by (simp add: ser_mcc_qos_stat_rsp_def deser_mcc_qos_stat_rsp_def Let_def peek_def poke_def
      fmln_defs)

lemma rt_mcc_qos_bw_get_req:
  "deser_mcc_qos_bw_get_req d0 (fst (ser_mcc_qos_bw_get_req h d x)) d = (x, 2)"
  by (simp add: ser_mcc_qos_bw_get_req_def deser_mcc_qos_bw_get_req_def Let_def peek_def poke_def
      fmln_defs)

lemma rt_mcc_qos_bw_limit_get_req:
  "deser_mcc_qos_bw_limit_get_req d0 (fst (ser_mcc_qos_bw_limit_get_req h d x)) d = (x, 2)"
  by (simp add: ser_mcc_qos_bw_limit_get_req_def deser_mcc_qos_bw_limit_get_req_def Let_def
      peek_def poke_def fmln_defs)

lemma rt_isc_bos:
  "bos_running x \<le> 1 \<Longrightarrow> bos_pcnt x \<le> 0x7F \<Longrightarrow> deser_isc_bos d0 (fst (ser_isc_bos h d x)) d = (x, 8)"
  by (simp add: ser_isc_bos_def deser_isc_bos_def Let_def peek_def poke_def fmln_defs
      le16_rt_masked bos_byte0_running bos_byte0_pcnt)

lemma rt_psc_port_info:
  assumes "in_widths_psc_port_info x"
  shows "deser_psc_port_info d0 (fst (ser_psc_port_info h d x)) d = (x, 16)"
proof -
  have "pi_lane_rev x = 0 \<or> pi_lane_rev x = 1" "pi_perst x = 0 \<or> pi_perst x = 1"
    "pi_prsnt x = 0 \<or> pi_prsnt x = 1" "pi_pwrctrl x = 0 \<or> pi_pwrctrl x = 1"
    using assms by (simp_all add: in_widths_psc_port_info_def le1)
  then show ?thesis
    apply (simp add: ser_psc_port_info_def deser_psc_port_info_def Let_def peek_def poke_def
        fmln_defs fmbit_defs)
    apply (elim disjE; simp add: i32_def)
    done
qed

lemma rt_mcc_info_rsp:
  assumes "mir_epc x \<le> 1" and "mir_ttr x \<le> 1"
  shows "deser_mcc_info_rsp d0 (fst (ser_mcc_info_rsp h d x)) d = (x, 11)"
proof -
  have "mir_epc x = 0 \<or> mir_epc x = 1" "mir_ttr x = 0 \<or> mir_ttr x = 1"
    using assms by (simp_all add: le1)
  then show ?thesis
    apply (simp add: ser_mcc_info_rsp_def deser_mcc_info_rsp_def Let_def peek_def poke_def
        fmln_defs fmbit_defs le64_rt le16_rt)
    apply (elim disjE; simp add: i32_def)
    done
qed

lemma rt_mcc_qos_ctrl:
  assumes "qc_epc_en x \<le> 1" and "qc_ttr_en x \<le> 1"
  shows "deser_mcc_qos_ctrl d0 (fst (ser_mcc_qos_ctrl h d x)) d = (x, 7)"
proof -
  have "qc_epc_en x = 0 \<or> qc_epc_en x = 1" "qc_ttr_en x = 0 \<or> qc_ttr_en x = 1"
    using assms by (simp_all add: le1)
  then show ?thesis
    apply (simp add: ser_mcc_qos_ctrl_def deser_mcc_qos_ctrl_def Let_def peek_def poke_def
        fmln_defs fmbit_defs le16_rt)
    apply (elim disjE; simp add: i32_def)
    done
qed

section \<open>Round trips of the kinds with byte arrays\<close>

lemma unat_u8_le: "unat (x :: u8) \<le> 256"
  using unsigned_less [of x, where ?'a = nat] by simp

lemma rt_psc_port_req:
  assumes "length (ppr_ports x) = FM_MAX_PORTS" and "length (ppr_ports d0) = FM_MAX_PORTS"
  shows "\<exists>h'. ser_psc_port_req h d x = Inr (h', 1 + unat (ppr_num x))
      \<and> deser_psc_port_req d0 h' d
          = Inr (x\<lparr>ppr_ports := take (unat (ppr_num x)) (ppr_ports x) @ drop (unat (ppr_num x)) (ppr_ports d0)\<rparr>,
                 1 + unat (ppr_num x))"
  using assms unat_u8_le [of "ppr_num x"]
  by (cases x; cases d0)
    (simp add: ser_psc_port_req_def deser_psc_port_req_def Let_def peek_def poke_def fmln_defs
      fm_max_defs memcpy_out_other mem_get_memcpy_out memcpy_in_def)

lemma rt_vsc_info_req:
  assumes "length (vir_vcss x) = FM_MAX_VCS" and "length (vir_vcss d0) = FM_MAX_VCS"
  shows "\<exists>h'. ser_vsc_info_req h d x = Inr (h', 3 + unat (vir_num x))
      \<and> deser_vsc_info_req d0 h' d
          = Inr (x\<lparr>vir_vcss := take (unat (vir_num x)) (vir_vcss x) @ drop (unat (vir_num x)) (vir_vcss d0)\<rparr>,
                 3 + unat (vir_num x))"
  using assms unat_u8_le [of "vir_num x"]
  by (cases x; cases d0)
    (simp add: ser_vsc_info_req_def deser_vsc_info_req_def Let_def peek_def poke_def fmln_defs
      fm_max_defs memcpy_out_other mem_get_memcpy_out memcpy_in_def)

lemma rt_mcc_qos_bw_alloc:
  assumes "length (qba_list x) = FM_MAX_NUM_LD" and "length (qba_list d0) = FM_MAX_NUM_LD"
    and "unat (qba_num x) \<le> FM_MAX_NUM_LD"
  shows "\<exists>h'. ser_mcc_qos_bw_alloc h d x = Inr (h', 2 + unat (qba_num x))
      \<and> deser_mcc_qos_bw_alloc d0 h' d
          = Inr (x\<lparr>qba_list := take (unat (qba_num x)) (qba_list x) @ drop (unat (qba_num x)) (qba_list d0)\<rparr>,
                 2 + unat (qba_num x))"
  using assms
  by (cases x; cases d0)
    (simp add: ser_mcc_qos_bw_alloc_def deser_mcc_qos_bw_alloc_def Let_def peek_def poke_def
      fmln_defs fm_max_defs memcpy_out_other mem_get_memcpy_out memcpy_in_def)

lemma rt_mcc_qos_bw_limit:
  assumes "length (qbl_list x) = FM_MAX_NUM_LD" and "length (qbl_list d0) = FM_MAX_NUM_LD"
    and "unat (qbl_num x) \<le> FM_MAX_NUM_LD"
  shows "\<exists>h'. ser_mcc_qos_bw_limit h d x = Inr (h', 2 + unat (qbl_num x))
      \<and> deser_mcc_qos_bw_limit d0 h' d
          = Inr (x\<lparr>qbl_list := take (unat (qbl_num x)) (qbl_list x) @ drop (unat (qbl_num x)) (qbl_list d0)\<rparr>,
                 2 + unat (qbl_num x))"
  using assms
  by (cases x; cases d0)
    (simp add: ser_mcc_qos_bw_limit_def deser_mcc_qos_bw_limit_def Let_def peek_def poke_def
      fmln_defs fm_max_defs memcpy_out_other mem_get_memcpy_out memcpy_in_def)

lemma rt_mpc_mem_rsp:
  assumes "length (mms_data x) = FM_LD_MEM_REQ_LEN" and "length (mms_data d0) = FM_LD_MEM_REQ_LEN"
    and "unat (mms_len x) \<le> FM_LD_MEM_REQ_LEN"
  shows "\<exists>h'. ser_mpc_mem_rsp h d x = Inr (h', 4 + unat (mms_len x))
      \<and> deser_mpc_mem_rsp d0 h' d
          = Inr (x\<lparr>mms_data := take (unat (mms_len x)) (mms_data x) @ drop (unat (mms_len x)) (mms_data d0)\<rparr>,
                 4 + unat (mms_len x))"
  using assms
  by (cases x; cases d0)
    (simp add: ser_mpc_mem_rsp_def deser_mpc_mem_rsp_def Let_def peek_def poke_def
      fmln_defs fm_max_defs memcpy_out_other mem_get_memcpy_out memcpy_in_def le16_rt)

lemma rt_mpc_mem_req:
  assumes "length (mmq_data x) = FM_LD_MEM_REQ_LEN" and "length (mmq_data d0) = FM_LD_MEM_REQ_LEN"
    and "unat (mmq_len x) \<le> FM_LD_MEM_REQ_LEN"
  shows "\<exists>h'. ser_mpc_mem_req h d x = Inr (h', 16 + unat (mmq_len x))
      \<and> deser_mpc_mem_req d0 h' d
          = Inr (x\<lparr>mmq_data := take (unat (mmq_len x)) (mmq_data x) @ drop (unat (mmq_len x)) (mmq_data d0)\<rparr>,
                 16 + unat (mmq_len x))"
  using assms
  apply (cases x; cases d0)
  apply (simp add: ser_mpc_mem_req_def deser_mpc_mem_req_def Let_def peek_def poke_def
      fmln_defs fm_max_defs memcpy_out_other mem_get_memcpy_out memcpy_in_def le16_rt le64_rt cat_rt ldbe_rt type_rt)
  done

lemma rt_vsc_aer_req:
  assumes "length (var_header x) = FM_TLP_HEADER" and "length (var_header d0) = FM_TLP_HEADER"
  shows "\<exists>h'. ser_vsc_aer_req h d x = Inr (h', 40)
      \<and> deser_vsc_aer_req d0 h' d = Inr (x, 40)"
  using assms
  apply (cases x; cases d0)
  apply (simp add: ser_vsc_aer_req_def deser_vsc_aer_req_def Let_def peek_def poke_def
      fmln_defs fm_max_defs memcpy_out_other mem_get_memcpy_out memcpy_in_full le32_rt)
  done

lemma rt_psc_id_rsp:
  assumes "length (pid_active_ports x) = 32" and "length (pid_active_vcss x) = 32"
    and "length (pid_active_ports d0) = 32" and "length (pid_active_vcss d0) = 32"
  shows "\<exists>h'. ser_psc_id_rsp h d x = Inr (h', 93)
      \<and> deser_psc_id_rsp d0 h' d = Inr (x, 93)"
  using assms
  apply (cases x; cases d0)
  apply (simp add: ser_psc_id_rsp_def deser_psc_id_rsp_def Let_def peek_def poke_def
      fmln_defs memcpy_out_other mem_get_memcpy_out memcpy_in_full le16_rt
      mem_get_upd_other mem_get_memcpy_out_other)
  done

lemma rt_psc_cfg_req:
  assumes "length (pcf_data x) = 4" and "length (pcf_data d0) = 4"
  shows "\<exists>h'. ser_psc_cfg_req h d x = Inr (h', 8) \<and> deser_psc_cfg_req d0 h' d = Inr (x, 8)"
  using assms
  apply (cases x; cases d0)
  apply (simp add: ser_psc_cfg_req_def deser_psc_cfg_req_def Let_def peek_def poke_def
      fmln_defs list4 u8_pass nib_lo nib_hi bit7_rt)
  done

lemma rt_psc_cfg_rsp:
  assumes "length (pcs_data x) = 4" and "length (pcs_data d0) = 4"
  shows "\<exists>h'. ser_psc_cfg_rsp h d x = Inr (h', 4) \<and> deser_psc_cfg_rsp d0 h' d = Inr (x, 4)"
  using assms
  apply (cases x; cases d0)
  apply (simp add: ser_psc_cfg_rsp_def deser_psc_cfg_rsp_def Let_def peek_def poke_def
      fmln_defs list4)
  done

lemma rt_mpc_cfg_req:
  assumes "length (mcq_data x) = 4" and "length (mcq_data d0) = 4"
  shows "\<exists>h'. ser_mpc_cfg_req h d x = Inr (h', 12) \<and> deser_mpc_cfg_req d0 h' d = Inr (x, 12)"
  using assms
  apply (cases x; cases d0)
  apply (simp add: ser_mpc_cfg_req_def deser_mpc_cfg_req_def Let_def peek_def poke_def
      fmln_defs list4 le16_rt nib_lo nib_hi bit7_rt)
  done

lemma rt_mpc_cfg_rsp:
  assumes "length (mcs_data x) = 4" and "length (mcs_data d0) = 4"
  shows "\<exists>h'. ser_mpc_cfg_rsp h d x = Inr (h', 4) \<and> deser_mpc_cfg_rsp d0 h' d = Inr (x, 4)"
  using assms
  apply (cases x; cases d0)
  apply (simp add: ser_mpc_cfg_rsp_def deser_mpc_cfg_rsp_def Let_def peek_def poke_def
      fmln_defs list4)
  done

lemma rt_mpc_tmc_req:
  assumes "length (tmq_msg x) = FMLN_MPC_TUNNEL_PAYLOAD"
    and "length (tmq_msg d0) = FMLN_MPC_TUNNEL_PAYLOAD"
    and "unat (tmq_len x) \<le> FMLN_MPC_TUNNEL_PAYLOAD"
  shows "\<exists>h'. ser_mpc_tmc_req h d x = Inr (h', 5 + unat (tmq_len x))
      \<and> deser_mpc_tmc_req d0 h' d
          = Inr (x\<lparr>tmq_msg := take (unat (tmq_len x)) (tmq_msg x) @ drop (unat (tmq_len x)) (tmq_msg d0)\<rparr>,
                 5 + unat (tmq_len x))"
proof -
  have "unat (tmq_len x) + 1 < 65536" using assms(3) by (simp add: fmln_defs)
  note l = tmc_len_rt [OF this]
  show ?thesis
    using assms
    apply (cases x; cases d0)
    apply (insert l)
    apply (simp add: ser_mpc_tmc_req_def deser_mpc_tmc_req_def Let_def peek_def poke_def
      fmln_defs memcpy_out_other mem_get_memcpy_out memcpy_in_def)
    done
qed

lemma rt_mpc_tmc_rsp:
  assumes "length (tms_msg x) = FMLN_MPC_TUNNEL_PAYLOAD"
    and "length (tms_msg d0) = FMLN_MPC_TUNNEL_PAYLOAD"
    and "unat (tms_len x) \<le> FMLN_MPC_TUNNEL_PAYLOAD"
  shows "\<exists>h'. ser_mpc_tmc_rsp h d x = Inr (h', 5 + unat (tms_len x))
      \<and> deser_mpc_tmc_rsp d0 h' d
          = Inr (x\<lparr>tms_msg := take (unat (tms_len x)) (tms_msg x) @ drop (unat (tms_len x)) (tms_msg d0)\<rparr>,
                 5 + unat (tms_len x))"
proof -
  have "unat (tms_len x) + 1 < 65536" using assms(3) by (simp add: fmln_defs)
  note l = tmc_len_rt [OF this]
  show ?thesis
    using assms
    apply (cases x; cases d0)
    apply (insert l)
    apply (simp add: ser_mpc_tmc_rsp_def deser_mpc_tmc_rsp_def Let_def peek_def poke_def
      fmln_defs memcpy_out_other mem_get_memcpy_out memcpy_in_def)
    done
qed

section \<open>Round trips of the kinds with lists of objects\<close>

text \<open>
  The loops: encoding a list element by element and decoding it from the result. An
  element \<open>x\<close> takes \<open>c x\<close> bytes, writes nothing else, and decodes from any memory
  that has these bytes into \<open>g x y\<close>, where \<open>y\<close> is the element of the destination.
\<close>

lemma loop_roundtrip:
  fixes se :: "mem \<Rightarrow> nat \<Rightarrow> 'a \<Rightarrow> fault + (mem \<times> nat)"
    and de :: "'a \<Rightarrow> mem \<Rightarrow> nat \<Rightarrow> fault + ('a \<times> nat)"
    and g :: "'a \<Rightarrow> 'a \<Rightarrow> 'a" and c :: "'a \<Rightarrow> nat"
  assumes el: "\<And>x y h p. P x \<Longrightarrow> Q y \<Longrightarrow>
      \<exists>h1. se h p x = Inr (h1, c x)
         \<and> (\<forall>a. a < p \<or> p + c x \<le> a \<longrightarrow> h1 a = h a)
         \<and> (\<forall>H. (\<forall>a. p \<le> a \<and> a < p + c x \<longrightarrow> H a = h1 a)
               \<longrightarrow> de y H p = Inr (g x y, c x))"
    and xs: "list_all P xs" and ys: "list_all Q ys" and len: "length ys = length xs"
  shows "\<exists>h1. ser_loop se h d rv xs = Inr (h1, rv + sum_list (map c xs))
      \<and> (\<forall>a. a < d + rv \<or> d + rv + sum_list (map c xs) \<le> a \<longrightarrow> h1 a = h a)
      \<and> (\<forall>H. (\<forall>a. d + rv \<le> a \<and> a < d + rv + sum_list (map c xs) \<longrightarrow> H a = h1 a)
            \<longrightarrow> deser_loop de H d rv ys = Inr (map2 g xs ys, rv + sum_list (map c xs)))"
  using xs ys len
proof (induction xs arbitrary: ys h rv)
  case Nil
  then show ?case by simp
next
  case (Cons x xs)
  then obtain y ys' where ys: "ys = y # ys'" by (cases ys) auto
  have Px: "P x" and Pxs: "list_all P xs" using Cons.prems by auto
  have Qy: "Q y" and Qys: "list_all Q ys'" and l: "length ys' = length xs"
    using Cons.prems ys by auto
  let ?n = "sum_list (map c xs)"
  obtain h1 where h1: "se h (d + rv) x = Inr (h1, c x)"
      and f1: "\<And>a. a < d + rv \<or> d + rv + c x \<le> a \<Longrightarrow> h1 a = h a"
      and d1: "\<And>H. (\<forall>a. d + rv \<le> a \<and> a < d + rv + c x \<longrightarrow> H a = h1 a)
                 \<Longrightarrow> de y H (d + rv) = Inr (g x y, c x)"
    using el [OF Px Qy, of h "d + rv"] by blast
  obtain h2 where h2: "ser_loop se h1 d (rv + c x) xs = Inr (h2, rv + c x + ?n)"
      and f2: "\<And>a. a < d + (rv + c x) \<or> d + (rv + c x) + ?n \<le> a \<Longrightarrow> h2 a = h1 a"
      and d2: "\<And>H. (\<forall>a. d + (rv + c x) \<le> a \<and> a < d + (rv + c x) + ?n \<longrightarrow> H a = h2 a)
                 \<Longrightarrow> deser_loop de H d (rv + c x) ys' = Inr (map2 g xs ys', rv + c x + ?n)"
    using Cons.IH [OF Pxs Qys l, of h1 "rv + c x"] by blast
  have s: "ser_loop se h d rv (x # xs) = Inr (h2, rv + sum_list (map c (x # xs)))"
    using h1 h2 by (simp add: add.assoc)
  have f: "\<forall>a. a < d + rv \<or> d + rv + sum_list (map c (x # xs)) \<le> a \<longrightarrow> h2 a = h a"
  proof (intro allI impI)
    fix a assume a: "a < d + rv \<or> d + rv + sum_list (map c (x # xs)) \<le> a"
    then have "h2 a = h1 a" by (intro f2) auto
    moreover have "h1 a = h a" using a by (intro f1) auto
    ultimately show "h2 a = h a" by simp
  qed
  have dd: "\<forall>H. (\<forall>a. d + rv \<le> a \<and> a < d + rv + sum_list (map c (x # xs)) \<longrightarrow> H a = h2 a)
            \<longrightarrow> deser_loop de H d rv ys
                = Inr (map2 g (x # xs) ys, rv + sum_list (map c (x # xs)))"
  proof (intro allI impI)
    fix H assume H: "\<forall>a. d + rv \<le> a \<and> a < d + rv + sum_list (map c (x # xs)) \<longrightarrow> H a = h2 a"
    have "\<forall>a. d + rv \<le> a \<and> a < d + rv + c x \<longrightarrow> H a = h1 a"
    proof (intro allI impI)
      fix a assume a: "d + rv \<le> a \<and> a < d + rv + c x"
      then have "H a = h2 a" using H by simp
      moreover have "h2 a = h1 a" using a by (intro f2) auto
      ultimately show "H a = h1 a" by simp
    qed
    then have x': "de y H (d + rv) = Inr (g x y, c x)"
      by (rule d1)
    have "\<forall>a. d + (rv + c x) \<le> a \<and> a < d + (rv + c x) + ?n \<longrightarrow> H a = h2 a"
      using H by (simp add: add.assoc)
    then have xs': "deser_loop de H d (rv + c x) ys' = Inr (map2 g xs ys', rv + c x + ?n)"
      by (rule d2)
    show "deser_loop de H d rv ys = Inr (map2 g (x # xs) ys, rv + sum_list (map c (x # xs)))"
      using x' xs' ys by (simp add: add.assoc)
  qed
  show ?case using s f dd by blast
qed

lemma sum_list_const: "sum_list (map (\<lambda>_. c) xs) = (c :: nat) * length xs"
  by (induction xs) simp_all

lemma map2_first: "length ys = length xs \<Longrightarrow> map2 (\<lambda>x y. x) xs ys = xs"
proof -
  assume l: "length ys = length xs"
  have "map2 (\<lambda>x y. x) xs ys = map fst (zip xs ys)"
    by (simp add: case_prod_beta')
  also have "\<dots> = xs" using l by simp
  finally show ?thesis .
qed

lemma pure_element:
  fixes ser :: "mem \<Rightarrow> nat \<Rightarrow> 'a \<Rightarrow> mem \<times> nat" and de :: "'a \<Rightarrow> mem \<Rightarrow> nat \<Rightarrow> 'a \<times> nat"
  assumes rt: "de y (fst (ser h p x)) p = (x, N)"
    and rv: "snd (ser h p x) = N"
    and frame: "\<And>a. a < p \<or> p + N \<le> a \<Longrightarrow> fst (ser h p x) a = h a"
    and cong: "\<And>H H'. (\<And>a. p \<le> a \<Longrightarrow> a < p + N \<Longrightarrow> H a = H' a) \<Longrightarrow> de y H p = de y H' p"
  shows "\<exists>h1. (Inr (ser h p x) :: fault + mem \<times> nat) = Inr (h1, N)
      \<and> (\<forall>a. a < p \<or> p + N \<le> a \<longrightarrow> h1 a = h a)
      \<and> (\<forall>H. (\<forall>a. p \<le> a \<and> a < p + N \<longrightarrow> H a = h1 a)
            \<longrightarrow> (Inr (de y H p) :: fault + 'a \<times> nat) = Inr (x, N))"
proof (intro exI [of _ "fst (ser h p x)"] conjI allI impI)
  show "(Inr (ser h p x) :: fault + mem \<times> nat) = Inr (fst (ser h p x), N)"
    using rv by (cases "ser h p x") simp
next
  fix a assume "a < p \<or> p + N \<le> a"
  then show "fst (ser h p x) a = h a" by (rule frame)
next
  fix H assume "\<forall>a. p \<le> a \<and> a < p + N \<longrightarrow> H a = fst (ser h p x) a"
  then have "de y H p = de y (fst (ser h p x)) p" by (intro cong) simp
  then show "(Inr (de y H p) :: fault + 'a \<times> nat) = Inr (x, N)"
    using rt by simp
qed

lemma ser_psc_port_info_frame:
  "a < d \<or> d + 16 \<le> a \<Longrightarrow> fst (ser_psc_port_info h d x) a = h a"
  by (auto simp: ser_psc_port_info_def Let_def poke_def)

lemma deser_psc_port_info_cong:
  "(\<And>a. p \<le> a \<Longrightarrow> a < p + 16 \<Longrightarrow> H a = H' a)
    \<Longrightarrow> deser_psc_port_info y H p = deser_psc_port_info y H' p"
  by (simp add: deser_psc_port_info_def peek_def)

lemma ser_vsc_ppb_stat_blk_rv: "snd (ser_vsc_ppb_stat_blk h d x) = 4"
  by (simp add: ser_vsc_ppb_stat_blk_def Let_def fmln_defs)

lemma ser_vsc_ppb_stat_blk_frame:
  "a < d \<or> d + 4 \<le> a \<Longrightarrow> fst (ser_vsc_ppb_stat_blk h d x) a = h a"
  by (auto simp: ser_vsc_ppb_stat_blk_def Let_def poke_def)

lemma deser_vsc_ppb_stat_blk_cong:
  "(\<And>a. p \<le> a \<Longrightarrow> a < p + 4 \<Longrightarrow> H a = H' a)
    \<Longrightarrow> deser_vsc_ppb_stat_blk y H p = deser_vsc_ppb_stat_blk y H' p"
  by (simp add: deser_vsc_ppb_stat_blk_def peek_def)

lemma ser_mcc_alloc_blk_rv: "snd (ser_mcc_alloc_blk h d x) = 16"
  by (simp add: ser_mcc_alloc_blk_def Let_def fmln_defs)

lemma ser_mcc_alloc_blk_frame:
  "a < d \<or> d + 16 \<le> a \<Longrightarrow> fst (ser_mcc_alloc_blk h d x) a = h a"
  by (auto simp: ser_mcc_alloc_blk_def Let_def poke_def)

lemma deser_mcc_alloc_blk_cong:
  "(\<And>a. p \<le> a \<Longrightarrow> a < p + 16 \<Longrightarrow> H a = H' a)
    \<Longrightarrow> deser_mcc_alloc_blk y H p = deser_mcc_alloc_blk y H' p"
  by (simp add: deser_mcc_alloc_blk_def peek_def)

lemma el_psc_port_info:
  assumes "in_widths_psc_port_info x"
  shows "\<exists>h1. (Inr (ser_psc_port_info h p x) :: fault + mem \<times> nat) = Inr (h1, 16)
      \<and> (\<forall>a. a < p \<or> p + 16 \<le> a \<longrightarrow> h1 a = h a)
      \<and> (\<forall>H. (\<forall>a. p \<le> a \<and> a < p + 16 \<longrightarrow> H a = h1 a)
            \<longrightarrow> (Inr (deser_psc_port_info y H p) :: fault + fmapi_psc_port_info \<times> nat) = Inr (x, 16))"
proof (rule pure_element [where de = deser_psc_port_info and ser = ser_psc_port_info])
  show "deser_psc_port_info y (fst (ser_psc_port_info h p x)) p = (x, 16)"
    by (rule rt_psc_port_info [OF assms])
  show "snd (ser_psc_port_info h p x) = 16"
    by (rule ser_psc_port_info_rv)
  show "fst (ser_psc_port_info h p x) a = h a" if "a < p \<or> p + 16 \<le> a" for a
    using that by (rule ser_psc_port_info_frame)
  show "deser_psc_port_info y H p = deser_psc_port_info y H' p"
    if "\<And>a. p \<le> a \<Longrightarrow> a < p + 16 \<Longrightarrow> H a = H' a" for H H'
    using that by (rule deser_psc_port_info_cong)
qed

lemma el_vsc_ppb_stat_blk:
  shows "\<exists>h1. (Inr (ser_vsc_ppb_stat_blk h p x) :: fault + mem \<times> nat) = Inr (h1, 4)
      \<and> (\<forall>a. a < p \<or> p + 4 \<le> a \<longrightarrow> h1 a = h a)
      \<and> (\<forall>H. (\<forall>a. p \<le> a \<and> a < p + 4 \<longrightarrow> H a = h1 a)
            \<longrightarrow> (Inr (deser_vsc_ppb_stat_blk y H p) :: fault + fmapi_vsc_ppb_stat_blk \<times> nat) = Inr (x, 4))"
proof (rule pure_element [where de = deser_vsc_ppb_stat_blk and ser = ser_vsc_ppb_stat_blk])
  show "deser_vsc_ppb_stat_blk y (fst (ser_vsc_ppb_stat_blk h p x)) p = (x, 4)"
    by (rule rt_vsc_ppb_stat_blk)
  show "snd (ser_vsc_ppb_stat_blk h p x) = 4"
    by (rule ser_vsc_ppb_stat_blk_rv)
  show "fst (ser_vsc_ppb_stat_blk h p x) a = h a" if "a < p \<or> p + 4 \<le> a" for a
    using that by (rule ser_vsc_ppb_stat_blk_frame)
  show "deser_vsc_ppb_stat_blk y H p = deser_vsc_ppb_stat_blk y H' p"
    if "\<And>a. p \<le> a \<Longrightarrow> a < p + 4 \<Longrightarrow> H a = H' a" for H H'
    using that by (rule deser_vsc_ppb_stat_blk_cong)
qed

lemma el_mcc_alloc_blk:
  shows "\<exists>h1. (Inr (ser_mcc_alloc_blk h p x) :: fault + mem \<times> nat) = Inr (h1, 16)
      \<and> (\<forall>a. a < p \<or> p + 16 \<le> a \<longrightarrow> h1 a = h a)
      \<and> (\<forall>H. (\<forall>a. p \<le> a \<and> a < p + 16 \<longrightarrow> H a = h1 a)
            \<longrightarrow> (Inr (deser_mcc_alloc_blk y H p) :: fault + fmapi_mcc_alloc_blk \<times> nat) = Inr (x, 16))"
proof (rule pure_element [where de = deser_mcc_alloc_blk and ser = ser_mcc_alloc_blk])
  show "deser_mcc_alloc_blk y (fst (ser_mcc_alloc_blk h p x)) p = (x, 16)"
    by (rule rt_mcc_alloc_blk)
  show "snd (ser_mcc_alloc_blk h p x) = 16"
    by (rule ser_mcc_alloc_blk_rv)
  show "fst (ser_mcc_alloc_blk h p x) a = h a" if "a < p \<or> p + 16 \<le> a" for a
    using that by (rule ser_mcc_alloc_blk_frame)
  show "deser_mcc_alloc_blk y H p = deser_mcc_alloc_blk y H' p"
    if "\<And>a. p \<le> a \<Longrightarrow> a < p + 16 \<Longrightarrow> H a = H' a" for H H'
    using that by (rule deser_mcc_alloc_blk_cong)
qed


lemma rt_psc_port_rsp:
  assumes sx: "length (prs_list x) = FM_MAX_PORTS" and sd: "length (prs_list d0) = FM_MAX_PORTS"
    and w: "list_all in_widths_psc_port_info (take (unat (prs_num x)) (prs_list x))"
  shows "\<exists>h'. ser_psc_port_rsp h d x = Inr (h', 4 + 16 * unat (prs_num x))
      \<and> deser_psc_port_rsp d0 h' d
          = Inr (x\<lparr>prs_list := take (unat (prs_num x)) (prs_list x) @ drop (unat (prs_num x)) (prs_list d0)\<rparr>,
                 4 + 16 * unat (prs_num x))"
proof -
  let ?n = "unat (prs_num x)"
  let ?xs = "take ?n (prs_list x)"
  let ?ys = "take ?n (prs_list d0)"
  let ?h0 = "poke h d 0 (prs_num x)"
  have n: "?n \<le> 256" by (rule unat_u8_le)
  have lx: "length ?xs = ?n" using sx n by (simp add: fm_max_defs)
  have ly: "length ?ys = length ?xs" using sx sd n by (simp add: fm_max_defs)
  have "\<exists>h1. ser_loop (\<lambda>h p x. Inr (ser_psc_port_info h p x)) ?h0 d 4 ?xs
        = Inr (h1, 4 + sum_list (map (\<lambda>_. 16) ?xs))
      \<and> (\<forall>a. a < d + 4 \<or> d + 4 + sum_list (map (\<lambda>_. 16) ?xs) \<le> a \<longrightarrow> h1 a = ?h0 a)
      \<and> (\<forall>H. (\<forall>a. d + 4 \<le> a \<and> a < d + 4 + sum_list (map (\<lambda>_. 16) ?xs) \<longrightarrow> H a = h1 a)
            \<longrightarrow> deser_loop (\<lambda>x h p. Inr (deser_psc_port_info x h p)) H d 4 ?ys
                = Inr (map2 (\<lambda>x y. x) ?xs ?ys, 4 + sum_list (map (\<lambda>_. 16) ?xs)))"
  proof (rule loop_roundtrip [where P = "in_widths_psc_port_info" and Q = "\<lambda>_. True"])
    show "list_all in_widths_psc_port_info ?xs" by (rule w)
    show "list_all (\<lambda>_. True) ?ys" by (simp add: list_all_iff)
    show "length ?ys = length ?xs" by (rule ly)
    show "\<exists>h1. (Inr (ser_psc_port_info h p x) :: fault + mem \<times> nat) = Inr (h1, 16)
      \<and> (\<forall>a. a < p \<or> p + 16 \<le> a \<longrightarrow> h1 a = h a)
      \<and> (\<forall>H. (\<forall>a. p \<le> a \<and> a < p + 16 \<longrightarrow> H a = h1 a)
            \<longrightarrow> (Inr (deser_psc_port_info y H p) :: fault + fmapi_psc_port_info \<times> nat) = Inr (x, 16))"
      if "in_widths_psc_port_info x" for x y h p
      using that by (rule el_psc_port_info)
  qed
  then obtain h1 where s: "ser_loop (\<lambda>h p x. Inr (ser_psc_port_info h p x)) ?h0 d 4 ?xs
        = Inr (h1, 4 + 16 * ?n)"
      and f: "\<And>a. a < d + 4 \<Longrightarrow> h1 a = ?h0 a"
      and dd: "deser_loop (\<lambda>x h p. Inr (deser_psc_port_info x h p)) h1 d 4 ?ys = Inr (?xs, 4 + 16 * ?n)"
    unfolding sum_list_const lx map2_first [OF ly] by blast
  have hdr: "peek h1 d 0 = prs_num x"
    using f [of "d + 0"] by (simp_all add: peek_def poke_def)
  have eq: "d0\<lparr>prs_num := prs_num x, prs_list := ?xs @ drop ?n (prs_list d0)\<rparr>
      = x\<lparr>prs_list := ?xs @ drop ?n (prs_list d0)\<rparr>"
    by (cases x; cases d0) simp
  show ?thesis
    using s hdr dd sx sd n eq
    by (simp add: ser_psc_port_rsp_def deser_psc_port_rsp_def Let_def fmln_defs fm_max_defs)
qed


lemma rt_mcc_alloc_get_rsp:
  assumes sx: "length (ags_list x) = FM_MAX_NUM_LD" and sd: "length (ags_list d0) = FM_MAX_NUM_LD"
    and n: "unat (ags_num x) \<le> FM_MAX_NUM_LD"
  shows "\<exists>h'. ser_mcc_alloc_get_rsp h d x = Inr (h', 4 + 16 * unat (ags_num x))
      \<and> deser_mcc_alloc_get_rsp d0 h' d
          = Inr (x\<lparr>ags_list := take (unat (ags_num x)) (ags_list x) @ drop (unat (ags_num x)) (ags_list d0)\<rparr>,
                 4 + 16 * unat (ags_num x))"
proof -
  let ?n = "unat (ags_num x)"
  let ?xs = "take ?n (ags_list x)"
  let ?ys = "take ?n (ags_list d0)"
  let ?h0 = "poke (poke (poke (poke h d 0 (ags_total x)) d 1 (ags_granularity x)) d 2 (ags_start x)) d 3 (ags_num x)"
  have lx: "length ?xs = ?n" using sx n by (simp add: fm_max_defs)
  have ly: "length ?ys = length ?xs" using sx sd n by (simp add: fm_max_defs)
  have "\<exists>h1. ser_loop (\<lambda>h p x. Inr (ser_mcc_alloc_blk h p x)) ?h0 d 4 ?xs
        = Inr (h1, 4 + sum_list (map (\<lambda>_. 16) ?xs))
      \<and> (\<forall>a. a < d + 4 \<or> d + 4 + sum_list (map (\<lambda>_. 16) ?xs) \<le> a \<longrightarrow> h1 a = ?h0 a)
      \<and> (\<forall>H. (\<forall>a. d + 4 \<le> a \<and> a < d + 4 + sum_list (map (\<lambda>_. 16) ?xs) \<longrightarrow> H a = h1 a)
            \<longrightarrow> deser_loop (\<lambda>x h p. Inr (deser_mcc_alloc_blk x h p)) H d 4 ?ys
                = Inr (map2 (\<lambda>x y. x) ?xs ?ys, 4 + sum_list (map (\<lambda>_. 16) ?xs)))"
  proof (rule loop_roundtrip [where P = "\<lambda>_. True" and Q = "\<lambda>_. True"])
    show "list_all (\<lambda>_. True) ?xs" by (simp add: list_all_iff)
    show "list_all (\<lambda>_. True) ?ys" by (simp add: list_all_iff)
    show "length ?ys = length ?xs" by (rule ly)
    show "\<exists>h1. (Inr (ser_mcc_alloc_blk h p x) :: fault + mem \<times> nat) = Inr (h1, 16)
      \<and> (\<forall>a. a < p \<or> p + 16 \<le> a \<longrightarrow> h1 a = h a)
      \<and> (\<forall>H. (\<forall>a. p \<le> a \<and> a < p + 16 \<longrightarrow> H a = h1 a)
            \<longrightarrow> (Inr (deser_mcc_alloc_blk y H p) :: fault + fmapi_mcc_alloc_blk \<times> nat) = Inr (x, 16))"
      for x y h p
      by (rule el_mcc_alloc_blk)
  qed
  then obtain h1 where s: "ser_loop (\<lambda>h p x. Inr (ser_mcc_alloc_blk h p x)) ?h0 d 4 ?xs
        = Inr (h1, 4 + 16 * ?n)"
      and f: "\<And>a. a < d + 4 \<Longrightarrow> h1 a = ?h0 a"
      and dd: "deser_loop (\<lambda>x h p. Inr (deser_mcc_alloc_blk x h p)) h1 d 4 ?ys = Inr (?xs, 4 + 16 * ?n)"
    unfolding sum_list_const lx map2_first [OF ly] by blast
  have hdr: "peek h1 d 0 = ags_total x" "peek h1 d 1 = ags_granularity x" "peek h1 d 2 = ags_start x" "peek h1 d 3 = ags_num x"
    using f [of "d + 0"] f [of "d + 1"] f [of "d + 2"] f [of "d + 3"] by (simp_all add: peek_def poke_def)
  have eq: "d0\<lparr>ags_total := ags_total x, ags_granularity := ags_granularity x, ags_start := ags_start x, ags_num := ags_num x, ags_list := ?xs @ drop ?n (ags_list d0)\<rparr>
      = x\<lparr>ags_list := ?xs @ drop ?n (ags_list d0)\<rparr>"
    by (cases x; cases d0) simp
  show ?thesis
    using s hdr dd sx sd n eq
    by (simp add: ser_mcc_alloc_get_rsp_def deser_mcc_alloc_get_rsp_def Let_def fmln_defs)
qed


lemma rt_mcc_alloc_set_req:
  assumes sx: "length (asq_list x) = FM_MAX_NUM_LD" and sd: "length (asq_list d0) = FM_MAX_NUM_LD"
    and n: "unat (asq_num x) \<le> FM_MAX_NUM_LD"
  shows "\<exists>h'. ser_mcc_alloc_set_req h d x = Inr (h', 4 + 16 * unat (asq_num x))
      \<and> deser_mcc_alloc_set_req d0 h' d
          = Inr (x\<lparr>asq_list := take (unat (asq_num x)) (asq_list x) @ drop (unat (asq_num x)) (asq_list d0)\<rparr>,
                 4 + 16 * unat (asq_num x))"
proof -
  let ?n = "unat (asq_num x)"
  let ?xs = "take ?n (asq_list x)"
  let ?ys = "take ?n (asq_list d0)"
  let ?h0 = "poke (poke h d 0 (asq_num x)) d 1 (asq_start x)"
  have lx: "length ?xs = ?n" using sx n by (simp add: fm_max_defs)
  have ly: "length ?ys = length ?xs" using sx sd n by (simp add: fm_max_defs)
  have "\<exists>h1. ser_loop (\<lambda>h p x. Inr (ser_mcc_alloc_blk h p x)) ?h0 d 4 ?xs
        = Inr (h1, 4 + sum_list (map (\<lambda>_. 16) ?xs))
      \<and> (\<forall>a. a < d + 4 \<or> d + 4 + sum_list (map (\<lambda>_. 16) ?xs) \<le> a \<longrightarrow> h1 a = ?h0 a)
      \<and> (\<forall>H. (\<forall>a. d + 4 \<le> a \<and> a < d + 4 + sum_list (map (\<lambda>_. 16) ?xs) \<longrightarrow> H a = h1 a)
            \<longrightarrow> deser_loop (\<lambda>x h p. Inr (deser_mcc_alloc_blk x h p)) H d 4 ?ys
                = Inr (map2 (\<lambda>x y. x) ?xs ?ys, 4 + sum_list (map (\<lambda>_. 16) ?xs)))"
  proof (rule loop_roundtrip [where P = "\<lambda>_. True" and Q = "\<lambda>_. True"])
    show "list_all (\<lambda>_. True) ?xs" by (simp add: list_all_iff)
    show "list_all (\<lambda>_. True) ?ys" by (simp add: list_all_iff)
    show "length ?ys = length ?xs" by (rule ly)
    show "\<exists>h1. (Inr (ser_mcc_alloc_blk h p x) :: fault + mem \<times> nat) = Inr (h1, 16)
      \<and> (\<forall>a. a < p \<or> p + 16 \<le> a \<longrightarrow> h1 a = h a)
      \<and> (\<forall>H. (\<forall>a. p \<le> a \<and> a < p + 16 \<longrightarrow> H a = h1 a)
            \<longrightarrow> (Inr (deser_mcc_alloc_blk y H p) :: fault + fmapi_mcc_alloc_blk \<times> nat) = Inr (x, 16))"
      for x y h p
      by (rule el_mcc_alloc_blk)
  qed
  then obtain h1 where s: "ser_loop (\<lambda>h p x. Inr (ser_mcc_alloc_blk h p x)) ?h0 d 4 ?xs
        = Inr (h1, 4 + 16 * ?n)"
      and f: "\<And>a. a < d + 4 \<Longrightarrow> h1 a = ?h0 a"
      and dd: "deser_loop (\<lambda>x h p. Inr (deser_mcc_alloc_blk x h p)) h1 d 4 ?ys = Inr (?xs, 4 + 16 * ?n)"
    unfolding sum_list_const lx map2_first [OF ly] by blast
  have hdr: "peek h1 d 0 = asq_num x" "peek h1 d 1 = asq_start x"
    using f [of "d + 0"] f [of "d + 1"] by (simp_all add: peek_def poke_def)
  have eq: "d0\<lparr>asq_num := asq_num x, asq_start := asq_start x, asq_list := ?xs @ drop ?n (asq_list d0)\<rparr>
      = x\<lparr>asq_list := ?xs @ drop ?n (asq_list d0)\<rparr>"
    by (cases x; cases d0) simp
  show ?thesis
    using s hdr dd sx sd n eq
    by (simp add: ser_mcc_alloc_set_req_def deser_mcc_alloc_set_req_def Let_def fmln_defs)
qed


lemma rt_mcc_alloc_set_rsp:
  assumes sx: "length (ass_list x) = FM_MAX_NUM_LD" and sd: "length (ass_list d0) = FM_MAX_NUM_LD"
    and n: "unat (ass_num x) \<le> FM_MAX_NUM_LD"
  shows "\<exists>h'. ser_mcc_alloc_set_rsp h d x = Inr (h', 4 + 16 * unat (ass_num x))
      \<and> deser_mcc_alloc_set_rsp d0 h' d
          = Inr (x\<lparr>ass_list := take (unat (ass_num x)) (ass_list x) @ drop (unat (ass_num x)) (ass_list d0)\<rparr>,
                 4 + 16 * unat (ass_num x))"
proof -
  let ?n = "unat (ass_num x)"
  let ?xs = "take ?n (ass_list x)"
  let ?ys = "take ?n (ass_list d0)"
  let ?h0 = "poke (poke h d 0 (ass_num x)) d 1 (ass_start x)"
  have lx: "length ?xs = ?n" using sx n by (simp add: fm_max_defs)
  have ly: "length ?ys = length ?xs" using sx sd n by (simp add: fm_max_defs)
  have "\<exists>h1. ser_loop (\<lambda>h p x. Inr (ser_mcc_alloc_blk h p x)) ?h0 d 4 ?xs
        = Inr (h1, 4 + sum_list (map (\<lambda>_. 16) ?xs))
      \<and> (\<forall>a. a < d + 4 \<or> d + 4 + sum_list (map (\<lambda>_. 16) ?xs) \<le> a \<longrightarrow> h1 a = ?h0 a)
      \<and> (\<forall>H. (\<forall>a. d + 4 \<le> a \<and> a < d + 4 + sum_list (map (\<lambda>_. 16) ?xs) \<longrightarrow> H a = h1 a)
            \<longrightarrow> deser_loop (\<lambda>x h p. Inr (deser_mcc_alloc_blk x h p)) H d 4 ?ys
                = Inr (map2 (\<lambda>x y. x) ?xs ?ys, 4 + sum_list (map (\<lambda>_. 16) ?xs)))"
  proof (rule loop_roundtrip [where P = "\<lambda>_. True" and Q = "\<lambda>_. True"])
    show "list_all (\<lambda>_. True) ?xs" by (simp add: list_all_iff)
    show "list_all (\<lambda>_. True) ?ys" by (simp add: list_all_iff)
    show "length ?ys = length ?xs" by (rule ly)
    show "\<exists>h1. (Inr (ser_mcc_alloc_blk h p x) :: fault + mem \<times> nat) = Inr (h1, 16)
      \<and> (\<forall>a. a < p \<or> p + 16 \<le> a \<longrightarrow> h1 a = h a)
      \<and> (\<forall>H. (\<forall>a. p \<le> a \<and> a < p + 16 \<longrightarrow> H a = h1 a)
            \<longrightarrow> (Inr (deser_mcc_alloc_blk y H p) :: fault + fmapi_mcc_alloc_blk \<times> nat) = Inr (x, 16))"
      for x y h p
      by (rule el_mcc_alloc_blk)
  qed
  then obtain h1 where s: "ser_loop (\<lambda>h p x. Inr (ser_mcc_alloc_blk h p x)) ?h0 d 4 ?xs
        = Inr (h1, 4 + 16 * ?n)"
      and f: "\<And>a. a < d + 4 \<Longrightarrow> h1 a = ?h0 a"
      and dd: "deser_loop (\<lambda>x h p. Inr (deser_mcc_alloc_blk x h p)) h1 d 4 ?ys = Inr (?xs, 4 + 16 * ?n)"
    unfolding sum_list_const lx map2_first [OF ly] by blast
  have hdr: "peek h1 d 0 = ass_num x" "peek h1 d 1 = ass_start x"
    using f [of "d + 0"] f [of "d + 1"] by (simp_all add: peek_def poke_def)
  have eq: "d0\<lparr>ass_num := ass_num x, ass_start := ass_start x, ass_list := ?xs @ drop ?n (ass_list d0)\<rparr>
      = x\<lparr>ass_list := ?xs @ drop ?n (ass_list d0)\<rparr>"
    by (cases x; cases d0) simp
  show ?thesis
    using s hdr dd sx sd n eq
    by (simp add: ser_mcc_alloc_set_rsp_def deser_mcc_alloc_set_rsp_def Let_def fmln_defs)
qed


lemma el_vsc_info_blk:
  assumes sx: "shaped_vsc_info_blk x" and sy: "shaped_vsc_info_blk y"
    and cx: "ctx_ok_blk param x"
  shows "\<exists>h1. ser_vsc_info_blk h p x = Inr (h1, 4 + 4 * unat (vib_num x))
      \<and> (\<forall>a. a < p \<or> p + (4 + 4 * unat (vib_num x)) \<le> a \<longrightarrow> h1 a = h a)
      \<and> (\<forall>H. (\<forall>a. p \<le> a \<and> a < p + (4 + 4 * unat (vib_num x)) \<longrightarrow> H a = h1 a)
            \<longrightarrow> deser_vsc_info_blk y H p param
                = Inr (written_over_vsc_info_blk x y, 4 + 4 * unat (vib_num x)))"
proof -
  let ?n = "unat (vib_num x)"
  let ?xs = "take ?n (vib_list x)"
  let ?ys = "take ?n (vib_list y)"
  let ?h0 = "poke (poke (poke (poke h p 0 (vib_vcsid x)) p 1 (vib_state x)) p 2 (vib_uspid x))
               p 3 (vib_total x)"
  obtain r where r: "param = Some r"
      and cl: "int ?n = min (int (unat (vir_vppbid_limit r)))
                 (int (unat (vib_total x)) - int (unat (vir_vppbid_start r)))"
    using cx by (auto simp: ctx_ok_blk_def split: option.splits)
  have "int (unat (vir_vppbid_start r)) \<le> int (unat (vib_total x))"
    using cl by arith
  then have "unat (vir_vppbid_start r) \<le> unat (vib_total x)"
    by (simp only: of_nat_le_iff)
  then have st: "vir_vppbid_start r \<le> vib_total x"
    by (simp only: word_le_nat_alt)
  have "unat (if vir_vppbid_limit r < (ucast (i32 (vib_total x) - i32 (vir_vppbid_start r)) :: u8)
              then vir_vppbid_limit r
              else ucast (i32 (vib_total x) - i32 (vir_vppbid_start r))) = ?n"
    unfolding clamp_num [OF st] using cl by arith
  then have cn: "(if vir_vppbid_limit r < (ucast (i32 (vib_total x) - i32 (vir_vppbid_start r)) :: u8)
              then vir_vppbid_limit r
              else ucast (i32 (vib_total x) - i32 (vir_vppbid_start r))) = vib_num x"
    by (simp only: word_unat_eq_iff)
  have n: "?n \<le> 256" by (rule unat_u8_le)
  have lenx: "length (vib_list x) = 256" and leny: "length (vib_list y) = 256"
    using sx sy by (simp_all add: shaped_vsc_info_blk_def fm_max_defs)
  have lx: "length ?xs = ?n" using lenx n by simp
  have ly: "length ?ys = length ?xs" using lenx leny n by simp
  have "\<exists>h1. ser_loop (\<lambda>h p x. Inr (ser_vsc_ppb_stat_blk h p x)) ?h0 p 4 ?xs
        = Inr (h1, 4 + sum_list (map (\<lambda>_. 4) ?xs))
      \<and> (\<forall>a. a < p + 4 \<or> p + 4 + sum_list (map (\<lambda>_. 4) ?xs) \<le> a \<longrightarrow> h1 a = ?h0 a)
      \<and> (\<forall>H. (\<forall>a. p + 4 \<le> a \<and> a < p + 4 + sum_list (map (\<lambda>_. 4) ?xs) \<longrightarrow> H a = h1 a)
            \<longrightarrow> deser_loop (\<lambda>x h p. Inr (deser_vsc_ppb_stat_blk x h p)) H p 4 ?ys
                = Inr (map2 (\<lambda>x y. x) ?xs ?ys, 4 + sum_list (map (\<lambda>_. 4) ?xs)))"
  proof (rule loop_roundtrip [where P = "\<lambda>_. True" and Q = "\<lambda>_. True"])
    show "list_all (\<lambda>_. True) ?xs" by (simp add: list_all_iff)
    show "list_all (\<lambda>_. True) ?ys" by (simp add: list_all_iff)
    show "length ?ys = length ?xs" by (rule ly)
    show "\<exists>h1. (Inr (ser_vsc_ppb_stat_blk h p x) :: fault + mem \<times> nat) = Inr (h1, 4)
      \<and> (\<forall>a. a < p \<or> p + 4 \<le> a \<longrightarrow> h1 a = h a)
      \<and> (\<forall>H. (\<forall>a. p \<le> a \<and> a < p + 4 \<longrightarrow> H a = h1 a)
            \<longrightarrow> (Inr (deser_vsc_ppb_stat_blk y H p) :: fault + fmapi_vsc_ppb_stat_blk \<times> nat) = Inr (x, 4))"
      for x y h p
      by (rule el_vsc_ppb_stat_blk)
  qed
  then obtain h1 where s: "ser_loop (\<lambda>h p x. Inr (ser_vsc_ppb_stat_blk h p x)) ?h0 p 4 ?xs
        = Inr (h1, 4 + 4 * ?n)"
      and f: "\<And>a. a < p + 4 \<or> p + 4 + 4 * ?n \<le> a \<Longrightarrow> h1 a = ?h0 a"
      and dd: "\<And>H. (\<forall>a. p + 4 \<le> a \<and> a < p + 4 + 4 * ?n \<longrightarrow> H a = h1 a)
            \<Longrightarrow> deser_loop (\<lambda>x h p. Inr (deser_vsc_ppb_stat_blk x h p)) H p 4 ?ys
                = Inr (?xs, 4 + 4 * ?n)"
    unfolding sum_list_const lx map2_first [OF ly] by blast
  have s': "ser_vsc_info_blk h p x = Inr (h1, 4 + 4 * ?n)"
    using s lenx n by (simp add: ser_vsc_info_blk_def Let_def fmln_defs)
  have fr: "\<forall>a. a < p \<or> p + (4 + 4 * ?n) \<le> a \<longrightarrow> h1 a = h a"
  proof (intro allI impI)
    fix a assume a: "a < p \<or> p + (4 + 4 * ?n) \<le> a"
    then have "h1 a = ?h0 a" by (intro f) auto
    also have "\<dots> = h a" using a by (auto simp: poke_def)
    finally show "h1 a = h a" .
  qed
  have de: "\<forall>H. (\<forall>a. p \<le> a \<and> a < p + (4 + 4 * ?n) \<longrightarrow> H a = h1 a)
            \<longrightarrow> deser_vsc_info_blk y H p param
                = Inr (written_over_vsc_info_blk x y, 4 + 4 * ?n)"
  proof (intro allI impI)
    fix H assume H: "\<forall>a. p \<le> a \<and> a < p + (4 + 4 * ?n) \<longrightarrow> H a = h1 a"
    have hdr: "peek H p 0 = vib_vcsid x" "peek H p 1 = vib_state x" "peek H p 2 = vib_uspid x"
        "peek H p 3 = vib_total x"
      using H f [of "p + 0"] f [of "p + 1"] f [of "p + 2"] f [of "p + 3"]
      by (simp_all add: peek_def poke_def)
    have "\<forall>a. p + 4 \<le> a \<and> a < p + 4 + 4 * ?n \<longrightarrow> H a = h1 a" using H by simp
    then have l: "deser_loop (\<lambda>x h p. Inr (deser_vsc_ppb_stat_blk x h p)) H p 4 ?ys
        = Inr (?xs, 4 + 4 * ?n)"
      by (rule dd)
    have eq: "y\<lparr>vib_vcsid := vib_vcsid x, vib_state := vib_state x,
          vib_uspid := vib_uspid x, vib_total := vib_total x, vib_num := vib_num x,
          vib_list := ?xs @ drop ?n (vib_list y)\<rparr> = written_over_vsc_info_blk x y"
      by (cases x; cases y) (simp add: written_over_vsc_info_blk_def)
    show "deser_vsc_info_blk y H p param = Inr (written_over_vsc_info_blk x y, 4 + 4 * ?n)"
      using hdr l eq cn leny n
      by (simp add: deser_vsc_info_blk_def r Let_def fmln_defs)
  qed
  show ?thesis using s' fr de by blast
qed

lemma rt_vsc_info_blk:
  assumes "shaped_vsc_info_blk x" and "shaped_vsc_info_blk d0" and "ctx_ok_blk param x"
  shows "\<exists>h'. ser_vsc_info_blk h d x = Inr (h', 4 + 4 * unat (vib_num x))
      \<and> deser_vsc_info_blk d0 h' d param
          = Inr (written_over_vsc_info_blk x d0, 4 + 4 * unat (vib_num x))"
  using el_vsc_info_blk [OF assms, of h d] by fastforce

lemma rt_vsc_info_rsp:
  assumes sx: "length (vis_list x) = FM_MAX_VCS_PER_RSP"
      "list_all shaped_vsc_info_blk (vis_list x)"
    and sd: "length (vis_list d0) = FM_MAX_VCS_PER_RSP"
      "list_all shaped_vsc_info_blk (vis_list d0)"
    and n: "unat (vis_num x) \<le> FM_MAX_VCS_PER_RSP"
    and cx: "list_all (ctx_ok_blk param) (take (unat (vis_num x)) (vis_list x))"
  shows "\<exists>h' m. ser_vsc_info_rsp h d x = Inr (h', m)
      \<and> deser_vsc_info_rsp d0 h' d param
          = Inr (x\<lparr>vis_list := map2 written_over_vsc_info_blk
                                  (take (unat (vis_num x)) (vis_list x))
                                  (take (unat (vis_num x)) (vis_list d0))
                                @ drop (unat (vis_num x)) (vis_list d0)\<rparr>, m)"
proof -
  let ?n = "unat (vis_num x)"
  let ?xs = "take ?n (vis_list x)"
  let ?ys = "take ?n (vis_list d0)"
  let ?h0 = "poke h d 0 (vis_num x)"
  let ?c = "\<lambda>b. 4 + 4 * unat (vib_num b)"
  let ?m = "4 + sum_list (map ?c ?xs)"
  have lx: "length ?xs = ?n" using sx n by simp
  have ly: "length ?ys = length ?xs" using sx sd n by simp
  have "\<exists>h1. ser_loop ser_vsc_info_blk ?h0 d 4 ?xs = Inr (h1, 4 + sum_list (map ?c ?xs))
      \<and> (\<forall>a. a < d + 4 \<or> d + 4 + sum_list (map ?c ?xs) \<le> a \<longrightarrow> h1 a = ?h0 a)
      \<and> (\<forall>H. (\<forall>a. d + 4 \<le> a \<and> a < d + 4 + sum_list (map ?c ?xs) \<longrightarrow> H a = h1 a)
            \<longrightarrow> deser_loop (\<lambda>x h p. deser_vsc_info_blk x h p param) H d 4 ?ys
                = Inr (map2 written_over_vsc_info_blk ?xs ?ys, 4 + sum_list (map ?c ?xs)))"
  proof (rule loop_roundtrip [where P = "\<lambda>b. shaped_vsc_info_blk b \<and> ctx_ok_blk param b"
        and Q = shaped_vsc_info_blk])
    show "list_all (\<lambda>b. shaped_vsc_info_blk b \<and> ctx_ok_blk param b) ?xs"
      using sx(2) cx by (auto simp: list_all_iff dest: in_set_takeD)
    show "list_all shaped_vsc_info_blk ?ys"
      using sd(2) by (auto simp: list_all_iff dest: in_set_takeD)
    show "length ?ys = length ?xs" by (rule ly)
    show "\<exists>h1. ser_vsc_info_blk h p x = Inr (h1, 4 + 4 * unat (vib_num x))
        \<and> (\<forall>a. a < p \<or> p + (4 + 4 * unat (vib_num x)) \<le> a \<longrightarrow> h1 a = h a)
        \<and> (\<forall>H. (\<forall>a. p \<le> a \<and> a < p + (4 + 4 * unat (vib_num x)) \<longrightarrow> H a = h1 a)
              \<longrightarrow> deser_vsc_info_blk y H p param
                  = Inr (written_over_vsc_info_blk x y, 4 + 4 * unat (vib_num x)))"
      if "shaped_vsc_info_blk x \<and> ctx_ok_blk param x" and "shaped_vsc_info_blk y" for x y h p
      using that by (intro el_vsc_info_blk) auto
  qed
  then obtain h1 where s: "ser_loop ser_vsc_info_blk ?h0 d 4 ?xs = Inr (h1, ?m)"
      and f: "\<And>a. a < d + 4 \<Longrightarrow> h1 a = ?h0 a"
      and dd: "deser_loop (\<lambda>x h p. deser_vsc_info_blk x h p param) h1 d 4 ?ys
          = Inr (map2 written_over_vsc_info_blk ?xs ?ys, ?m)"
    by blast
  have num: "peek h1 d 0 = vis_num x" using f [of d] by (simp add: peek_def poke_def)
  have eq: "d0\<lparr>vis_num := vis_num x,
               vis_list := map2 written_over_vsc_info_blk ?xs ?ys @ drop ?n (vis_list d0)\<rparr>
      = x\<lparr>vis_list := map2 written_over_vsc_info_blk ?xs ?ys @ drop ?n (vis_list d0)\<rparr>"
    by (cases x; cases d0) simp
  show ?thesis
    using s num dd sx sd n eq
    by (simp add: ser_vsc_info_rsp_def deser_vsc_info_rsp_def Let_def fmln_defs)
qed

section \<open>Round trips through fmapi\_serialize and fmapi\_deserialize\<close>

text \<open>An object of a kind is an object of the struct of that kind.\<close>

lemma kind_of_HDR: "kind_of y = FMOB_HDR \<Longrightarrow> \<exists>b. y = OB_HDR b"
  by (cases y) (simp_all add: fmob_defs)

lemma kind_of_PSC_ID_RSP: "kind_of y = FMOB_PSC_ID_RSP \<Longrightarrow> \<exists>b. y = OB_PSC_ID_RSP b"
  by (cases y) (simp_all add: fmob_defs)

lemma kind_of_PSC_PORT_REQ: "kind_of y = FMOB_PSC_PORT_REQ \<Longrightarrow> \<exists>b. y = OB_PSC_PORT_REQ b"
  by (cases y) (simp_all add: fmob_defs)

lemma kind_of_PSC_PORT_INFO: "kind_of y = FMOB_PSC_PORT_INFO \<Longrightarrow> \<exists>b. y = OB_PSC_PORT_INFO b"
  by (cases y) (simp_all add: fmob_defs)

lemma kind_of_PSC_PORT_RSP: "kind_of y = FMOB_PSC_PORT_RSP \<Longrightarrow> \<exists>b. y = OB_PSC_PORT_RSP b"
  by (cases y) (simp_all add: fmob_defs)

lemma kind_of_PSC_PORT_CTRL_REQ: "kind_of y = FMOB_PSC_PORT_CTRL_REQ \<Longrightarrow> \<exists>b. y = OB_PSC_PORT_CTRL_REQ b"
  by (cases y) (simp_all add: fmob_defs)

lemma kind_of_PSC_CFG_REQ: "kind_of y = FMOB_PSC_CFG_REQ \<Longrightarrow> \<exists>b. y = OB_PSC_CFG_REQ b"
  by (cases y) (simp_all add: fmob_defs)

lemma kind_of_PSC_CFG_RSP: "kind_of y = FMOB_PSC_CFG_RSP \<Longrightarrow> \<exists>b. y = OB_PSC_CFG_RSP b"
  by (cases y) (simp_all add: fmob_defs)

lemma kind_of_VSC_INFO_REQ: "kind_of y = FMOB_VSC_INFO_REQ \<Longrightarrow> \<exists>b. y = OB_VSC_INFO_REQ b"
  by (cases y) (simp_all add: fmob_defs)

lemma kind_of_VSC_PPB_STAT_BLK: "kind_of y = FMOB_VSC_PPB_STAT_BLK \<Longrightarrow> \<exists>b. y = OB_VSC_PPB_STAT_BLK b"
  by (cases y) (simp_all add: fmob_defs)

lemma kind_of_VSC_INFO_BLK: "kind_of y = FMOB_VSC_INFO_BLK \<Longrightarrow> \<exists>b. y = OB_VSC_INFO_BLK b"
  by (cases y) (simp_all add: fmob_defs)

lemma kind_of_VSC_INFO_RSP: "kind_of y = FMOB_VSC_INFO_RSP \<Longrightarrow> \<exists>b. y = OB_VSC_INFO_RSP b"
  by (cases y) (simp_all add: fmob_defs)

lemma kind_of_VSC_BIND_REQ: "kind_of y = FMOB_VSC_BIND_REQ \<Longrightarrow> \<exists>b. y = OB_VSC_BIND_REQ b"
  by (cases y) (simp_all add: fmob_defs)

lemma kind_of_VSC_UNBIND_REQ: "kind_of y = FMOB_VSC_UNBIND_REQ \<Longrightarrow> \<exists>b. y = OB_VSC_UNBIND_REQ b"
  by (cases y) (simp_all add: fmob_defs)

lemma kind_of_VSC_AER_REQ: "kind_of y = FMOB_VSC_AER_REQ \<Longrightarrow> \<exists>b. y = OB_VSC_AER_REQ b"
  by (cases y) (simp_all add: fmob_defs)

lemma kind_of_MPC_TMC_REQ: "kind_of y = FMOB_MPC_TMC_REQ \<Longrightarrow> \<exists>b. y = OB_MPC_TMC_REQ b"
  by (cases y) (simp_all add: fmob_defs)

lemma kind_of_MPC_TMC_RSP: "kind_of y = FMOB_MPC_TMC_RSP \<Longrightarrow> \<exists>b. y = OB_MPC_TMC_RSP b"
  by (cases y) (simp_all add: fmob_defs)

lemma kind_of_MPC_CFG_REQ: "kind_of y = FMOB_MPC_CFG_REQ \<Longrightarrow> \<exists>b. y = OB_MPC_CFG_REQ b"
  by (cases y) (simp_all add: fmob_defs)

lemma kind_of_MPC_CFG_RSP: "kind_of y = FMOB_MPC_CFG_RSP \<Longrightarrow> \<exists>b. y = OB_MPC_CFG_RSP b"
  by (cases y) (simp_all add: fmob_defs)

lemma kind_of_MPC_MEM_REQ: "kind_of y = FMOB_MPC_MEM_REQ \<Longrightarrow> \<exists>b. y = OB_MPC_MEM_REQ b"
  by (cases y) (simp_all add: fmob_defs)

lemma kind_of_MPC_MEM_RSP: "kind_of y = FMOB_MPC_MEM_RSP \<Longrightarrow> \<exists>b. y = OB_MPC_MEM_RSP b"
  by (cases y) (simp_all add: fmob_defs)

lemma kind_of_MCC_INFO_RSP: "kind_of y = FMOB_MCC_INFO_RSP \<Longrightarrow> \<exists>b. y = OB_MCC_INFO_RSP b"
  by (cases y) (simp_all add: fmob_defs)

lemma kind_of_MCC_ALLOC_BLK: "kind_of y = FMOB_MCC_ALLOC_BLK \<Longrightarrow> \<exists>b. y = OB_MCC_ALLOC_BLK b"
  by (cases y) (simp_all add: fmob_defs)

lemma kind_of_MCC_ALLOC_GET_REQ: "kind_of y = FMOB_MCC_ALLOC_GET_REQ \<Longrightarrow> \<exists>b. y = OB_MCC_ALLOC_GET_REQ b"
  by (cases y) (simp_all add: fmob_defs)

lemma kind_of_MCC_ALLOC_GET_RSP: "kind_of y = FMOB_MCC_ALLOC_GET_RSP \<Longrightarrow> \<exists>b. y = OB_MCC_ALLOC_GET_RSP b"
  by (cases y) (simp_all add: fmob_defs)

lemma kind_of_MCC_ALLOC_SET_REQ: "kind_of y = FMOB_MCC_ALLOC_SET_REQ \<Longrightarrow> \<exists>b. y = OB_MCC_ALLOC_SET_REQ b"
  by (cases y) (simp_all add: fmob_defs)

lemma kind_of_MCC_ALLOC_SET_RSP: "kind_of y = FMOB_MCC_ALLOC_SET_RSP \<Longrightarrow> \<exists>b. y = OB_MCC_ALLOC_SET_RSP b"
  by (cases y) (simp_all add: fmob_defs)

lemma kind_of_MCC_QOS_CTRL: "kind_of y = FMOB_MCC_QOS_CTRL \<Longrightarrow> \<exists>b. y = OB_MCC_QOS_CTRL b"
  by (cases y) (simp_all add: fmob_defs)

lemma kind_of_MCC_QOS_STAT_RSP: "kind_of y = FMOB_MCC_QOS_STAT_RSP \<Longrightarrow> \<exists>b. y = OB_MCC_QOS_STAT_RSP b"
  by (cases y) (simp_all add: fmob_defs)

lemma kind_of_MCC_QOS_BW_GET_REQ: "kind_of y = FMOB_MCC_QOS_BW_GET_REQ \<Longrightarrow> \<exists>b. y = OB_MCC_QOS_BW_GET_REQ b"
  by (cases y) (simp_all add: fmob_defs)

lemma kind_of_MCC_QOS_BW_ALLOC: "kind_of y = FMOB_MCC_QOS_BW_ALLOC \<Longrightarrow> \<exists>b. y = OB_MCC_QOS_BW_ALLOC b"
  by (cases y) (simp_all add: fmob_defs)

lemma kind_of_MCC_QOS_BW_LIMIT_GET_REQ: "kind_of y = FMOB_MCC_QOS_BW_LIMIT_GET_REQ \<Longrightarrow> \<exists>b. y = OB_MCC_QOS_BW_LIMIT_GET_REQ b"
  by (cases y) (simp_all add: fmob_defs)

lemma kind_of_MCC_QOS_BW_LIMIT: "kind_of y = FMOB_MCC_QOS_BW_LIMIT \<Longrightarrow> \<exists>b. y = OB_MCC_QOS_BW_LIMIT b"
  by (cases y) (simp_all add: fmob_defs)

lemma kind_of_ISC_ID_RSP: "kind_of y = FMOB_ISC_ID_RSP \<Longrightarrow> \<exists>b. y = OB_ISC_ID_RSP b"
  by (cases y) (simp_all add: fmob_defs)

lemma kind_of_ISC_MSG_LIMIT: "kind_of y = FMOB_ISC_MSG_LIMIT \<Longrightarrow> \<exists>b. y = OB_ISC_MSG_LIMIT b"
  by (cases y) (simp_all add: fmob_defs)

lemma kind_of_ISC_BOS: "kind_of y = FMOB_ISC_BOS \<Longrightarrow> \<exists>b. y = OB_ISC_BOS b"
  by (cases y) (simp_all add: fmob_defs)

text \<open>
  Each kind by itself: the object \<open>x\<close> is encoded at \<open>d\<close> in any memory and decoded
  from there into any destination \<open>d0\<close> of the same struct.
\<close>

lemma roundtrip_HDR:
  assumes wf: "wf_obj (OB_HDR x)" and ctx: "ctx_ok param (OB_HDR x)"
    and sd: "shaped (OB_HDR d0)"
  shows "\<exists>h' n. fmapi_serialize h (Some d) (Some (OB_HDR x)) FMOB_HDR = Inr (h', n)
      \<and> fmapi_deserialize (Some (OB_HDR d0)) h' (Some d) FMOB_HDR param
          = Inr (Some (written_over (OB_HDR x) (OB_HDR d0)), n)"
proof -
  have rv: "snd (ser_hdr h d x) = 12"
    by (simp add: ser_hdr_def Let_def fmln_defs)
  have rt: "deser_hdr d0 (fst (ser_hdr h d x)) d = (x, 12)"
    by (rule rt_hdr)
  have "fmapi_serialize h (Some d) (Some (OB_HDR x)) FMOB_HDR
      = Inr (fst (ser_hdr h d x), 12)"
    by (simp add: fmapi_serialize_HDR rv)
  moreover have "fmapi_deserialize (Some (OB_HDR d0)) (fst (ser_hdr h d x)) (Some d) FMOB_HDR param
      = Inr (Some (written_over (OB_HDR x) (OB_HDR d0)), 12)"
    by (simp add: fmapi_deserialize_HDR rt)
  ultimately show ?thesis by blast
qed

lemma roundtrip_PSC_ID_RSP:
  assumes wf: "wf_obj (OB_PSC_ID_RSP x)" and ctx: "ctx_ok param (OB_PSC_ID_RSP x)"
    and sd: "shaped (OB_PSC_ID_RSP d0)"
  shows "\<exists>h' n. fmapi_serialize h (Some d) (Some (OB_PSC_ID_RSP x)) FMOB_PSC_ID_RSP = Inr (h', n)
      \<and> fmapi_deserialize (Some (OB_PSC_ID_RSP d0)) h' (Some d) FMOB_PSC_ID_RSP param
          = Inr (Some (written_over (OB_PSC_ID_RSP x) (OB_PSC_ID_RSP d0)), n)"
proof -
  have "\<exists>h' m. ser_psc_id_rsp h d x = Inr (h', m) \<and> deser_psc_id_rsp d0 h' d = Inr (x, m)"
    using wf sd rt_psc_id_rsp [of x d0 h d] by (auto simp: wf_obj_def fm_max_defs)
  then obtain h' m where a: "ser_psc_id_rsp h d x = Inr (h', m)" and b: "deser_psc_id_rsp d0 h' d = Inr (x, m)"
    by blast
  have "fmapi_serialize h (Some d) (Some (OB_PSC_ID_RSP x)) FMOB_PSC_ID_RSP = Inr (h', int m)"
    by (simp add: fmapi_serialize_PSC_ID_RSP a)
  moreover have "fmapi_deserialize (Some (OB_PSC_ID_RSP d0)) h' (Some d) FMOB_PSC_ID_RSP param
      = Inr (Some (written_over (OB_PSC_ID_RSP x) (OB_PSC_ID_RSP d0)), int m)"
    by (simp add: fmapi_deserialize_PSC_ID_RSP b)
  ultimately show ?thesis by blast
qed

lemma roundtrip_PSC_PORT_REQ:
  assumes wf: "wf_obj (OB_PSC_PORT_REQ x)" and ctx: "ctx_ok param (OB_PSC_PORT_REQ x)"
    and sd: "shaped (OB_PSC_PORT_REQ d0)"
  shows "\<exists>h' n. fmapi_serialize h (Some d) (Some (OB_PSC_PORT_REQ x)) FMOB_PSC_PORT_REQ = Inr (h', n)
      \<and> fmapi_deserialize (Some (OB_PSC_PORT_REQ d0)) h' (Some d) FMOB_PSC_PORT_REQ param
          = Inr (Some (written_over (OB_PSC_PORT_REQ x) (OB_PSC_PORT_REQ d0)), n)"
proof -
  have "\<exists>h' m. ser_psc_port_req h d x = Inr (h', m)
      \<and> deser_psc_port_req d0 h' d = Inr (x\<lparr>ppr_ports := take (unat (ppr_num x)) (ppr_ports x) @ drop (unat (ppr_num x)) (ppr_ports d0)\<rparr>, m)"
    using wf sd rt_psc_port_req [of x d0 h d] by (auto simp: wf_obj_def)
  then obtain h' m where a: "ser_psc_port_req h d x = Inr (h', m)"
      and b: "deser_psc_port_req d0 h' d = Inr (x\<lparr>ppr_ports := take (unat (ppr_num x)) (ppr_ports x) @ drop (unat (ppr_num x)) (ppr_ports d0)\<rparr>, m)"
    by blast
  have "fmapi_serialize h (Some d) (Some (OB_PSC_PORT_REQ x)) FMOB_PSC_PORT_REQ = Inr (h', int m)"
    by (simp add: fmapi_serialize_PSC_PORT_REQ a)
  moreover have "fmapi_deserialize (Some (OB_PSC_PORT_REQ d0)) h' (Some d) FMOB_PSC_PORT_REQ param
      = Inr (Some (written_over (OB_PSC_PORT_REQ x) (OB_PSC_PORT_REQ d0)), int m)"
    by (simp add: fmapi_deserialize_PSC_PORT_REQ b)
  ultimately show ?thesis by blast
qed

lemma roundtrip_PSC_PORT_INFO:
  assumes wf: "wf_obj (OB_PSC_PORT_INFO x)" and ctx: "ctx_ok param (OB_PSC_PORT_INFO x)"
    and sd: "shaped (OB_PSC_PORT_INFO d0)"
  shows "\<exists>h' n. fmapi_serialize h (Some d) (Some (OB_PSC_PORT_INFO x)) FMOB_PSC_PORT_INFO = Inr (h', n)
      \<and> fmapi_deserialize (Some (OB_PSC_PORT_INFO d0)) h' (Some d) FMOB_PSC_PORT_INFO param
          = Inr (Some (written_over (OB_PSC_PORT_INFO x) (OB_PSC_PORT_INFO d0)), n)"
proof -
  have rv: "snd (ser_psc_port_info h d x) = 16"
    by (simp add: ser_psc_port_info_def Let_def fmln_defs)
  have rt: "deser_psc_port_info d0 (fst (ser_psc_port_info h d x)) d = (x, 16)"
    using wf by (intro rt_psc_port_info) (simp_all add: wf_obj_def in_widths_psc_port_info_def)
  have "fmapi_serialize h (Some d) (Some (OB_PSC_PORT_INFO x)) FMOB_PSC_PORT_INFO
      = Inr (fst (ser_psc_port_info h d x), 16)"
    by (simp add: fmapi_serialize_PSC_PORT_INFO rv)
  moreover have "fmapi_deserialize (Some (OB_PSC_PORT_INFO d0)) (fst (ser_psc_port_info h d x)) (Some d) FMOB_PSC_PORT_INFO param
      = Inr (Some (written_over (OB_PSC_PORT_INFO x) (OB_PSC_PORT_INFO d0)), 16)"
    by (simp add: fmapi_deserialize_PSC_PORT_INFO rt)
  ultimately show ?thesis by blast
qed

lemma roundtrip_PSC_PORT_RSP:
  assumes wf: "wf_obj (OB_PSC_PORT_RSP x)" and ctx: "ctx_ok param (OB_PSC_PORT_RSP x)"
    and sd: "shaped (OB_PSC_PORT_RSP d0)"
  shows "\<exists>h' n. fmapi_serialize h (Some d) (Some (OB_PSC_PORT_RSP x)) FMOB_PSC_PORT_RSP = Inr (h', n)
      \<and> fmapi_deserialize (Some (OB_PSC_PORT_RSP d0)) h' (Some d) FMOB_PSC_PORT_RSP param
          = Inr (Some (written_over (OB_PSC_PORT_RSP x) (OB_PSC_PORT_RSP d0)), n)"
proof -
  have "\<exists>h' m. ser_psc_port_rsp h d x = Inr (h', m)
      \<and> deser_psc_port_rsp d0 h' d = Inr (x\<lparr>prs_list := take (unat (prs_num x)) (prs_list x) @ drop (unat (prs_num x)) (prs_list d0)\<rparr>, m)"
    using wf sd rt_psc_port_rsp [of x d0 h d] by (auto simp: wf_obj_def)
  then obtain h' m where a: "ser_psc_port_rsp h d x = Inr (h', m)"
      and b: "deser_psc_port_rsp d0 h' d = Inr (x\<lparr>prs_list := take (unat (prs_num x)) (prs_list x) @ drop (unat (prs_num x)) (prs_list d0)\<rparr>, m)"
    by blast
  have "fmapi_serialize h (Some d) (Some (OB_PSC_PORT_RSP x)) FMOB_PSC_PORT_RSP = Inr (h', int m)"
    by (simp add: fmapi_serialize_PSC_PORT_RSP a)
  moreover have "fmapi_deserialize (Some (OB_PSC_PORT_RSP d0)) h' (Some d) FMOB_PSC_PORT_RSP param
      = Inr (Some (written_over (OB_PSC_PORT_RSP x) (OB_PSC_PORT_RSP d0)), int m)"
    by (simp add: fmapi_deserialize_PSC_PORT_RSP b)
  ultimately show ?thesis by blast
qed

lemma roundtrip_PSC_PORT_CTRL_REQ:
  assumes wf: "wf_obj (OB_PSC_PORT_CTRL_REQ x)" and ctx: "ctx_ok param (OB_PSC_PORT_CTRL_REQ x)"
    and sd: "shaped (OB_PSC_PORT_CTRL_REQ d0)"
  shows "\<exists>h' n. fmapi_serialize h (Some d) (Some (OB_PSC_PORT_CTRL_REQ x)) FMOB_PSC_PORT_CTRL_REQ = Inr (h', n)
      \<and> fmapi_deserialize (Some (OB_PSC_PORT_CTRL_REQ d0)) h' (Some d) FMOB_PSC_PORT_CTRL_REQ param
          = Inr (Some (written_over (OB_PSC_PORT_CTRL_REQ x) (OB_PSC_PORT_CTRL_REQ d0)), n)"
proof -
  have rv: "snd (ser_psc_port_ctrl_req h d x) = 2"
    by (simp add: ser_psc_port_ctrl_req_def Let_def fmln_defs)
  have rt: "deser_psc_port_ctrl_req d0 (fst (ser_psc_port_ctrl_req h d x)) d = (x, 2)"
    by (rule rt_psc_port_ctrl_req)
  have "fmapi_serialize h (Some d) (Some (OB_PSC_PORT_CTRL_REQ x)) FMOB_PSC_PORT_CTRL_REQ
      = Inr (fst (ser_psc_port_ctrl_req h d x), 2)"
    by (simp add: fmapi_serialize_PSC_PORT_CTRL_REQ rv)
  moreover have "fmapi_deserialize (Some (OB_PSC_PORT_CTRL_REQ d0)) (fst (ser_psc_port_ctrl_req h d x)) (Some d) FMOB_PSC_PORT_CTRL_REQ param
      = Inr (Some (written_over (OB_PSC_PORT_CTRL_REQ x) (OB_PSC_PORT_CTRL_REQ d0)), 2)"
    by (simp add: fmapi_deserialize_PSC_PORT_CTRL_REQ rt)
  ultimately show ?thesis by blast
qed

lemma roundtrip_PSC_CFG_REQ:
  assumes wf: "wf_obj (OB_PSC_CFG_REQ x)" and ctx: "ctx_ok param (OB_PSC_CFG_REQ x)"
    and sd: "shaped (OB_PSC_CFG_REQ d0)"
  shows "\<exists>h' n. fmapi_serialize h (Some d) (Some (OB_PSC_CFG_REQ x)) FMOB_PSC_CFG_REQ = Inr (h', n)
      \<and> fmapi_deserialize (Some (OB_PSC_CFG_REQ d0)) h' (Some d) FMOB_PSC_CFG_REQ param
          = Inr (Some (written_over (OB_PSC_CFG_REQ x) (OB_PSC_CFG_REQ d0)), n)"
proof -
  have "\<exists>h' m. ser_psc_cfg_req h d x = Inr (h', m) \<and> deser_psc_cfg_req d0 h' d = Inr (x, m)"
    using wf sd rt_psc_cfg_req [of x d0 h d] by (auto simp: wf_obj_def fm_max_defs)
  then obtain h' m where a: "ser_psc_cfg_req h d x = Inr (h', m)" and b: "deser_psc_cfg_req d0 h' d = Inr (x, m)"
    by blast
  have "fmapi_serialize h (Some d) (Some (OB_PSC_CFG_REQ x)) FMOB_PSC_CFG_REQ = Inr (h', int m)"
    by (simp add: fmapi_serialize_PSC_CFG_REQ a)
  moreover have "fmapi_deserialize (Some (OB_PSC_CFG_REQ d0)) h' (Some d) FMOB_PSC_CFG_REQ param
      = Inr (Some (written_over (OB_PSC_CFG_REQ x) (OB_PSC_CFG_REQ d0)), int m)"
    by (simp add: fmapi_deserialize_PSC_CFG_REQ b)
  ultimately show ?thesis by blast
qed

lemma roundtrip_PSC_CFG_RSP:
  assumes wf: "wf_obj (OB_PSC_CFG_RSP x)" and ctx: "ctx_ok param (OB_PSC_CFG_RSP x)"
    and sd: "shaped (OB_PSC_CFG_RSP d0)"
  shows "\<exists>h' n. fmapi_serialize h (Some d) (Some (OB_PSC_CFG_RSP x)) FMOB_PSC_CFG_RSP = Inr (h', n)
      \<and> fmapi_deserialize (Some (OB_PSC_CFG_RSP d0)) h' (Some d) FMOB_PSC_CFG_RSP param
          = Inr (Some (written_over (OB_PSC_CFG_RSP x) (OB_PSC_CFG_RSP d0)), n)"
proof -
  have "\<exists>h' m. ser_psc_cfg_rsp h d x = Inr (h', m) \<and> deser_psc_cfg_rsp d0 h' d = Inr (x, m)"
    using wf sd rt_psc_cfg_rsp [of x d0 h d] by (auto simp: wf_obj_def fm_max_defs)
  then obtain h' m where a: "ser_psc_cfg_rsp h d x = Inr (h', m)" and b: "deser_psc_cfg_rsp d0 h' d = Inr (x, m)"
    by blast
  have "fmapi_serialize h (Some d) (Some (OB_PSC_CFG_RSP x)) FMOB_PSC_CFG_RSP = Inr (h', int m)"
    by (simp add: fmapi_serialize_PSC_CFG_RSP a)
  moreover have "fmapi_deserialize (Some (OB_PSC_CFG_RSP d0)) h' (Some d) FMOB_PSC_CFG_RSP param
      = Inr (Some (written_over (OB_PSC_CFG_RSP x) (OB_PSC_CFG_RSP d0)), int m)"
    by (simp add: fmapi_deserialize_PSC_CFG_RSP b)
  ultimately show ?thesis by blast
qed

lemma roundtrip_VSC_INFO_REQ:
  assumes wf: "wf_obj (OB_VSC_INFO_REQ x)" and ctx: "ctx_ok param (OB_VSC_INFO_REQ x)"
    and sd: "shaped (OB_VSC_INFO_REQ d0)"
  shows "\<exists>h' n. fmapi_serialize h (Some d) (Some (OB_VSC_INFO_REQ x)) FMOB_VSC_INFO_REQ = Inr (h', n)
      \<and> fmapi_deserialize (Some (OB_VSC_INFO_REQ d0)) h' (Some d) FMOB_VSC_INFO_REQ param
          = Inr (Some (written_over (OB_VSC_INFO_REQ x) (OB_VSC_INFO_REQ d0)), n)"
proof -
  have "\<exists>h' m. ser_vsc_info_req h d x = Inr (h', m)
      \<and> deser_vsc_info_req d0 h' d = Inr (x\<lparr>vir_vcss := take (unat (vir_num x)) (vir_vcss x) @ drop (unat (vir_num x)) (vir_vcss d0)\<rparr>, m)"
    using wf sd rt_vsc_info_req [of x d0 h d] by (auto simp: wf_obj_def)
  then obtain h' m where a: "ser_vsc_info_req h d x = Inr (h', m)"
      and b: "deser_vsc_info_req d0 h' d = Inr (x\<lparr>vir_vcss := take (unat (vir_num x)) (vir_vcss x) @ drop (unat (vir_num x)) (vir_vcss d0)\<rparr>, m)"
    by blast
  have "fmapi_serialize h (Some d) (Some (OB_VSC_INFO_REQ x)) FMOB_VSC_INFO_REQ = Inr (h', int m)"
    by (simp add: fmapi_serialize_VSC_INFO_REQ a)
  moreover have "fmapi_deserialize (Some (OB_VSC_INFO_REQ d0)) h' (Some d) FMOB_VSC_INFO_REQ param
      = Inr (Some (written_over (OB_VSC_INFO_REQ x) (OB_VSC_INFO_REQ d0)), int m)"
    by (simp add: fmapi_deserialize_VSC_INFO_REQ b)
  ultimately show ?thesis by blast
qed

lemma roundtrip_VSC_PPB_STAT_BLK:
  assumes wf: "wf_obj (OB_VSC_PPB_STAT_BLK x)" and ctx: "ctx_ok param (OB_VSC_PPB_STAT_BLK x)"
    and sd: "shaped (OB_VSC_PPB_STAT_BLK d0)"
  shows "\<exists>h' n. fmapi_serialize h (Some d) (Some (OB_VSC_PPB_STAT_BLK x)) FMOB_VSC_PPB_STAT_BLK = Inr (h', n)
      \<and> fmapi_deserialize (Some (OB_VSC_PPB_STAT_BLK d0)) h' (Some d) FMOB_VSC_PPB_STAT_BLK param
          = Inr (Some (written_over (OB_VSC_PPB_STAT_BLK x) (OB_VSC_PPB_STAT_BLK d0)), n)"
proof -
  have rv: "snd (ser_vsc_ppb_stat_blk h d x) = 4"
    by (simp add: ser_vsc_ppb_stat_blk_def Let_def fmln_defs)
  have rt: "deser_vsc_ppb_stat_blk d0 (fst (ser_vsc_ppb_stat_blk h d x)) d = (x, 4)"
    by (rule rt_vsc_ppb_stat_blk)
  have "fmapi_serialize h (Some d) (Some (OB_VSC_PPB_STAT_BLK x)) FMOB_VSC_PPB_STAT_BLK
      = Inr (fst (ser_vsc_ppb_stat_blk h d x), 4)"
    by (simp add: fmapi_serialize_VSC_PPB_STAT_BLK rv)
  moreover have "fmapi_deserialize (Some (OB_VSC_PPB_STAT_BLK d0)) (fst (ser_vsc_ppb_stat_blk h d x)) (Some d) FMOB_VSC_PPB_STAT_BLK param
      = Inr (Some (written_over (OB_VSC_PPB_STAT_BLK x) (OB_VSC_PPB_STAT_BLK d0)), 4)"
    by (simp add: fmapi_deserialize_VSC_PPB_STAT_BLK rt)
  ultimately show ?thesis by blast
qed

lemma roundtrip_VSC_INFO_BLK:
  assumes wf: "wf_obj (OB_VSC_INFO_BLK x)" and ctx: "ctx_ok param (OB_VSC_INFO_BLK x)"
    and sd: "shaped (OB_VSC_INFO_BLK d0)"
  shows "\<exists>h' n. fmapi_serialize h (Some d) (Some (OB_VSC_INFO_BLK x)) FMOB_VSC_INFO_BLK = Inr (h', n)
      \<and> fmapi_deserialize (Some (OB_VSC_INFO_BLK d0)) h' (Some d) FMOB_VSC_INFO_BLK param
          = Inr (Some (written_over (OB_VSC_INFO_BLK x) (OB_VSC_INFO_BLK d0)), n)"
proof -
  obtain r where r: "param = Some r"
    using ctx by (auto simp: ctx_ok_blk_def split: option.splits)
  have "\<exists>h' m. ser_vsc_info_blk h d x = Inr (h', m)
      \<and> deser_vsc_info_blk d0 h' d param = Inr (written_over_vsc_info_blk x d0, m)"
    using wf ctx sd rt_vsc_info_blk [of x d0 param h d] by (auto simp: wf_obj_def)
  then obtain h' m where a: "ser_vsc_info_blk h d x = Inr (h', m)"
      and b: "deser_vsc_info_blk d0 h' d (Some r) = Inr (written_over_vsc_info_blk x d0, m)"
    unfolding r by blast
  have "fmapi_serialize h (Some d) (Some (OB_VSC_INFO_BLK x)) FMOB_VSC_INFO_BLK = Inr (h', int m)"
    by (simp add: fmapi_serialize_VSC_INFO_BLK a)
  moreover have "fmapi_deserialize (Some (OB_VSC_INFO_BLK d0)) h' (Some d) FMOB_VSC_INFO_BLK param
      = Inr (Some (written_over (OB_VSC_INFO_BLK x) (OB_VSC_INFO_BLK d0)), int m)"
    unfolding r by (simp add: fmapi_deserialize_VSC_INFO_BLK b)
  ultimately show ?thesis by blast
qed

lemma roundtrip_VSC_INFO_RSP:
  assumes wf: "wf_obj (OB_VSC_INFO_RSP x)" and ctx: "ctx_ok param (OB_VSC_INFO_RSP x)"
    and sd: "shaped (OB_VSC_INFO_RSP d0)"
  shows "\<exists>h' n. fmapi_serialize h (Some d) (Some (OB_VSC_INFO_RSP x)) FMOB_VSC_INFO_RSP = Inr (h', n)
      \<and> fmapi_deserialize (Some (OB_VSC_INFO_RSP d0)) h' (Some d) FMOB_VSC_INFO_RSP param
          = Inr (Some (written_over (OB_VSC_INFO_RSP x) (OB_VSC_INFO_RSP d0)), n)"
proof -
  have "\<exists>h' m. ser_vsc_info_rsp h d x = Inr (h', m)
      \<and> deser_vsc_info_rsp d0 h' d param
          = Inr (x\<lparr>vis_list := map2 written_over_vsc_info_blk
                                  (take (unat (vis_num x)) (vis_list x))
                                  (take (unat (vis_num x)) (vis_list d0))
                                @ drop (unat (vis_num x)) (vis_list d0)\<rparr>, m)"
    using wf ctx sd by (intro rt_vsc_info_rsp) (simp_all add: wf_obj_def)
  then obtain h' m where a: "ser_vsc_info_rsp h d x = Inr (h', m)"
      and b: "deser_vsc_info_rsp d0 h' d param
          = Inr (x\<lparr>vis_list := map2 written_over_vsc_info_blk
                                  (take (unat (vis_num x)) (vis_list x))
                                  (take (unat (vis_num x)) (vis_list d0))
                                @ drop (unat (vis_num x)) (vis_list d0)\<rparr>, m)"
    by blast
  have "fmapi_serialize h (Some d) (Some (OB_VSC_INFO_RSP x)) FMOB_VSC_INFO_RSP = Inr (h', int m)"
    by (simp add: fmapi_serialize_VSC_INFO_RSP a)
  moreover have "fmapi_deserialize (Some (OB_VSC_INFO_RSP d0)) h' (Some d) FMOB_VSC_INFO_RSP param
      = Inr (Some (written_over (OB_VSC_INFO_RSP x) (OB_VSC_INFO_RSP d0)), int m)"
    by (simp add: fmapi_deserialize_VSC_INFO_RSP b)
  ultimately show ?thesis by blast
qed

lemma roundtrip_VSC_BIND_REQ:
  assumes wf: "wf_obj (OB_VSC_BIND_REQ x)" and ctx: "ctx_ok param (OB_VSC_BIND_REQ x)"
    and sd: "shaped (OB_VSC_BIND_REQ d0)"
  shows "\<exists>h' n. fmapi_serialize h (Some d) (Some (OB_VSC_BIND_REQ x)) FMOB_VSC_BIND_REQ = Inr (h', n)
      \<and> fmapi_deserialize (Some (OB_VSC_BIND_REQ d0)) h' (Some d) FMOB_VSC_BIND_REQ param
          = Inr (Some (written_over (OB_VSC_BIND_REQ x) (OB_VSC_BIND_REQ d0)), n)"
proof -
  have rv: "snd (ser_vsc_bind_req h d x) = 6"
    by (simp add: ser_vsc_bind_req_def Let_def fmln_defs)
  have rt: "deser_vsc_bind_req d0 (fst (ser_vsc_bind_req h d x)) d = (x, 6)"
    by (rule rt_vsc_bind_req)
  have "fmapi_serialize h (Some d) (Some (OB_VSC_BIND_REQ x)) FMOB_VSC_BIND_REQ
      = Inr (fst (ser_vsc_bind_req h d x), 6)"
    by (simp add: fmapi_serialize_VSC_BIND_REQ rv)
  moreover have "fmapi_deserialize (Some (OB_VSC_BIND_REQ d0)) (fst (ser_vsc_bind_req h d x)) (Some d) FMOB_VSC_BIND_REQ param
      = Inr (Some (written_over (OB_VSC_BIND_REQ x) (OB_VSC_BIND_REQ d0)), 6)"
    by (simp add: fmapi_deserialize_VSC_BIND_REQ rt)
  ultimately show ?thesis by blast
qed

lemma roundtrip_VSC_UNBIND_REQ:
  assumes wf: "wf_obj (OB_VSC_UNBIND_REQ x)" and ctx: "ctx_ok param (OB_VSC_UNBIND_REQ x)"
    and sd: "shaped (OB_VSC_UNBIND_REQ d0)"
  shows "\<exists>h' n. fmapi_serialize h (Some d) (Some (OB_VSC_UNBIND_REQ x)) FMOB_VSC_UNBIND_REQ = Inr (h', n)
      \<and> fmapi_deserialize (Some (OB_VSC_UNBIND_REQ d0)) h' (Some d) FMOB_VSC_UNBIND_REQ param
          = Inr (Some (written_over (OB_VSC_UNBIND_REQ x) (OB_VSC_UNBIND_REQ d0)), n)"
proof -
  have rv: "snd (ser_vsc_unbind_req h d x) = 3"
    by (simp add: ser_vsc_unbind_req_def Let_def fmln_defs)
  have rt: "deser_vsc_unbind_req d0 (fst (ser_vsc_unbind_req h d x)) d = (x, 3)"
    by (rule rt_vsc_unbind_req)
  have "fmapi_serialize h (Some d) (Some (OB_VSC_UNBIND_REQ x)) FMOB_VSC_UNBIND_REQ
      = Inr (fst (ser_vsc_unbind_req h d x), 3)"
    by (simp add: fmapi_serialize_VSC_UNBIND_REQ rv)
  moreover have "fmapi_deserialize (Some (OB_VSC_UNBIND_REQ d0)) (fst (ser_vsc_unbind_req h d x)) (Some d) FMOB_VSC_UNBIND_REQ param
      = Inr (Some (written_over (OB_VSC_UNBIND_REQ x) (OB_VSC_UNBIND_REQ d0)), 3)"
    by (simp add: fmapi_deserialize_VSC_UNBIND_REQ rt)
  ultimately show ?thesis by blast
qed

lemma roundtrip_VSC_AER_REQ:
  assumes wf: "wf_obj (OB_VSC_AER_REQ x)" and ctx: "ctx_ok param (OB_VSC_AER_REQ x)"
    and sd: "shaped (OB_VSC_AER_REQ d0)"
  shows "\<exists>h' n. fmapi_serialize h (Some d) (Some (OB_VSC_AER_REQ x)) FMOB_VSC_AER_REQ = Inr (h', n)
      \<and> fmapi_deserialize (Some (OB_VSC_AER_REQ d0)) h' (Some d) FMOB_VSC_AER_REQ param
          = Inr (Some (written_over (OB_VSC_AER_REQ x) (OB_VSC_AER_REQ d0)), n)"
proof -
  have "\<exists>h' m. ser_vsc_aer_req h d x = Inr (h', m) \<and> deser_vsc_aer_req d0 h' d = Inr (x, m)"
    using wf sd rt_vsc_aer_req [of x d0 h d] by (auto simp: wf_obj_def fm_max_defs)
  then obtain h' m where a: "ser_vsc_aer_req h d x = Inr (h', m)" and b: "deser_vsc_aer_req d0 h' d = Inr (x, m)"
    by blast
  have "fmapi_serialize h (Some d) (Some (OB_VSC_AER_REQ x)) FMOB_VSC_AER_REQ = Inr (h', int m)"
    by (simp add: fmapi_serialize_VSC_AER_REQ a)
  moreover have "fmapi_deserialize (Some (OB_VSC_AER_REQ d0)) h' (Some d) FMOB_VSC_AER_REQ param
      = Inr (Some (written_over (OB_VSC_AER_REQ x) (OB_VSC_AER_REQ d0)), int m)"
    by (simp add: fmapi_deserialize_VSC_AER_REQ b)
  ultimately show ?thesis by blast
qed

lemma roundtrip_MPC_TMC_REQ:
  assumes wf: "wf_obj (OB_MPC_TMC_REQ x)" and ctx: "ctx_ok param (OB_MPC_TMC_REQ x)"
    and sd: "shaped (OB_MPC_TMC_REQ d0)"
  shows "\<exists>h' n. fmapi_serialize h (Some d) (Some (OB_MPC_TMC_REQ x)) FMOB_MPC_TMC_REQ = Inr (h', n)
      \<and> fmapi_deserialize (Some (OB_MPC_TMC_REQ d0)) h' (Some d) FMOB_MPC_TMC_REQ param
          = Inr (Some (written_over (OB_MPC_TMC_REQ x) (OB_MPC_TMC_REQ d0)), n)"
proof -
  have "\<exists>h' m. ser_mpc_tmc_req h d x = Inr (h', m)
      \<and> deser_mpc_tmc_req d0 h' d = Inr (x\<lparr>tmq_msg := take (unat (tmq_len x)) (tmq_msg x) @ drop (unat (tmq_len x)) (tmq_msg d0)\<rparr>, m)"
    using wf sd rt_mpc_tmc_req [of x d0 h d] by (auto simp: wf_obj_def)
  then obtain h' m where a: "ser_mpc_tmc_req h d x = Inr (h', m)"
      and b: "deser_mpc_tmc_req d0 h' d = Inr (x\<lparr>tmq_msg := take (unat (tmq_len x)) (tmq_msg x) @ drop (unat (tmq_len x)) (tmq_msg d0)\<rparr>, m)"
    by blast
  have "fmapi_serialize h (Some d) (Some (OB_MPC_TMC_REQ x)) FMOB_MPC_TMC_REQ = Inr (h', int m)"
    by (simp add: fmapi_serialize_MPC_TMC_REQ a)
  moreover have "fmapi_deserialize (Some (OB_MPC_TMC_REQ d0)) h' (Some d) FMOB_MPC_TMC_REQ param
      = Inr (Some (written_over (OB_MPC_TMC_REQ x) (OB_MPC_TMC_REQ d0)), int m)"
    by (simp add: fmapi_deserialize_MPC_TMC_REQ b)
  ultimately show ?thesis by blast
qed

lemma roundtrip_MPC_TMC_RSP:
  assumes wf: "wf_obj (OB_MPC_TMC_RSP x)" and ctx: "ctx_ok param (OB_MPC_TMC_RSP x)"
    and sd: "shaped (OB_MPC_TMC_RSP d0)"
  shows "\<exists>h' n. fmapi_serialize h (Some d) (Some (OB_MPC_TMC_RSP x)) FMOB_MPC_TMC_RSP = Inr (h', n)
      \<and> fmapi_deserialize (Some (OB_MPC_TMC_RSP d0)) h' (Some d) FMOB_MPC_TMC_RSP param
          = Inr (Some (written_over (OB_MPC_TMC_RSP x) (OB_MPC_TMC_RSP d0)), n)"
proof -
  have "\<exists>h' m. ser_mpc_tmc_rsp h d x = Inr (h', m)
      \<and> deser_mpc_tmc_rsp d0 h' d = Inr (x\<lparr>tms_msg := take (unat (tms_len x)) (tms_msg x) @ drop (unat (tms_len x)) (tms_msg d0)\<rparr>, m)"
    using wf sd rt_mpc_tmc_rsp [of x d0 h d] by (auto simp: wf_obj_def)
  then obtain h' m where a: "ser_mpc_tmc_rsp h d x = Inr (h', m)"
      and b: "deser_mpc_tmc_rsp d0 h' d = Inr (x\<lparr>tms_msg := take (unat (tms_len x)) (tms_msg x) @ drop (unat (tms_len x)) (tms_msg d0)\<rparr>, m)"
    by blast
  have "fmapi_serialize h (Some d) (Some (OB_MPC_TMC_RSP x)) FMOB_MPC_TMC_RSP = Inr (h', int m)"
    by (simp add: fmapi_serialize_MPC_TMC_RSP a)
  moreover have "fmapi_deserialize (Some (OB_MPC_TMC_RSP d0)) h' (Some d) FMOB_MPC_TMC_RSP param
      = Inr (Some (written_over (OB_MPC_TMC_RSP x) (OB_MPC_TMC_RSP d0)), int m)"
    by (simp add: fmapi_deserialize_MPC_TMC_RSP b)
  ultimately show ?thesis by blast
qed

lemma roundtrip_MPC_CFG_REQ:
  assumes wf: "wf_obj (OB_MPC_CFG_REQ x)" and ctx: "ctx_ok param (OB_MPC_CFG_REQ x)"
    and sd: "shaped (OB_MPC_CFG_REQ d0)"
  shows "\<exists>h' n. fmapi_serialize h (Some d) (Some (OB_MPC_CFG_REQ x)) FMOB_MPC_CFG_REQ = Inr (h', n)
      \<and> fmapi_deserialize (Some (OB_MPC_CFG_REQ d0)) h' (Some d) FMOB_MPC_CFG_REQ param
          = Inr (Some (written_over (OB_MPC_CFG_REQ x) (OB_MPC_CFG_REQ d0)), n)"
proof -
  have "\<exists>h' m. ser_mpc_cfg_req h d x = Inr (h', m) \<and> deser_mpc_cfg_req d0 h' d = Inr (x, m)"
    using wf sd rt_mpc_cfg_req [of x d0 h d] by (auto simp: wf_obj_def fm_max_defs)
  then obtain h' m where a: "ser_mpc_cfg_req h d x = Inr (h', m)" and b: "deser_mpc_cfg_req d0 h' d = Inr (x, m)"
    by blast
  have "fmapi_serialize h (Some d) (Some (OB_MPC_CFG_REQ x)) FMOB_MPC_CFG_REQ = Inr (h', int m)"
    by (simp add: fmapi_serialize_MPC_CFG_REQ a)
  moreover have "fmapi_deserialize (Some (OB_MPC_CFG_REQ d0)) h' (Some d) FMOB_MPC_CFG_REQ param
      = Inr (Some (written_over (OB_MPC_CFG_REQ x) (OB_MPC_CFG_REQ d0)), int m)"
    by (simp add: fmapi_deserialize_MPC_CFG_REQ b)
  ultimately show ?thesis by blast
qed

lemma roundtrip_MPC_CFG_RSP:
  assumes wf: "wf_obj (OB_MPC_CFG_RSP x)" and ctx: "ctx_ok param (OB_MPC_CFG_RSP x)"
    and sd: "shaped (OB_MPC_CFG_RSP d0)"
  shows "\<exists>h' n. fmapi_serialize h (Some d) (Some (OB_MPC_CFG_RSP x)) FMOB_MPC_CFG_RSP = Inr (h', n)
      \<and> fmapi_deserialize (Some (OB_MPC_CFG_RSP d0)) h' (Some d) FMOB_MPC_CFG_RSP param
          = Inr (Some (written_over (OB_MPC_CFG_RSP x) (OB_MPC_CFG_RSP d0)), n)"
proof -
  have "\<exists>h' m. ser_mpc_cfg_rsp h d x = Inr (h', m) \<and> deser_mpc_cfg_rsp d0 h' d = Inr (x, m)"
    using wf sd rt_mpc_cfg_rsp [of x d0 h d] by (auto simp: wf_obj_def fm_max_defs)
  then obtain h' m where a: "ser_mpc_cfg_rsp h d x = Inr (h', m)" and b: "deser_mpc_cfg_rsp d0 h' d = Inr (x, m)"
    by blast
  have "fmapi_serialize h (Some d) (Some (OB_MPC_CFG_RSP x)) FMOB_MPC_CFG_RSP = Inr (h', int m)"
    by (simp add: fmapi_serialize_MPC_CFG_RSP a)
  moreover have "fmapi_deserialize (Some (OB_MPC_CFG_RSP d0)) h' (Some d) FMOB_MPC_CFG_RSP param
      = Inr (Some (written_over (OB_MPC_CFG_RSP x) (OB_MPC_CFG_RSP d0)), int m)"
    by (simp add: fmapi_deserialize_MPC_CFG_RSP b)
  ultimately show ?thesis by blast
qed

lemma roundtrip_MPC_MEM_REQ:
  assumes wf: "wf_obj (OB_MPC_MEM_REQ x)" and ctx: "ctx_ok param (OB_MPC_MEM_REQ x)"
    and sd: "shaped (OB_MPC_MEM_REQ d0)"
  shows "\<exists>h' n. fmapi_serialize h (Some d) (Some (OB_MPC_MEM_REQ x)) FMOB_MPC_MEM_REQ = Inr (h', n)
      \<and> fmapi_deserialize (Some (OB_MPC_MEM_REQ d0)) h' (Some d) FMOB_MPC_MEM_REQ param
          = Inr (Some (written_over (OB_MPC_MEM_REQ x) (OB_MPC_MEM_REQ d0)), n)"
proof -
  have "\<exists>h' m. ser_mpc_mem_req h d x = Inr (h', m)
      \<and> deser_mpc_mem_req d0 h' d = Inr (x\<lparr>mmq_data := take (unat (mmq_len x)) (mmq_data x) @ drop (unat (mmq_len x)) (mmq_data d0)\<rparr>, m)"
    using wf sd rt_mpc_mem_req [of x d0 h d] by (auto simp: wf_obj_def)
  then obtain h' m where a: "ser_mpc_mem_req h d x = Inr (h', m)"
      and b: "deser_mpc_mem_req d0 h' d = Inr (x\<lparr>mmq_data := take (unat (mmq_len x)) (mmq_data x) @ drop (unat (mmq_len x)) (mmq_data d0)\<rparr>, m)"
    by blast
  have "fmapi_serialize h (Some d) (Some (OB_MPC_MEM_REQ x)) FMOB_MPC_MEM_REQ = Inr (h', int m)"
    by (simp add: fmapi_serialize_MPC_MEM_REQ a)
  moreover have "fmapi_deserialize (Some (OB_MPC_MEM_REQ d0)) h' (Some d) FMOB_MPC_MEM_REQ param
      = Inr (Some (written_over (OB_MPC_MEM_REQ x) (OB_MPC_MEM_REQ d0)), int m)"
    by (simp add: fmapi_deserialize_MPC_MEM_REQ b)
  ultimately show ?thesis by blast
qed

lemma roundtrip_MPC_MEM_RSP:
  assumes wf: "wf_obj (OB_MPC_MEM_RSP x)" and ctx: "ctx_ok param (OB_MPC_MEM_RSP x)"
    and sd: "shaped (OB_MPC_MEM_RSP d0)"
  shows "\<exists>h' n. fmapi_serialize h (Some d) (Some (OB_MPC_MEM_RSP x)) FMOB_MPC_MEM_RSP = Inr (h', n)
      \<and> fmapi_deserialize (Some (OB_MPC_MEM_RSP d0)) h' (Some d) FMOB_MPC_MEM_RSP param
          = Inr (Some (written_over (OB_MPC_MEM_RSP x) (OB_MPC_MEM_RSP d0)), n)"
proof -
  have "\<exists>h' m. ser_mpc_mem_rsp h d x = Inr (h', m)
      \<and> deser_mpc_mem_rsp d0 h' d = Inr (x\<lparr>mms_data := take (unat (mms_len x)) (mms_data x) @ drop (unat (mms_len x)) (mms_data d0)\<rparr>, m)"
    using wf sd rt_mpc_mem_rsp [of x d0 h d] by (auto simp: wf_obj_def)
  then obtain h' m where a: "ser_mpc_mem_rsp h d x = Inr (h', m)"
      and b: "deser_mpc_mem_rsp d0 h' d = Inr (x\<lparr>mms_data := take (unat (mms_len x)) (mms_data x) @ drop (unat (mms_len x)) (mms_data d0)\<rparr>, m)"
    by blast
  have "fmapi_serialize h (Some d) (Some (OB_MPC_MEM_RSP x)) FMOB_MPC_MEM_RSP = Inr (h', int m)"
    by (simp add: fmapi_serialize_MPC_MEM_RSP a)
  moreover have "fmapi_deserialize (Some (OB_MPC_MEM_RSP d0)) h' (Some d) FMOB_MPC_MEM_RSP param
      = Inr (Some (written_over (OB_MPC_MEM_RSP x) (OB_MPC_MEM_RSP d0)), int m)"
    by (simp add: fmapi_deserialize_MPC_MEM_RSP b)
  ultimately show ?thesis by blast
qed

lemma roundtrip_MCC_INFO_RSP:
  assumes wf: "wf_obj (OB_MCC_INFO_RSP x)" and ctx: "ctx_ok param (OB_MCC_INFO_RSP x)"
    and sd: "shaped (OB_MCC_INFO_RSP d0)"
  shows "\<exists>h' n. fmapi_serialize h (Some d) (Some (OB_MCC_INFO_RSP x)) FMOB_MCC_INFO_RSP = Inr (h', n)
      \<and> fmapi_deserialize (Some (OB_MCC_INFO_RSP d0)) h' (Some d) FMOB_MCC_INFO_RSP param
          = Inr (Some (written_over (OB_MCC_INFO_RSP x) (OB_MCC_INFO_RSP d0)), n)"
proof -
  have rv: "snd (ser_mcc_info_rsp h d x) = 11"
    by (simp add: ser_mcc_info_rsp_def Let_def fmln_defs)
  have rt: "deser_mcc_info_rsp d0 (fst (ser_mcc_info_rsp h d x)) d = (x, 11)"
    using wf by (intro rt_mcc_info_rsp) (simp_all add: wf_obj_def in_widths_psc_port_info_def)
  have "fmapi_serialize h (Some d) (Some (OB_MCC_INFO_RSP x)) FMOB_MCC_INFO_RSP
      = Inr (fst (ser_mcc_info_rsp h d x), 11)"
    by (simp add: fmapi_serialize_MCC_INFO_RSP rv)
  moreover have "fmapi_deserialize (Some (OB_MCC_INFO_RSP d0)) (fst (ser_mcc_info_rsp h d x)) (Some d) FMOB_MCC_INFO_RSP param
      = Inr (Some (written_over (OB_MCC_INFO_RSP x) (OB_MCC_INFO_RSP d0)), 11)"
    by (simp add: fmapi_deserialize_MCC_INFO_RSP rt)
  ultimately show ?thesis by blast
qed

lemma roundtrip_MCC_ALLOC_BLK:
  assumes wf: "wf_obj (OB_MCC_ALLOC_BLK x)" and ctx: "ctx_ok param (OB_MCC_ALLOC_BLK x)"
    and sd: "shaped (OB_MCC_ALLOC_BLK d0)"
  shows "\<exists>h' n. fmapi_serialize h (Some d) (Some (OB_MCC_ALLOC_BLK x)) FMOB_MCC_ALLOC_BLK = Inr (h', n)
      \<and> fmapi_deserialize (Some (OB_MCC_ALLOC_BLK d0)) h' (Some d) FMOB_MCC_ALLOC_BLK param
          = Inr (Some (written_over (OB_MCC_ALLOC_BLK x) (OB_MCC_ALLOC_BLK d0)), n)"
proof -
  have rv: "snd (ser_mcc_alloc_blk h d x) = 16"
    by (simp add: ser_mcc_alloc_blk_def Let_def fmln_defs)
  have rt: "deser_mcc_alloc_blk d0 (fst (ser_mcc_alloc_blk h d x)) d = (x, 16)"
    by (rule rt_mcc_alloc_blk)
  have "fmapi_serialize h (Some d) (Some (OB_MCC_ALLOC_BLK x)) FMOB_MCC_ALLOC_BLK
      = Inr (fst (ser_mcc_alloc_blk h d x), 16)"
    by (simp add: fmapi_serialize_MCC_ALLOC_BLK rv)
  moreover have "fmapi_deserialize (Some (OB_MCC_ALLOC_BLK d0)) (fst (ser_mcc_alloc_blk h d x)) (Some d) FMOB_MCC_ALLOC_BLK param
      = Inr (Some (written_over (OB_MCC_ALLOC_BLK x) (OB_MCC_ALLOC_BLK d0)), 16)"
    by (simp add: fmapi_deserialize_MCC_ALLOC_BLK rt)
  ultimately show ?thesis by blast
qed

lemma roundtrip_MCC_ALLOC_GET_REQ:
  assumes wf: "wf_obj (OB_MCC_ALLOC_GET_REQ x)" and ctx: "ctx_ok param (OB_MCC_ALLOC_GET_REQ x)"
    and sd: "shaped (OB_MCC_ALLOC_GET_REQ d0)"
  shows "\<exists>h' n. fmapi_serialize h (Some d) (Some (OB_MCC_ALLOC_GET_REQ x)) FMOB_MCC_ALLOC_GET_REQ = Inr (h', n)
      \<and> fmapi_deserialize (Some (OB_MCC_ALLOC_GET_REQ d0)) h' (Some d) FMOB_MCC_ALLOC_GET_REQ param
          = Inr (Some (written_over (OB_MCC_ALLOC_GET_REQ x) (OB_MCC_ALLOC_GET_REQ d0)), n)"
proof -
  have rv: "snd (ser_mcc_alloc_get_req h d x) = 2"
    by (simp add: ser_mcc_alloc_get_req_def Let_def fmln_defs)
  have rt: "deser_mcc_alloc_get_req d0 (fst (ser_mcc_alloc_get_req h d x)) d = (x, 2)"
    by (rule rt_mcc_alloc_get_req)
  have "fmapi_serialize h (Some d) (Some (OB_MCC_ALLOC_GET_REQ x)) FMOB_MCC_ALLOC_GET_REQ
      = Inr (fst (ser_mcc_alloc_get_req h d x), 2)"
    by (simp add: fmapi_serialize_MCC_ALLOC_GET_REQ rv)
  moreover have "fmapi_deserialize (Some (OB_MCC_ALLOC_GET_REQ d0)) (fst (ser_mcc_alloc_get_req h d x)) (Some d) FMOB_MCC_ALLOC_GET_REQ param
      = Inr (Some (written_over (OB_MCC_ALLOC_GET_REQ x) (OB_MCC_ALLOC_GET_REQ d0)), 2)"
    by (simp add: fmapi_deserialize_MCC_ALLOC_GET_REQ rt)
  ultimately show ?thesis by blast
qed

lemma roundtrip_MCC_ALLOC_GET_RSP:
  assumes wf: "wf_obj (OB_MCC_ALLOC_GET_RSP x)" and ctx: "ctx_ok param (OB_MCC_ALLOC_GET_RSP x)"
    and sd: "shaped (OB_MCC_ALLOC_GET_RSP d0)"
  shows "\<exists>h' n. fmapi_serialize h (Some d) (Some (OB_MCC_ALLOC_GET_RSP x)) FMOB_MCC_ALLOC_GET_RSP = Inr (h', n)
      \<and> fmapi_deserialize (Some (OB_MCC_ALLOC_GET_RSP d0)) h' (Some d) FMOB_MCC_ALLOC_GET_RSP param
          = Inr (Some (written_over (OB_MCC_ALLOC_GET_RSP x) (OB_MCC_ALLOC_GET_RSP d0)), n)"
proof -
  have "\<exists>h' m. ser_mcc_alloc_get_rsp h d x = Inr (h', m)
      \<and> deser_mcc_alloc_get_rsp d0 h' d = Inr (x\<lparr>ags_list := take (unat (ags_num x)) (ags_list x) @ drop (unat (ags_num x)) (ags_list d0)\<rparr>, m)"
    using wf sd rt_mcc_alloc_get_rsp [of x d0 h d] by (auto simp: wf_obj_def)
  then obtain h' m where a: "ser_mcc_alloc_get_rsp h d x = Inr (h', m)"
      and b: "deser_mcc_alloc_get_rsp d0 h' d = Inr (x\<lparr>ags_list := take (unat (ags_num x)) (ags_list x) @ drop (unat (ags_num x)) (ags_list d0)\<rparr>, m)"
    by blast
  have "fmapi_serialize h (Some d) (Some (OB_MCC_ALLOC_GET_RSP x)) FMOB_MCC_ALLOC_GET_RSP = Inr (h', int m)"
    by (simp add: fmapi_serialize_MCC_ALLOC_GET_RSP a)
  moreover have "fmapi_deserialize (Some (OB_MCC_ALLOC_GET_RSP d0)) h' (Some d) FMOB_MCC_ALLOC_GET_RSP param
      = Inr (Some (written_over (OB_MCC_ALLOC_GET_RSP x) (OB_MCC_ALLOC_GET_RSP d0)), int m)"
    by (simp add: fmapi_deserialize_MCC_ALLOC_GET_RSP b)
  ultimately show ?thesis by blast
qed

lemma roundtrip_MCC_ALLOC_SET_REQ:
  assumes wf: "wf_obj (OB_MCC_ALLOC_SET_REQ x)" and ctx: "ctx_ok param (OB_MCC_ALLOC_SET_REQ x)"
    and sd: "shaped (OB_MCC_ALLOC_SET_REQ d0)"
  shows "\<exists>h' n. fmapi_serialize h (Some d) (Some (OB_MCC_ALLOC_SET_REQ x)) FMOB_MCC_ALLOC_SET_REQ = Inr (h', n)
      \<and> fmapi_deserialize (Some (OB_MCC_ALLOC_SET_REQ d0)) h' (Some d) FMOB_MCC_ALLOC_SET_REQ param
          = Inr (Some (written_over (OB_MCC_ALLOC_SET_REQ x) (OB_MCC_ALLOC_SET_REQ d0)), n)"
proof -
  have "\<exists>h' m. ser_mcc_alloc_set_req h d x = Inr (h', m)
      \<and> deser_mcc_alloc_set_req d0 h' d = Inr (x\<lparr>asq_list := take (unat (asq_num x)) (asq_list x) @ drop (unat (asq_num x)) (asq_list d0)\<rparr>, m)"
    using wf sd rt_mcc_alloc_set_req [of x d0 h d] by (auto simp: wf_obj_def)
  then obtain h' m where a: "ser_mcc_alloc_set_req h d x = Inr (h', m)"
      and b: "deser_mcc_alloc_set_req d0 h' d = Inr (x\<lparr>asq_list := take (unat (asq_num x)) (asq_list x) @ drop (unat (asq_num x)) (asq_list d0)\<rparr>, m)"
    by blast
  have "fmapi_serialize h (Some d) (Some (OB_MCC_ALLOC_SET_REQ x)) FMOB_MCC_ALLOC_SET_REQ = Inr (h', int m)"
    by (simp add: fmapi_serialize_MCC_ALLOC_SET_REQ a)
  moreover have "fmapi_deserialize (Some (OB_MCC_ALLOC_SET_REQ d0)) h' (Some d) FMOB_MCC_ALLOC_SET_REQ param
      = Inr (Some (written_over (OB_MCC_ALLOC_SET_REQ x) (OB_MCC_ALLOC_SET_REQ d0)), int m)"
    by (simp add: fmapi_deserialize_MCC_ALLOC_SET_REQ b)
  ultimately show ?thesis by blast
qed

lemma roundtrip_MCC_ALLOC_SET_RSP:
  assumes wf: "wf_obj (OB_MCC_ALLOC_SET_RSP x)" and ctx: "ctx_ok param (OB_MCC_ALLOC_SET_RSP x)"
    and sd: "shaped (OB_MCC_ALLOC_SET_RSP d0)"
  shows "\<exists>h' n. fmapi_serialize h (Some d) (Some (OB_MCC_ALLOC_SET_RSP x)) FMOB_MCC_ALLOC_SET_RSP = Inr (h', n)
      \<and> fmapi_deserialize (Some (OB_MCC_ALLOC_SET_RSP d0)) h' (Some d) FMOB_MCC_ALLOC_SET_RSP param
          = Inr (Some (written_over (OB_MCC_ALLOC_SET_RSP x) (OB_MCC_ALLOC_SET_RSP d0)), n)"
proof -
  have "\<exists>h' m. ser_mcc_alloc_set_rsp h d x = Inr (h', m)
      \<and> deser_mcc_alloc_set_rsp d0 h' d = Inr (x\<lparr>ass_list := take (unat (ass_num x)) (ass_list x) @ drop (unat (ass_num x)) (ass_list d0)\<rparr>, m)"
    using wf sd rt_mcc_alloc_set_rsp [of x d0 h d] by (auto simp: wf_obj_def)
  then obtain h' m where a: "ser_mcc_alloc_set_rsp h d x = Inr (h', m)"
      and b: "deser_mcc_alloc_set_rsp d0 h' d = Inr (x\<lparr>ass_list := take (unat (ass_num x)) (ass_list x) @ drop (unat (ass_num x)) (ass_list d0)\<rparr>, m)"
    by blast
  have "fmapi_serialize h (Some d) (Some (OB_MCC_ALLOC_SET_RSP x)) FMOB_MCC_ALLOC_SET_RSP = Inr (h', int m)"
    by (simp add: fmapi_serialize_MCC_ALLOC_SET_RSP a)
  moreover have "fmapi_deserialize (Some (OB_MCC_ALLOC_SET_RSP d0)) h' (Some d) FMOB_MCC_ALLOC_SET_RSP param
      = Inr (Some (written_over (OB_MCC_ALLOC_SET_RSP x) (OB_MCC_ALLOC_SET_RSP d0)), int m)"
    by (simp add: fmapi_deserialize_MCC_ALLOC_SET_RSP b)
  ultimately show ?thesis by blast
qed

lemma roundtrip_MCC_QOS_CTRL:
  assumes wf: "wf_obj (OB_MCC_QOS_CTRL x)" and ctx: "ctx_ok param (OB_MCC_QOS_CTRL x)"
    and sd: "shaped (OB_MCC_QOS_CTRL d0)"
  shows "\<exists>h' n. fmapi_serialize h (Some d) (Some (OB_MCC_QOS_CTRL x)) FMOB_MCC_QOS_CTRL = Inr (h', n)
      \<and> fmapi_deserialize (Some (OB_MCC_QOS_CTRL d0)) h' (Some d) FMOB_MCC_QOS_CTRL param
          = Inr (Some (written_over (OB_MCC_QOS_CTRL x) (OB_MCC_QOS_CTRL d0)), n)"
proof -
  have rv: "snd (ser_mcc_qos_ctrl h d x) = 7"
    by (simp add: ser_mcc_qos_ctrl_def Let_def fmln_defs)
  have rt: "deser_mcc_qos_ctrl d0 (fst (ser_mcc_qos_ctrl h d x)) d = (x, 7)"
    using wf by (intro rt_mcc_qos_ctrl) (simp_all add: wf_obj_def in_widths_psc_port_info_def)
  have "fmapi_serialize h (Some d) (Some (OB_MCC_QOS_CTRL x)) FMOB_MCC_QOS_CTRL
      = Inr (fst (ser_mcc_qos_ctrl h d x), 7)"
    by (simp add: fmapi_serialize_MCC_QOS_CTRL rv)
  moreover have "fmapi_deserialize (Some (OB_MCC_QOS_CTRL d0)) (fst (ser_mcc_qos_ctrl h d x)) (Some d) FMOB_MCC_QOS_CTRL param
      = Inr (Some (written_over (OB_MCC_QOS_CTRL x) (OB_MCC_QOS_CTRL d0)), 7)"
    by (simp add: fmapi_deserialize_MCC_QOS_CTRL rt)
  ultimately show ?thesis by blast
qed

lemma roundtrip_MCC_QOS_STAT_RSP:
  assumes wf: "wf_obj (OB_MCC_QOS_STAT_RSP x)" and ctx: "ctx_ok param (OB_MCC_QOS_STAT_RSP x)"
    and sd: "shaped (OB_MCC_QOS_STAT_RSP d0)"
  shows "\<exists>h' n. fmapi_serialize h (Some d) (Some (OB_MCC_QOS_STAT_RSP x)) FMOB_MCC_QOS_STAT_RSP = Inr (h', n)
      \<and> fmapi_deserialize (Some (OB_MCC_QOS_STAT_RSP d0)) h' (Some d) FMOB_MCC_QOS_STAT_RSP param
          = Inr (Some (written_over (OB_MCC_QOS_STAT_RSP x) (OB_MCC_QOS_STAT_RSP d0)), n)"
proof -
  have rv: "snd (ser_mcc_qos_stat_rsp h d x) = 1"
    by (simp add: ser_mcc_qos_stat_rsp_def Let_def fmln_defs)
  have rt: "deser_mcc_qos_stat_rsp d0 (fst (ser_mcc_qos_stat_rsp h d x)) d = (x, 1)"
    by (rule rt_mcc_qos_stat_rsp)
  have "fmapi_serialize h (Some d) (Some (OB_MCC_QOS_STAT_RSP x)) FMOB_MCC_QOS_STAT_RSP
      = Inr (fst (ser_mcc_qos_stat_rsp h d x), 1)"
    by (simp add: fmapi_serialize_MCC_QOS_STAT_RSP rv)
  moreover have "fmapi_deserialize (Some (OB_MCC_QOS_STAT_RSP d0)) (fst (ser_mcc_qos_stat_rsp h d x)) (Some d) FMOB_MCC_QOS_STAT_RSP param
      = Inr (Some (written_over (OB_MCC_QOS_STAT_RSP x) (OB_MCC_QOS_STAT_RSP d0)), 1)"
    by (simp add: fmapi_deserialize_MCC_QOS_STAT_RSP rt)
  ultimately show ?thesis by blast
qed

lemma roundtrip_MCC_QOS_BW_GET_REQ:
  assumes wf: "wf_obj (OB_MCC_QOS_BW_GET_REQ x)" and ctx: "ctx_ok param (OB_MCC_QOS_BW_GET_REQ x)"
    and sd: "shaped (OB_MCC_QOS_BW_GET_REQ d0)"
  shows "\<exists>h' n. fmapi_serialize h (Some d) (Some (OB_MCC_QOS_BW_GET_REQ x)) FMOB_MCC_QOS_BW_GET_REQ = Inr (h', n)
      \<and> fmapi_deserialize (Some (OB_MCC_QOS_BW_GET_REQ d0)) h' (Some d) FMOB_MCC_QOS_BW_GET_REQ param
          = Inr (Some (written_over (OB_MCC_QOS_BW_GET_REQ x) (OB_MCC_QOS_BW_GET_REQ d0)), n)"
proof -
  have rv: "snd (ser_mcc_qos_bw_get_req h d x) = 2"
    by (simp add: ser_mcc_qos_bw_get_req_def Let_def fmln_defs)
  have rt: "deser_mcc_qos_bw_get_req d0 (fst (ser_mcc_qos_bw_get_req h d x)) d = (x, 2)"
    by (rule rt_mcc_qos_bw_get_req)
  have "fmapi_serialize h (Some d) (Some (OB_MCC_QOS_BW_GET_REQ x)) FMOB_MCC_QOS_BW_GET_REQ
      = Inr (fst (ser_mcc_qos_bw_get_req h d x), 2)"
    by (simp add: fmapi_serialize_MCC_QOS_BW_GET_REQ rv)
  moreover have "fmapi_deserialize (Some (OB_MCC_QOS_BW_GET_REQ d0)) (fst (ser_mcc_qos_bw_get_req h d x)) (Some d) FMOB_MCC_QOS_BW_GET_REQ param
      = Inr (Some (written_over (OB_MCC_QOS_BW_GET_REQ x) (OB_MCC_QOS_BW_GET_REQ d0)), 2)"
    by (simp add: fmapi_deserialize_MCC_QOS_BW_GET_REQ rt)
  ultimately show ?thesis by blast
qed

lemma roundtrip_MCC_QOS_BW_ALLOC:
  assumes wf: "wf_obj (OB_MCC_QOS_BW_ALLOC x)" and ctx: "ctx_ok param (OB_MCC_QOS_BW_ALLOC x)"
    and sd: "shaped (OB_MCC_QOS_BW_ALLOC d0)"
  shows "\<exists>h' n. fmapi_serialize h (Some d) (Some (OB_MCC_QOS_BW_ALLOC x)) FMOB_MCC_QOS_BW_ALLOC = Inr (h', n)
      \<and> fmapi_deserialize (Some (OB_MCC_QOS_BW_ALLOC d0)) h' (Some d) FMOB_MCC_QOS_BW_ALLOC param
          = Inr (Some (written_over (OB_MCC_QOS_BW_ALLOC x) (OB_MCC_QOS_BW_ALLOC d0)), n)"
proof -
  have "\<exists>h' m. ser_mcc_qos_bw_alloc h d x = Inr (h', m)
      \<and> deser_mcc_qos_bw_alloc d0 h' d = Inr (x\<lparr>qba_list := take (unat (qba_num x)) (qba_list x) @ drop (unat (qba_num x)) (qba_list d0)\<rparr>, m)"
    using wf sd rt_mcc_qos_bw_alloc [of x d0 h d] by (auto simp: wf_obj_def)
  then obtain h' m where a: "ser_mcc_qos_bw_alloc h d x = Inr (h', m)"
      and b: "deser_mcc_qos_bw_alloc d0 h' d = Inr (x\<lparr>qba_list := take (unat (qba_num x)) (qba_list x) @ drop (unat (qba_num x)) (qba_list d0)\<rparr>, m)"
    by blast
  have "fmapi_serialize h (Some d) (Some (OB_MCC_QOS_BW_ALLOC x)) FMOB_MCC_QOS_BW_ALLOC = Inr (h', int m)"
    by (simp add: fmapi_serialize_MCC_QOS_BW_ALLOC a)
  moreover have "fmapi_deserialize (Some (OB_MCC_QOS_BW_ALLOC d0)) h' (Some d) FMOB_MCC_QOS_BW_ALLOC param
      = Inr (Some (written_over (OB_MCC_QOS_BW_ALLOC x) (OB_MCC_QOS_BW_ALLOC d0)), int m)"
    by (simp add: fmapi_deserialize_MCC_QOS_BW_ALLOC b)
  ultimately show ?thesis by blast
qed

lemma roundtrip_MCC_QOS_BW_LIMIT_GET_REQ:
  assumes wf: "wf_obj (OB_MCC_QOS_BW_LIMIT_GET_REQ x)" and ctx: "ctx_ok param (OB_MCC_QOS_BW_LIMIT_GET_REQ x)"
    and sd: "shaped (OB_MCC_QOS_BW_LIMIT_GET_REQ d0)"
  shows "\<exists>h' n. fmapi_serialize h (Some d) (Some (OB_MCC_QOS_BW_LIMIT_GET_REQ x)) FMOB_MCC_QOS_BW_LIMIT_GET_REQ = Inr (h', n)
      \<and> fmapi_deserialize (Some (OB_MCC_QOS_BW_LIMIT_GET_REQ d0)) h' (Some d) FMOB_MCC_QOS_BW_LIMIT_GET_REQ param
          = Inr (Some (written_over (OB_MCC_QOS_BW_LIMIT_GET_REQ x) (OB_MCC_QOS_BW_LIMIT_GET_REQ d0)), n)"
proof -
  have rv: "snd (ser_mcc_qos_bw_limit_get_req h d x) = 2"
    by (simp add: ser_mcc_qos_bw_limit_get_req_def Let_def fmln_defs)
  have rt: "deser_mcc_qos_bw_limit_get_req d0 (fst (ser_mcc_qos_bw_limit_get_req h d x)) d = (x, 2)"
    by (rule rt_mcc_qos_bw_limit_get_req)
  have "fmapi_serialize h (Some d) (Some (OB_MCC_QOS_BW_LIMIT_GET_REQ x)) FMOB_MCC_QOS_BW_LIMIT_GET_REQ
      = Inr (fst (ser_mcc_qos_bw_limit_get_req h d x), 2)"
    by (simp add: fmapi_serialize_MCC_QOS_BW_LIMIT_GET_REQ rv)
  moreover have "fmapi_deserialize (Some (OB_MCC_QOS_BW_LIMIT_GET_REQ d0)) (fst (ser_mcc_qos_bw_limit_get_req h d x)) (Some d) FMOB_MCC_QOS_BW_LIMIT_GET_REQ param
      = Inr (Some (written_over (OB_MCC_QOS_BW_LIMIT_GET_REQ x) (OB_MCC_QOS_BW_LIMIT_GET_REQ d0)), 2)"
    by (simp add: fmapi_deserialize_MCC_QOS_BW_LIMIT_GET_REQ rt)
  ultimately show ?thesis by blast
qed

lemma roundtrip_MCC_QOS_BW_LIMIT:
  assumes wf: "wf_obj (OB_MCC_QOS_BW_LIMIT x)" and ctx: "ctx_ok param (OB_MCC_QOS_BW_LIMIT x)"
    and sd: "shaped (OB_MCC_QOS_BW_LIMIT d0)"
  shows "\<exists>h' n. fmapi_serialize h (Some d) (Some (OB_MCC_QOS_BW_LIMIT x)) FMOB_MCC_QOS_BW_LIMIT = Inr (h', n)
      \<and> fmapi_deserialize (Some (OB_MCC_QOS_BW_LIMIT d0)) h' (Some d) FMOB_MCC_QOS_BW_LIMIT param
          = Inr (Some (written_over (OB_MCC_QOS_BW_LIMIT x) (OB_MCC_QOS_BW_LIMIT d0)), n)"
proof -
  have "\<exists>h' m. ser_mcc_qos_bw_limit h d x = Inr (h', m)
      \<and> deser_mcc_qos_bw_limit d0 h' d = Inr (x\<lparr>qbl_list := take (unat (qbl_num x)) (qbl_list x) @ drop (unat (qbl_num x)) (qbl_list d0)\<rparr>, m)"
    using wf sd rt_mcc_qos_bw_limit [of x d0 h d] by (auto simp: wf_obj_def)
  then obtain h' m where a: "ser_mcc_qos_bw_limit h d x = Inr (h', m)"
      and b: "deser_mcc_qos_bw_limit d0 h' d = Inr (x\<lparr>qbl_list := take (unat (qbl_num x)) (qbl_list x) @ drop (unat (qbl_num x)) (qbl_list d0)\<rparr>, m)"
    by blast
  have "fmapi_serialize h (Some d) (Some (OB_MCC_QOS_BW_LIMIT x)) FMOB_MCC_QOS_BW_LIMIT = Inr (h', int m)"
    by (simp add: fmapi_serialize_MCC_QOS_BW_LIMIT a)
  moreover have "fmapi_deserialize (Some (OB_MCC_QOS_BW_LIMIT d0)) h' (Some d) FMOB_MCC_QOS_BW_LIMIT param
      = Inr (Some (written_over (OB_MCC_QOS_BW_LIMIT x) (OB_MCC_QOS_BW_LIMIT d0)), int m)"
    by (simp add: fmapi_deserialize_MCC_QOS_BW_LIMIT b)
  ultimately show ?thesis by blast
qed

lemma roundtrip_ISC_ID_RSP:
  assumes wf: "wf_obj (OB_ISC_ID_RSP x)" and ctx: "ctx_ok param (OB_ISC_ID_RSP x)"
    and sd: "shaped (OB_ISC_ID_RSP d0)"
  shows "\<exists>h' n. fmapi_serialize h (Some d) (Some (OB_ISC_ID_RSP x)) FMOB_ISC_ID_RSP = Inr (h', n)
      \<and> fmapi_deserialize (Some (OB_ISC_ID_RSP d0)) h' (Some d) FMOB_ISC_ID_RSP param
          = Inr (Some (written_over (OB_ISC_ID_RSP x) (OB_ISC_ID_RSP d0)), n)"
proof -
  have rv: "snd (ser_isc_id_rsp h d x) = 17"
    by (simp add: ser_isc_id_rsp_def Let_def fmln_defs)
  have rt: "deser_isc_id_rsp d0 (fst (ser_isc_id_rsp h d x)) d = (x, 17)"
    by (rule rt_isc_id_rsp)
  have "fmapi_serialize h (Some d) (Some (OB_ISC_ID_RSP x)) FMOB_ISC_ID_RSP
      = Inr (fst (ser_isc_id_rsp h d x), 17)"
    by (simp add: fmapi_serialize_ISC_ID_RSP rv)
  moreover have "fmapi_deserialize (Some (OB_ISC_ID_RSP d0)) (fst (ser_isc_id_rsp h d x)) (Some d) FMOB_ISC_ID_RSP param
      = Inr (Some (written_over (OB_ISC_ID_RSP x) (OB_ISC_ID_RSP d0)), 17)"
    by (simp add: fmapi_deserialize_ISC_ID_RSP rt)
  ultimately show ?thesis by blast
qed

lemma roundtrip_ISC_MSG_LIMIT:
  assumes wf: "wf_obj (OB_ISC_MSG_LIMIT x)" and ctx: "ctx_ok param (OB_ISC_MSG_LIMIT x)"
    and sd: "shaped (OB_ISC_MSG_LIMIT d0)"
  shows "\<exists>h' n. fmapi_serialize h (Some d) (Some (OB_ISC_MSG_LIMIT x)) FMOB_ISC_MSG_LIMIT = Inr (h', n)
      \<and> fmapi_deserialize (Some (OB_ISC_MSG_LIMIT d0)) h' (Some d) FMOB_ISC_MSG_LIMIT param
          = Inr (Some (written_over (OB_ISC_MSG_LIMIT x) (OB_ISC_MSG_LIMIT d0)), n)"
proof -
  have rv: "snd (ser_isc_msg_limit h d x) = 1"
    by (simp add: ser_isc_msg_limit_def Let_def fmln_defs)
  have rt: "deser_isc_msg_limit d0 (fst (ser_isc_msg_limit h d x)) d = (x, 1)"
    by (rule rt_isc_msg_limit)
  have "fmapi_serialize h (Some d) (Some (OB_ISC_MSG_LIMIT x)) FMOB_ISC_MSG_LIMIT
      = Inr (fst (ser_isc_msg_limit h d x), 1)"
    by (simp add: fmapi_serialize_ISC_MSG_LIMIT rv)
  moreover have "fmapi_deserialize (Some (OB_ISC_MSG_LIMIT d0)) (fst (ser_isc_msg_limit h d x)) (Some d) FMOB_ISC_MSG_LIMIT param
      = Inr (Some (written_over (OB_ISC_MSG_LIMIT x) (OB_ISC_MSG_LIMIT d0)), 1)"
    by (simp add: fmapi_deserialize_ISC_MSG_LIMIT rt)
  ultimately show ?thesis by blast
qed

lemma roundtrip_ISC_BOS:
  assumes wf: "wf_obj (OB_ISC_BOS x)" and ctx: "ctx_ok param (OB_ISC_BOS x)"
    and sd: "shaped (OB_ISC_BOS d0)"
  shows "\<exists>h' n. fmapi_serialize h (Some d) (Some (OB_ISC_BOS x)) FMOB_ISC_BOS = Inr (h', n)
      \<and> fmapi_deserialize (Some (OB_ISC_BOS d0)) h' (Some d) FMOB_ISC_BOS param
          = Inr (Some (written_over (OB_ISC_BOS x) (OB_ISC_BOS d0)), n)"
proof -
  have rv: "snd (ser_isc_bos h d x) = 8"
    by (simp add: ser_isc_bos_def Let_def fmln_defs)
  have rt: "deser_isc_bos d0 (fst (ser_isc_bos h d x)) d = (x, 8)"
    using wf by (intro rt_isc_bos) (simp_all add: wf_obj_def in_widths_psc_port_info_def)
  have "fmapi_serialize h (Some d) (Some (OB_ISC_BOS x)) FMOB_ISC_BOS
      = Inr (fst (ser_isc_bos h d x), 8)"
    by (simp add: fmapi_serialize_ISC_BOS rv)
  moreover have "fmapi_deserialize (Some (OB_ISC_BOS d0)) (fst (ser_isc_bos h d x)) (Some d) FMOB_ISC_BOS param
      = Inr (Some (written_over (OB_ISC_BOS x) (OB_ISC_BOS d0)), 8)"
    by (simp add: fmapi_deserialize_ISC_BOS rt)
  ultimately show ?thesis by blast
qed

text \<open>All kinds together.\<close>

lemma roundtrip_any:
  assumes kx: "kind_of x = type" and wf: "wf_obj x" and ctx: "ctx_ok param x"
    and kd: "kind_of d0 = type" and sd: "shaped d0"
  shows "\<exists>h' n. fmapi_serialize h (Some d) (Some x) type = Inr (h', n)
      \<and> fmapi_deserialize (Some d0) h' (Some d) type param = Inr (Some (written_over x d0), n)"
proof (cases x)
  case (OB_HDR a)
  have t: "type = FMOB_HDR" using kx OB_HDR by simp
  obtain b where b: "d0 = OB_HDR b" using kind_of_HDR [of d0] kd t by auto
  show ?thesis
    using wf ctx sd unfolding OB_HDR b t by (rule roundtrip_HDR)
next
  case (OB_PSC_ID_RSP a)
  have t: "type = FMOB_PSC_ID_RSP" using kx OB_PSC_ID_RSP by simp
  obtain b where b: "d0 = OB_PSC_ID_RSP b" using kind_of_PSC_ID_RSP [of d0] kd t by auto
  show ?thesis
    using wf ctx sd unfolding OB_PSC_ID_RSP b t by (rule roundtrip_PSC_ID_RSP)
next
  case (OB_PSC_PORT_REQ a)
  have t: "type = FMOB_PSC_PORT_REQ" using kx OB_PSC_PORT_REQ by simp
  obtain b where b: "d0 = OB_PSC_PORT_REQ b" using kind_of_PSC_PORT_REQ [of d0] kd t by auto
  show ?thesis
    using wf ctx sd unfolding OB_PSC_PORT_REQ b t by (rule roundtrip_PSC_PORT_REQ)
next
  case (OB_PSC_PORT_INFO a)
  have t: "type = FMOB_PSC_PORT_INFO" using kx OB_PSC_PORT_INFO by simp
  obtain b where b: "d0 = OB_PSC_PORT_INFO b" using kind_of_PSC_PORT_INFO [of d0] kd t by auto
  show ?thesis
    using wf ctx sd unfolding OB_PSC_PORT_INFO b t by (rule roundtrip_PSC_PORT_INFO)
next
  case (OB_PSC_PORT_RSP a)
  have t: "type = FMOB_PSC_PORT_RSP" using kx OB_PSC_PORT_RSP by simp
  obtain b where b: "d0 = OB_PSC_PORT_RSP b" using kind_of_PSC_PORT_RSP [of d0] kd t by auto
  show ?thesis
    using wf ctx sd unfolding OB_PSC_PORT_RSP b t by (rule roundtrip_PSC_PORT_RSP)
next
  case (OB_PSC_PORT_CTRL_REQ a)
  have t: "type = FMOB_PSC_PORT_CTRL_REQ" using kx OB_PSC_PORT_CTRL_REQ by simp
  obtain b where b: "d0 = OB_PSC_PORT_CTRL_REQ b" using kind_of_PSC_PORT_CTRL_REQ [of d0] kd t by auto
  show ?thesis
    using wf ctx sd unfolding OB_PSC_PORT_CTRL_REQ b t by (rule roundtrip_PSC_PORT_CTRL_REQ)
next
  case (OB_PSC_CFG_REQ a)
  have t: "type = FMOB_PSC_CFG_REQ" using kx OB_PSC_CFG_REQ by simp
  obtain b where b: "d0 = OB_PSC_CFG_REQ b" using kind_of_PSC_CFG_REQ [of d0] kd t by auto
  show ?thesis
    using wf ctx sd unfolding OB_PSC_CFG_REQ b t by (rule roundtrip_PSC_CFG_REQ)
next
  case (OB_PSC_CFG_RSP a)
  have t: "type = FMOB_PSC_CFG_RSP" using kx OB_PSC_CFG_RSP by simp
  obtain b where b: "d0 = OB_PSC_CFG_RSP b" using kind_of_PSC_CFG_RSP [of d0] kd t by auto
  show ?thesis
    using wf ctx sd unfolding OB_PSC_CFG_RSP b t by (rule roundtrip_PSC_CFG_RSP)
next
  case (OB_VSC_INFO_REQ a)
  have t: "type = FMOB_VSC_INFO_REQ" using kx OB_VSC_INFO_REQ by simp
  obtain b where b: "d0 = OB_VSC_INFO_REQ b" using kind_of_VSC_INFO_REQ [of d0] kd t by auto
  show ?thesis
    using wf ctx sd unfolding OB_VSC_INFO_REQ b t by (rule roundtrip_VSC_INFO_REQ)
next
  case (OB_VSC_PPB_STAT_BLK a)
  have t: "type = FMOB_VSC_PPB_STAT_BLK" using kx OB_VSC_PPB_STAT_BLK by simp
  obtain b where b: "d0 = OB_VSC_PPB_STAT_BLK b" using kind_of_VSC_PPB_STAT_BLK [of d0] kd t by auto
  show ?thesis
    using wf ctx sd unfolding OB_VSC_PPB_STAT_BLK b t by (rule roundtrip_VSC_PPB_STAT_BLK)
next
  case (OB_VSC_INFO_BLK a)
  have t: "type = FMOB_VSC_INFO_BLK" using kx OB_VSC_INFO_BLK by simp
  obtain b where b: "d0 = OB_VSC_INFO_BLK b" using kind_of_VSC_INFO_BLK [of d0] kd t by auto
  show ?thesis
    using wf ctx sd unfolding OB_VSC_INFO_BLK b t by (rule roundtrip_VSC_INFO_BLK)
next
  case (OB_VSC_INFO_RSP a)
  have t: "type = FMOB_VSC_INFO_RSP" using kx OB_VSC_INFO_RSP by simp
  obtain b where b: "d0 = OB_VSC_INFO_RSP b" using kind_of_VSC_INFO_RSP [of d0] kd t by auto
  show ?thesis
    using wf ctx sd unfolding OB_VSC_INFO_RSP b t by (rule roundtrip_VSC_INFO_RSP)
next
  case (OB_VSC_BIND_REQ a)
  have t: "type = FMOB_VSC_BIND_REQ" using kx OB_VSC_BIND_REQ by simp
  obtain b where b: "d0 = OB_VSC_BIND_REQ b" using kind_of_VSC_BIND_REQ [of d0] kd t by auto
  show ?thesis
    using wf ctx sd unfolding OB_VSC_BIND_REQ b t by (rule roundtrip_VSC_BIND_REQ)
next
  case (OB_VSC_UNBIND_REQ a)
  have t: "type = FMOB_VSC_UNBIND_REQ" using kx OB_VSC_UNBIND_REQ by simp
  obtain b where b: "d0 = OB_VSC_UNBIND_REQ b" using kind_of_VSC_UNBIND_REQ [of d0] kd t by auto
  show ?thesis
    using wf ctx sd unfolding OB_VSC_UNBIND_REQ b t by (rule roundtrip_VSC_UNBIND_REQ)
next
  case (OB_VSC_AER_REQ a)
  have t: "type = FMOB_VSC_AER_REQ" using kx OB_VSC_AER_REQ by simp
  obtain b where b: "d0 = OB_VSC_AER_REQ b" using kind_of_VSC_AER_REQ [of d0] kd t by auto
  show ?thesis
    using wf ctx sd unfolding OB_VSC_AER_REQ b t by (rule roundtrip_VSC_AER_REQ)
next
  case (OB_MPC_TMC_REQ a)
  have t: "type = FMOB_MPC_TMC_REQ" using kx OB_MPC_TMC_REQ by simp
  obtain b where b: "d0 = OB_MPC_TMC_REQ b" using kind_of_MPC_TMC_REQ [of d0] kd t by auto
  show ?thesis
    using wf ctx sd unfolding OB_MPC_TMC_REQ b t by (rule roundtrip_MPC_TMC_REQ)
next
  case (OB_MPC_TMC_RSP a)
  have t: "type = FMOB_MPC_TMC_RSP" using kx OB_MPC_TMC_RSP by simp
  obtain b where b: "d0 = OB_MPC_TMC_RSP b" using kind_of_MPC_TMC_RSP [of d0] kd t by auto
  show ?thesis
    using wf ctx sd unfolding OB_MPC_TMC_RSP b t by (rule roundtrip_MPC_TMC_RSP)
next
  case (OB_MPC_CFG_REQ a)
  have t: "type = FMOB_MPC_CFG_REQ" using kx OB_MPC_CFG_REQ by simp
  obtain b where b: "d0 = OB_MPC_CFG_REQ b" using kind_of_MPC_CFG_REQ [of d0] kd t by auto
  show ?thesis
    using wf ctx sd unfolding OB_MPC_CFG_REQ b t by (rule roundtrip_MPC_CFG_REQ)
next
  case (OB_MPC_CFG_RSP a)
  have t: "type = FMOB_MPC_CFG_RSP" using kx OB_MPC_CFG_RSP by simp
  obtain b where b: "d0 = OB_MPC_CFG_RSP b" using kind_of_MPC_CFG_RSP [of d0] kd t by auto
  show ?thesis
    using wf ctx sd unfolding OB_MPC_CFG_RSP b t by (rule roundtrip_MPC_CFG_RSP)
next
  case (OB_MPC_MEM_REQ a)
  have t: "type = FMOB_MPC_MEM_REQ" using kx OB_MPC_MEM_REQ by simp
  obtain b where b: "d0 = OB_MPC_MEM_REQ b" using kind_of_MPC_MEM_REQ [of d0] kd t by auto
  show ?thesis
    using wf ctx sd unfolding OB_MPC_MEM_REQ b t by (rule roundtrip_MPC_MEM_REQ)
next
  case (OB_MPC_MEM_RSP a)
  have t: "type = FMOB_MPC_MEM_RSP" using kx OB_MPC_MEM_RSP by simp
  obtain b where b: "d0 = OB_MPC_MEM_RSP b" using kind_of_MPC_MEM_RSP [of d0] kd t by auto
  show ?thesis
    using wf ctx sd unfolding OB_MPC_MEM_RSP b t by (rule roundtrip_MPC_MEM_RSP)
next
  case (OB_MCC_INFO_RSP a)
  have t: "type = FMOB_MCC_INFO_RSP" using kx OB_MCC_INFO_RSP by simp
  obtain b where b: "d0 = OB_MCC_INFO_RSP b" using kind_of_MCC_INFO_RSP [of d0] kd t by auto
  show ?thesis
    using wf ctx sd unfolding OB_MCC_INFO_RSP b t by (rule roundtrip_MCC_INFO_RSP)
next
  case (OB_MCC_ALLOC_BLK a)
  have t: "type = FMOB_MCC_ALLOC_BLK" using kx OB_MCC_ALLOC_BLK by simp
  obtain b where b: "d0 = OB_MCC_ALLOC_BLK b" using kind_of_MCC_ALLOC_BLK [of d0] kd t by auto
  show ?thesis
    using wf ctx sd unfolding OB_MCC_ALLOC_BLK b t by (rule roundtrip_MCC_ALLOC_BLK)
next
  case (OB_MCC_ALLOC_GET_REQ a)
  have t: "type = FMOB_MCC_ALLOC_GET_REQ" using kx OB_MCC_ALLOC_GET_REQ by simp
  obtain b where b: "d0 = OB_MCC_ALLOC_GET_REQ b" using kind_of_MCC_ALLOC_GET_REQ [of d0] kd t by auto
  show ?thesis
    using wf ctx sd unfolding OB_MCC_ALLOC_GET_REQ b t by (rule roundtrip_MCC_ALLOC_GET_REQ)
next
  case (OB_MCC_ALLOC_GET_RSP a)
  have t: "type = FMOB_MCC_ALLOC_GET_RSP" using kx OB_MCC_ALLOC_GET_RSP by simp
  obtain b where b: "d0 = OB_MCC_ALLOC_GET_RSP b" using kind_of_MCC_ALLOC_GET_RSP [of d0] kd t by auto
  show ?thesis
    using wf ctx sd unfolding OB_MCC_ALLOC_GET_RSP b t by (rule roundtrip_MCC_ALLOC_GET_RSP)
next
  case (OB_MCC_ALLOC_SET_REQ a)
  have t: "type = FMOB_MCC_ALLOC_SET_REQ" using kx OB_MCC_ALLOC_SET_REQ by simp
  obtain b where b: "d0 = OB_MCC_ALLOC_SET_REQ b" using kind_of_MCC_ALLOC_SET_REQ [of d0] kd t by auto
  show ?thesis
    using wf ctx sd unfolding OB_MCC_ALLOC_SET_REQ b t by (rule roundtrip_MCC_ALLOC_SET_REQ)
next
  case (OB_MCC_ALLOC_SET_RSP a)
  have t: "type = FMOB_MCC_ALLOC_SET_RSP" using kx OB_MCC_ALLOC_SET_RSP by simp
  obtain b where b: "d0 = OB_MCC_ALLOC_SET_RSP b" using kind_of_MCC_ALLOC_SET_RSP [of d0] kd t by auto
  show ?thesis
    using wf ctx sd unfolding OB_MCC_ALLOC_SET_RSP b t by (rule roundtrip_MCC_ALLOC_SET_RSP)
next
  case (OB_MCC_QOS_CTRL a)
  have t: "type = FMOB_MCC_QOS_CTRL" using kx OB_MCC_QOS_CTRL by simp
  obtain b where b: "d0 = OB_MCC_QOS_CTRL b" using kind_of_MCC_QOS_CTRL [of d0] kd t by auto
  show ?thesis
    using wf ctx sd unfolding OB_MCC_QOS_CTRL b t by (rule roundtrip_MCC_QOS_CTRL)
next
  case (OB_MCC_QOS_STAT_RSP a)
  have t: "type = FMOB_MCC_QOS_STAT_RSP" using kx OB_MCC_QOS_STAT_RSP by simp
  obtain b where b: "d0 = OB_MCC_QOS_STAT_RSP b" using kind_of_MCC_QOS_STAT_RSP [of d0] kd t by auto
  show ?thesis
    using wf ctx sd unfolding OB_MCC_QOS_STAT_RSP b t by (rule roundtrip_MCC_QOS_STAT_RSP)
next
  case (OB_MCC_QOS_BW_GET_REQ a)
  have t: "type = FMOB_MCC_QOS_BW_GET_REQ" using kx OB_MCC_QOS_BW_GET_REQ by simp
  obtain b where b: "d0 = OB_MCC_QOS_BW_GET_REQ b" using kind_of_MCC_QOS_BW_GET_REQ [of d0] kd t by auto
  show ?thesis
    using wf ctx sd unfolding OB_MCC_QOS_BW_GET_REQ b t by (rule roundtrip_MCC_QOS_BW_GET_REQ)
next
  case (OB_MCC_QOS_BW_ALLOC a)
  have t: "type = FMOB_MCC_QOS_BW_ALLOC" using kx OB_MCC_QOS_BW_ALLOC by simp
  obtain b where b: "d0 = OB_MCC_QOS_BW_ALLOC b" using kind_of_MCC_QOS_BW_ALLOC [of d0] kd t by auto
  show ?thesis
    using wf ctx sd unfolding OB_MCC_QOS_BW_ALLOC b t by (rule roundtrip_MCC_QOS_BW_ALLOC)
next
  case (OB_MCC_QOS_BW_LIMIT_GET_REQ a)
  have t: "type = FMOB_MCC_QOS_BW_LIMIT_GET_REQ" using kx OB_MCC_QOS_BW_LIMIT_GET_REQ by simp
  obtain b where b: "d0 = OB_MCC_QOS_BW_LIMIT_GET_REQ b" using kind_of_MCC_QOS_BW_LIMIT_GET_REQ [of d0] kd t by auto
  show ?thesis
    using wf ctx sd unfolding OB_MCC_QOS_BW_LIMIT_GET_REQ b t by (rule roundtrip_MCC_QOS_BW_LIMIT_GET_REQ)
next
  case (OB_MCC_QOS_BW_LIMIT a)
  have t: "type = FMOB_MCC_QOS_BW_LIMIT" using kx OB_MCC_QOS_BW_LIMIT by simp
  obtain b where b: "d0 = OB_MCC_QOS_BW_LIMIT b" using kind_of_MCC_QOS_BW_LIMIT [of d0] kd t by auto
  show ?thesis
    using wf ctx sd unfolding OB_MCC_QOS_BW_LIMIT b t by (rule roundtrip_MCC_QOS_BW_LIMIT)
next
  case (OB_ISC_ID_RSP a)
  have t: "type = FMOB_ISC_ID_RSP" using kx OB_ISC_ID_RSP by simp
  obtain b where b: "d0 = OB_ISC_ID_RSP b" using kind_of_ISC_ID_RSP [of d0] kd t by auto
  show ?thesis
    using wf ctx sd unfolding OB_ISC_ID_RSP b t by (rule roundtrip_ISC_ID_RSP)
next
  case (OB_ISC_MSG_LIMIT a)
  have t: "type = FMOB_ISC_MSG_LIMIT" using kx OB_ISC_MSG_LIMIT by simp
  obtain b where b: "d0 = OB_ISC_MSG_LIMIT b" using kind_of_ISC_MSG_LIMIT [of d0] kd t by auto
  show ?thesis
    using wf ctx sd unfolding OB_ISC_MSG_LIMIT b t by (rule roundtrip_ISC_MSG_LIMIT)
next
  case (OB_ISC_BOS a)
  have t: "type = FMOB_ISC_BOS" using kx OB_ISC_BOS by simp
  obtain b where b: "d0 = OB_ISC_BOS b" using kind_of_ISC_BOS [of d0] kd t by auto
  show ?thesis
    using wf ctx sd unfolding OB_ISC_BOS b t by (rule roundtrip_ISC_BOS)
qed

text \<open>
  What the decoded object has in common with the encoded one: its logical content,
  and everything when the destination held the entries of \<open>x\<close> beyond the counts.
\<close>

lemma logical_written_over_vsc_info_blk:
  "shaped_vsc_info_blk x \<Longrightarrow>
   logical_vsc_info_blk (written_over_vsc_info_blk x y) = logical_vsc_info_blk x"
  using unat_u8_le [of "vib_num x"]
  by (cases x)
    (simp add: logical_vsc_info_blk_def written_over_vsc_info_blk_def shaped_vsc_info_blk_def
      fm_max_defs)

lemma map_logical_written_over:
  "list_all shaped_vsc_info_blk xs \<Longrightarrow> length ys = length xs \<Longrightarrow>
   map logical_vsc_info_blk (map2 written_over_vsc_info_blk xs ys) = map logical_vsc_info_blk xs"
proof (induction xs arbitrary: ys)
  case Nil
  then show ?case by simp
next
  case (Cons x xs)
  then obtain y ys' where ys: "ys = y # ys'" by (cases ys) auto
  show ?case
    using Cons ys by (simp add: logical_written_over_vsc_info_blk)
qed

lemma written_over_vsc_info_blk_agree:
  "agree_beyond_vsc_info_blk x y \<Longrightarrow> written_over_vsc_info_blk x y = x"
  by (cases x) (simp add: agree_beyond_vsc_info_blk_def written_over_vsc_info_blk_def)

lemma map2_written_over_agree:
  "list_all2 agree_beyond_vsc_info_blk xs ys \<Longrightarrow> map2 written_over_vsc_info_blk xs ys = xs"
  by (induction rule: list_all2_induct) (simp_all add: written_over_vsc_info_blk_agree)

lemma logical_written_over:
  assumes wf: "wf_obj x" and kd: "kind_of d0 = kind_of x" and sd: "shaped d0"
  shows "logical (written_over x d0) = logical x"
proof (cases x)
  case (OB_HDR a)
  obtain b where b: "d0 = OB_HDR b" using kind_of_HDR [of d0] kd OB_HDR by auto
  show ?thesis
    unfolding OB_HDR b by simp
next
  case (OB_PSC_ID_RSP a)
  obtain b where b: "d0 = OB_PSC_ID_RSP b" using kind_of_PSC_ID_RSP [of d0] kd OB_PSC_ID_RSP by auto
  show ?thesis
    unfolding OB_PSC_ID_RSP b by simp
next
  case (OB_PSC_PORT_REQ a)
  obtain b where b: "d0 = OB_PSC_PORT_REQ b" using kind_of_PSC_PORT_REQ [of d0] kd OB_PSC_PORT_REQ by auto
  show ?thesis
    using wf sd unat_u8_le [of "ppr_num a"] unfolding OB_PSC_PORT_REQ b
    by (simp add: wf_obj_def fm_max_defs fmln_defs)
next
  case (OB_PSC_PORT_INFO a)
  obtain b where b: "d0 = OB_PSC_PORT_INFO b" using kind_of_PSC_PORT_INFO [of d0] kd OB_PSC_PORT_INFO by auto
  show ?thesis
    unfolding OB_PSC_PORT_INFO b by simp
next
  case (OB_PSC_PORT_RSP a)
  obtain b where b: "d0 = OB_PSC_PORT_RSP b" using kind_of_PSC_PORT_RSP [of d0] kd OB_PSC_PORT_RSP by auto
  show ?thesis
    using wf sd unat_u8_le [of "prs_num a"] unfolding OB_PSC_PORT_RSP b
    by (simp add: wf_obj_def fm_max_defs fmln_defs)
next
  case (OB_PSC_PORT_CTRL_REQ a)
  obtain b where b: "d0 = OB_PSC_PORT_CTRL_REQ b" using kind_of_PSC_PORT_CTRL_REQ [of d0] kd OB_PSC_PORT_CTRL_REQ by auto
  show ?thesis
    unfolding OB_PSC_PORT_CTRL_REQ b by simp
next
  case (OB_PSC_CFG_REQ a)
  obtain b where b: "d0 = OB_PSC_CFG_REQ b" using kind_of_PSC_CFG_REQ [of d0] kd OB_PSC_CFG_REQ by auto
  show ?thesis
    unfolding OB_PSC_CFG_REQ b by simp
next
  case (OB_PSC_CFG_RSP a)
  obtain b where b: "d0 = OB_PSC_CFG_RSP b" using kind_of_PSC_CFG_RSP [of d0] kd OB_PSC_CFG_RSP by auto
  show ?thesis
    unfolding OB_PSC_CFG_RSP b by simp
next
  case (OB_VSC_INFO_REQ a)
  obtain b where b: "d0 = OB_VSC_INFO_REQ b" using kind_of_VSC_INFO_REQ [of d0] kd OB_VSC_INFO_REQ by auto
  show ?thesis
    using wf sd unat_u8_le [of "vir_num a"] unfolding OB_VSC_INFO_REQ b
    by (simp add: wf_obj_def fm_max_defs fmln_defs)
next
  case (OB_VSC_PPB_STAT_BLK a)
  obtain b where b: "d0 = OB_VSC_PPB_STAT_BLK b" using kind_of_VSC_PPB_STAT_BLK [of d0] kd OB_VSC_PPB_STAT_BLK by auto
  show ?thesis
    unfolding OB_VSC_PPB_STAT_BLK b by simp
next
  case (OB_VSC_INFO_BLK a)
  obtain b where b: "d0 = OB_VSC_INFO_BLK b" using kind_of_VSC_INFO_BLK [of d0] kd OB_VSC_INFO_BLK by auto
  show ?thesis
    using wf unfolding OB_VSC_INFO_BLK b
    by (simp add: wf_obj_def logical_written_over_vsc_info_blk)
next
  case (OB_VSC_INFO_RSP a)
  obtain b where b: "d0 = OB_VSC_INFO_RSP b" using kind_of_VSC_INFO_RSP [of d0] kd OB_VSC_INFO_RSP by auto
  show ?thesis
  proof -
    let ?n = "unat (vis_num a)"
    have n: "?n \<le> 7" "length (vis_list a) = 7" "length (vis_list b) = 7"
        and sh: "list_all shaped_vsc_info_blk (vis_list a)"
      using wf sd unfolding OB_VSC_INFO_RSP b by (simp_all add: wf_obj_def fm_max_defs)
    have sh': "list_all shaped_vsc_info_blk (take ?n (vis_list a))"
      using sh by (auto simp: list_all_iff dest: in_set_takeD)
    have l: "length (take ?n (vis_list b)) = length (take ?n (vis_list a))"
      using n by simp
    have m: "map logical_vsc_info_blk
          (map2 written_over_vsc_info_blk (take ?n (vis_list a)) (take ?n (vis_list b)))
        = map logical_vsc_info_blk (take ?n (vis_list a))"
      by (rule map_logical_written_over [OF sh' l])
    show ?thesis
      unfolding OB_VSC_INFO_RSP b using n m by simp
  qed
next
  case (OB_VSC_BIND_REQ a)
  obtain b where b: "d0 = OB_VSC_BIND_REQ b" using kind_of_VSC_BIND_REQ [of d0] kd OB_VSC_BIND_REQ by auto
  show ?thesis
    unfolding OB_VSC_BIND_REQ b by simp
next
  case (OB_VSC_UNBIND_REQ a)
  obtain b where b: "d0 = OB_VSC_UNBIND_REQ b" using kind_of_VSC_UNBIND_REQ [of d0] kd OB_VSC_UNBIND_REQ by auto
  show ?thesis
    unfolding OB_VSC_UNBIND_REQ b by simp
next
  case (OB_VSC_AER_REQ a)
  obtain b where b: "d0 = OB_VSC_AER_REQ b" using kind_of_VSC_AER_REQ [of d0] kd OB_VSC_AER_REQ by auto
  show ?thesis
    unfolding OB_VSC_AER_REQ b by simp
next
  case (OB_MPC_TMC_REQ a)
  obtain b where b: "d0 = OB_MPC_TMC_REQ b" using kind_of_MPC_TMC_REQ [of d0] kd OB_MPC_TMC_REQ by auto
  show ?thesis
    using wf sd unfolding OB_MPC_TMC_REQ b
    by (simp add: wf_obj_def fm_max_defs fmln_defs)
next
  case (OB_MPC_TMC_RSP a)
  obtain b where b: "d0 = OB_MPC_TMC_RSP b" using kind_of_MPC_TMC_RSP [of d0] kd OB_MPC_TMC_RSP by auto
  show ?thesis
    using wf sd unfolding OB_MPC_TMC_RSP b
    by (simp add: wf_obj_def fm_max_defs fmln_defs)
next
  case (OB_MPC_CFG_REQ a)
  obtain b where b: "d0 = OB_MPC_CFG_REQ b" using kind_of_MPC_CFG_REQ [of d0] kd OB_MPC_CFG_REQ by auto
  show ?thesis
    unfolding OB_MPC_CFG_REQ b by simp
next
  case (OB_MPC_CFG_RSP a)
  obtain b where b: "d0 = OB_MPC_CFG_RSP b" using kind_of_MPC_CFG_RSP [of d0] kd OB_MPC_CFG_RSP by auto
  show ?thesis
    unfolding OB_MPC_CFG_RSP b by simp
next
  case (OB_MPC_MEM_REQ a)
  obtain b where b: "d0 = OB_MPC_MEM_REQ b" using kind_of_MPC_MEM_REQ [of d0] kd OB_MPC_MEM_REQ by auto
  show ?thesis
    using wf sd unfolding OB_MPC_MEM_REQ b
    by (simp add: wf_obj_def fm_max_defs fmln_defs)
next
  case (OB_MPC_MEM_RSP a)
  obtain b where b: "d0 = OB_MPC_MEM_RSP b" using kind_of_MPC_MEM_RSP [of d0] kd OB_MPC_MEM_RSP by auto
  show ?thesis
    using wf sd unfolding OB_MPC_MEM_RSP b
    by (simp add: wf_obj_def fm_max_defs fmln_defs)
next
  case (OB_MCC_INFO_RSP a)
  obtain b where b: "d0 = OB_MCC_INFO_RSP b" using kind_of_MCC_INFO_RSP [of d0] kd OB_MCC_INFO_RSP by auto
  show ?thesis
    unfolding OB_MCC_INFO_RSP b by simp
next
  case (OB_MCC_ALLOC_BLK a)
  obtain b where b: "d0 = OB_MCC_ALLOC_BLK b" using kind_of_MCC_ALLOC_BLK [of d0] kd OB_MCC_ALLOC_BLK by auto
  show ?thesis
    unfolding OB_MCC_ALLOC_BLK b by simp
next
  case (OB_MCC_ALLOC_GET_REQ a)
  obtain b where b: "d0 = OB_MCC_ALLOC_GET_REQ b" using kind_of_MCC_ALLOC_GET_REQ [of d0] kd OB_MCC_ALLOC_GET_REQ by auto
  show ?thesis
    unfolding OB_MCC_ALLOC_GET_REQ b by simp
next
  case (OB_MCC_ALLOC_GET_RSP a)
  obtain b where b: "d0 = OB_MCC_ALLOC_GET_RSP b" using kind_of_MCC_ALLOC_GET_RSP [of d0] kd OB_MCC_ALLOC_GET_RSP by auto
  show ?thesis
    using wf sd unat_u8_le [of "ags_num a"] unfolding OB_MCC_ALLOC_GET_RSP b
    by (simp add: wf_obj_def fm_max_defs fmln_defs)
next
  case (OB_MCC_ALLOC_SET_REQ a)
  obtain b where b: "d0 = OB_MCC_ALLOC_SET_REQ b" using kind_of_MCC_ALLOC_SET_REQ [of d0] kd OB_MCC_ALLOC_SET_REQ by auto
  show ?thesis
    using wf sd unat_u8_le [of "asq_num a"] unfolding OB_MCC_ALLOC_SET_REQ b
    by (simp add: wf_obj_def fm_max_defs fmln_defs)
next
  case (OB_MCC_ALLOC_SET_RSP a)
  obtain b where b: "d0 = OB_MCC_ALLOC_SET_RSP b" using kind_of_MCC_ALLOC_SET_RSP [of d0] kd OB_MCC_ALLOC_SET_RSP by auto
  show ?thesis
    using wf sd unat_u8_le [of "ass_num a"] unfolding OB_MCC_ALLOC_SET_RSP b
    by (simp add: wf_obj_def fm_max_defs fmln_defs)
next
  case (OB_MCC_QOS_CTRL a)
  obtain b where b: "d0 = OB_MCC_QOS_CTRL b" using kind_of_MCC_QOS_CTRL [of d0] kd OB_MCC_QOS_CTRL by auto
  show ?thesis
    unfolding OB_MCC_QOS_CTRL b by simp
next
  case (OB_MCC_QOS_STAT_RSP a)
  obtain b where b: "d0 = OB_MCC_QOS_STAT_RSP b" using kind_of_MCC_QOS_STAT_RSP [of d0] kd OB_MCC_QOS_STAT_RSP by auto
  show ?thesis
    unfolding OB_MCC_QOS_STAT_RSP b by simp
next
  case (OB_MCC_QOS_BW_GET_REQ a)
  obtain b where b: "d0 = OB_MCC_QOS_BW_GET_REQ b" using kind_of_MCC_QOS_BW_GET_REQ [of d0] kd OB_MCC_QOS_BW_GET_REQ by auto
  show ?thesis
    unfolding OB_MCC_QOS_BW_GET_REQ b by simp
next
  case (OB_MCC_QOS_BW_ALLOC a)
  obtain b where b: "d0 = OB_MCC_QOS_BW_ALLOC b" using kind_of_MCC_QOS_BW_ALLOC [of d0] kd OB_MCC_QOS_BW_ALLOC by auto
  show ?thesis
    using wf sd unat_u8_le [of "qba_num a"] unfolding OB_MCC_QOS_BW_ALLOC b
    by (simp add: wf_obj_def fm_max_defs fmln_defs)
next
  case (OB_MCC_QOS_BW_LIMIT_GET_REQ a)
  obtain b where b: "d0 = OB_MCC_QOS_BW_LIMIT_GET_REQ b" using kind_of_MCC_QOS_BW_LIMIT_GET_REQ [of d0] kd OB_MCC_QOS_BW_LIMIT_GET_REQ by auto
  show ?thesis
    unfolding OB_MCC_QOS_BW_LIMIT_GET_REQ b by simp
next
  case (OB_MCC_QOS_BW_LIMIT a)
  obtain b where b: "d0 = OB_MCC_QOS_BW_LIMIT b" using kind_of_MCC_QOS_BW_LIMIT [of d0] kd OB_MCC_QOS_BW_LIMIT by auto
  show ?thesis
    using wf sd unat_u8_le [of "qbl_num a"] unfolding OB_MCC_QOS_BW_LIMIT b
    by (simp add: wf_obj_def fm_max_defs fmln_defs)
next
  case (OB_ISC_ID_RSP a)
  obtain b where b: "d0 = OB_ISC_ID_RSP b" using kind_of_ISC_ID_RSP [of d0] kd OB_ISC_ID_RSP by auto
  show ?thesis
    unfolding OB_ISC_ID_RSP b by simp
next
  case (OB_ISC_MSG_LIMIT a)
  obtain b where b: "d0 = OB_ISC_MSG_LIMIT b" using kind_of_ISC_MSG_LIMIT [of d0] kd OB_ISC_MSG_LIMIT by auto
  show ?thesis
    unfolding OB_ISC_MSG_LIMIT b by simp
next
  case (OB_ISC_BOS a)
  obtain b where b: "d0 = OB_ISC_BOS b" using kind_of_ISC_BOS [of d0] kd OB_ISC_BOS by auto
  show ?thesis
    unfolding OB_ISC_BOS b by simp
qed

lemma written_over_agree:
  assumes ag: "agree_beyond x d0" and kd: "kind_of d0 = kind_of x"
  shows "written_over x d0 = x"
proof (cases x)
  case (OB_HDR a)
  obtain b where b: "d0 = OB_HDR b" using kind_of_HDR [of d0] kd OB_HDR by auto
  show ?thesis
    unfolding OB_HDR b by simp
next
  case (OB_PSC_ID_RSP a)
  obtain b where b: "d0 = OB_PSC_ID_RSP b" using kind_of_PSC_ID_RSP [of d0] kd OB_PSC_ID_RSP by auto
  show ?thesis
    unfolding OB_PSC_ID_RSP b by simp
next
  case (OB_PSC_PORT_REQ a)
  obtain b where b: "d0 = OB_PSC_PORT_REQ b" using kind_of_PSC_PORT_REQ [of d0] kd OB_PSC_PORT_REQ by auto
  show ?thesis
    using ag unfolding OB_PSC_PORT_REQ b by (cases a) simp
next
  case (OB_PSC_PORT_INFO a)
  obtain b where b: "d0 = OB_PSC_PORT_INFO b" using kind_of_PSC_PORT_INFO [of d0] kd OB_PSC_PORT_INFO by auto
  show ?thesis
    unfolding OB_PSC_PORT_INFO b by simp
next
  case (OB_PSC_PORT_RSP a)
  obtain b where b: "d0 = OB_PSC_PORT_RSP b" using kind_of_PSC_PORT_RSP [of d0] kd OB_PSC_PORT_RSP by auto
  show ?thesis
    using ag unfolding OB_PSC_PORT_RSP b by (cases a) simp
next
  case (OB_PSC_PORT_CTRL_REQ a)
  obtain b where b: "d0 = OB_PSC_PORT_CTRL_REQ b" using kind_of_PSC_PORT_CTRL_REQ [of d0] kd OB_PSC_PORT_CTRL_REQ by auto
  show ?thesis
    unfolding OB_PSC_PORT_CTRL_REQ b by simp
next
  case (OB_PSC_CFG_REQ a)
  obtain b where b: "d0 = OB_PSC_CFG_REQ b" using kind_of_PSC_CFG_REQ [of d0] kd OB_PSC_CFG_REQ by auto
  show ?thesis
    unfolding OB_PSC_CFG_REQ b by simp
next
  case (OB_PSC_CFG_RSP a)
  obtain b where b: "d0 = OB_PSC_CFG_RSP b" using kind_of_PSC_CFG_RSP [of d0] kd OB_PSC_CFG_RSP by auto
  show ?thesis
    unfolding OB_PSC_CFG_RSP b by simp
next
  case (OB_VSC_INFO_REQ a)
  obtain b where b: "d0 = OB_VSC_INFO_REQ b" using kind_of_VSC_INFO_REQ [of d0] kd OB_VSC_INFO_REQ by auto
  show ?thesis
    using ag unfolding OB_VSC_INFO_REQ b by (cases a) simp
next
  case (OB_VSC_PPB_STAT_BLK a)
  obtain b where b: "d0 = OB_VSC_PPB_STAT_BLK b" using kind_of_VSC_PPB_STAT_BLK [of d0] kd OB_VSC_PPB_STAT_BLK by auto
  show ?thesis
    unfolding OB_VSC_PPB_STAT_BLK b by simp
next
  case (OB_VSC_INFO_BLK a)
  obtain b where b: "d0 = OB_VSC_INFO_BLK b" using kind_of_VSC_INFO_BLK [of d0] kd OB_VSC_INFO_BLK by auto
  show ?thesis
    using ag unfolding OB_VSC_INFO_BLK b by (simp add: written_over_vsc_info_blk_agree)
next
  case (OB_VSC_INFO_RSP a)
  obtain b where b: "d0 = OB_VSC_INFO_RSP b" using kind_of_VSC_INFO_RSP [of d0] kd OB_VSC_INFO_RSP by auto
  show ?thesis
    using ag unfolding OB_VSC_INFO_RSP b by (cases a) (simp add: map2_written_over_agree)
next
  case (OB_VSC_BIND_REQ a)
  obtain b where b: "d0 = OB_VSC_BIND_REQ b" using kind_of_VSC_BIND_REQ [of d0] kd OB_VSC_BIND_REQ by auto
  show ?thesis
    unfolding OB_VSC_BIND_REQ b by simp
next
  case (OB_VSC_UNBIND_REQ a)
  obtain b where b: "d0 = OB_VSC_UNBIND_REQ b" using kind_of_VSC_UNBIND_REQ [of d0] kd OB_VSC_UNBIND_REQ by auto
  show ?thesis
    unfolding OB_VSC_UNBIND_REQ b by simp
next
  case (OB_VSC_AER_REQ a)
  obtain b where b: "d0 = OB_VSC_AER_REQ b" using kind_of_VSC_AER_REQ [of d0] kd OB_VSC_AER_REQ by auto
  show ?thesis
    unfolding OB_VSC_AER_REQ b by simp
next
  case (OB_MPC_TMC_REQ a)
  obtain b where b: "d0 = OB_MPC_TMC_REQ b" using kind_of_MPC_TMC_REQ [of d0] kd OB_MPC_TMC_REQ by auto
  show ?thesis
    using ag unfolding OB_MPC_TMC_REQ b by (cases a) simp
next
  case (OB_MPC_TMC_RSP a)
  obtain b where b: "d0 = OB_MPC_TMC_RSP b" using kind_of_MPC_TMC_RSP [of d0] kd OB_MPC_TMC_RSP by auto
  show ?thesis
    using ag unfolding OB_MPC_TMC_RSP b by (cases a) simp
next
  case (OB_MPC_CFG_REQ a)
  obtain b where b: "d0 = OB_MPC_CFG_REQ b" using kind_of_MPC_CFG_REQ [of d0] kd OB_MPC_CFG_REQ by auto
  show ?thesis
    unfolding OB_MPC_CFG_REQ b by simp
next
  case (OB_MPC_CFG_RSP a)
  obtain b where b: "d0 = OB_MPC_CFG_RSP b" using kind_of_MPC_CFG_RSP [of d0] kd OB_MPC_CFG_RSP by auto
  show ?thesis
    unfolding OB_MPC_CFG_RSP b by simp
next
  case (OB_MPC_MEM_REQ a)
  obtain b where b: "d0 = OB_MPC_MEM_REQ b" using kind_of_MPC_MEM_REQ [of d0] kd OB_MPC_MEM_REQ by auto
  show ?thesis
    using ag unfolding OB_MPC_MEM_REQ b by (cases a) simp
next
  case (OB_MPC_MEM_RSP a)
  obtain b where b: "d0 = OB_MPC_MEM_RSP b" using kind_of_MPC_MEM_RSP [of d0] kd OB_MPC_MEM_RSP by auto
  show ?thesis
    using ag unfolding OB_MPC_MEM_RSP b by (cases a) simp
next
  case (OB_MCC_INFO_RSP a)
  obtain b where b: "d0 = OB_MCC_INFO_RSP b" using kind_of_MCC_INFO_RSP [of d0] kd OB_MCC_INFO_RSP by auto
  show ?thesis
    unfolding OB_MCC_INFO_RSP b by simp
next
  case (OB_MCC_ALLOC_BLK a)
  obtain b where b: "d0 = OB_MCC_ALLOC_BLK b" using kind_of_MCC_ALLOC_BLK [of d0] kd OB_MCC_ALLOC_BLK by auto
  show ?thesis
    unfolding OB_MCC_ALLOC_BLK b by simp
next
  case (OB_MCC_ALLOC_GET_REQ a)
  obtain b where b: "d0 = OB_MCC_ALLOC_GET_REQ b" using kind_of_MCC_ALLOC_GET_REQ [of d0] kd OB_MCC_ALLOC_GET_REQ by auto
  show ?thesis
    unfolding OB_MCC_ALLOC_GET_REQ b by simp
next
  case (OB_MCC_ALLOC_GET_RSP a)
  obtain b where b: "d0 = OB_MCC_ALLOC_GET_RSP b" using kind_of_MCC_ALLOC_GET_RSP [of d0] kd OB_MCC_ALLOC_GET_RSP by auto
  show ?thesis
    using ag unfolding OB_MCC_ALLOC_GET_RSP b by (cases a) simp
next
  case (OB_MCC_ALLOC_SET_REQ a)
  obtain b where b: "d0 = OB_MCC_ALLOC_SET_REQ b" using kind_of_MCC_ALLOC_SET_REQ [of d0] kd OB_MCC_ALLOC_SET_REQ by auto
  show ?thesis
    using ag unfolding OB_MCC_ALLOC_SET_REQ b by (cases a) simp
next
  case (OB_MCC_ALLOC_SET_RSP a)
  obtain b where b: "d0 = OB_MCC_ALLOC_SET_RSP b" using kind_of_MCC_ALLOC_SET_RSP [of d0] kd OB_MCC_ALLOC_SET_RSP by auto
  show ?thesis
    using ag unfolding OB_MCC_ALLOC_SET_RSP b by (cases a) simp
next
  case (OB_MCC_QOS_CTRL a)
  obtain b where b: "d0 = OB_MCC_QOS_CTRL b" using kind_of_MCC_QOS_CTRL [of d0] kd OB_MCC_QOS_CTRL by auto
  show ?thesis
    unfolding OB_MCC_QOS_CTRL b by simp
next
  case (OB_MCC_QOS_STAT_RSP a)
  obtain b where b: "d0 = OB_MCC_QOS_STAT_RSP b" using kind_of_MCC_QOS_STAT_RSP [of d0] kd OB_MCC_QOS_STAT_RSP by auto
  show ?thesis
    unfolding OB_MCC_QOS_STAT_RSP b by simp
next
  case (OB_MCC_QOS_BW_GET_REQ a)
  obtain b where b: "d0 = OB_MCC_QOS_BW_GET_REQ b" using kind_of_MCC_QOS_BW_GET_REQ [of d0] kd OB_MCC_QOS_BW_GET_REQ by auto
  show ?thesis
    unfolding OB_MCC_QOS_BW_GET_REQ b by simp
next
  case (OB_MCC_QOS_BW_ALLOC a)
  obtain b where b: "d0 = OB_MCC_QOS_BW_ALLOC b" using kind_of_MCC_QOS_BW_ALLOC [of d0] kd OB_MCC_QOS_BW_ALLOC by auto
  show ?thesis
    using ag unfolding OB_MCC_QOS_BW_ALLOC b by (cases a) simp
next
  case (OB_MCC_QOS_BW_LIMIT_GET_REQ a)
  obtain b where b: "d0 = OB_MCC_QOS_BW_LIMIT_GET_REQ b" using kind_of_MCC_QOS_BW_LIMIT_GET_REQ [of d0] kd OB_MCC_QOS_BW_LIMIT_GET_REQ by auto
  show ?thesis
    unfolding OB_MCC_QOS_BW_LIMIT_GET_REQ b by simp
next
  case (OB_MCC_QOS_BW_LIMIT a)
  obtain b where b: "d0 = OB_MCC_QOS_BW_LIMIT b" using kind_of_MCC_QOS_BW_LIMIT [of d0] kd OB_MCC_QOS_BW_LIMIT by auto
  show ?thesis
    using ag unfolding OB_MCC_QOS_BW_LIMIT b by (cases a) simp
next
  case (OB_ISC_ID_RSP a)
  obtain b where b: "d0 = OB_ISC_ID_RSP b" using kind_of_ISC_ID_RSP [of d0] kd OB_ISC_ID_RSP by auto
  show ?thesis
    unfolding OB_ISC_ID_RSP b by simp
next
  case (OB_ISC_MSG_LIMIT a)
  obtain b where b: "d0 = OB_ISC_MSG_LIMIT b" using kind_of_ISC_MSG_LIMIT [of d0] kd OB_ISC_MSG_LIMIT by auto
  show ?thesis
    unfolding OB_ISC_MSG_LIMIT b by simp
next
  case (OB_ISC_BOS a)
  obtain b where b: "d0 = OB_ISC_BOS b" using kind_of_ISC_BOS [of d0] kd OB_ISC_BOS by auto
  show ?thesis
    unfolding OB_ISC_BOS b by simp
qed

text \<open>
  C1 as stated fails on the entries beyond a count. The bandwidth allocation with three
  entries and a 9 left in the fourth place of its array is well-formed; it is encoded
  in five bytes, and these decode, into a cleared object, to the allocation whose
  fourth entry is 0: the same count and the same three entries, but not an object
  equal to the encoded one.
\<close>

theorem object_roundtrip_equality_counterexample:
  "wf_obj (OB_MCC_QOS_BW_ALLOC ex_qos_bw_alloc_junk)
   \<and> shaped (OB_MCC_QOS_BW_ALLOC ex_qos_bw_alloc_dst)
   \<and> fmapi_serialize ex_mem (Some 0) (Some (OB_MCC_QOS_BW_ALLOC ex_qos_bw_alloc_junk))
        FMOB_MCC_QOS_BW_ALLOC = Inr (ex_mem(0 := 3, 1 := 1, 2 := 10, 3 := 20, 4 := 30), 5)
   \<and> fmapi_deserialize (Some (OB_MCC_QOS_BW_ALLOC ex_qos_bw_alloc_dst))
        (ex_mem(0 := 3, 1 := 1, 2 := 10, 3 := 20, 4 := 30)) (Some 0) FMOB_MCC_QOS_BW_ALLOC None
        = Inr (Some (OB_MCC_QOS_BW_ALLOC ex_qos_bw_alloc), 5)
   \<and> OB_MCC_QOS_BW_ALLOC ex_qos_bw_alloc \<noteq> OB_MCC_QOS_BW_ALLOC ex_qos_bw_alloc_junk"
proof -
  let ?h = "ex_mem(0 := 3, 1 := 1, 2 := 10, 3 := 20, 4 := 30)"
  have wf: "wf_obj (OB_MCC_QOS_BW_ALLOC ex_qos_bw_alloc_junk)"
    by (simp add: wf_obj_def ex_qos_bw_alloc_junk_def fm_max_defs)
  have sd: "shaped (OB_MCC_QOS_BW_ALLOC ex_qos_bw_alloc_dst)"
    by (simp add: ex_qos_bw_alloc_dst_def)
  have s: "ser_mcc_qos_bw_alloc ex_mem 0 ex_qos_bw_alloc_junk = Inr (?h, 5)"
    by (auto simp: ser_mcc_qos_bw_alloc_def ex_qos_bw_alloc_junk_def Let_def poke_def
        memcpy_out_def fmln_defs fun_eq_iff)
  have u: "[0..<3] = [0, 1, 2]"
    by (simp add: upt_rec)
  have r: "replicate 16 (0 :: u8) = [0, 0, 0, 0, 0, 0, 0, 0, 0, 0, 0, 0, 0, 0, 0, 0]"
    by (simp add: eval_nat_numeral)
  have dd: "deser_mcc_qos_bw_alloc ex_qos_bw_alloc_dst ?h 0 = Inr (ex_qos_bw_alloc, 5)"
    by (simp add: deser_mcc_qos_bw_alloc_def ex_qos_bw_alloc_dst_def ex_qos_bw_alloc_def Let_def
        peek_def memcpy_in_def fmln_defs fm_max_defs mem_get_def u r)
  have ne: "OB_MCC_QOS_BW_ALLOC ex_qos_bw_alloc \<noteq> OB_MCC_QOS_BW_ALLOC ex_qos_bw_alloc_junk"
    by (simp add: ex_qos_bw_alloc_def ex_qos_bw_alloc_junk_def)
  have a: "fmapi_serialize ex_mem (Some 0) (Some (OB_MCC_QOS_BW_ALLOC ex_qos_bw_alloc_junk))
        FMOB_MCC_QOS_BW_ALLOC = Inr (?h, 5)"
    unfolding fmapi_serialize_MCC_QOS_BW_ALLOC s by simp
  have b: "fmapi_deserialize (Some (OB_MCC_QOS_BW_ALLOC ex_qos_bw_alloc_dst)) ?h (Some 0)
        FMOB_MCC_QOS_BW_ALLOC None = Inr (Some (OB_MCC_QOS_BW_ALLOC ex_qos_bw_alloc), 5)"
    unfolding fmapi_deserialize_MCC_QOS_BW_ALLOC dd by simp
  show ?thesis
    by (intro conjI wf sd a b ne)
qed

text \<open>
  C1, amended. For every kind \<open>1 \<le> type < FMOB_MAX\<close> and every well-formed object \<open>x\<close> of
  that kind (every array of its declared length, every field within the bits that the
  wire gives it, every count within its array, and for the two kinds of the
  virtual-switch information a request \<open>param\<close> whose clamp \<open>min (limit, total - start)\<close>
  is the number of entries of each block), \<^verbatim>\<open>fmapi_serialize\<close> returns a byte count \<open>n\<close>,
  and \<^verbatim>\<open>fmapi_deserialize\<close> of the written bytes for the same kind, into any destination
  \<open>d0\<close> of the struct of the kind, returns the same \<open>n\<close> and the object \<open>written_over x d0\<close>:
  every field of \<open>x\<close>, the entries of \<open>x\<close> that its counts cover, and the entries of \<open>d0\<close>
  beyond the counts, which are not on the wire. So the decoded object has the logical
  content of \<open>x\<close>, and it is equal to \<open>x\<close> when the destination holds the entries of \<open>x\<close>
  beyond the counts: always for a kind without a counted array, and for two objects
  that were cleared before \<open>x\<close> was filled. This holds in any memory and at any address.
\<close>

theorem object_roundtrip:
  assumes k: "1 \<le> type" "type < FMOB_MAX"
    and kx: "kind_of x = type" and wf: "wf_obj x" and ctx: "ctx_ok param x"
    and kd: "kind_of d0 = type" and sd: "shaped d0"
  shows "\<exists>h' n x'. fmapi_serialize h (Some d) (Some x) type = Inr (h', n)
      \<and> fmapi_deserialize (Some d0) h' (Some d) type param = Inr (Some x', n)
      \<and> x' = written_over x d0
      \<and> logical x' = logical x
      \<and> (agree_beyond x d0 \<longrightarrow> x' = x)"
proof -
  obtain h' n where a: "fmapi_serialize h (Some d) (Some x) type = Inr (h', n)"
      and b: "fmapi_deserialize (Some d0) h' (Some d) type param
          = Inr (Some (written_over x d0), n)"
    using roundtrip_any [OF kx wf ctx kd sd] by blast
  have kk: "kind_of d0 = kind_of x" using kx kd by simp
  have l: "logical (written_over x d0) = logical x"
    by (rule logical_written_over [OF wf kk sd])
  have e: "agree_beyond x d0 \<longrightarrow> written_over x d0 = x"
    using written_over_agree [OF _ kk] by blast
  show ?thesis using a b l e by blast
qed

theorem object_roundtrip_witness:
  "(1 \<le> FMOB_MCC_QOS_BW_ALLOC \<and> FMOB_MCC_QOS_BW_ALLOC < FMOB_MAX
    \<and> kind_of (OB_MCC_QOS_BW_ALLOC ex_qos_bw_alloc) = FMOB_MCC_QOS_BW_ALLOC
    \<and> wf_obj (OB_MCC_QOS_BW_ALLOC ex_qos_bw_alloc)
    \<and> ctx_ok None (OB_MCC_QOS_BW_ALLOC ex_qos_bw_alloc)
    \<and> kind_of (OB_MCC_QOS_BW_ALLOC ex_qos_bw_alloc_dst) = FMOB_MCC_QOS_BW_ALLOC
    \<and> shaped (OB_MCC_QOS_BW_ALLOC ex_qos_bw_alloc_dst)
    \<and> agree_beyond (OB_MCC_QOS_BW_ALLOC ex_qos_bw_alloc) (OB_MCC_QOS_BW_ALLOC ex_qos_bw_alloc_dst)
    \<and> (\<exists>h' n. fmapi_serialize ex_mem_ff (Some 0) (Some (OB_MCC_QOS_BW_ALLOC ex_qos_bw_alloc))
                  FMOB_MCC_QOS_BW_ALLOC = Inr (h', n)
          \<and> fmapi_deserialize (Some (OB_MCC_QOS_BW_ALLOC ex_qos_bw_alloc_dst)) h' (Some 0)
              FMOB_MCC_QOS_BW_ALLOC None = Inr (Some (OB_MCC_QOS_BW_ALLOC ex_qos_bw_alloc), n)))
   \<and> (1 \<le> FMOB_VSC_INFO_BLK \<and> FMOB_VSC_INFO_BLK < FMOB_MAX
    \<and> kind_of (OB_VSC_INFO_BLK (ex_blk\<lparr>vib_total := 10, vib_num := 6\<rparr>)) = FMOB_VSC_INFO_BLK
    \<and> wf_obj (OB_VSC_INFO_BLK (ex_blk\<lparr>vib_total := 10, vib_num := 6\<rparr>))
    \<and> ctx_ok (Some ex_req) (OB_VSC_INFO_BLK (ex_blk\<lparr>vib_total := 10, vib_num := 6\<rparr>))
    \<and> kind_of (OB_VSC_INFO_BLK ex_blk) = FMOB_VSC_INFO_BLK
    \<and> shaped (OB_VSC_INFO_BLK ex_blk)
    \<and> agree_beyond (OB_VSC_INFO_BLK (ex_blk\<lparr>vib_total := 10, vib_num := 6\<rparr>))
        (OB_VSC_INFO_BLK ex_blk)
    \<and> (\<exists>h' n. fmapi_serialize ex_mem_ff (Some 7)
                  (Some (OB_VSC_INFO_BLK (ex_blk\<lparr>vib_total := 10, vib_num := 6\<rparr>)))
                  FMOB_VSC_INFO_BLK = Inr (h', n)
          \<and> fmapi_deserialize (Some (OB_VSC_INFO_BLK ex_blk)) h' (Some 7)
              FMOB_VSC_INFO_BLK (Some ex_req)
              = Inr (Some (OB_VSC_INFO_BLK (ex_blk\<lparr>vib_total := 10, vib_num := 6\<rparr>)), n)))"
proof -
  have k: "1 \<le> FMOB_MCC_QOS_BW_ALLOC" "FMOB_MCC_QOS_BW_ALLOC < FMOB_MAX"
    by (simp_all add: fmob_defs)
  have kx: "kind_of (OB_MCC_QOS_BW_ALLOC ex_qos_bw_alloc) = FMOB_MCC_QOS_BW_ALLOC"
    by simp
  have wf: "wf_obj (OB_MCC_QOS_BW_ALLOC ex_qos_bw_alloc)"
    by (simp add: wf_obj_def ex_qos_bw_alloc_def fm_max_defs)
  have ctx: "ctx_ok None (OB_MCC_QOS_BW_ALLOC ex_qos_bw_alloc)"
    by simp
  have kd: "kind_of (OB_MCC_QOS_BW_ALLOC ex_qos_bw_alloc_dst) = FMOB_MCC_QOS_BW_ALLOC"
    by simp
  have sd: "shaped (OB_MCC_QOS_BW_ALLOC ex_qos_bw_alloc_dst)"
    by (simp add: ex_qos_bw_alloc_dst_def)
  have ag: "agree_beyond (OB_MCC_QOS_BW_ALLOC ex_qos_bw_alloc)
      (OB_MCC_QOS_BW_ALLOC ex_qos_bw_alloc_dst)"
  proof -
    have r: "replicate 16 (0 :: u8) = [0, 0, 0, 0, 0, 0, 0, 0, 0, 0, 0, 0, 0, 0, 0, 0]"
      by (simp add: eval_nat_numeral)
    show ?thesis
      by (simp add: ex_qos_bw_alloc_def ex_qos_bw_alloc_dst_def fm_max_defs r)
  qed
  let ?b = "ex_blk\<lparr>vib_total := 10, vib_num := 6\<rparr>"
  have k': "1 \<le> FMOB_VSC_INFO_BLK" "FMOB_VSC_INFO_BLK < FMOB_MAX"
    by (simp_all add: fmob_defs)
  have kx': "kind_of (OB_VSC_INFO_BLK ?b) = FMOB_VSC_INFO_BLK"
    by simp
  have wf': "wf_obj (OB_VSC_INFO_BLK ?b)"
    by (simp add: wf_obj_def shaped_vsc_info_blk_def ex_blk_def)
  have ctx': "ctx_ok (Some ex_req) (OB_VSC_INFO_BLK ?b)"
    by (simp add: ctx_ok_blk_def ex_req_def)
  have kd': "kind_of (OB_VSC_INFO_BLK ex_blk) = FMOB_VSC_INFO_BLK"
    by simp
  have sd': "shaped (OB_VSC_INFO_BLK ex_blk)"
    by (simp add: shaped_vsc_info_blk_def ex_blk_def)
  have ag': "agree_beyond (OB_VSC_INFO_BLK ?b) (OB_VSC_INFO_BLK ex_blk)"
    by (simp add: agree_beyond_vsc_info_blk_def)
  have A: "\<exists>h' n. fmapi_serialize ex_mem_ff (Some 0) (Some (OB_MCC_QOS_BW_ALLOC ex_qos_bw_alloc))
                  FMOB_MCC_QOS_BW_ALLOC = Inr (h', n)
          \<and> fmapi_deserialize (Some (OB_MCC_QOS_BW_ALLOC ex_qos_bw_alloc_dst)) h' (Some 0)
              FMOB_MCC_QOS_BW_ALLOC None = Inr (Some (OB_MCC_QOS_BW_ALLOC ex_qos_bw_alloc), n)"
  proof -
    obtain h' n x' where
      a: "fmapi_serialize ex_mem_ff (Some 0) (Some (OB_MCC_QOS_BW_ALLOC ex_qos_bw_alloc))
            FMOB_MCC_QOS_BW_ALLOC = Inr (h', n)"
      and b: "fmapi_deserialize (Some (OB_MCC_QOS_BW_ALLOC ex_qos_bw_alloc_dst)) h' (Some 0)
            FMOB_MCC_QOS_BW_ALLOC None = Inr (Some x', n)"
      and e: "agree_beyond (OB_MCC_QOS_BW_ALLOC ex_qos_bw_alloc)
            (OB_MCC_QOS_BW_ALLOC ex_qos_bw_alloc_dst) \<longrightarrow> x' = OB_MCC_QOS_BW_ALLOC ex_qos_bw_alloc"
      using object_roundtrip [OF k kx wf ctx kd sd, of ex_mem_ff 0] by blast
    have x: "x' = OB_MCC_QOS_BW_ALLOC ex_qos_bw_alloc" using e ag by (rule mp)
    show ?thesis using a b unfolding x by blast
  qed
  have B: "\<exists>h' n. fmapi_serialize ex_mem_ff (Some 7) (Some (OB_VSC_INFO_BLK ?b))
                  FMOB_VSC_INFO_BLK = Inr (h', n)
          \<and> fmapi_deserialize (Some (OB_VSC_INFO_BLK ex_blk)) h' (Some 7)
              FMOB_VSC_INFO_BLK (Some ex_req) = Inr (Some (OB_VSC_INFO_BLK ?b), n)"
  proof -
    obtain h' n x' where
      a: "fmapi_serialize ex_mem_ff (Some 7) (Some (OB_VSC_INFO_BLK ?b)) FMOB_VSC_INFO_BLK
            = Inr (h', n)"
      and b: "fmapi_deserialize (Some (OB_VSC_INFO_BLK ex_blk)) h' (Some 7) FMOB_VSC_INFO_BLK
            (Some ex_req) = Inr (Some x', n)"
      and e: "agree_beyond (OB_VSC_INFO_BLK ?b) (OB_VSC_INFO_BLK ex_blk)
            \<longrightarrow> x' = OB_VSC_INFO_BLK ?b"
      using object_roundtrip [OF k' kx' wf' ctx' kd' sd', of ex_mem_ff 7] by blast
    have x: "x' = OB_VSC_INFO_BLK ?b" using e ag' by (rule mp)
    show ?thesis using a b unfolding x by blast
  qed
  show ?thesis
    using k kx wf ctx kd sd ag A k' kx' wf' ctx' kd' sd' ag' B by blast
qed

end
